(* ===== verification/Hub_Prelude.thy ===== *)
theory Hub_Prelude
  imports Main "HOL-Library.Word" "HOL-Library.Signed_Division" "HOL-Library.State_Monad"
    "HOL-Library.AList"
begin

text \<open>
  What the theories of the development share.

  \<^item> Go's \<open>int64\<close> as a 64-bit word: addition, subtraction and multiplication wrap as in Go,
    comparisons are the signed ones (\<open><s\<close>, \<open>\<le>s\<close>), and \<open>go_div\<close> is Go's \<open>/\<close>, which
    truncates towards zero. The collection \<open>int64_simps\<close> moves a goal to the integers.
  \<^item> Go's \<open>time.Time\<close> as nanoseconds since Go's zero instant, so \<open>t.IsZero()\<close> is \<open>t = 0\<close>.
  \<^item> Programs as state transformers of the library's state monad. A Go function that returns
    \<open>(T, error)\<close> returns a value of the sum type; \<open>tryE\<close> is the pattern
    \<open>x, err := m(); if err != nil { return nil, err }\<close>. State changes made before an error stay.
  \<^item> \<open>vc v m Q t\<close>, the weakest precondition of a program over a view of its state, and the rules
    that execute a program symbolically, collected in \<open>wp_intros\<close>.
  \<^item> \<open>show_nat\<close> and \<open>show_int\<close> print decimal numerals, injectively.
  \<^item> Lemmas on association lists, which stand for the Go maps the code iterates over.
\<close>

section \<open>Signed 64-bit integers\<close>

named_theorems int64_simps \<open>signed comparisons and arithmetic of int64 in terms of sint\<close>

type_synonym int64 = "64 word"

type_synonym time = int

type_synonym duration = int

definition in64 :: "int \<Rightarrow> bool" where
  "in64 i \<longleftrightarrow> - (2 ^ 63) \<le> i \<and> i < 2 ^ 63"

definition go_div :: "int64 \<Rightarrow> int64 \<Rightarrow> int64" where
  "go_div a b = word_of_int (sint a sdiv sint b)"

lemma in64_sint [simp]: "in64 (sint (a :: int64))"
  using sint_ge [of a] sint_lt [of a] by (simp add: in64_def)

lemma signed_take_bit_in64: "in64 i \<Longrightarrow> signed_take_bit 63 i = i"
  by (simp add: in64_def signed_take_bit_int_eq_self)

lemma sint_of_int64: "in64 i \<Longrightarrow> sint (word_of_int i :: int64) = i"
  using signed_take_bit_in64 [of i] by (simp add: sint_sbintrunc')

lemma sint_add64: "in64 (sint a + sint b) \<Longrightarrow> sint (a + b :: int64) = sint a + sint b"
  using signed_take_bit_in64 [of "sint a + sint b"] by (simp add: sint_word_add)

lemma sint_diff64: "in64 (sint a - sint b) \<Longrightarrow> sint (a - b :: int64) = sint a - sint b"
  using signed_take_bit_in64 [of "sint a - sint b"] by (simp add: sint_word_diff)

lemma sint_mult64: "in64 (sint a * sint b) \<Longrightarrow> sint (a * b :: int64) = sint a * sint b"
  using signed_take_bit_in64 [of "sint a * sint b"] by (simp add: sint_word_mult)

lemma sint_minus64: "in64 (- sint a) \<Longrightarrow> sint (- a :: int64) = - sint a"
  using signed_take_bit_in64 [of "- sint a"] by (simp add: sint_word_minus)

lemma word_eq_sint: "(a :: int64) = b \<longleftrightarrow> sint a = sint b"
  using signed_word_eqI [of a b] by auto

text \<open>The wrapped sum leaves the exact one by a multiple of \<open>2 ^ 64\<close>, of at most one.\<close>

lemma sint_add64_cases:
  fixes a b :: int64
  shows "sint (a + b) = sint a + sint b \<or> sint (a + b) = sint a + sint b - 2 ^ 64
    \<or> sint (a + b) = sint a + sint b + 2 ^ 64"
proof -
  have bounds: "- (2 ^ 63) \<le> sint a" "sint a < 2 ^ 63" "- (2 ^ 63) \<le> sint b" "sint b < 2 ^ 63"
    using in64_sint [of a] in64_sint [of b] by (simp_all add: in64_def)
  have r: "- (2 ^ 63) \<le> sint (a + b)" "sint (a + b) < 2 ^ 63"
    using in64_sint [of "a + b"] by (simp_all add: in64_def)
  have "sint (a + b) = (sint a + sint b + 2 ^ 63) mod 2 ^ 64 - 2 ^ 63"
    using int_word_sint [where 'a = 64, of "sint a + sint b"] by simp
  then have "sint (a + b) = sint a + sint b + 2 ^ 64 * (- ((sint a + sint b + 2 ^ 63) div 2 ^ 64))"
    by (simp only: minus_mult_div_eq_mod [symmetric])
  then obtain k where k: "sint (a + b) = sint a + sint b + 2 ^ 64 * k" ..
  with bounds r have "k \<in> {-1, 0, 1}" by auto
  with k show ?thesis by auto
qed

lemma sint_numeral64 [int64_simps]:
  "sint (0 :: int64) = 0" "sint (1 :: int64) = 1"
  by simp_all

lemmas [int64_simps] = word_sless_alt word_sle_eq

section \<open>Programs that return a value or an error\<close>

text \<open>\<open>skip\<close> returns without an effect; the errors themselves are declared with the domain.\<close>

definition tryE ::
  "('s, 'e + 'a) state \<Rightarrow> ('a \<Rightarrow> ('s, 'e + 'b) state) \<Rightarrow> ('s, 'e + 'b) state" where
  "tryE m f = State_Monad.bind m (\<lambda>r. case r of Inl e \<Rightarrow> State_Monad.return (Inl e) | Inr a \<Rightarrow> f a)"

definition ok :: "'a \<Rightarrow> ('s, 'e + 'a) state" where
  "ok a = State_Monad.return (Inr a)"

definition fail :: "'e \<Rightarrow> ('s, 'e + 'a) state" where
  "fail e = State_Monad.return (Inl e)"

definition lift_res :: "'e + 'a \<Rightarrow> ('s, 'e + 'a) state" where
  "lift_res r = State_Monad.return r"

lemma run_lift_res [simp]: "run_state (lift_res r) s = (r, s)"
  by (simp add: lift_res_def)

lemma run_tryE [simp]:
  "run_state (tryE m f) s =
    (case run_state m s of (Inl e, s') \<Rightarrow> (Inl e, s') | (Inr a, s') \<Rightarrow> run_state (f a) s')"
  by (auto simp: tryE_def split: prod.splits sum.splits)

lemma run_ok [simp]: "run_state (ok a) s = (Inr a, s)"
  by (simp add: ok_def)

lemma run_fail [simp]: "run_state (fail e) s = (Inl e, s)"
  by (simp add: fail_def)

section \<open>Symbolic execution\<close>

text \<open>
  \<open>vc v m Q t\<close>: started in any state whose view under \<open>v\<close> is \<open>t\<close>, the program \<open>m\<close> ends with a value
  and a view that satisfy \<open>Q\<close>. What the view leaves out may be and do anything.
\<close>

definition vc :: "('s \<Rightarrow> 't) \<Rightarrow> ('s, 'a) state \<Rightarrow> ('a \<Rightarrow> 't \<Rightarrow> bool) \<Rightarrow> 't \<Rightarrow> bool" where
  "vc v m Q t \<longleftrightarrow> (\<forall>s. v s = t \<longrightarrow> (case run_state m s of (a, s') \<Rightarrow> Q a (v s')))"

named_theorems wp_intros \<open>rules that compute wp\<close>

lemma wpD: "vc v m Q (v w) \<Longrightarrow> run_state m w = (a, w') \<Longrightarrow> Q a (v w')"
  by (auto simp: vc_def split: prod.splits)

lemma wp_mono: "vc v m Q r \<Longrightarrow> (\<And>a r'. Q a r' \<Longrightarrow> Q' a r') \<Longrightarrow> vc v m Q' r"
  by (fastforce simp: vc_def split: prod.splits)

lemma wp_conj: "vc v m Q r \<Longrightarrow> vc v m Q' r \<Longrightarrow> vc v m (\<lambda>a r'. Q a r' \<and> Q' a r') r"
  by (fastforce simp: vc_def split: prod.splits)

lemma wp_return [wp_intros]: "Q a r \<Longrightarrow> vc v (State_Monad.return a) Q r"
  by (simp add: vc_def)

lemma wp_ok [wp_intros]: "Q (Inr a) r \<Longrightarrow> vc v (ok a) Q r"
  by (simp add: vc_def)

lemma wp_fail [wp_intros]: "Q (Inl e) r \<Longrightarrow> vc v (fail e) Q r"
  by (simp add: vc_def)

lemma wp_lift_res [wp_intros]: "Q res r \<Longrightarrow> vc v (lift_res res) Q r"
  by (simp add: vc_def)

lemma wp_bind [wp_intros]: "vc v m (\<lambda>a. vc v (f a) Q) r \<Longrightarrow> vc v (State_Monad.bind m f) Q r"
  by (fastforce simp: vc_def split: prod.splits)

lemma wp_tryE [wp_intros]:
  "vc v m (\<lambda>res r'. (\<forall>e. res = Inl e \<longrightarrow> Q (Inl e) r') \<and> (\<forall>a. res = Inr a \<longrightarrow> vc v (f a) Q r')) r \<Longrightarrow>
     vc v (tryE m f) Q r"
  by (fastforce simp: vc_def split: prod.splits sum.splits)

lemma wp_if [wp_intros]:
  "(b \<Longrightarrow> vc v m Q r) \<Longrightarrow> (\<not> b \<Longrightarrow> vc v n Q r) \<Longrightarrow> vc v (if b then m else n) Q r"
  by simp

lemma wp_case_option [wp_intros]:
  "(x = None \<Longrightarrow> vc v m Q r) \<Longrightarrow> (\<And>a. x = Some a \<Longrightarrow> vc v (g a) Q r) \<Longrightarrow>
     vc v (case x of None \<Rightarrow> m | Some a \<Rightarrow> g a) Q r"
  by (cases x) simp_all

lemma wp_case_sum [wp_intros]:
  "(\<And>e. x = Inl e \<Longrightarrow> vc v (f e) Q r) \<Longrightarrow> (\<And>a. x = Inr a \<Longrightarrow> vc v (g a) Q r) \<Longrightarrow>
     vc v (case x of Inl e \<Rightarrow> f e | Inr a \<Rightarrow> g a) Q r"
  by (cases x) simp_all

lemma wp_case_prod [wp_intros]:
  "(\<And>a b. x = (a, b) \<Longrightarrow> vc v (f a b) Q r) \<Longrightarrow> vc v (case x of (a, b) \<Rightarrow> f a b) Q r"
  by (cases x) simp

lemma wp_Let [wp_intros]: "(\<And>a. a = e \<Longrightarrow> vc v (f a) Q r) \<Longrightarrow> vc v (let a = e in f a) Q r"
  by simp

section \<open>Decimal numerals\<close>

text \<open>The verb \<open>%d\<close> of \<open>fmt\<close>.\<close>

fun show_nat :: "nat \<Rightarrow> string" where
  "show_nat n = (if n < 10 then [char_of (48 + n)] else show_nat (n div 10) @ [char_of (48 + n mod 10)])"

declare show_nat.simps [simp del]

definition show_int :: "int \<Rightarrow> string" where
  "show_int i = (if i < 0 then ''-'' @ show_nat (nat (- i)) else show_nat (nat i))"

definition digit_char :: "char \<Rightarrow> bool" where
  "digit_char c \<longleftrightarrow> of_char c \<ge> (48 :: nat) \<and> of_char c < (58 :: nat)"

lemma show_nat_digits: "\<forall>c \<in> set (show_nat n). digit_char c"
proof (induction n rule: show_nat.induct)
  case (1 n)
  show ?case
  proof (cases "n < 10")
    case True
    then show ?thesis by (simp add: show_nat.simps [of n] digit_char_def)
  next
    case False
    have "n mod 10 < 10" by simp
    with 1 False show ?thesis by (auto simp: show_nat.simps [of n] digit_char_def)
  qed
qed

lemma digit_chars [simp]:
  "char_of (48 :: nat) = CHR ''0''" "char_of (49 :: nat) = CHR ''1''" "char_of (50 :: nat) = CHR ''2''"
  "char_of (51 :: nat) = CHR ''3''" "char_of (52 :: nat) = CHR ''4''" "char_of (53 :: nat) = CHR ''5''"
  "char_of (54 :: nat) = CHR ''6''" "char_of (55 :: nat) = CHR ''7''" "char_of (56 :: nat) = CHR ''8''"
  "char_of (57 :: nat) = CHR ''9''"
  by code_simp+

fun read_nat :: "string \<Rightarrow> nat \<Rightarrow> nat" where
  "read_nat [] acc = acc"
| "read_nat (c # cs) acc = read_nat cs (10 * acc + (of_char c - 48))"

lemma read_nat_append: "read_nat (xs @ ys) acc = read_nat ys (read_nat xs acc)"
  by (induction xs arbitrary: acc) simp_all

lemma read_show_nat: "read_nat (show_nat n) 0 = n"
proof (induction n rule: show_nat.induct)
  case (1 n)
  show ?case
  proof (cases "n < 10")
    case True
    then show ?thesis by (simp add: show_nat.simps [of n])
  next
    case False
    have "n mod 10 < 10" by simp
    with 1 False show ?thesis by (simp add: show_nat.simps [of n] read_nat_append)
  qed
qed

lemma show_nat_inject [simp]: "show_nat m = show_nat n \<longleftrightarrow> m = n"
  by (metis read_show_nat)

lemma show_int_inject [simp]: "show_int i = show_int j \<longleftrightarrow> i = j"
proof
  assume eq: "show_int i = show_int j"
  have hd: "show_nat n \<noteq> CHR ''-'' # xs" for n xs
    using show_nat_digits [of n] by (auto simp: digit_char_def)
  show "i = j"
    using eq hd hd [THEN not_sym] by (auto simp: show_int_def split: if_splits)
qed simp

section \<open>Association lists\<close>

lemma map_of_update_AList [simp]: "map_of (AList.update k v xs) = (map_of xs)(k \<mapsto> v)"
  by (simp add: AList.update_conv')

lemma set_update_AList: "p \<in> set (AList.update k v xs) \<Longrightarrow> p = (k, v) \<or> p \<in> set xs"
  by (induction xs) (auto split: if_splits)

lemma distinct_keys_map_of:
  "distinct (map fst xs) \<Longrightarrow> (k, v) \<in> set xs \<longleftrightarrow> map_of xs k = Some v"
  by simp

lemma find_Some_set: "find P xs = Some x \<Longrightarrow> x \<in> set xs \<and> P x"
  by (induction xs) (auto split: if_splits)

lemma find_unique:
  assumes "x \<in> set xs" "P x" "\<And>y. y \<in> set xs \<Longrightarrow> P y \<Longrightarrow> y = x"
  shows "find P xs = Some x"
proof (cases "find P xs")
  case None
  with assms(1,2) show ?thesis by (simp add: find_None_iff)
next
  case (Some y)
  with assms(3) show ?thesis by (auto dest: find_Some_set)
qed

lemma find_list_all2:
  assumes "list_all2 R xs ys" "\<And>x y. R x y \<Longrightarrow> p x \<longleftrightarrow> q y"
  shows "rel_option R (find p xs) (find q ys)"
  using assms by (induction rule: list_all2_induct) auto

lemma list_all2_origin: "list_all2 R xs ys \<Longrightarrow> y \<in> set ys \<Longrightarrow> \<exists>x \<in> set xs. R x y"
  by (induction rule: list_all2_induct) auto

end
