(* ===== verification/Domain_Types.thy ===== *)
theory Domain_Types
  imports Hub_Prelude
begin

text \<open>
  The data of the domain package (\<open>src/internal/domain\<close>): the sentinel errors of
  \<open>errors.go\<close>, the statuses of \<open>status.go\<close>, the structs of \<open>order.go\<close> and \<open>amount.go\<close>
  and the events of \<open>event.go\<close>. A struct is a record whose field names carry a prefix of their
  own (\<open>ord_\<close>, \<open>ln_\<close>, \<open>amt_\<close>, \<dots>), since Go reuses field names between structs and Isabelle
  does not. A nil-able pointer or map is an option. The lemmas relate \<open>ParseStatus\<close> and
  \<open>String\<close>.
\<close>

section \<open>Errors\<close>

datatype sentinel =
    ErrInvalidArgument
  | ErrOverflow
  | ErrAmountInvariant
  | ErrQuoteStale
  | ErrSceneNotFound
  | ErrOrderNotFound
  | ErrIdempotencyConflict
  | ErrClientOrderConflict
  | ErrStatusNotAllowed
  | ErrAlreadyPaid
  | ErrVersionConflict
  | ErrUnauthorized
  | ErrOfferReserve
  | ErrLedgerFreeze
  | ErrInventoryReserve
  | ErrRefundExceedsPaid
  | ErrNotImplemented

fun sentinel_text :: "sentinel \<Rightarrow> string" where
  "sentinel_text ErrInvalidArgument = ''invalid argument''"
| "sentinel_text ErrOverflow = ''amount overflow''"
| "sentinel_text ErrAmountInvariant = ''amount invariant violated''"
| "sentinel_text ErrQuoteStale = ''quote stale''"
| "sentinel_text ErrSceneNotFound = ''scene not found''"
| "sentinel_text ErrOrderNotFound = ''order not found''"
| "sentinel_text ErrIdempotencyConflict = ''idempotency key conflict''"
| "sentinel_text ErrClientOrderConflict = ''client_order_id conflict''"
| "sentinel_text ErrStatusNotAllowed = ''status not allowed''"
| "sentinel_text ErrAlreadyPaid = ''order already paid''"
| "sentinel_text ErrVersionConflict = ''version conflict''"
| "sentinel_text ErrUnauthorized = ''unauthorized''"
| "sentinel_text ErrOfferReserve = ''offer reserve failed''"
| "sentinel_text ErrLedgerFreeze = ''ledger freeze failed''"
| "sentinel_text ErrInventoryReserve = ''inventory reserve failed''"
| "sentinel_text ErrRefundExceedsPaid = ''refund exceeds paid''"
| "sentinel_text ErrNotImplemented = ''not implemented''"

text \<open>
  A Go error value: a sentinel itself, a sentinel wrapped by \<open>fmt.Errorf("%w: ...")\<close> (which
  \<open>errors.Is\<close> still recognises), or any other error, known by its text.
\<close>

datatype error = Sentinel sentinel | Wrapped sentinel string | Opaque string

type_synonym 'a res = "error + 'a"

fun errors_Is :: "error \<Rightarrow> sentinel \<Rightarrow> bool" where
  "errors_Is (Sentinel s) t = (s = t)"
| "errors_Is (Wrapped s m) t = (s = t)"
| "errors_Is (Opaque m) t = False"

fun error_text :: "error \<Rightarrow> string" where
  "error_text (Sentinel s) = sentinel_text s"
| "error_text (Wrapped s m) = sentinel_text s @ '': '' @ m"
| "error_text (Opaque m) = m"

section \<open>Statuses\<close>

datatype Status =
    StatusPendingPay
  | StatusPaid
  | StatusFulfilling
  | StatusCompleted
  | StatusCancelled
  | StatusClosed
  | StatusRefunding
  | StatusRefunded
  | StatusPartialRefunded
  | StatusCompensating

fun Status_String :: "Status \<Rightarrow> string" where
  "Status_String StatusPendingPay = ''PENDING_PAY''"
| "Status_String StatusPaid = ''PAID''"
| "Status_String StatusFulfilling = ''FULFILLING''"
| "Status_String StatusCompleted = ''COMPLETED''"
| "Status_String StatusCancelled = ''CANCELLED''"
| "Status_String StatusClosed = ''CLOSED''"
| "Status_String StatusRefunding = ''REFUNDING''"
| "Status_String StatusRefunded = ''REFUNDED''"
| "Status_String StatusPartialRefunded = ''PARTIAL_REFUNDED''"
| "Status_String StatusCompensating = ''COMPENSATING''"

definition all_statuses :: "Status list" where
  "all_statuses = [StatusPendingPay, StatusPaid, StatusFulfilling, StatusCompleted,
     StatusCancelled, StatusClosed, StatusRefunding, StatusRefunded,
     StatusPartialRefunded, StatusCompensating]"

text \<open>\<open>ParseStatus(raw)\<close> of \<open>status.go\<close>: the pair \<open>("", false)\<close> is \<open>None\<close>.\<close>

definition ParseStatus :: "string \<Rightarrow> Status option" where
  "ParseStatus raw = find (\<lambda>s. Status_String s = raw) all_statuses"

section \<open>Values of dynamic type\<close>

text \<open>
  \<open>map[string]any\<close> values travel through the code unread, into the request hash, the event
  payload and the stored order. A map is the association list of its entries in key order;
  \<open>None\<close> is the nil map.
\<close>

datatype json =
    JNull
  | JBool bool
  | JInt int64
  | JStr string
  | JArr "json list"
  | JObj "(string \<times> json) list"

type_synonym anymap = "(string \<times> json) list option"

type_synonym strmap = "(string \<times> string) list option"

section \<open>Orders\<close>

record Amounts =
  amt_Currency :: string
  amt_Original :: int64
  amt_Discount :: int64
  amt_Payable :: int64
  amt_LedgerPay :: int64
  amt_ChannelPay :: int64
  amt_Paid :: int64
  amt_Refunded :: int64

type_synonym PayMethod = string

definition PayMethodChannel :: PayMethod where "PayMethodChannel = ''channel''"

definition PayMethodLedger :: PayMethod where "PayMethodLedger = ''ledger''"

definition PayMethodMix :: PayMethod where "PayMethodMix = ''mix''"

record OrderLine =
  ln_LineID :: string
  ln_ObjectType :: string
  ln_ObjectID :: string
  ln_Quantity :: int64
  ln_UnitPrice :: int64
  ln_OriginalAmount :: int64
  ln_DiscountAmount :: int64
  ln_PayableAmount :: int64
  ln_Attributes :: strmap
  ln_Snapshot :: anymap

record PromotionRef =
  pr_QuoteID :: string
  pr_ReservationID :: string
  pr_RedemptionID :: string

record LedgerRef =
  lr_FreezeID :: string
  lr_AssetCode :: string
  lr_BizNo :: string

record PaymentRef =
  py_PaymentIntentID :: string
  py_Channel :: string

record Allocation =
  al_LineID :: string
  al_DiscountAmount :: int64

record PromotionDetail =
  pd_SourceType :: string
  pd_SourceID :: string
  pd_DiscountAmount :: int64
  pd_Allocations :: "Allocation list"
  pd_RuleSnapshotVersion :: string

record LedgerLeg =
  lg_Command :: string
  lg_BizNo :: string
  lg_FreezeID :: string
  lg_AssetCode :: string
  lg_Amount :: int64
  lg_Status :: string

record LineRefund =
  lf_LineID :: string
  lf_Amount :: int64

record Refund =
  rf_RefundID :: string
  rf_OrderID :: string
  rf_TenantID :: string
  rf_Amount :: int64
  rf_Currency :: string
  rf_Status :: string
  rf_Reason :: string
  rf_ChannelRefund :: bool
  rf_LedgerCredit :: bool
  rf_LedgerAmount :: int64
  rf_ChannelAmount :: int64
  rf_Lines :: "LineRefund list"
  rf_CreatedAt :: time

record Order =
  ord_OrderID :: string
  ord_TenantID :: string
  ord_Scene :: string
  ord_Channel :: string
  ord_BuyerUserID :: string
  ord_ClientOrderID :: string
  ord_Status :: Status
  ord_Version :: int64
  ord_Amounts :: Amounts
  ord_Promotion :: PromotionRef
  ord_Ledger :: LedgerRef
  ord_Payment :: PaymentRef
  ord_PayMethod :: PayMethod
  ord_ExpireAt :: time
  ord_RenewCount :: int
  ord_Context :: anymap
  ord_Lines :: "OrderLine list"
  ord_Promotions :: "PromotionDetail list"
  ord_LedgerLegs :: "LedgerLeg list"
  ord_CreatedAt :: time
  ord_UpdatedAt :: time
  ord_PaidAt :: "time option"
  ord_CancelledAt :: "time option"
  ord_CompletedAt :: "time option"

definition RefundableAmount :: "Order \<Rightarrow> int64" where
  "RefundableAmount o' = amt_Paid (ord_Amounts o') - amt_Refunded (ord_Amounts o')"

definition HasLedgerFreeze :: "Order \<Rightarrow> bool" where
  "HasLedgerFreeze o' \<longleftrightarrow>
     lr_FreezeID (ord_Ledger o') \<noteq> '''' \<or> 0 <s amt_LedgerPay (ord_Amounts o')"

definition HasOfferReservation :: "Order \<Rightarrow> bool" where
  "HasOfferReservation o' \<longleftrightarrow> pr_ReservationID (ord_Promotion o') \<noteq> ''''"

definition NeedsChannelPay :: "Order \<Rightarrow> bool" where
  "NeedsChannelPay o' \<longleftrightarrow> 0 <s amt_ChannelPay (ord_Amounts o')"

definition ResolvePayMethod :: "int64 \<Rightarrow> int64 \<Rightarrow> PayMethod" where
  "ResolvePayMethod ledgerPay channelPay =
     (if 0 <s ledgerPay \<and> 0 <s channelPay then PayMethodMix
      else if 0 <s ledgerPay then PayMethodLedger
      else PayMethodChannel)"

section \<open>Events\<close>

definition EventCreated :: string where "EventCreated = ''order.created.v1''"

definition EventPaid :: string where "EventPaid = ''order.paid.v1''"

definition EventFulfilled :: string where "EventFulfilled = ''order.fulfilled.v1''"

definition EventCompleted :: string where "EventCompleted = ''order.completed.v1''"

definition EventCancelled :: string where "EventCancelled = ''order.cancelled.v1''"

definition EventClosed :: string where "EventClosed = ''order.closed.v1''"

definition EventRefunded :: string where "EventRefunded = ''order.refunded.v1''"

record Event =
  ev_EventID :: string
  ev_EventType :: string
  ev_EventVersion :: int
  ev_TenantID :: string
  ev_OccurredAt :: time
  ev_Source :: string
  ev_TraceID :: string
  ev_Data :: anymap

text \<open>\<open>now.UTC()\<close> denotes the same instant, so it is the identity on \<^typ>\<open>time\<close>.\<close>

definition NewEvent :: "string \<Rightarrow> string \<Rightarrow> string \<Rightarrow> string \<Rightarrow> time \<Rightarrow> anymap \<Rightarrow> Event" where
  "NewEvent eventID eventType tenantID traceID now data = \<lparr>
     ev_EventID = eventID, ev_EventType = eventType, ev_EventVersion = 1,
     ev_TenantID = tenantID, ev_OccurredAt = now, ev_Source = ''order-hub'',
     ev_TraceID = traceID, ev_Data = data \<rparr>"

definition OrderEventData :: "Order \<Rightarrow> anymap" where
  "OrderEventData o' = Some [
     (''currency'', JStr (amt_Currency (ord_Amounts o'))),
     (''freeze_id'', JStr (lr_FreezeID (ord_Ledger o'))),
     (''order_id'', JStr (ord_OrderID o')),
     (''payable_amount'', JInt (amt_Payable (ord_Amounts o'))),
     (''redemption_id'', JStr (pr_RedemptionID (ord_Promotion o'))),
     (''scene'', JStr (ord_Scene o')),
     (''status'', JStr (Status_String (ord_Status o'))),
     (''user_id'', JStr (ord_BuyerUserID o'))]"

section \<open>Lemmas\<close>

lemma errors_Is_unique: "errors_Is e s \<Longrightarrow> errors_Is e t \<Longrightarrow> s = t"
  by (cases e) auto

lemma NewEvent_Type [simp]: "ev_EventType (NewEvent i ty t tr now data) = ty"
  by (simp add: NewEvent_def)

lemma in_all_statuses [simp]: "s \<in> set all_statuses"
  by (cases s) (simp_all add: all_statuses_def)

lemma Status_String_inject [simp]: "Status_String s = Status_String t \<longleftrightarrow> s = t"
  by (cases s; cases t) simp_all

lemma ParseStatus_SomeD: "ParseStatus raw = Some s \<Longrightarrow> Status_String s = raw"
  by (auto simp: ParseStatus_def dest: find_Some_set)

lemma ParseStatus_String: "ParseStatus (Status_String s) = Some s"
  by (simp add: ParseStatus_def find_unique [of s])

section \<open>Properties\<close>

text \<open>\<open>ParseStatus\<close> accepts exactly the printed statuses and gives back the status.\<close>

theorem ParseStatus_inverts_String: "ParseStatus raw = Some s \<longleftrightarrow> raw = Status_String s"
  using ParseStatus_SomeD [of raw s] ParseStatus_String [of s] by auto

end
