(* ===== verification/Scenes.thy ===== *)
theory Scenes
  imports Domain_Types "HOL-Library.List_Lexorder" "HOL-Library.Char_ord" "HOL-Library.Multiset"
begin

text \<open>
  Scene configuration (\<open>src/internal/domain/scene.go\<close>) and the hashes of
  \<open>src/internal/domain/hash.go\<close>. Hashing is JSON marshalling followed by SHA-256 and hex
  encoding; the payload that is hashed is data here, and the composition of the three library
  functions is a parameter \<open>digest\<close> of the definitions. The lemmas say which scene needs which
  resource and that a hash does not depend on the order of the coupons.
\<close>

section \<open>Scenes\<close>

definition MaxReservationRenew :: int where "MaxReservationRenew = 3"

definition OfferReservationActive :: string where "OfferReservationActive = ''ACTIVE''"

definition OfferReservationCommitted :: string where "OfferReservationCommitted = ''COMMITTED''"

definition OfferReservationReleased :: string where "OfferReservationReleased = ''RELEASED''"

type_synonym OfferMode = string

definition OfferRequiredOrSkip :: OfferMode where "OfferRequiredOrSkip = ''required_or_skip''"

definition OfferOptional :: OfferMode where "OfferOptional = ''optional''"

definition OfferNone :: OfferMode where "OfferNone = ''none''"

type_synonym LedgerMode = string

definition LedgerNone :: LedgerMode where "LedgerNone = ''none''"

definition LedgerOptional :: LedgerMode where "LedgerOptional = ''optional''"

definition LedgerFreezeCapture :: LedgerMode where "LedgerFreezeCapture = ''freeze_capture''"

type_synonym InventoryMode = string

definition InventoryNone :: InventoryMode where "InventoryNone = ''none''"

definition InventoryReserveOnCreate :: InventoryMode where
  "InventoryReserveOnCreate = ''reserve_on_create''"

type_synonym FulfillmentType = string

definition FulfillmentShipping :: FulfillmentType where "FulfillmentShipping = ''shipping''"

definition FulfillmentVirtualGrant :: FulfillmentType where
  "FulfillmentVirtualGrant = ''virtual_grant''"

definition FulfillmentEntitlement :: FulfillmentType where
  "FulfillmentEntitlement = ''entitlement''"

definition FulfillmentNone :: FulfillmentType where "FulfillmentNone = ''none''"

record SceneConfig =
  sc_Name :: string
  sc_Currency :: string
  sc_Offer :: OfferMode
  sc_Ledger :: LedgerMode
  sc_Inventory :: InventoryMode
  sc_PayTimeout :: duration
  sc_AutoCompleteOnPaid :: bool
  sc_Fulfillment :: FulfillmentType
  sc_AllowCloseAfterPaid :: bool

text \<open>What a Go map lookup of a missing key returns: the zero value of the struct.\<close>

definition zero_SceneConfig :: SceneConfig where
  "zero_SceneConfig = \<lparr>sc_Name = '''', sc_Currency = '''', sc_Offer = '''', sc_Ledger = '''',
     sc_Inventory = '''', sc_PayTimeout = 0, sc_AutoCompleteOnPaid = False,
     sc_Fulfillment = '''', sc_AllowCloseAfterPaid = False\<rparr>"

definition time_Second :: duration where "time_Second = 1000000000"

definition time_Minute :: duration where "time_Minute = 60 * time_Second"

definition DefaultScenes :: "string \<rightharpoonup> SceneConfig" where
  "DefaultScenes = map_of [
     (''mall_checkout'', \<lparr>sc_Name = ''mall_checkout'', sc_Currency = ''CNY'',
        sc_Offer = OfferRequiredOrSkip, sc_Ledger = LedgerOptional,
        sc_Inventory = InventoryReserveOnCreate, sc_PayTimeout = 15 * time_Minute,
        sc_AutoCompleteOnPaid = False, sc_Fulfillment = FulfillmentShipping,
        sc_AllowCloseAfterPaid = False\<rparr>),
     (''point_mall'', \<lparr>sc_Name = ''point_mall'', sc_Currency = ''POINT'',
        sc_Offer = OfferOptional, sc_Ledger = LedgerFreezeCapture,
        sc_Inventory = InventoryNone, sc_PayTimeout = 15 * time_Minute,
        sc_AutoCompleteOnPaid = True, sc_Fulfillment = FulfillmentVirtualGrant,
        sc_AllowCloseAfterPaid = False\<rparr>),
     (''membership'', \<lparr>sc_Name = ''membership'', sc_Currency = ''CNY'',
        sc_Offer = OfferOptional, sc_Ledger = LedgerOptional,
        sc_Inventory = InventoryNone, sc_PayTimeout = 30 * time_Minute,
        sc_AutoCompleteOnPaid = True, sc_Fulfillment = FulfillmentEntitlement,
        sc_AllowCloseAfterPaid = True\<rparr>),
     (''course'', \<lparr>sc_Name = ''course'', sc_Currency = ''CNY'',
        sc_Offer = OfferOptional, sc_Ledger = LedgerNone,
        sc_Inventory = InventoryNone, sc_PayTimeout = 30 * time_Minute,
        sc_AutoCompleteOnPaid = True, sc_Fulfillment = FulfillmentEntitlement,
        sc_AllowCloseAfterPaid = True\<rparr>),
     (''saas_subscription'', \<lparr>sc_Name = ''saas_subscription'', sc_Currency = ''CNY'',
        sc_Offer = OfferOptional, sc_Ledger = LedgerNone,
        sc_Inventory = InventoryNone, sc_PayTimeout = 30 * time_Minute,
        sc_AutoCompleteOnPaid = True, sc_Fulfillment = FulfillmentEntitlement,
        sc_AllowCloseAfterPaid = True\<rparr>)]"

definition NeedsOffer :: "SceneConfig \<Rightarrow> bool \<Rightarrow> nat \<Rightarrow> bool" where
  "NeedsOffer s hasQuote couponN =
     (if sc_Offer s = OfferNone then False
      else hasQuote \<or> 0 < couponN \<or> sc_Offer s = OfferRequiredOrSkip)"

definition NeedsLedger :: "SceneConfig \<Rightarrow> int64 \<Rightarrow> bool" where
  "NeedsLedger s ledgerPay =
     (if sc_Ledger s = LedgerNone then False
      else if sc_Ledger s = LedgerFreezeCapture then True
      else 0 <s ledgerPay)"

definition NeedsInventory :: "SceneConfig \<Rightarrow> bool" where
  "NeedsInventory s \<longleftrightarrow> sc_Inventory s = InventoryReserveOnCreate"

section \<open>Hashes\<close>

record HashInput =
  hi_Scene :: string
  hi_Channel :: string
  hi_Currency :: string
  hi_CouponIDs :: "string list"
  hi_Items :: "OrderLine list"
  hi_LedgerPay :: int64
  hi_AssetCode :: string
  hi_Ext :: anymap

text \<open>The entry of a line in the hashed payload.\<close>

record HashItem =
  ht_line_id :: string
  ht_object_type :: string
  ht_object_id :: string
  ht_quantity :: int64
  ht_unit_price :: int64
  ht_attributes :: strmap

definition hash_item :: "OrderLine \<Rightarrow> HashItem" where
  "hash_item l = \<lparr>ht_line_id = ln_LineID l, ht_object_type = ln_ObjectType l,
     ht_object_id = ln_ObjectID l, ht_quantity = ln_Quantity l,
     ht_unit_price = ln_UnitPrice l, ht_attributes = ln_Attributes l\<rparr>"

text \<open>
  The two payloads, with the values in the order of the source: scene, channel, currency, coupons,
  items, ledger pay, asset code, ext; and client order id, quote id, scene, channel, coupons, items,
  ledger pay, asset code, ext. They are encoded with different sets of keys. \<open>RequestHash\<close>, which
  nothing calls, digests the list of its arguments.
\<close>

datatype hash_payload =
    ContextPayload string string string "string list" "HashItem list" int64 string anymap
  | CheckoutPayload string string string string "string list" "HashItem list" int64 string anymap
  | RequestPayload "json list"

type_synonym digest = "hash_payload \<Rightarrow> string"

definition ContextHash :: "digest \<Rightarrow> HashInput \<Rightarrow> string" where
  "ContextHash digest inp =
     (let coupons = sort (hi_CouponIDs inp); items = map hash_item (hi_Items inp)
      in digest (ContextPayload (hi_Scene inp) (hi_Channel inp) (hi_Currency inp) coupons items
           (hi_LedgerPay inp) (hi_AssetCode inp) (hi_Ext inp)))"

definition CheckoutHash :: "digest \<Rightarrow> string \<Rightarrow> string \<Rightarrow> HashInput \<Rightarrow> string" where
  "CheckoutHash digest clientOrderID quoteID inp =
     (let coupons = sort (hi_CouponIDs inp); items = map hash_item (hi_Items inp)
      in digest (CheckoutPayload clientOrderID quoteID (hi_Scene inp) (hi_Channel inp) coupons
           items (hi_LedgerPay inp) (hi_AssetCode inp) (hi_Ext inp)))"

definition RequestHash :: "digest \<Rightarrow> json list \<Rightarrow> string" where
  "RequestHash digest parts = digest (RequestPayload parts)"

section \<open>Lemmas\<close>

lemma DefaultScenes_Name: "DefaultScenes k = Some s \<Longrightarrow> sc_Name s = k"
  by (auto simp: DefaultScenes_def split: if_splits)

lemma DefaultScenes_Timeout: "DefaultScenes k = Some s \<Longrightarrow> 0 < sc_PayTimeout s"
  by (auto simp: DefaultScenes_def time_Minute_def time_Second_def split: if_splits)

lemma ContextHash_coupon_order:
  "mset cs = mset cs' \<Longrightarrow>
     ContextHash digest (inp\<lparr>hi_CouponIDs := cs\<rparr>) = ContextHash digest (inp\<lparr>hi_CouponIDs := cs'\<rparr>)"
  by (simp add: ContextHash_def Let_def properties_for_sort [of "sort cs'" cs])

lemma CheckoutHash_coupon_order:
  "mset cs = mset cs' \<Longrightarrow>
     CheckoutHash digest c q (inp\<lparr>hi_CouponIDs := cs\<rparr>) =
     CheckoutHash digest c q (inp\<lparr>hi_CouponIDs := cs'\<rparr>)"
  by (simp add: CheckoutHash_def Let_def properties_for_sort [of "sort cs'" cs])

text \<open>
  Filling in the line totals and the allocation does not touch what is hashed: a hash taken of the
  request and one taken of the priced lines agree.
\<close>

lemma hash_item_update [simp]:
  "hash_item (l\<lparr>ln_OriginalAmount := x\<rparr>) = hash_item l"
  "hash_item (l\<lparr>ln_DiscountAmount := x\<rparr>) = hash_item l"
  "hash_item (l\<lparr>ln_PayableAmount := x\<rparr>) = hash_item l"
  by (simp_all add: hash_item_def)

section \<open>Properties\<close>

text \<open>
  The request hashes do not depend on the order in which the coupons are listed, nor on line
  totals and allocations that pricing fills in.
\<close>

theorem hash_ignores_order_and_pricing:
  assumes "mset cs = mset cs'" "map hash_item ls = map hash_item ls'"
  shows "ContextHash digest (inp\<lparr>hi_CouponIDs := cs, hi_Items := ls\<rparr>) =
      ContextHash digest (inp\<lparr>hi_CouponIDs := cs', hi_Items := ls'\<rparr>) \<and>
    CheckoutHash digest c q (inp\<lparr>hi_CouponIDs := cs, hi_Items := ls\<rparr>) =
      CheckoutHash digest c q (inp\<lparr>hi_CouponIDs := cs', hi_Items := ls'\<rparr>)"
  using assms by (simp add: ContextHash_def CheckoutHash_def Let_def
      properties_for_sort [of "sort cs'" cs])

theorem hash_ignores_order_and_pricing_witness:
  "ContextHash (\<lambda>p. case p of ContextPayload a b c cs ls n as e \<Rightarrow> concat cs
       | CheckoutPayload o' q a b cs ls n as e \<Rightarrow> concat cs)
     \<lparr>hi_Scene = '''', hi_Channel = '''', hi_Currency = '''', hi_CouponIDs = [''b'', ''a''],
       hi_Items = [], hi_LedgerPay = 0, hi_AssetCode = '''', hi_Ext = None\<rparr> = ''ab''"
  using hash_ignores_order_and_pricing [of "[''b'', ''a'']" "[''a'', ''b'']" "[]" "[]"
    "\<lambda>p. case p of ContextPayload a b c cs ls n as e \<Rightarrow> concat cs
       | CheckoutPayload o' q a b cs ls n as e \<Rightarrow> concat cs"
    "\<lparr>hi_Scene = '''', hi_Channel = '''', hi_Currency = '''', hi_CouponIDs = [],
       hi_Items = [], hi_LedgerPay = 0, hi_AssetCode = '''', hi_Ext = None\<rparr>"]
  by (simp add: ContextHash_def Let_def add_mset_commute)

end
