(* ===== verification/State_Machine.thy ===== *)
theory State_Machine
  imports Domain_Types
begin

text \<open>
  The order life cycle (\<open>src/internal/domain/statemachine.go\<close>): the table \<open>transitions\<close>,
  \<open>CanTransition\<close>, \<open>NextAfterPaid\<close> and the guarded update \<open>Transition\<close>. The step relation
  \<open>lifecycle\<close> is what the table allows; \<open>evolves\<close> is its reflexive transitive closure, and the
  lemmas about it are what the rest of the development uses: no way back to PENDING_PAY, the
  three final statuses, and that the cancelled and the paid branch never meet.
\<close>

section \<open>Definitions\<close>

definition transitions :: "Status \<rightharpoonup> Status list" where
  "transitions = map_of [
     (StatusPendingPay, [StatusPaid, StatusCancelled]),
     (StatusPaid, [StatusFulfilling, StatusCompleted, StatusRefunding, StatusRefunded,
        StatusPartialRefunded, StatusCompensating, StatusClosed]),
     (StatusFulfilling, [StatusCompleted, StatusRefunding, StatusRefunded,
        StatusPartialRefunded, StatusClosed]),
     (StatusCompleted, [StatusRefunding, StatusRefunded, StatusPartialRefunded, StatusClosed]),
     (StatusRefunding, [StatusRefunded, StatusPartialRefunded, StatusCompleted,
        StatusFulfilling]),
     (StatusPartialRefunded, [StatusRefunding, StatusRefunded]),
     (StatusCompensating, [StatusPaid, StatusCompleted, StatusFulfilling])]"

definition CanTransition :: "Status \<Rightarrow> Status \<Rightarrow> bool" where
  "CanTransition from to =
     (case transitions from of None \<Rightarrow> False | Some allowed \<Rightarrow> to \<in> set allowed)"

definition NextAfterPaid :: "bool \<Rightarrow> Status" where
  "NextAfterPaid autoComplete = (if autoComplete then StatusCompleted else StatusFulfilling)"

text \<open>\<open>domain.Transition\<close>: \<open>None\<close> is the nil order; on success the updated order is returned.\<close>

definition domain_Transition :: "Order option \<Rightarrow> Status \<Rightarrow> Order res" where
  "domain_Transition o_opt to =
     (case o_opt of
        None \<Rightarrow> Inl (Sentinel ErrOrderNotFound)
      | Some o' \<Rightarrow>
          if \<not> CanTransition (ord_Status o') to
          then (if ord_Status o' = StatusPaid \<and> to = StatusCancelled
                then Inl (Sentinel ErrAlreadyPaid) else Inl (Sentinel ErrStatusNotAllowed))
          else Inr (o'\<lparr>ord_Status := to, ord_Version := ord_Version o' + 1\<rparr>))"

section \<open>The life cycle as a step relation\<close>

inductive lifecycle :: "Status \<Rightarrow> Status \<Rightarrow> bool" where
  allowed: "CanTransition a b \<Longrightarrow> lifecycle a b"

inductive_simps lifecycle_iff: "lifecycle a b"

inductive evolves :: "Status \<Rightarrow> Status \<Rightarrow> bool" where
  stay: "evolves a a"
| move: "evolves a b \<Longrightarrow> lifecycle b c \<Longrightarrow> evolves a c"

inductive_cases evolvesE: "evolves a c"

definition paid_branch :: "Status \<Rightarrow> bool" where
  "paid_branch s \<longleftrightarrow> s \<noteq> StatusPendingPay \<and> s \<noteq> StatusCancelled"

definition final_status :: "Status \<Rightarrow> bool" where
  "final_status s \<longleftrightarrow> s = StatusCancelled \<or> s = StatusClosed \<or> s = StatusRefunded"

section \<open>Lemmas\<close>

lemmas CanTransition_defs = CanTransition_def transitions_def

lemma CanTransition_final: "\<not> CanTransition a b" if "final_status a"
  using that by (cases a) (simp_all add: CanTransition_defs final_status_def)

lemma final_iff_stuck: "final_status a \<longleftrightarrow> (\<forall>b. \<not> CanTransition a b)"
proof
  assume "\<forall>b. \<not> CanTransition a b"
  then have "\<not> CanTransition a StatusPaid" "\<not> CanTransition a StatusRefunded"
    by blast+
  then show "final_status a"
    by (cases a) (simp_all add: CanTransition_defs final_status_def)
qed (simp add: CanTransition_final)

lemma no_way_to_pending: "\<not> CanTransition a StatusPendingPay"
  by (cases a) (simp_all add: CanTransition_defs)

lemma paid_only_from: "CanTransition a StatusPaid \<longleftrightarrow> a = StatusPendingPay \<or> a = StatusCompensating"
  by (cases a) (simp_all add: CanTransition_defs)

lemma cancelled_only_from: "CanTransition a StatusCancelled \<longleftrightarrow> a = StatusPendingPay"
  by (cases a) (simp_all add: CanTransition_defs)

lemma from_pending: "CanTransition StatusPendingPay b \<longleftrightarrow> b = StatusPaid \<or> b = StatusCancelled"
  by (cases b) (simp_all add: CanTransition_defs)

lemma paid_branch_step: "CanTransition a b \<Longrightarrow> paid_branch a \<Longrightarrow> paid_branch b"
  using no_way_to_pending cancelled_only_from by (auto simp: paid_branch_def)

lemma evolves_trans: "evolves b c \<Longrightarrow> evolves a b \<Longrightarrow> evolves a c"
  by (induction rule: evolves.induct) (auto intro: evolves.intros)

lemma evolves_step: "CanTransition a b \<Longrightarrow> evolves a b"
  by (auto intro: evolves.intros lifecycle.intros)

lemma evolves_pending: "evolves a b \<Longrightarrow> b = StatusPendingPay \<Longrightarrow> a = StatusPendingPay"
  by (induction rule: evolves.induct) (auto simp: lifecycle_iff no_way_to_pending)

lemma evolves_paid_branch: "evolves a b \<Longrightarrow> paid_branch a \<Longrightarrow> paid_branch b"
  by (induction rule: evolves.induct) (auto simp: lifecycle_iff intro: paid_branch_step)

lemma evolves_final: "evolves a b \<Longrightarrow> final_status a \<Longrightarrow> b = a"
  by (induction rule: evolves.induct) (auto simp: lifecycle_iff CanTransition_final)

text \<open>Who can reach CANCELLED: only an order that still waits for payment, or is cancelled.\<close>

lemma evolves_cancelled:
  assumes "evolves a StatusCancelled"
  shows "a = StatusPendingPay \<or> a = StatusCancelled"
  using evolves_paid_branch [OF assms] by (auto simp: paid_branch_def)

lemma domain_Transition_InrD:
  assumes "domain_Transition (Some o') to = Inr o''"
  shows "CanTransition (ord_Status o') to \<and>
    o'' = o'\<lparr>ord_Status := to, ord_Version := ord_Version o' + 1\<rparr>"
  using assms by (auto simp: domain_Transition_def split: if_splits)

lemma domain_Transition_ok [simp]:
  "CanTransition (ord_Status o') to \<Longrightarrow>
     domain_Transition (Some o') to = Inr (o'\<lparr>ord_Status := to, ord_Version := ord_Version o' + 1\<rparr>)"
  by (simp add: domain_Transition_def)

lemma NextAfterPaid_allowed:
  "CanTransition StatusPaid (NextAfterPaid b)" "CanTransition StatusCompensating (NextAfterPaid b)"
  by (simp_all add: NextAfterPaid_def CanTransition_defs)

section \<open>Properties\<close>

text \<open>
  C34: the life cycle has exactly three final statuses, CANCELLED, CLOSED and REFUNDED. No order
  returns to PENDING_PAY, and only an order that was never paid can end in CANCELLED.
\<close>

theorem lifecycle_shape:
  "((\<forall>b. \<not> lifecycle a b) \<longleftrightarrow> a \<in> {StatusCancelled, StatusClosed, StatusRefunded}) \<and>
   (evolves a StatusPendingPay \<longleftrightarrow> a = StatusPendingPay) \<and>
   (evolves a StatusCancelled \<longleftrightarrow> a \<in> {StatusPendingPay, StatusCancelled})"
  using final_iff_stuck [of a] evolves_pending evolves_cancelled
  by (auto simp: lifecycle_iff final_status_def intro: evolves.stay evolves_step
      simp: cancelled_only_from)

end
