(* ===== verification/Ports.thy ===== *)
theory Ports
  imports Scenes State_Machine
begin

text \<open>
  The interfaces of \<open>src/internal/application/port/port.go\<close>. A Go interface whose implementation
  is chosen at start-up is a record of functions over a state \<open>'x\<close> of its own, so that a service
  can be run against any behaviour of the systems behind it: OfferHub, LedgerHub, the payment
  channel, fulfilment, the quote cache, the id generator, the lock and the clocks. \<open>Deps\<close> bundles
  the implementations together with the scene table and the library codecs the services use
  (the digest of \<open>hash.go\<close>, and JSON marshalling of the two types that are stored as bytes).
  Interface values the code compares with nil are options.

  The order repository is not such a parameter: services run against the in-memory repository of
  \<open>Memory_Repo\<close>, and the state of a run is a \<open>World\<close> with that repository and the external state.
\<close>

section \<open>Data of the interfaces\<close>

record Identity =
  id_UserID :: string
  id_TenantID :: string
  id_Attributes :: anymap
  id_TraceID :: string

record QuoteRequest =
  qr_TenantID :: string
  qr_UserID :: string
  qr_OrderID :: string
  qr_Scene :: string
  qr_Channel :: string
  qr_Currency :: string
  qr_CouponIDs :: "string list"
  qr_AutoBest :: bool
  qr_Items :: "OrderLine list"
  qr_Attributes :: anymap
  qr_Context :: anymap

record QuoteResult =
  q_QuoteID :: string
  q_Currency :: string
  q_OriginalAmount :: int64
  q_DiscountAmount :: int64
  q_PayableAmount :: int64
  q_Allocations :: "Allocation list"
  q_Promotions :: "PromotionDetail list"
  q_ExpiresAt :: time
  q_ContextHash :: string

record ReservationResult =
  rs_ReservationID :: string
  rs_QuoteID :: string
  rs_ExpiresAt :: time
  rs_Status :: string

record RedemptionResult =
  rd_RedemptionID :: string
  rd_ReservationID :: string
  rd_DiscountAmount :: int64
  rd_ReversedAmount :: int64

record FreezeRequest =
  fr_TenantID :: string
  fr_UserID :: string
  fr_OrderID :: string
  fr_AssetCode :: string
  fr_Amount :: int64
  fr_BizNo :: string

record PaymentIntent =
  pi_IntentID :: string
  pi_Channel :: string
  pi_Amount :: int64
  pi_Currency :: string
  pi_PayURL :: string
  pi_ExpiresAt :: time

record PreviewSnapshot =
  ps_QuoteID :: string
  ps_ContextHash :: string
  ps_Scene :: string
  ps_Channel :: string
  ps_Currency :: string
  ps_CouponIDs :: "string list"
  ps_Items :: "OrderLine list"
  ps_Allocations :: "Allocation list"
  ps_Promotions :: "PromotionDetail list"
  ps_OriginalAmount :: int64
  ps_DiscountAmount :: int64
  ps_PayableAmount :: int64
  ps_LedgerPay :: int64
  ps_AssetCode :: string
  ps_ChannelPay :: int64
  ps_Ext :: anymap
  ps_ExpiresAt :: time
  ps_SubjectAttrs :: anymap

type_synonym bytes = string

record IdempotencyRecord =
  ir_TenantID :: string
  ir_Actor :: string
  ir_Key :: string
  ir_RequestHash :: string
  ir_Response :: bytes
  ir_OrderID :: string
  ir_CreatedAt :: time

record CheckoutPersist =
  cp_Order :: "Order option"
  cp_Idempotency :: "IdempotencyRecord option"
  cp_Event :: Event

record TransitionCmd =
  tc_TenantID :: string
  tc_OrderID :: string
  tc_From :: "Status list"
  tc_To :: Status
  tc_Version :: int64
  tc_PaidAmount :: "int64 option"
  tc_RefundedAdd :: int64
  tc_RedemptionID :: string
  tc_PaymentIntentID :: string
  tc_Event :: "Event option"
  tc_PaidAt :: "time option"
  tc_CancelledAt :: "time option"
  tc_CompletedAt :: "time option"

text \<open>A composite literal that names only the first five fields: the rest are zero values.\<close>

definition TransitionCmd_of :: "string \<Rightarrow> string \<Rightarrow> Status list \<Rightarrow> Status \<Rightarrow> int64 \<Rightarrow> TransitionCmd" where
  "TransitionCmd_of tenantID orderID from to version = \<lparr>tc_TenantID = tenantID,
     tc_OrderID = orderID, tc_From = from, tc_To = to, tc_Version = version,
     tc_PaidAmount = None, tc_RefundedAdd = 0, tc_RedemptionID = '''',
     tc_PaymentIntentID = '''', tc_Event = None, tc_PaidAt = None, tc_CancelledAt = None,
     tc_CompletedAt = None\<rparr>"

text \<open>The status filter is a raw string in Go; the empty one means any status.\<close>

record AdminListFilter =
  af_TenantID :: string
  af_Status :: string
  af_Scene :: string
  af_Query :: string
  af_Cursor :: string
  af_Limit :: int

record CompensationTicket =
  tk_ID :: int64
  tk_Kind :: string
  tk_TenantID :: string
  tk_Ref :: string
  tk_Payload :: string
  tk_Status :: string
  tk_Attempts :: int
  tk_LastError :: string
  tk_NextRetry :: "time option"
  tk_CreatedAt :: time

text \<open>A composite literal with kind, tenant, reference and payload only.\<close>

definition CompensationTicket_of :: "string \<Rightarrow> string \<Rightarrow> string \<Rightarrow> string \<Rightarrow> CompensationTicket" where
  "CompensationTicket_of kind tenantID ref payload = \<lparr>tk_ID = 0, tk_Kind = kind,
     tk_TenantID = tenantID, tk_Ref = ref, tk_Payload = payload, tk_Status = '''',
     tk_Attempts = 0, tk_LastError = '''', tk_NextRetry = None, tk_CreatedAt = 0\<rparr>"

record OutboxRow =
  ob_EventID :: string
  ob_Payload :: bytes
  ob_Attempts :: int

text \<open>The result of a checkout (\<open>checkout.go\<close>), stored as bytes in the idempotency record.\<close>

record CheckoutResult =
  cr_OrderID :: string
  cr_Status :: string
  cr_ReservationID :: string
  cr_FreezeID :: string
  cr_PaymentIntent :: "PaymentIntent option"
  cr_PayableAmount :: int64
  cr_Currency :: string
  cr_ExpireAt :: time

section \<open>The interfaces\<close>

text \<open>Arguments: tenant, reservation or quote or redemption, order or refund, idempotency key.\<close>

record 'x OfferClient =
  oc_Quote :: "QuoteRequest \<Rightarrow> ('x, QuoteResult res) state"
  oc_Reserve :: "string \<Rightarrow> string \<Rightarrow> string \<Rightarrow> string \<Rightarrow> ('x, ReservationResult res) state"
  oc_Commit :: "string \<Rightarrow> string \<Rightarrow> string \<Rightarrow> string \<Rightarrow> ('x, string res) state"
  oc_Release :: "string \<Rightarrow> string \<Rightarrow> string \<Rightarrow> string \<Rightarrow> ('x, unit res) state"
  oc_Renew :: "string \<Rightarrow> string \<Rightarrow> string \<Rightarrow> string \<Rightarrow> ('x, unit res) state"
  oc_Reverse :: "string \<Rightarrow> string \<Rightarrow> string \<Rightarrow> int64 \<Rightarrow> string \<Rightarrow> ('x, unit res) state"
  oc_GetReservation :: "string \<Rightarrow> string \<Rightarrow> ('x, ReservationResult res) state"
  oc_GetRedemption :: "string \<Rightarrow> string \<Rightarrow> ('x, RedemptionResult res) state"

record 'x LedgerClient =
  lc_GetBalance :: "string \<Rightarrow> string \<Rightarrow> string \<Rightarrow> ('x, int64 res) state"
  lc_Freeze :: "FreezeRequest \<Rightarrow> ('x, string res) state"
  lc_Capture :: "string \<Rightarrow> string \<Rightarrow> ('x, unit res) state"
  lc_Release :: "string \<Rightarrow> string \<Rightarrow> ('x, unit res) state"
  lc_Credit :: "string \<Rightarrow> string \<Rightarrow> string \<Rightarrow> int64 \<Rightarrow> string \<Rightarrow> string \<Rightarrow> ('x, unit res) state"

text \<open>\<open>CreateIntent\<close> may return a nil intent without an error; the callers look at it.\<close>

record 'x PaymentAdapter =
  pa_CreateIntent :: "Order \<Rightarrow> ('x, PaymentIntent option res) state"
  pa_CloseIntent :: "string \<Rightarrow> ('x, unit res) state"
  pa_Refund :: "Refund \<Rightarrow> ('x, unit res) state"

record 'x FulfillmentAdapter =
  fa_Reserve :: "Order \<Rightarrow> ('x, unit res) state"
  fa_Commit :: "Order \<Rightarrow> ('x, unit res) state"
  fa_Release :: "Order \<Rightarrow> ('x, unit res) state"

record 'x PreviewCache =
  pc_Put :: "string \<Rightarrow> string \<Rightarrow> string \<Rightarrow> PreviewSnapshot \<Rightarrow> duration \<Rightarrow> ('x, unit res) state"
  pc_GetByQuote :: "string \<Rightarrow> string \<Rightarrow> ('x, PreviewSnapshot res) state"

record 'x IDGenerator =
  ig_OrderID :: "('x, string) state"
  ig_EventID :: "('x, string) state"
  ig_RefundID :: "('x, string) state"
  ig_IntentID :: "('x, string) state"

text \<open>\<open>TryLock\<close> returns the unlock function, \<open>None\<close> when the lock is held by someone else.\<close>

record 'x Locker =
  lk_TryLock :: "string \<Rightarrow> duration \<Rightarrow> ('x, ('x, unit) state option res) state"

record 'x EventPublisher =
  ep_Publish :: "Event \<Rightarrow> ('x, unit res) state"

text \<open>
  \<open>dp_clock\<close> is the clock the services are given, \<open>dp_time_Now\<close> Go's \<open>time.Now()\<close>, and
  \<open>dp_range\<close> the order in which the runtime visits a map when the code ranges over one.
  \<open>json.Unmarshal(b, &out)\<close> gives an error or nil, and the value of \<open>out\<close> afterwards.
\<close>

record 'x Deps =
  dp_scenes :: "string \<rightharpoonup> SceneConfig"
  dp_offer :: "'x OfferClient"
  dp_ledger :: "'x LedgerClient"
  dp_pay :: "'x PaymentAdapter option"
  dp_fulfill :: "string \<Rightarrow> 'x FulfillmentAdapter option"
  dp_cache :: "'x PreviewCache option"
  dp_ids :: "'x IDGenerator"
  dp_clock :: "('x, time) state"
  dp_lock :: "'x Locker option"
  dp_publisher :: "'x EventPublisher option"
  dp_time_Now :: "('x, time) state"
  dp_range :: "('x, nat list) state"
  dp_digest :: digest
  dp_marshal_Result :: "CheckoutResult \<Rightarrow> bytes"
  dp_unmarshal_Result :: "bytes \<Rightarrow> error option \<times> CheckoutResult"
  dp_marshal_Event :: "Event \<Rightarrow> bytes"
  dp_unmarshal_Event :: "bytes \<Rightarrow> Event res"

end
