(* ===== verification/Persistence_Models.thy ===== *)
theory Persistence_Models
  imports Ports
begin

text \<open>
  The rows of the Postgres repository (\<open>src/internal/infra/persistence/models.go\<close>): one record per
  table, and the conversions between rows and domain values. A nullable column is an option. The
  JSON encodings of the columns that hold structured data are parameters, collected in
  \<open>JsonCodec\<close>; \<open>Unmarshal\<close> gives the value its target has afterwards, since the code drops its error.

  The lemmas show that an order survives the way into its rows and back, apart from the promotion
  details and ledger legs, which are written to tables of their own and never read.
\<close>

section \<open>Definitions: rows\<close>

record OrderPO =
  po_OrderID :: string
  po_TenantID :: string
  po_Scene :: string
  po_Channel :: string
  po_BuyerUserID :: string
  po_ClientOrderID :: string
  po_Status :: string
  po_Version :: int64
  po_Currency :: string
  po_OriginalAmount :: int64
  po_DiscountAmount :: int64
  po_PayableAmount :: int64
  po_LedgerPayAmount :: int64
  po_ChannelPayAmount :: int64
  po_PaidAmount :: int64
  po_RefundedAmount :: int64
  po_QuoteID :: string
  po_ReservationID :: string
  po_RedemptionID :: string
  po_FreezeID :: string
  po_AssetCode :: string
  po_PayMethod :: string
  po_PaymentIntentID :: string
  po_PaymentChannel :: string
  po_ExpireAt :: "time option"
  po_RenewCount :: int
  po_ContextJSON :: bytes
  po_CreatedAt :: time
  po_UpdatedAt :: time
  po_PaidAt :: "time option"
  po_CancelledAt :: "time option"
  po_CompletedAt :: "time option"

record OrderLinePO =
  lp_ID :: int64
  lp_OrderID :: string
  lp_LineID :: string
  lp_ObjectType :: string
  lp_ObjectID :: string
  lp_Quantity :: int64
  lp_UnitPrice :: int64
  lp_OriginalAmount :: int64
  lp_DiscountAmount :: int64
  lp_PayableAmount :: int64
  lp_AttributesJSON :: bytes
  lp_SnapshotJSON :: bytes
  lp_CreatedAt :: time

record OrderPromotionPO =
  pp_ID :: int64
  pp_OrderID :: string
  pp_SourceType :: string
  pp_SourceID :: string
  pp_DiscountAmount :: int64
  pp_AllocationsJSON :: bytes
  pp_RuleSnapshotVersion :: string

record OrderLedgerLegPO =
  gp_ID :: int64
  gp_OrderID :: string
  gp_Command :: string
  gp_BizNo :: string
  gp_FreezeID :: string
  gp_AssetCode :: string
  gp_Amount :: int64
  gp_Status :: string
  gp_CreatedAt :: time

record OutboxPO =
  ox_EventID :: string
  ox_EventType :: string
  ox_TenantID :: string
  ox_Payload :: bytes
  ox_CreatedAt :: time
  ox_PublishedAt :: "time option"
  ox_Attempts :: int

record IdempotencyPO =
  ip_ID :: int64
  ip_TenantID :: string
  ip_Actor :: string
  ip_IdemKey :: string
  ip_RequestHash :: string
  ip_Response :: bytes
  ip_OrderID :: string
  ip_CreatedAt :: time

record RefundPO =
  fp_RefundID :: string
  fp_OrderID :: string
  fp_TenantID :: string
  fp_Amount :: int64
  fp_Currency :: string
  fp_Status :: string
  fp_Reason :: string
  fp_ChannelRefund :: bool
  fp_LedgerCredit :: bool
  fp_LedgerAmount :: int64
  fp_ChannelAmount :: int64
  fp_LinesJSON :: bytes
  fp_CreatedAt :: time

record CompensationPO =
  kp_ID :: int64
  kp_Kind :: string
  kp_TenantID :: string
  kp_Ref :: string
  kp_Payload :: string
  kp_Status :: string
  kp_Attempts :: int
  kp_LastError :: string
  kp_NextRetry :: "time option"
  kp_CreatedAt :: time
  kp_DoneAt :: "time option"

section \<open>Definitions: conversions\<close>

record JsonCodec =
  js_any :: "anymap \<Rightarrow> bytes"
  js_un_any :: "bytes \<Rightarrow> anymap"
  js_str :: "strmap \<Rightarrow> bytes"
  js_un_str :: "bytes \<Rightarrow> strmap"
  js_allocs :: "Allocation list \<Rightarrow> bytes"
  js_refund_lines :: "LineRefund list \<Rightarrow> bytes"
  js_event :: "Event \<Rightarrow> bytes"

definition orderToPO :: "JsonCodec \<Rightarrow> Order \<Rightarrow> OrderPO" where
  "orderToPO js o' = \<lparr>
     po_OrderID = ord_OrderID o', po_TenantID = ord_TenantID o', po_Scene = ord_Scene o',
     po_Channel = ord_Channel o', po_BuyerUserID = ord_BuyerUserID o',
     po_ClientOrderID = ord_ClientOrderID o', po_Status = Status_String (ord_Status o'),
     po_Version = ord_Version o', po_Currency = amt_Currency (ord_Amounts o'),
     po_OriginalAmount = amt_Original (ord_Amounts o'),
     po_DiscountAmount = amt_Discount (ord_Amounts o'),
     po_PayableAmount = amt_Payable (ord_Amounts o'),
     po_LedgerPayAmount = amt_LedgerPay (ord_Amounts o'),
     po_ChannelPayAmount = amt_ChannelPay (ord_Amounts o'),
     po_PaidAmount = amt_Paid (ord_Amounts o'), po_RefundedAmount = amt_Refunded (ord_Amounts o'),
     po_QuoteID = pr_QuoteID (ord_Promotion o'),
     po_ReservationID = pr_ReservationID (ord_Promotion o'),
     po_RedemptionID = pr_RedemptionID (ord_Promotion o'),
     po_FreezeID = lr_FreezeID (ord_Ledger o'), po_AssetCode = lr_AssetCode (ord_Ledger o'),
     po_PayMethod = ord_PayMethod o', po_PaymentIntentID = py_PaymentIntentID (ord_Payment o'),
     po_PaymentChannel = py_Channel (ord_Payment o'),
     po_ExpireAt = (if ord_ExpireAt o' \<noteq> 0 then Some (ord_ExpireAt o') else None),
     po_RenewCount = ord_RenewCount o', po_ContextJSON = js_any js (ord_Context o'),
     po_CreatedAt = ord_CreatedAt o', po_UpdatedAt = ord_UpdatedAt o', po_PaidAt = ord_PaidAt o',
     po_CancelledAt = ord_CancelledAt o', po_CompletedAt = ord_CompletedAt o'\<rparr>"

definition lineToPO :: "JsonCodec \<Rightarrow> Order \<Rightarrow> OrderLine \<Rightarrow> OrderLinePO" where
  "lineToPO js o' l = \<lparr>
     lp_ID = 0, lp_OrderID = ord_OrderID o', lp_LineID = ln_LineID l,
     lp_ObjectType = ln_ObjectType l, lp_ObjectID = ln_ObjectID l, lp_Quantity = ln_Quantity l,
     lp_UnitPrice = ln_UnitPrice l, lp_OriginalAmount = ln_OriginalAmount l,
     lp_DiscountAmount = ln_DiscountAmount l, lp_PayableAmount = ln_PayableAmount l,
     lp_AttributesJSON = js_str js (ln_Attributes l), lp_SnapshotJSON = js_any js (ln_Snapshot l),
     lp_CreatedAt = ord_CreatedAt o'\<rparr>"

definition linesToPO :: "JsonCodec \<Rightarrow> Order \<Rightarrow> OrderLinePO list" where
  "linesToPO js o' = map (lineToPO js o') (ord_Lines o')"

text \<open>
  \<open>domain.Status(po.Status)\<close> keeps the string; the column only ever receives the printed form
  of a status, so the status of a row is the one that prints as its string.
\<close>

definition Status_of :: "string \<Rightarrow> Status" where
  "Status_of raw = the (ParseStatus raw)"

definition poToLine :: "JsonCodec \<Rightarrow> OrderLinePO \<Rightarrow> OrderLine" where
  "poToLine js l = \<lparr>
     ln_LineID = lp_LineID l, ln_ObjectType = lp_ObjectType l, ln_ObjectID = lp_ObjectID l,
     ln_Quantity = lp_Quantity l, ln_UnitPrice = lp_UnitPrice l,
     ln_OriginalAmount = lp_OriginalAmount l, ln_DiscountAmount = lp_DiscountAmount l,
     ln_PayableAmount = lp_PayableAmount l,
     ln_Attributes = (if lp_AttributesJSON l \<noteq> '''' then js_un_str js (lp_AttributesJSON l) else None),
     ln_Snapshot = (if lp_SnapshotJSON l \<noteq> '''' then js_un_any js (lp_SnapshotJSON l) else None)\<rparr>"

definition poToOrder :: "JsonCodec \<Rightarrow> OrderPO \<Rightarrow> OrderLinePO list \<Rightarrow> Order" where
  "poToOrder js po lines = \<lparr>
     ord_OrderID = po_OrderID po, ord_TenantID = po_TenantID po, ord_Scene = po_Scene po,
     ord_Channel = po_Channel po, ord_BuyerUserID = po_BuyerUserID po,
     ord_ClientOrderID = po_ClientOrderID po, ord_Status = Status_of (po_Status po),
     ord_Version = po_Version po,
     ord_Amounts = \<lparr>amt_Currency = po_Currency po, amt_Original = po_OriginalAmount po,
       amt_Discount = po_DiscountAmount po, amt_Payable = po_PayableAmount po,
       amt_LedgerPay = po_LedgerPayAmount po, amt_ChannelPay = po_ChannelPayAmount po,
       amt_Paid = po_PaidAmount po, amt_Refunded = po_RefundedAmount po\<rparr>,
     ord_Promotion = \<lparr>pr_QuoteID = po_QuoteID po, pr_ReservationID = po_ReservationID po,
       pr_RedemptionID = po_RedemptionID po\<rparr>,
     ord_Ledger = \<lparr>lr_FreezeID = po_FreezeID po, lr_AssetCode = po_AssetCode po,
       lr_BizNo = ''order:freeze:'' @ po_OrderID po\<rparr>,
     ord_Payment = \<lparr>py_PaymentIntentID = po_PaymentIntentID po, py_Channel = po_PaymentChannel po\<rparr>,
     ord_PayMethod = po_PayMethod po,
     ord_ExpireAt = (case po_ExpireAt po of Some t \<Rightarrow> t | None \<Rightarrow> 0),
     ord_RenewCount = po_RenewCount po,
     ord_Context = (if po_ContextJSON po \<noteq> '''' then js_un_any js (po_ContextJSON po) else None),
     ord_Lines = map (poToLine js) lines, ord_Promotions = [], ord_LedgerLegs = [],
     ord_CreatedAt = po_CreatedAt po, ord_UpdatedAt = po_UpdatedAt po, ord_PaidAt = po_PaidAt po,
     ord_CancelledAt = po_CancelledAt po, ord_CompletedAt = po_CompletedAt po\<rparr>"

definition poToComp :: "CompensationPO \<Rightarrow> CompensationTicket" where
  "poToComp row = \<lparr>tk_ID = kp_ID row, tk_Kind = kp_Kind row, tk_TenantID = kp_TenantID row,
     tk_Ref = kp_Ref row, tk_Payload = kp_Payload row, tk_Status = kp_Status row,
     tk_Attempts = kp_Attempts row, tk_LastError = kp_LastError row,
     tk_NextRetry = kp_NextRetry row, tk_CreatedAt = kp_CreatedAt row\<rparr>"

section \<open>Rows the insertions build\<close>

definition promotionToPO :: "JsonCodec \<Rightarrow> Order \<Rightarrow> PromotionDetail \<Rightarrow> OrderPromotionPO" where
  "promotionToPO js o' p = \<lparr>pp_ID = 0, pp_OrderID = ord_OrderID o', pp_SourceType = pd_SourceType p,
     pp_SourceID = pd_SourceID p, pp_DiscountAmount = pd_DiscountAmount p,
     pp_AllocationsJSON = js_allocs js (pd_Allocations p),
     pp_RuleSnapshotVersion = pd_RuleSnapshotVersion p\<rparr>"

definition legToPO :: "Order \<Rightarrow> LedgerLeg \<Rightarrow> OrderLedgerLegPO" where
  "legToPO o' lg = \<lparr>gp_ID = 0, gp_OrderID = ord_OrderID o', gp_Command = lg_Command lg,
     gp_BizNo = lg_BizNo lg, gp_FreezeID = lg_FreezeID lg, gp_AssetCode = lg_AssetCode lg,
     gp_Amount = lg_Amount lg, gp_Status = lg_Status lg, gp_CreatedAt = ord_CreatedAt o'\<rparr>"

definition idemToPO :: "IdempotencyRecord \<Rightarrow> IdempotencyPO" where
  "idemToPO rec = \<lparr>ip_ID = 0, ip_TenantID = ir_TenantID rec, ip_Actor = ir_Actor rec,
     ip_IdemKey = ir_Key rec, ip_RequestHash = ir_RequestHash rec, ip_Response = ir_Response rec,
     ip_OrderID = ir_OrderID rec, ip_CreatedAt = ir_CreatedAt rec\<rparr>"

definition poToIdem :: "IdempotencyPO \<Rightarrow> IdempotencyRecord" where
  "poToIdem po = \<lparr>ir_TenantID = ip_TenantID po, ir_Actor = ip_Actor po, ir_Key = ip_IdemKey po,
     ir_RequestHash = ip_RequestHash po, ir_Response = ip_Response po, ir_OrderID = ip_OrderID po,
     ir_CreatedAt = ip_CreatedAt po\<rparr>"

definition eventToPO :: "JsonCodec \<Rightarrow> Event \<Rightarrow> OutboxPO" where
  "eventToPO js ev = \<lparr>ox_EventID = ev_EventID ev, ox_EventType = ev_EventType ev,
     ox_TenantID = ev_TenantID ev, ox_Payload = js_event js ev, ox_CreatedAt = ev_OccurredAt ev,
     ox_PublishedAt = None, ox_Attempts = 0\<rparr>"

definition refundToPO :: "JsonCodec \<Rightarrow> Refund \<Rightarrow> RefundPO" where
  "refundToPO js rf = \<lparr>fp_RefundID = rf_RefundID rf, fp_OrderID = rf_OrderID rf,
     fp_TenantID = rf_TenantID rf, fp_Amount = rf_Amount rf, fp_Currency = rf_Currency rf,
     fp_Status = rf_Status rf, fp_Reason = rf_Reason rf, fp_ChannelRefund = rf_ChannelRefund rf,
     fp_LedgerCredit = rf_LedgerCredit rf, fp_LedgerAmount = rf_LedgerAmount rf,
     fp_ChannelAmount = rf_ChannelAmount rf, fp_LinesJSON = js_refund_lines js (rf_Lines rf),
     fp_CreatedAt = rf_CreatedAt rf\<rparr>"

section \<open>Lemmas\<close>

lemma Status_of_String [simp]: "Status_of (Status_String s) = s"
  by (simp add: Status_of_def ParseStatus_String)

text \<open>The maps of an order go through the encoding unchanged, and no encoding is empty.\<close>

definition codec_keeps :: "JsonCodec \<Rightarrow> Order \<Rightarrow> bool" where
  "codec_keeps js o' \<longleftrightarrow>
     (js_any js (ord_Context o') \<noteq> '''' \<and> js_un_any js (js_any js (ord_Context o')) = ord_Context o') \<and>
     (\<forall>l \<in> set (ord_Lines o').
        js_str js (ln_Attributes l) \<noteq> '''' \<and> js_un_str js (js_str js (ln_Attributes l)) = ln_Attributes l \<and>
        js_any js (ln_Snapshot l) \<noteq> '''' \<and> js_un_any js (js_any js (ln_Snapshot l)) = ln_Snapshot l)"

text \<open>What a stored order has lost.\<close>

definition without_details :: "Order \<Rightarrow> Order" where
  "without_details o' = o'\<lparr>ord_Promotions := [], ord_LedgerLegs := []\<rparr>"

lemma poToLine_lineToPO:
  assumes "codec_keeps js o'" "l \<in> set (ord_Lines o')"
  shows "poToLine js (lineToPO js o' l) = l"
  using assms by (auto simp: codec_keeps_def poToLine_def lineToPO_def)

lemma poToOrder_orderToPO:
  assumes "codec_keeps js o'" "lr_BizNo (ord_Ledger o') = ''order:freeze:'' @ ord_OrderID o'"
  shows "poToOrder js (orderToPO js o') (linesToPO js o') = without_details o'"
proof -
  have "map (poToLine js) (linesToPO js o') = ord_Lines o'"
    using assms(1) by (simp add: linesToPO_def poToLine_lineToPO map_idI)
  then show ?thesis
    using assms by (simp add: poToOrder_def orderToPO_def without_details_def codec_keeps_def)
qed

lemma poToIdem_idemToPO: "poToIdem (idemToPO rec) = rec"
  by (simp add: poToIdem_def idemToPO_def)

end
