(* ===== verification/Go_Strings.thy ===== *)
theory Go_Strings
  imports Hub_Prelude "HOL-Library.Char_ord"
begin

text \<open>
  The functions of Go's \<open>strings\<close> and \<open>strconv\<close> packages that the program calls. A string is the list
  of its bytes. The functions that know about letters and white space do so for ASCII, which is all
  that the names, tokens and numbers they are applied to consist of.

  The lemmas show that what \<open>strconv\<close> reads is what \<open>Sprintf\<close> prints.
\<close>

section \<open>strings\<close>

fun is_prefix :: "string \<Rightarrow> string \<Rightarrow> bool" where
  "is_prefix [] t = True"
| "is_prefix (c # cs) [] = False"
| "is_prefix (c # cs) (d # ds) \<longleftrightarrow> c = d \<and> is_prefix cs ds"

fun contains :: "string \<Rightarrow> string \<Rightarrow> bool" where
  "contains s [] \<longleftrightarrow> is_prefix s []"
| "contains s (d # ds) \<longleftrightarrow> is_prefix s (d # ds) \<or> contains s ds"

definition lower_char :: "char \<Rightarrow> char" where
  "lower_char c = (if CHR ''A'' \<le> c \<and> c \<le> CHR ''Z'' then char_of (of_char c + 32 :: nat) else c)"

definition upper_char :: "char \<Rightarrow> char" where
  "upper_char c = (if CHR ''a'' \<le> c \<and> c \<le> CHR ''z'' then char_of (of_char c - 32 :: nat) else c)"

definition TrimPrefix :: "string \<Rightarrow> string \<Rightarrow> string" where
  "TrimPrefix s p = (if is_prefix p s then drop (length p) s else s)"

definition space_char :: "char \<Rightarrow> bool" where
  "space_char c \<longleftrightarrow> c \<in> {CHR '' '', CHR 0x09, CHR 0x0A, CHR 0x0B, CHR 0x0C, CHR 0x0D}"

definition TrimSpace :: "string \<Rightarrow> string" where
  "TrimSpace s = rev (dropWhile space_char (rev (dropWhile space_char s)))"

text \<open>\<open>strings.TrimRight(s, "/")\<close>, and the loop \<open>trim\<close> of the clients.\<close>

definition trim_slashes :: "string \<Rightarrow> string" where
  "trim_slashes s = rev (dropWhile (\<lambda>c. c = CHR ''/'') (rev s))"

text \<open>\<open>strings.Split\<close> at a separator of one byte.\<close>

fun split_at :: "char \<Rightarrow> string \<Rightarrow> string list" where
  "split_at sep [] = [[]]"
| "split_at sep (c # cs) =
     (if c = sep then [] # split_at sep cs
      else (case split_at sep cs of [] \<Rightarrow> [[c]] | p # ps \<Rightarrow> (c # p) # ps))"

section \<open>strconv\<close>

text \<open>
  \<open>ParseUint\<close> in base 10 and 64 bits stops at the first byte that is no digit, and at the first
  digit with which the number no longer fits, whatever follows.
\<close>

datatype num_error = ErrSyntax | ErrRange

fun ParseUint_loop :: "nat \<Rightarrow> string \<Rightarrow> num_error + nat" where
  "ParseUint_loop n [] = Inr n"
| "ParseUint_loop n (c # cs) =
     (if \<not> digit_char c then Inl ErrSyntax
      else if 18446744073709551615 < 10 * n + (of_char c - 48) then Inl ErrRange
      else ParseUint_loop (10 * n + (of_char c - 48)) cs)"

definition ParseUint :: "string \<Rightarrow> num_error + nat" where
  "ParseUint s = (if s = '''' then Inl ErrSyntax else ParseUint_loop 0 s)"

text \<open>The value and the error that \<open>ParseInt(s, 10, 64)\<close> returns, and so \<open>Atoi\<close>.\<close>

fun signed_value :: "bool \<Rightarrow> num_error + nat \<Rightarrow> int \<times> num_error option" where
  "signed_value neg (Inl ErrSyntax) = (0, Some ErrSyntax)"
| "signed_value neg (Inl ErrRange) = (if neg then - (2 ^ 63) else 2 ^ 63 - 1, Some ErrRange)"
| "signed_value False (Inr n) = (if 2 ^ 63 \<le> n then (2 ^ 63 - 1, Some ErrRange) else (int n, None))"
| "signed_value True (Inr n) = (if 2 ^ 63 < n then (- (2 ^ 63), Some ErrRange) else (- int n, None))"

definition ParseInt :: "string \<Rightarrow> int \<times> num_error option" where
  "ParseInt s =
     (if s \<noteq> '''' \<and> hd s = CHR ''-'' then signed_value True (ParseUint (tl s))
      else if s \<noteq> '''' \<and> hd s = CHR ''+'' then signed_value False (ParseUint (tl s))
      else signed_value False (ParseUint s))"

definition Atoi :: "string \<Rightarrow> int" where
  "Atoi s = fst (ParseInt s)"

definition ParseBool :: "string \<Rightarrow> bool option" where
  "ParseBool s =
     (if s \<in> {''1'', ''t'', ''T'', ''true'', ''TRUE'', ''True''} then Some True
      else if s \<in> {''0'', ''f'', ''F'', ''false'', ''FALSE'', ''False''} then Some False
      else None)"

text \<open>\<open>%02d\<close> for a number that is not negative.\<close>

definition pad2 :: "nat \<Rightarrow> string" where
  "pad2 n = (if n < 10 then ''0'' @ show_nat n else show_nat n)"

text \<open>Literals outside ASCII are written as the hexadecimal digits of their UTF-8 bytes.\<close>

definition nibble :: "char \<Rightarrow> nat" where
  "nibble c = (if CHR ''a'' \<le> c then of_char c - 87 else of_char c - 48)"

fun utf8 :: "string \<Rightarrow> string" where
  "utf8 (a # b # cs) = char_of (16 * nibble a + nibble b) # utf8 cs"
| "utf8 _ = []"

section \<open>Lemmas\<close>

lemma is_prefix_append [simp]: "is_prefix p (p @ s)"
  by (induction p) simp_all

lemma TrimPrefix_append [simp]: "TrimPrefix (p @ s) p = s"
  by (simp add: TrimPrefix_def)

lemma split_at_ne: "split_at sep s \<noteq> []"
  by (induction s) (auto split: list.splits)

lemma split_at_append:
  "sep \<notin> set p \<Longrightarrow> split_at sep (p @ sep # s) = p # split_at sep s"
  by (induction p) auto

lemma split_at_id: "sep \<notin> set p \<Longrightarrow> split_at sep p = [p]"
  by (induction p) auto

lemma read_nat_ge: "n \<le> read_nat s n"
proof (induction s arbitrary: n)
  case (Cons c s)
  have "n \<le> 10 * n + (of_char c - 48)" by simp
  also have "\<dots> \<le> read_nat s (10 * n + (of_char c - 48))" by (rule Cons.IH)
  finally show ?case by simp
qed simp

lemma ParseUint_loop_digits:
  "\<forall>c \<in> set s. digit_char c \<Longrightarrow> n \<le> 18446744073709551615 \<Longrightarrow>
   ParseUint_loop n s = (if read_nat s n \<le> 18446744073709551615 then Inr (read_nat s n) else Inl ErrRange)"
proof (induction s arbitrary: n)
  case (Cons c s)
  let ?n = "10 * n + (of_char c - 48)"
  show ?case
  proof (cases "18446744073709551615 < ?n")
    case True
    moreover have "?n \<le> read_nat s ?n" by (rule read_nat_ge)
    ultimately show ?thesis using Cons.prems by simp
  qed (use Cons in simp)
qed simp

lemma show_nat_ne [simp]: "show_nat n \<noteq> ''''"
  by (subst show_nat.simps) simp

lemma ParseUint_show:
  "ParseUint (show_nat n) = (if n \<le> 18446744073709551615 then Inr n else Inl ErrRange)"
  using ParseUint_loop_digits [OF show_nat_digits, of 0 n] by (simp add: ParseUint_def read_show_nat)

lemma hd_show_nat: "hd (show_nat n) \<noteq> CHR ''+''" "hd (show_nat n) \<noteq> CHR ''-''"
proof -
  have "digit_char (hd (show_nat n))" using show_nat_digits [of n] hd_in_set by simp
  then show "hd (show_nat n) \<noteq> CHR ''+''" "hd (show_nat n) \<noteq> CHR ''-''"
    by (auto simp: digit_char_def)
qed

lemma ParseInt_show: "in64 i \<Longrightarrow> ParseInt (show_int i) = (i, None)"
  by (auto simp: ParseInt_def show_int_def hd_show_nat ParseUint_show in64_def)

lemma Atoi_show: "in64 i \<Longrightarrow> Atoi (show_int i) = i"
  by (simp add: Atoi_def ParseInt_show)

lemma signed_value_in64: "in64 (fst (signed_value neg u))"
  by (cases "(neg, u)" rule: signed_value.cases) (auto simp: in64_def)

lemma ParseInt_in64: "in64 (fst (ParseInt s))"
  by (simp add: ParseInt_def signed_value_in64)

lemma read_pad2: "read_nat (pad2 n) 0 = n"
  by (simp add: pad2_def read_show_nat)

lemma pad2_inject [simp]: "pad2 m = pad2 n \<longleftrightarrow> m = n"
  by (metis read_pad2)

lemma TrimSpace_trimmed: "TrimSpace s = '''' \<longleftrightarrow> (\<forall>c \<in> set s. space_char c)"
proof
  assume "TrimSpace s = ''''"
  then have "\<forall>c \<in> set (dropWhile space_char s). space_char c"
    by (simp add: TrimSpace_def dropWhile_eq_Nil_conv)
  then have "dropWhile space_char s = []"
    using hd_dropWhile [of space_char s] hd_in_set by blast
  then show "\<forall>c \<in> set s. space_char c" by (simp add: dropWhile_eq_Nil_conv)
qed (auto simp: TrimSpace_def dropWhile_eq_Nil_conv dest: set_dropWhileD)

end
