(* ===== verification/Pg_Repo.thy ===== *)
theory Pg_Repo
  imports Persistence_Models Go_Strings
begin

text \<open>
  The Postgres repository (\<open>src/internal/infra/persistence/order_repo.go\<close>), method by method. The
  statements gorm sends to the database are parameters: \<open>Table\<close> has one operation per kind of
  statement the code uses, on an arbitrary database state \<open>'d\<close>, and \<open>DB\<close> collects the
  tables, the transactions, the clock and the collation. A \<open>WHERE\<close> clause is translated to a
  predicate on rows, in which a comparison with NULL is false; the right side of an update to
  a function on rows.
\<close>

section \<open>The database as a parameter\<close>

text \<open>
  \<open>tb_create_new\<close> is the insertion with \<open>ON CONFLICT DO NOTHING\<close>; \<open>tb_find\<close> takes the condition, the
  \<open>ORDER BY\<close> relation and the limit; \<open>tb_find_locked\<close> adds \<open>FOR UPDATE SKIP LOCKED\<close>; \<open>tb_update\<close>
  returns the number of affected rows; \<open>tb_group\<close> counts the rows per value of a column.
\<close>

record ('d, 'r) Table =
  tb_create :: "'r \<Rightarrow> ('d, unit res) state"
  tb_create_batch :: "'r list \<Rightarrow> nat \<Rightarrow> ('d, unit res) state"
  tb_create_new :: "'r \<Rightarrow> ('d, unit res) state"
  tb_first :: "('r \<Rightarrow> bool) \<Rightarrow> ('d, 'r res) state"
  tb_find :: "('r \<Rightarrow> bool) \<Rightarrow> ('r \<Rightarrow> 'r \<Rightarrow> bool) \<Rightarrow> int option \<Rightarrow> ('d, 'r list res) state"
  tb_find_locked :: "('r \<Rightarrow> bool) \<Rightarrow> ('r \<Rightarrow> 'r \<Rightarrow> bool) \<Rightarrow> int option \<Rightarrow> ('d, 'r list res) state"
  tb_update :: "('r \<Rightarrow> bool) \<Rightarrow> ('r \<Rightarrow> 'r) \<Rightarrow> ('d, int res) state"
  tb_count :: "('r \<Rightarrow> bool) \<Rightarrow> ('d, int64 res) state"
  tb_group :: "('r \<Rightarrow> bool) \<Rightarrow> ('r \<Rightarrow> string) \<Rightarrow> ('d, (string \<times> int64) list res) state"

text \<open>
  The three transaction fields are gorm's \<open>Transaction\<close> at the types of the values the closures
  hand out. \<open>db_lt\<close> is the order of the database on strings, \<open>db_format\<close> and \<open>db_parse\<close> are
  \<open>Format\<close> and \<open>time.Parse\<close> with \<open>time.RFC3339Nano\<close>.
\<close>

record 'd DB =
  db_orders :: "('d, OrderPO) Table"
  db_lines :: "('d, OrderLinePO) Table"
  db_promotions :: "('d, OrderPromotionPO) Table"
  db_legs :: "('d, OrderLedgerLegPO) Table"
  db_outbox :: "('d, OutboxPO) Table"
  db_idem :: "('d, IdempotencyPO) Table"
  db_refunds :: "('d, RefundPO) Table"
  db_comps :: "('d, CompensationPO) Table"
  db_tx_unit :: "('d, unit res) state \<Rightarrow> ('d, unit res) state"
  db_tx_order :: "('d, Order res) state \<Rightarrow> ('d, Order res) state"
  db_tx_comps :: "('d, CompensationPO list res) state \<Rightarrow> ('d, CompensationPO list res) state"
  db_now :: "('d, time) state"
  db_js :: JsonCodec
  db_lt :: "string \<Rightarrow> string \<Rightarrow> bool"
  db_format :: "time \<Rightarrow> string"
  db_parse :: "string \<Rightarrow> time option"

definition gorm_ErrRecordNotFound :: error where
  "gorm_ErrRecordNotFound = Opaque ''record not found''"

text \<open>Ascending and descending by a column; a nullable column sorts its NULLs last.\<close>

definition by_key :: "('r \<Rightarrow> 'k::linorder) \<Rightarrow> 'r \<Rightarrow> 'r \<Rightarrow> bool" where
  "by_key f a b \<longleftrightarrow> f a \<le> f b"

definition by_key_desc :: "('r \<Rightarrow> 'k::linorder) \<Rightarrow> 'r \<Rightarrow> 'r \<Rightarrow> bool" where
  "by_key_desc f a b \<longleftrightarrow> f b \<le> f a"

definition by_time :: "('r \<Rightarrow> time option) \<Rightarrow> 'r \<Rightarrow> 'r \<Rightarrow> bool" where
  "by_time f a b \<longleftrightarrow> (case f b of None \<Rightarrow> True | Some t \<Rightarrow> (case f a of None \<Rightarrow> False | Some s \<Rightarrow> s \<le> t))"

section \<open>Errors and cursors\<close>

definition mapUnique :: "error \<Rightarrow> error" where
  "mapUnique err =
     (let msg = map lower_char (error_text err) in
      if contains ''uk_orders_client'' msg \<or> contains ''client_order_id'' msg
      then Sentinel ErrClientOrderConflict
      else if contains ''uk_idem'' msg \<or> contains ''idempotency'' msg
      then Sentinel ErrIdempotencyConflict
      else if contains ''duplicate'' msg \<or> contains ''unique'' msg
      then Sentinel ErrClientOrderConflict
      else err)"

text \<open>\<open>strings.LastIndex(cursor, "|")\<close>: \<open>None\<close> for -1.\<close>

fun last_bar :: "string \<Rightarrow> nat option" where
  "last_bar [] = None"
| "last_bar (c # cs) =
     (case last_bar cs of
        Some i \<Rightarrow> Some (Suc i)
      | None \<Rightarrow> if c = CHR ''|'' then Some 0 else None)"

definition splitCursor :: "(string \<Rightarrow> time option) \<Rightarrow> string \<Rightarrow> (time \<times> string) option" where
  "splitCursor parse cursor =
     (case last_bar cursor of
        None \<Rightarrow> None
      | Some i \<Rightarrow>
          if i = 0 then None
          else (case parse (take i cursor) of
              None \<Rightarrow> None
            | Some t \<Rightarrow> Some (t, drop (Suc i) cursor)))"

text \<open>Rows newest first, and the rows that come after a cursor in that order.\<close>

definition newer :: "(string \<Rightarrow> string \<Rightarrow> bool) \<Rightarrow> time \<times> string \<Rightarrow> time \<times> string \<Rightarrow> bool" where
  "newer lt a b \<longleftrightarrow> fst b < fst a \<or> (fst b = fst a \<and> lt (snd b) (snd a))"

definition row_pos :: "OrderPO \<Rightarrow> time \<times> string" where
  "row_pos po = (po_CreatedAt po, po_OrderID po)"

definition newest :: "(string \<Rightarrow> string \<Rightarrow> bool) \<Rightarrow> OrderPO \<Rightarrow> OrderPO \<Rightarrow> bool" where
  "newest lt a b \<longleftrightarrow> row_pos a = row_pos b \<or> newer lt (row_pos a) (row_pos b)"

definition after_pos :: "'d DB \<Rightarrow> string \<Rightarrow> OrderPO \<Rightarrow> bool" where
  "after_pos db cursor po \<longleftrightarrow>
     cursor = '''' \<or>
     (case splitCursor (db_parse db) cursor of
        None \<Rightarrow> True
      | Some p \<Rightarrow> newer (db_lt db) p (row_pos po))"

definition cursor_of :: "'d DB \<Rightarrow> OrderPO \<Rightarrow> string" where
  "cursor_of db po = db_format db (po_CreatedAt po) @ ''|'' @ po_OrderID po"

section \<open>Checkout and lookups\<close>

text \<open>The loops of \<open>InsertCheckout\<close> that insert row after row and stop at the first error.\<close>

primrec create_all :: "('r \<Rightarrow> ('d, unit res) state) \<Rightarrow> 'r list \<Rightarrow> ('d, unit res) state" where
  "create_all create [] = ok ()"
| "create_all create (x # xs) = tryE (create x) (\<lambda>_. create_all create xs)"

text \<open>An error goes through a function on its way out.\<close>

definition map_err :: "(error \<Rightarrow> error) \<Rightarrow> ('s, 'a res) state \<Rightarrow> ('s, 'a res) state" where
  "map_err f m = do {
     res \<leftarrow> m;
     (case res of Inl e \<Rightarrow> fail (f e) | Inr a \<Rightarrow> ok a) }"

definition insert_rows :: "'d DB \<Rightarrow> CheckoutPersist \<Rightarrow> Order \<Rightarrow> ('d, unit res) state" where
  "insert_rows db rec o' =
     tryE (map_err mapUnique (tb_create (db_orders db) (orderToPO (db_js db) o'))) (\<lambda>_.
     tryE (if linesToPO (db_js db) o' \<noteq> []
           then tb_create_batch (db_lines db) (linesToPO (db_js db) o') 100 else ok ()) (\<lambda>_.
     tryE (create_all (tb_create (db_promotions db))
            (map (promotionToPO (db_js db) o') (ord_Promotions o'))) (\<lambda>_.
     tryE (create_all (tb_create (db_legs db)) (map (legToPO o') (ord_LedgerLegs o'))) (\<lambda>_.
     tryE (case cp_Idempotency rec of
             None \<Rightarrow> ok ()
           | Some idem \<Rightarrow> map_err mapUnique (tb_create (db_idem db) (idemToPO idem))) (\<lambda>_.
     tb_create (db_outbox db) (eventToPO (db_js db) (cp_Event rec)))))))"

definition pg_InsertCheckout :: "'d DB \<Rightarrow> CheckoutPersist \<Rightarrow> ('d, unit res) state" where
  "pg_InsertCheckout db rec =
     (case cp_Order rec of
        None \<Rightarrow> fail (Sentinel ErrInvalidArgument)
      | Some o' \<Rightarrow> db_tx_unit db (insert_rows db rec o'))"

definition not_found :: "error \<Rightarrow> error" where
  "not_found e = (if e = gorm_ErrRecordNotFound then Sentinel ErrOrderNotFound else e)"

definition order_lines :: "'d DB \<Rightarrow> string \<Rightarrow> ('d, OrderLinePO list res) state" where
  "order_lines db orderID =
     tb_find (db_lines db) (\<lambda>l. lp_OrderID l = orderID) (by_key (\<lambda>l. sint (lp_ID l))) None"

definition pg_FindByID :: "'d DB \<Rightarrow> string \<Rightarrow> string \<Rightarrow> ('d, Order res) state" where
  "pg_FindByID db tenantID orderID =
     tryE (map_err not_found (if tenantID = ''''
             then tb_first (db_orders db) (\<lambda>po. po_OrderID po = orderID)
             else tb_first (db_orders db) (\<lambda>po. po_TenantID po = tenantID \<and> po_OrderID po = orderID)))
       (\<lambda>po. tryE (order_lines db orderID) (\<lambda>lines. ok (poToOrder (db_js db) po lines)))"

definition pg_FindByClientOrderID ::
  "'d DB \<Rightarrow> string \<Rightarrow> string \<Rightarrow> string \<Rightarrow> ('d, Order res) state" where
  "pg_FindByClientOrderID db tenantID buyerID clientOrderID =
     tryE (map_err not_found (tb_first (db_orders db) (\<lambda>po. po_TenantID po = tenantID \<and>
             po_BuyerUserID po = buyerID \<and> po_ClientOrderID po = clientOrderID)))
       (\<lambda>po. tryE (order_lines db (po_OrderID po)) (\<lambda>lines. ok (poToOrder (db_js db) po lines)))"

definition pg_FindIdempotency ::
  "'d DB \<Rightarrow> string \<Rightarrow> string \<Rightarrow> string \<Rightarrow> ('d, IdempotencyRecord option res) state" where
  "pg_FindIdempotency db tenantID actor key = do {
     res \<leftarrow> tb_first (db_idem db) (\<lambda>po. ip_TenantID po = tenantID \<and> ip_Actor po = actor \<and>
              ip_IdemKey po = key);
     (case res of
        Inl e \<Rightarrow> if e = gorm_ErrRecordNotFound then ok None else fail e
      | Inr po \<Rightarrow> ok (Some (poToIdem po))) }"

text \<open>\<open>Updates(...).Error\<close>: the number of rows is not looked at.\<close>

definition error_of :: "('d, 'a res) state \<Rightarrow> ('d, unit res) state" where
  "error_of m = tryE m (\<lambda>_. ok ())"

definition pg_UpdateIdempotencyResponse ::
  "'d DB \<Rightarrow> string \<Rightarrow> string \<Rightarrow> string \<Rightarrow> bytes \<Rightarrow> ('d, unit res) state" where
  "pg_UpdateIdempotencyResponse db tenantID actor key resp =
     error_of (tb_update (db_idem db)
       (\<lambda>po. ip_TenantID po = tenantID \<and> ip_Actor po = actor \<and> ip_IdemKey po = key)
       (\<lambda>po. po\<lparr>ip_Response := resp\<rparr>))"

section \<open>Transition and the other updates of an order\<close>

definition transition_row :: "time \<Rightarrow> TransitionCmd \<Rightarrow> OrderPO \<Rightarrow> OrderPO" where
  "transition_row now cmd po =
     (let p1 = po\<lparr>po_Status := Status_String (tc_To cmd), po_Version := po_Version po + 1,
                 po_UpdatedAt := now\<rparr>;
          p2 = (case tc_PaidAmount cmd of None \<Rightarrow> p1 | Some p \<Rightarrow> p1\<lparr>po_PaidAmount := p\<rparr>);
          p3 = (if 0 <s tc_RefundedAdd cmd
                then p2\<lparr>po_RefundedAmount := po_RefundedAmount p2 + tc_RefundedAdd cmd\<rparr> else p2);
          p4 = (if tc_RedemptionID cmd \<noteq> '''' then p3\<lparr>po_RedemptionID := tc_RedemptionID cmd\<rparr> else p3);
          p5 = (if tc_PaymentIntentID cmd \<noteq> ''''
                then p4\<lparr>po_PaymentIntentID := tc_PaymentIntentID cmd\<rparr> else p4);
          p6 = (if tc_PaidAt cmd \<noteq> None then p5\<lparr>po_PaidAt := tc_PaidAt cmd\<rparr> else p5);
          p7 = (if tc_CancelledAt cmd \<noteq> None then p6\<lparr>po_CancelledAt := tc_CancelledAt cmd\<rparr> else p6)
      in (if tc_CompletedAt cmd \<noteq> None then p7\<lparr>po_CompletedAt := tc_CompletedAt cmd\<rparr> else p7))"

definition transition_where :: "TransitionCmd \<Rightarrow> OrderPO \<Rightarrow> bool" where
  "transition_where cmd po \<longleftrightarrow>
     po_TenantID po = tc_TenantID cmd \<and> po_OrderID po = tc_OrderID cmd \<and> po_Version po = tc_Version cmd \<and>
     (tc_From cmd \<noteq> [] \<longrightarrow> po_Status po \<in> set (map Status_String (tc_From cmd)))"

definition transition_tx :: "'d DB \<Rightarrow> TransitionCmd \<Rightarrow> ('d, Order res) state" where
  "transition_tx db cmd = do {
     now \<leftarrow> db_now db;
     tryE (tb_update (db_orders db) (transition_where cmd) (transition_row now cmd)) (\<lambda>n.
     if n = 0 then fail (Sentinel ErrVersionConflict)
     else tryE (case tc_Event cmd of
                  None \<Rightarrow> ok ()
                | Some ev \<Rightarrow> tb_create (db_outbox db) (eventToPO (db_js db) ev)) (\<lambda>_.
          tryE (tb_first (db_orders db)
                  (\<lambda>po. po_TenantID po = tc_TenantID cmd \<and> po_OrderID po = tc_OrderID cmd)) (\<lambda>po.
          tryE (order_lines db (tc_OrderID cmd)) (\<lambda>lines.
          ok (poToOrder (db_js db) po lines))))) }"

definition pg_Transition :: "'d DB \<Rightarrow> TransitionCmd \<Rightarrow> ('d, Order res) state" where
  "pg_Transition db cmd = db_tx_order db (transition_tx db cmd)"

definition pg_UpdatePaymentIntent ::
  "'d DB \<Rightarrow> string \<Rightarrow> string \<Rightarrow> string \<Rightarrow> string \<Rightarrow> ('d, unit res) state" where
  "pg_UpdatePaymentIntent db tenantID orderID intentID channel = do {
     now \<leftarrow> db_now db;
     error_of (tb_update (db_orders db)
       (\<lambda>po. po_TenantID po = tenantID \<and> po_OrderID po = orderID)
       (\<lambda>po. po\<lparr>po_PaymentIntentID := intentID, po_PaymentChannel := channel, po_UpdatedAt := now\<rparr>)) }"

definition pg_UpdateRedemption :: "'d DB \<Rightarrow> string \<Rightarrow> string \<Rightarrow> string \<Rightarrow> ('d, unit res) state" where
  "pg_UpdateRedemption db tenantID orderID redemptionID = do {
     now \<leftarrow> db_now db;
     error_of (tb_update (db_orders db)
       (\<lambda>po. po_TenantID po = tenantID \<and> po_OrderID po = orderID)
       (\<lambda>po. po\<lparr>po_RedemptionID := redemptionID, po_UpdatedAt := now\<rparr>)) }"

definition pg_BumpRenew :: "'d DB \<Rightarrow> string \<Rightarrow> string \<Rightarrow> int \<Rightarrow> ('d, unit res) state" where
  "pg_BumpRenew db tenantID orderID expectedCount = do {
     now \<leftarrow> db_now db;
     tryE (tb_update (db_orders db)
       (\<lambda>po. po_TenantID po = tenantID \<and> po_OrderID po = orderID \<and>
             po_Status po = Status_String StatusPendingPay \<and> po_RenewCount po = expectedCount)
       (\<lambda>po. po\<lparr>po_RenewCount := po_RenewCount po + 1, po_UpdatedAt := now\<rparr>)) (\<lambda>n.
     if n = 0 then fail (Sentinel ErrVersionConflict) else ok ()) }"

section \<open>Listing orders\<close>

text \<open>Lists are read without their lines.\<close>

definition bare_orders :: "'d DB \<Rightarrow> OrderPO list \<Rightarrow> Order list" where
  "bare_orders db pos = map (\<lambda>po. poToOrder (db_js db) po []) pos"

definition pg_ListExpiredPending :: "'d DB \<Rightarrow> time \<Rightarrow> int \<Rightarrow> ('d, Order list res) state" where
  "pg_ListExpiredPending db now limit0 =
     (let limit = (if limit0 \<le> 0 then 100 else limit0);
          due = (\<lambda>po. po_Status po = Status_String StatusPendingPay \<and>
                   (case po_ExpireAt po of None \<Rightarrow> False | Some t \<Rightarrow> t < now))
      in do {
        res \<leftarrow> tb_find_locked (db_orders db) due (by_time po_ExpireAt) (Some limit);
        tryE (case res of
                Inr pos \<Rightarrow> ok pos
              | Inl e \<Rightarrow> tb_find (db_orders db) due (by_time po_ExpireAt) (Some limit))
          (\<lambda>pos. ok (bare_orders db pos)) })"

text \<open>One row more than the page is read, to know whether there is a next page.\<close>

definition page_of :: "'d DB \<Rightarrow> int \<Rightarrow> OrderPO list \<Rightarrow> Order list \<times> string" where
  "page_of db limit pos =
     (if limit < int (length pos)
      then (bare_orders db (take (nat limit) pos), cursor_of db (pos ! (nat limit - 1)))
      else (bare_orders db pos, ''''))"

definition pg_ListByBuyer ::
  "'d DB \<Rightarrow> string \<Rightarrow> string \<Rightarrow> Status option \<Rightarrow> string \<Rightarrow> string \<Rightarrow> int \<Rightarrow> ('d, (Order list \<times> string) res) state" where
  "pg_ListByBuyer db tenantID buyerID status scene cursor limit =
     tryE (tb_find (db_orders db)
       (\<lambda>po. po_TenantID po = tenantID \<and> po_BuyerUserID po = buyerID \<and>
             (case status of None \<Rightarrow> True | Some s \<Rightarrow> po_Status po = Status_String s) \<and>
             (scene \<noteq> '''' \<longrightarrow> po_Scene po = scene) \<and> after_pos db cursor po)
       (newest (db_lt db)) (Some (limit + 1)))
     (\<lambda>pos. ok (page_of db limit pos))"

definition pg_AdminList :: "'d DB \<Rightarrow> AdminListFilter \<Rightarrow> ('d, (Order list \<times> string) res) state" where
  "pg_AdminList db f =
     tryE (tb_find (db_orders db)
       (\<lambda>po. (af_TenantID f \<noteq> '''' \<longrightarrow> po_TenantID po = af_TenantID f) \<and>
             (af_Status f \<noteq> '''' \<longrightarrow> po_Status po = af_Status f) \<and>
             (af_Scene f \<noteq> '''' \<longrightarrow> po_Scene po = af_Scene f) \<and>
             (af_Query f \<noteq> '''' \<longrightarrow> po_OrderID po = af_Query f \<or> po_ClientOrderID po = af_Query f \<or>
                po_BuyerUserID po = af_Query f) \<and> after_pos db (af_Cursor f) po)
       (newest (db_lt db)) (Some (af_Limit f + 1)))
     (\<lambda>pos. ok (page_of db (af_Limit f) pos))"

definition pg_ListPendingPayForRenew ::
  "'d DB \<Rightarrow> time \<Rightarrow> duration \<Rightarrow> int \<Rightarrow> int \<Rightarrow> ('d, Order list res) state" where
  "pg_ListPendingPayForRenew db now window maxRenew limit0 =
     (let limit = (if limit0 \<le> 0 then 100 else limit0); deadline = now + window in
      tryE (tb_find (db_orders db)
        (\<lambda>po. po_Status po = Status_String StatusPendingPay \<and> po_ReservationID po \<noteq> '''' \<and>
              (case po_ExpireAt po of None \<Rightarrow> False | Some t \<Rightarrow> now < t \<and> t \<le> deadline) \<and>
              po_RenewCount po < maxRenew)
        (by_time po_ExpireAt) (Some limit))
      (\<lambda>pos. ok (bare_orders db pos)))"

definition pg_ListForReconcile :: "'d DB \<Rightarrow> string \<Rightarrow> int \<Rightarrow> ('d, Order list res) state" where
  "pg_ListForReconcile db tenantID limit0 =
     (let limit = (if limit0 \<le> 0 then 200 else limit0) in
      tryE (tb_find (db_orders db)
        (\<lambda>po. (po_ReservationID po \<noteq> '''' \<or> 0 <s po_LedgerPayAmount po) \<and>
              (tenantID \<noteq> '''' \<longrightarrow> po_TenantID po = tenantID))
        (by_key_desc po_UpdatedAt) (Some limit))
      (\<lambda>pos. ok (bare_orders db pos)))"

section \<open>Counters\<close>

text \<open>\<open>out[row.Status] = row.N\<close> for every row.\<close>

definition status_map :: "(string \<times> int64) list \<Rightarrow> string \<rightharpoonup> int64" where
  "status_map rows = foldl (\<lambda>m row. m(fst row \<mapsto> snd row)) Map.empty rows"

definition pg_CountOrdersByStatus :: "'d DB \<Rightarrow> string \<Rightarrow> ('d, (string \<rightharpoonup> int64) res) state" where
  "pg_CountOrdersByStatus db tenantID =
     tryE (tb_group (db_orders db) (\<lambda>po. tenantID \<noteq> '''' \<longrightarrow> po_TenantID po = tenantID) po_Status)
       (\<lambda>rows. ok (status_map rows))"

definition pg_CountCompensationsByStatus :: "'d DB \<Rightarrow> ('d, (string \<rightharpoonup> int64) res) state" where
  "pg_CountCompensationsByStatus db =
     tryE (tb_group (db_comps db) (\<lambda>_. True) kp_Status) (\<lambda>rows. ok (status_map rows))"

definition pg_CountUnpublishedEvents :: "'d DB \<Rightarrow> ('d, int64 res) state" where
  "pg_CountUnpublishedEvents db = tb_count (db_outbox db) (\<lambda>ox. ox_PublishedAt ox = None)"

section \<open>Refunds and compensation tickets\<close>

definition pg_InsertRefund :: "'d DB \<Rightarrow> Refund \<Rightarrow> ('d, unit res) state" where
  "pg_InsertRefund db refund = tb_create_new (db_refunds db) (refundToPO (db_js db) refund)"

definition pg_InsertCompensation :: "'d DB \<Rightarrow> CompensationTicket \<Rightarrow> ('d, unit res) state" where
  "pg_InsertCompensation db t = do {
     now \<leftarrow> db_now db;
     tb_create (db_comps db) \<lparr>kp_ID = 0, kp_Kind = tk_Kind t, kp_TenantID = tk_TenantID t,
       kp_Ref = tk_Ref t, kp_Payload = tk_Payload t,
       kp_Status = (if tk_Status t = '''' then ''pending'' else tk_Status t), kp_Attempts = 0,
       kp_LastError = '''', kp_NextRetry = None, kp_CreatedAt = now, kp_DoneAt = None\<rparr> }"

definition retry_due :: "time \<Rightarrow> CompensationPO \<Rightarrow> bool" where
  "retry_due now row \<longleftrightarrow> (case kp_NextRetry row of None \<Rightarrow> True | Some t \<Rightarrow> t \<le> now)"

definition claim_tx :: "'d DB \<Rightarrow> time \<Rightarrow> int \<Rightarrow> ('d, CompensationPO list res) state" where
  "claim_tx db now limit =
     tryE (tb_find_locked (db_comps db) (\<lambda>row. kp_Status row = ''pending'' \<and> retry_due now row)
       (by_key (\<lambda>row. sint (kp_ID row))) (Some limit)) (\<lambda>rows.
     let ids = map kp_ID rows; claimed = map (\<lambda>row. row\<lparr>kp_Attempts := kp_Attempts row + 1\<rparr>) rows in
     if ids = [] then ok claimed
     else tryE (tb_update (db_comps db) (\<lambda>row. kp_ID row \<in> set ids)
            (\<lambda>row. row\<lparr>kp_Attempts := kp_Attempts row + 1, kp_Status := ''running''\<rparr>))
          (\<lambda>_. ok claimed))"

definition pg_ClaimCompensations :: "'d DB \<Rightarrow> time \<Rightarrow> int \<Rightarrow> ('d, CompensationTicket list res) state" where
  "pg_ClaimCompensations db now limit0 =
     (let limit = (if limit0 \<le> 0 then 50 else limit0) in do {
        res \<leftarrow> db_tx_comps db (claim_tx db now limit);
        tryE (case res of
                Inr rows \<Rightarrow> ok rows
              | Inl e \<Rightarrow> tb_find (db_comps db)
                  (\<lambda>row. kp_Status row \<in> {''pending'', ''running''} \<and> retry_due now row)
                  (by_key (\<lambda>row. sint (kp_ID row))) (Some limit))
          (\<lambda>rows. ok (map poToComp rows)) })"

definition pg_UpdateCompensation ::
  "'d DB \<Rightarrow> int64 \<Rightarrow> string \<Rightarrow> string \<Rightarrow> time option \<Rightarrow> ('d, unit res) state" where
  "pg_UpdateCompensation db i status lastErr nextRetry = do {
     now \<leftarrow> (if status = ''done'' \<or> status = ''failed'' then do { t \<leftarrow> db_now db; State_Monad.return (Some t) }
             else State_Monad.return None);
     error_of (tb_update (db_comps db) (\<lambda>row. kp_ID row = i)
       (\<lambda>row. let r1 = row\<lparr>kp_Status := status, kp_LastError := lastErr\<rparr>;
                  r2 = (if nextRetry \<noteq> None then r1\<lparr>kp_NextRetry := nextRetry\<rparr> else r1)
              in (if now \<noteq> None then r2\<lparr>kp_DoneAt := now\<rparr> else r2))) }"

definition pg_ListCompensations :: "'d DB \<Rightarrow> string \<Rightarrow> int \<Rightarrow> ('d, CompensationTicket list res) state" where
  "pg_ListCompensations db status limit0 =
     (let limit = (if limit0 \<le> 0 then 50 else limit0) in
      tryE (tb_find (db_comps db) (\<lambda>row. status \<noteq> '''' \<longrightarrow> kp_Status row = status)
        (by_key_desc (\<lambda>row. sint (kp_ID row))) (Some limit))
      (\<lambda>rows. ok (map poToComp rows)))"

definition pg_FindCompensation :: "'d DB \<Rightarrow> int64 \<Rightarrow> ('d, CompensationTicket res) state" where
  "pg_FindCompensation db i =
     tryE (map_err not_found (tb_first (db_comps db) (\<lambda>row. kp_ID row = i)))
       (\<lambda>row. ok (poToComp row))"

definition pg_HasOpenCompensation :: "'d DB \<Rightarrow> string \<Rightarrow> string \<Rightarrow> string \<Rightarrow> ('d, bool res) state" where
  "pg_HasOpenCompensation db kind tenantID ref =
     tryE (tb_count (db_comps db) (\<lambda>row. kp_Kind row = kind \<and> kp_TenantID row = tenantID \<and>
             kp_Ref row = ref \<and> kp_Status row \<in> {''pending'', ''running''}))
       (\<lambda>n. ok (0 <s n))"

section \<open>Events\<close>

definition pg_ListUnpublishedEvents :: "'d DB \<Rightarrow> int \<Rightarrow> ('d, OutboxRow list res) state" where
  "pg_ListUnpublishedEvents db limit =
     tryE (tb_find (db_outbox db) (\<lambda>ox. ox_PublishedAt ox = None) (by_key ox_CreatedAt) (Some limit))
       (\<lambda>rows. ok (map (\<lambda>ox. \<lparr>ob_EventID = ox_EventID ox, ob_Payload = ox_Payload ox,
                              ob_Attempts = ox_Attempts ox\<rparr>) rows))"

definition pg_MarkEventPublished :: "'d DB \<Rightarrow> string \<Rightarrow> ('d, unit res) state" where
  "pg_MarkEventPublished db eventID = do {
     now \<leftarrow> db_now db;
     error_of (tb_update (db_outbox db) (\<lambda>ox. ox_EventID ox = eventID)
       (\<lambda>ox. ox\<lparr>ox_PublishedAt := Some now, ox_Attempts := ox_Attempts ox + 1\<rparr>)) }"

end
