(* ===== verification/Pg_Laws.thy ===== *)
theory Pg_Laws
  imports Pg_Repo "HOL-Library.Multiset" "HOL-Library.List_Lexorder"
begin

text \<open>
  What the Postgres repository relies on: the behaviour of single statements and of transactions,
  as laws of the parameter \<open>DB\<close>. \<open>Tables\<close> is the content of the database, \<open>cur\<close> reads it off the
  state. The locale \<open>db_table\<close> has the laws of one table: a statement that fails has changed
  nothing, one that succeeds has had its effect. Any statement may fail. What comes back from a row is
  not always the bytes that were written: ids are generated, \<open>jsonb\<close> columns are normalised, and
  timestamps keep microseconds. \<open>same\<close> relates a written row to the stored one.
  \<open>relational_db\<close> puts the tables together and adds the laws of transactions.

  \<open>table_db\<close> is a database that satisfies the laws: tables as lists, statements that
  never fail.
\<close>

section \<open>The content of the database\<close>

record Tables =
  t_orders :: "OrderPO list"
  t_lines :: "OrderLinePO list"
  t_promotions :: "OrderPromotionPO list"
  t_legs :: "OrderLedgerLegPO list"
  t_outbox :: "OutboxPO list"
  t_idem :: "IdempotencyPO list"
  t_refunds :: "RefundPO list"
  t_comps :: "CompensationPO list"

definition db_fault :: "error \<Rightarrow> bool" where
  "db_fault e \<longleftrightarrow> (\<exists>m. e = Opaque m)"

text \<open>What a \<open>LIMIT\<close> leaves of the rows.\<close>

definition limited :: "int option \<Rightarrow> 'r list \<Rightarrow> 'r list" where
  "limited lim rs = (case lim of None \<Rightarrow> rs | Some n \<Rightarrow> take (nat n) rs)"

definition selects :: "('r \<Rightarrow> 'r \<Rightarrow> bool) \<Rightarrow> int option \<Rightarrow> 'r list \<Rightarrow> 'r list \<Rightarrow> bool" where
  "selects le lim rs out \<longleftrightarrow> (\<exists>s. mset s = mset rs \<and> sorted_wrt le s \<and> out = limited lim s)"

definition order_by :: "('r \<Rightarrow> 'r \<Rightarrow> bool) \<Rightarrow> bool" where
  "order_by le \<longleftrightarrow> (\<forall>a b. le a b \<or> le b a) \<and> (\<forall>a b c. le a b \<longrightarrow> le b c \<longrightarrow> le a c)"

definition tx_laws :: "('d \<Rightarrow> 't) \<Rightarrow> (('d, 'a res) state \<Rightarrow> ('d, 'a res) state) \<Rightarrow> bool" where
  "tx_laws cur tx \<longleftrightarrow> (\<forall>fc d res d'. run_state (tx fc) d = (res, d') \<longrightarrow>
     (case res of
        Inr a \<Rightarrow> (\<exists>d1 d2. cur d1 = cur d \<and> run_state fc d1 = (Inr a, d2) \<and> cur d' = cur d2)
      | Inl e \<Rightarrow> cur d' = cur d \<and>
          (db_fault e \<or> (\<exists>d1 d2. cur d1 = cur d \<and> run_state fc d1 = (Inl e, d2)))))"

locale db_table =
  fixes T :: "('d, 'r) Table" and rows :: "'t \<Rightarrow> 'r list" and put :: "'r list \<Rightarrow> 't \<Rightarrow> 't"
    and cur :: "'d \<Rightarrow> 't" and same clash :: "'r \<Rightarrow> 'r \<Rightarrow> bool"
  assumes create: "run_state (tb_create T r) d = (res, d') \<Longrightarrow>
      (case res of Inl e \<Rightarrow> db_fault e \<and> cur d' = cur d
       | Inr u \<Rightarrow> (\<forall>q \<in> set (rows (cur d)). \<not> clash q r) \<and>
           (\<exists>r'. same r r' \<and> cur d' = put (rows (cur d) @ [r']) (cur d)))"
    and create_batch: "run_state (tb_create_batch T rs n) d = (res, d') \<Longrightarrow>
      (case res of Inl e \<Rightarrow> db_fault e \<and> cur d' = cur d
       | Inr u \<Rightarrow> \<exists>rs'. list_all2 same rs rs' \<and> cur d' = put (rows (cur d) @ rs') (cur d))"
    and create_new: "run_state (tb_create_new T r) d = (res, d') \<Longrightarrow>
      (case res of Inl e \<Rightarrow> db_fault e \<and> cur d' = cur d
       | Inr u \<Rightarrow> cur d' = cur d \<or> (\<exists>r'. same r r' \<and> cur d' = put (rows (cur d) @ [r']) (cur d)))"
    and first: "run_state (tb_first T p) d = (first_res, d') \<Longrightarrow> cur d' = cur d \<and>
      (case first_res of
         Inl e \<Rightarrow> db_fault e \<and> (e = gorm_ErrRecordNotFound \<longrightarrow> (\<forall>r \<in> set (rows (cur d)). \<not> p r))
       | Inr r \<Rightarrow> r \<in> set (rows (cur d)) \<and> p r)"
    and find: "order_by le \<Longrightarrow> run_state (tb_find T p le lim) d = (find_res, d') \<Longrightarrow> cur d' = cur d \<and>
      (case find_res of Inl e \<Rightarrow> db_fault e | Inr out \<Rightarrow> selects le lim (filter p (rows (cur d))) out)"
    and find_locked: "order_by le \<Longrightarrow> run_state (tb_find_locked T p le lim) d = (find_res, d') \<Longrightarrow> cur d' = cur d \<and>
      (case find_res of Inl e \<Rightarrow> db_fault e
       | Inr out \<Rightarrow> \<exists>free. mset free \<subseteq># mset (filter p (rows (cur d))) \<and> selects le lim free out)"
    and update: "run_state (tb_update T p f) d = (upd_res, d') \<Longrightarrow>
      (case upd_res of Inl e \<Rightarrow> db_fault e \<and> cur d' = cur d
       | Inr n \<Rightarrow> n = int (length (filter p (rows (cur d)))) \<and>
           (\<exists>rs'. list_all2 (\<lambda>r r'. if p r then same (f r) r' else r' = r) (rows (cur d)) rs' \<and>
              cur d' = put rs' (cur d)))"
    and count: "run_state (tb_count T p) d = (count_res, d') \<Longrightarrow> cur d' = cur d \<and>
      (case count_res of Inl e \<Rightarrow> db_fault e | Inr n \<Rightarrow> n = of_nat (length (filter p (rows (cur d)))))"
begin

lemma vc_create:
  assumes "\<And>e. db_fault e \<Longrightarrow> Q (Inl e) t"
    and "\<And>r'. same r r' \<Longrightarrow> \<forall>q \<in> set (rows t). \<not> clash q r \<Longrightarrow> Q (Inr ()) (put (rows t @ [r']) t)"
  shows "vc cur (tb_create T r) Q t"
  unfolding vc_def using assms by (auto split: prod.split dest!: create split: sum.splits)

lemma vc_create_batch:
  assumes "\<And>e. db_fault e \<Longrightarrow> Q (Inl e) t"
    and "\<And>rs'. list_all2 same rs rs' \<Longrightarrow> Q (Inr ()) (put (rows t @ rs') t)"
  shows "vc cur (tb_create_batch T rs n) Q t"
  unfolding vc_def using assms by (auto split: prod.split dest!: create_batch split: sum.splits)

lemma vc_first:
  assumes "\<And>e. db_fault e \<Longrightarrow> (e = gorm_ErrRecordNotFound \<longrightarrow> (\<forall>r \<in> set (rows t). \<not> p r)) \<Longrightarrow> Q (Inl e) t"
    and "\<And>r. r \<in> set (rows t) \<Longrightarrow> p r \<Longrightarrow> Q (Inr r) t"
  shows "vc cur (tb_first T p) Q t"
  unfolding vc_def using assms by (auto split: prod.split dest!: first split: sum.splits)

lemma vc_find:
  assumes "order_by le"
    and "\<And>e. db_fault e \<Longrightarrow> Q (Inl e) t"
    and "\<And>out. selects le lim (filter p (rows t)) out \<Longrightarrow> Q (Inr out) t"
  shows "vc cur (tb_find T p le lim) Q t"
  unfolding vc_def using assms by (auto split: prod.split dest!: find split: sum.splits)

lemma vc_find_locked:
  assumes "order_by le"
    and "\<And>e. db_fault e \<Longrightarrow> Q (Inl e) t"
    and "\<And>out free. mset free \<subseteq># mset (filter p (rows t)) \<Longrightarrow> selects le lim free out \<Longrightarrow> Q (Inr out) t"
  shows "vc cur (tb_find_locked T p le lim) Q t"
  unfolding vc_def using assms by (auto split: prod.split dest!: find_locked split: sum.splits)

lemma vc_update:
  assumes "\<And>e. db_fault e \<Longrightarrow> Q (Inl e) t"
    and "\<And>rs'. list_all2 (\<lambda>r r'. if p r then same (f r) r' else r' = r) (rows t) rs' \<Longrightarrow>
      Q (Inr (int (length (filter p (rows t))))) (put rs' t)"
  shows "vc cur (tb_update T p f) Q t"
  unfolding vc_def using assms by (auto split: prod.split dest!: update split: sum.splits)

lemma vc_count:
  assumes "\<And>e. db_fault e \<Longrightarrow> Q (Inl e) t"
    and "Q (Inr (of_nat (length (filter p (rows t))))) t"
  shows "vc cur (tb_count T p) Q t"
  unfolding vc_def using assms by (auto split: prod.split dest!: count split: sum.splits)

end

lemma order_by_keys: "order_by (by_key f)" "order_by (by_key_desc f)" "order_by (by_time g)"
  by (auto simp: order_by_def by_key_def by_key_desc_def by_time_def split: option.splits)

section \<open>Rows as written and as stored\<close>

definition order_row_same :: "JsonCodec \<Rightarrow> (time \<Rightarrow> time) \<Rightarrow> OrderPO \<Rightarrow> OrderPO \<Rightarrow> bool" where
  "order_row_same js rnd r r' \<longleftrightarrow> (\<exists>ctx created updated.
     r' = r\<lparr>po_ExpireAt := map_option rnd (po_ExpireAt r), po_ContextJSON := ctx,
       po_CreatedAt := rnd created, po_UpdatedAt := rnd updated,
       po_PaidAt := map_option rnd (po_PaidAt r),
       po_CancelledAt := map_option rnd (po_CancelledAt r),
       po_CompletedAt := map_option rnd (po_CompletedAt r)\<rparr> \<and>
     (po_ContextJSON r \<noteq> '''' \<longrightarrow> ctx \<noteq> '''' \<and> js_un_any js ctx = js_un_any js (po_ContextJSON r)) \<and>
     (po_CreatedAt r \<noteq> 0 \<longrightarrow> created = po_CreatedAt r) \<and>
     (po_UpdatedAt r \<noteq> 0 \<longrightarrow> updated = po_UpdatedAt r))"

definition line_row_same :: "JsonCodec \<Rightarrow> OrderLinePO \<Rightarrow> OrderLinePO \<Rightarrow> bool" where
  "line_row_same js r r' \<longleftrightarrow> (\<exists>i attr snap created.
     r' = r\<lparr>lp_ID := i, lp_AttributesJSON := attr, lp_SnapshotJSON := snap, lp_CreatedAt := created\<rparr> \<and>
     (lp_AttributesJSON r \<noteq> '''' \<longrightarrow>
        attr \<noteq> '''' \<and> js_un_str js attr = js_un_str js (lp_AttributesJSON r)) \<and>
     (lp_SnapshotJSON r \<noteq> '''' \<longrightarrow>
        snap \<noteq> '''' \<and> js_un_any js snap = js_un_any js (lp_SnapshotJSON r)))"

text \<open>Of the other tables only the key columns matter below.\<close>

definition outbox_row_same :: "OutboxPO \<Rightarrow> OutboxPO \<Rightarrow> bool" where
  "outbox_row_same r r' \<longleftrightarrow> ox_EventID r' = ox_EventID r \<and> ox_Attempts r' = ox_Attempts r \<and>
     (ox_PublishedAt r' = None \<longleftrightarrow> ox_PublishedAt r = None)"

definition idem_row_same :: "IdempotencyPO \<Rightarrow> IdempotencyPO \<Rightarrow> bool" where
  "idem_row_same r r' \<longleftrightarrow> ip_TenantID r' = ip_TenantID r \<and> ip_Actor r' = ip_Actor r \<and>
     ip_IdemKey r' = ip_IdemKey r \<and> ip_RequestHash r' = ip_RequestHash r \<and> ip_OrderID r' = ip_OrderID r"

definition comp_row_same :: "CompensationPO \<Rightarrow> CompensationPO \<Rightarrow> bool" where
  "comp_row_same r r' \<longleftrightarrow> kp_Kind r' = kp_Kind r \<and> kp_TenantID r' = kp_TenantID r \<and>
     kp_Ref r' = kp_Ref r \<and> kp_Payload r' = kp_Payload r \<and> kp_Status r' = kp_Status r \<and>
     kp_Attempts r' = kp_Attempts r \<and> kp_LastError r' = kp_LastError r \<and>
     (kp_ID r \<noteq> 0 \<longrightarrow> kp_ID r' = kp_ID r)"

definition any_row :: "'r \<Rightarrow> 'r \<Rightarrow> bool" where
  "any_row r r' = True"

text \<open>The primary keys and unique indexes.\<close>

definition order_clash :: "OrderPO \<Rightarrow> OrderPO \<Rightarrow> bool" where
  "order_clash q r \<longleftrightarrow> po_OrderID q = po_OrderID r \<or>
     (po_TenantID q = po_TenantID r \<and> po_BuyerUserID q = po_BuyerUserID r \<and>
      po_ClientOrderID q = po_ClientOrderID r)"

definition outbox_clash :: "OutboxPO \<Rightarrow> OutboxPO \<Rightarrow> bool" where
  "outbox_clash q r \<longleftrightarrow> ox_EventID q = ox_EventID r"

definition idem_clash :: "IdempotencyPO \<Rightarrow> IdempotencyPO \<Rightarrow> bool" where
  "idem_clash q r \<longleftrightarrow> ip_TenantID q = ip_TenantID r \<and> ip_Actor q = ip_Actor r \<and> ip_IdemKey q = ip_IdemKey r"

definition no_clash :: "'r \<Rightarrow> 'r \<Rightarrow> bool" where
  "no_clash q r = False"

locale relational_db =
  fixes db :: "'d DB" and cur :: "'d \<Rightarrow> Tables" and rnd :: "time \<Rightarrow> time"
  assumes t_ord: "db_table (db_orders db) t_orders (\<lambda>rs. t_orders_update (\<lambda>_. rs)) cur
      (order_row_same (db_js db) rnd) order_clash"
    and t_lin: "db_table (db_lines db) t_lines (\<lambda>rs. t_lines_update (\<lambda>_. rs)) cur
      (line_row_same (db_js db)) no_clash"
    and t_pro: "db_table (db_promotions db) t_promotions (\<lambda>rs. t_promotions_update (\<lambda>_. rs)) cur any_row no_clash"
    and t_leg: "db_table (db_legs db) t_legs (\<lambda>rs. t_legs_update (\<lambda>_. rs)) cur any_row no_clash"
    and t_out: "db_table (db_outbox db) t_outbox (\<lambda>rs. t_outbox_update (\<lambda>_. rs)) cur outbox_row_same outbox_clash"
    and t_ide: "db_table (db_idem db) t_idem (\<lambda>rs. t_idem_update (\<lambda>_. rs)) cur idem_row_same idem_clash"
    and t_ref: "db_table (db_refunds db) t_refunds (\<lambda>rs. t_refunds_update (\<lambda>_. rs)) cur any_row no_clash"
    and t_cmp: "db_table (db_comps db) t_comps (\<lambda>rs. t_comps_update (\<lambda>_. rs)) cur comp_row_same no_clash"
    and tx_unit: "tx_laws cur (db_tx_unit db)"
    and tx_order: "tx_laws cur (db_tx_order db)"
    and tx_comps: "tx_laws cur (db_tx_comps db)"
    and now: "run_state (db_now db) d = (tnow, d') \<Longrightarrow> cur d' = cur d"
    and lt_irrefl: "\<not> db_lt db a a" and lt_total: "a = b \<or> db_lt db a b \<or> db_lt db b a"
    and lt_trans: "db_lt db a b \<Longrightarrow> db_lt db b c \<Longrightarrow> db_lt db a c"
begin

lemma order_by_newest: "order_by (newest (db_lt db))"
proof -
  have "newest (db_lt db) a b \<or> newest (db_lt db) b a" for a b
    using lt_total [of "snd (row_pos a)" "snd (row_pos b)"]
    by (auto simp: newest_def newer_def prod_eq_iff)
  moreover have "newest (db_lt db) a c" if "newest (db_lt db) a b" "newest (db_lt db) b c" for a b c
    using that lt_trans [of "snd (row_pos c)" "snd (row_pos b)" "snd (row_pos a)"]
    by (auto simp: newest_def newer_def)
  ultimately show ?thesis by (auto simp: order_by_def)
qed

lemma vc_now: "(\<And>tnow. Q tnow t) \<Longrightarrow> vc cur (db_now db) Q t"
  unfolding vc_def by (auto dest: now split: prod.split)

lemmas vc_orders = db_table.vc_create [OF t_ord] db_table.vc_first [OF t_ord] db_table.vc_find [OF t_ord]
  db_table.vc_find_locked [OF t_ord] db_table.vc_update [OF t_ord]

lemmas vc_lines = db_table.vc_create_batch [OF t_lin] db_table.vc_find [OF t_lin]

lemmas vc_details = db_table.vc_create [OF t_pro] db_table.vc_create [OF t_leg]

lemmas vc_outbox = db_table.vc_create [OF t_out] db_table.vc_find [OF t_out] db_table.vc_update [OF t_out]
  db_table.vc_count [OF t_out]

lemmas vc_idem = db_table.vc_create [OF t_ide] db_table.vc_first [OF t_ide] db_table.vc_update [OF t_ide]

lemmas vc_comps = db_table.vc_create [OF t_cmp] db_table.vc_first [OF t_cmp] db_table.vc_find [OF t_cmp]
  db_table.vc_find_locked [OF t_cmp] db_table.vc_update [OF t_cmp] db_table.vc_count [OF t_cmp]

end

text \<open>A transaction keeps what its body does when it commits and nothing otherwise.\<close>

lemma vc_tx:
  assumes laws: "tx_laws cur tx"
    and body: "vc cur fc (\<lambda>res t'. case res of Inl e \<Rightarrow> Q (Inl e) t | Inr a \<Rightarrow> Q (Inr a) t') t"
    and fault: "\<And>e. db_fault e \<Longrightarrow> Q (Inl e) t"
  shows "vc cur (tx fc) Q t"
  unfolding vc_def
proof (intro allI impI, simp split: prod.split, intro allI impI)
  fix d res d' assume t: "cur d = t" and run: "run_state (tx fc) d = (res, d')"
  have b: "case res of Inl e \<Rightarrow> Q (Inl e) t | Inr a \<Rightarrow> Q (Inr a) (cur d2)"
    if "cur d1 = cur d" "run_state fc d1 = (res, d2)" for d1 d2 res
    using body that t by (auto simp: vc_def)
  show "Q res (cur d')"
    using laws [unfolded tx_laws_def, rule_format, OF run] t fault
    by (cases res) (auto dest!: b)
qed

section \<open>A database of lists\<close>

primrec insert_by :: "('r \<Rightarrow> 'r \<Rightarrow> bool) \<Rightarrow> 'r \<Rightarrow> 'r list \<Rightarrow> 'r list" where
  "insert_by le x [] = [x]"
| "insert_by le x (y # ys) = (if le x y then x # y # ys else y # insert_by le x ys)"

definition sort_by :: "('r \<Rightarrow> 'r \<Rightarrow> bool) \<Rightarrow> 'r list \<Rightarrow> 'r list" where
  "sort_by le rs = foldr (insert_by le) rs []"

definition duplicate :: error where
  "duplicate = Opaque ''duplicate key value violates unique constraint''"

definition list_table ::
  "('t \<Rightarrow> 'r list) \<Rightarrow> ('r list \<Rightarrow> 't \<Rightarrow> 't) \<Rightarrow> ('r list \<Rightarrow> 'r \<Rightarrow> 'r) \<Rightarrow> ('r \<Rightarrow> 'r \<Rightarrow> bool) \<Rightarrow> ('t, 'r) Table" where
  "list_table rows put number clash = \<lparr>
     tb_create = (\<lambda>r. State (\<lambda>t. if \<exists>q \<in> set (rows t). clash q r then (Inl duplicate, t)
       else (Inr (), put (rows t @ [number (rows t) r]) t))),
     tb_create_batch = (\<lambda>rs n. State (\<lambda>t.
       (Inr (), put (fold (\<lambda>r out. out @ [number out r]) rs (rows t)) t))),
     tb_create_new = (\<lambda>r. State (\<lambda>t. if \<exists>q \<in> set (rows t). clash q r then (Inr (), t)
       else (Inr (), put (rows t @ [number (rows t) r]) t))),
     tb_first = (\<lambda>p. State (\<lambda>t. case find p (rows t) of
       None \<Rightarrow> (Inl gorm_ErrRecordNotFound, t) | Some r \<Rightarrow> (Inr r, t))),
     tb_find = (\<lambda>p le lim. State (\<lambda>t. (Inr (limited lim (sort_by le (filter p (rows t)))), t))),
     tb_find_locked = (\<lambda>p le lim. State (\<lambda>t. (Inr (limited lim (sort_by le (filter p (rows t)))), t))),
     tb_update = (\<lambda>p f. State (\<lambda>t. (Inr (int (length (filter p (rows t)))),
       put (map (\<lambda>r. if p r then f r else r) (rows t)) t))),
     tb_count = (\<lambda>p. State (\<lambda>t. (Inr (of_nat (length (filter p (rows t)))), t))),
     tb_group = (\<lambda>p f. State (\<lambda>t. (Inr (map (\<lambda>k. (k, of_nat (length (filter (\<lambda>r. f r = k) (filter p (rows t))))))
       (remdups (map f (filter p (rows t))))), t)))\<rparr>"

lemma mset_insert_by [simp]: "mset (insert_by le x ys) = add_mset x (mset ys)"
  by (induction ys) auto

lemma mset_sort_by [simp]: "mset (sort_by le rs) = mset rs"
  by (induction rs) (simp_all add: sort_by_def)

lemma set_insert_by [simp]: "set (insert_by le x ys) = insert x (set ys)"
  by (induction ys) auto

lemma sorted_insert_by: "order_by le \<Longrightarrow> sorted_wrt le ys \<Longrightarrow> sorted_wrt le (insert_by le x ys)"
  by (induction ys) (auto simp: order_by_def)

lemma sorted_sort_by: "order_by le \<Longrightarrow> sorted_wrt le (sort_by le rs)"
  by (induction rs) (simp_all add: sort_by_def sorted_insert_by)

lemma selects_sort_by: "order_by le \<Longrightarrow> selects le lim rs (limited lim (sort_by le rs))"
  unfolding selects_def by (intro exI [of _ "sort_by le rs"]) (simp add: sorted_sort_by)

lemma fold_number:
  assumes "\<And>out r. same r (number out r)"
  shows "\<exists>rs'. list_all2 same rs rs' \<and> fold (\<lambda>r out. out @ [number out r]) rs out = out @ rs'"
proof (induction rs arbitrary: out)
  case (Cons r rs)
  obtain rs' where "list_all2 same rs rs'"
    "fold (\<lambda>r out. out @ [number out r]) rs (out @ [number out r]) = (out @ [number out r]) @ rs'"
    using Cons.IH by blast
  then show ?case using assms [of r out] by (intro exI [of _ "number out r # rs'"]) simp
qed simp

lemma list_table_laws:
  assumes number: "\<And>out r. same r (number out r)" and refl: "\<And>r. same r r"
  shows "db_table (list_table rows put number clash) rows put (\<lambda>t. t) same clash"
proof -
  have add: "\<exists>r'. same r r' \<and> put (rows d @ [number (rows d) r]) d = put (rows d @ [r']) d" for r d
    using number by blast
  have lock: "\<exists>free. mset free \<subseteq># filter_mset p (mset (rows d)) \<and>
      selects le lim free (limited lim (sort_by le (filter p (rows d))))" if "order_by le" for le p lim d
    using selects_sort_by [OF that, of lim "filter p (rows d)"] by (intro exI [of _ "filter p (rows d)"]) simp
  show ?thesis
  proof
    show "case res of Inl e \<Rightarrow> db_fault e \<and> d' = d
      | Inr u \<Rightarrow> \<exists>rs'. list_all2 same rs rs' \<and> d' = put (rows d @ rs') d"
      if "run_state (tb_create_batch (list_table rows put number clash) rs n) d = (res, d')" for rs n d res d'
      using that fold_number [of same number rs "rows d", OF number] by (auto simp: list_table_def)
    show "case res of Inl e \<Rightarrow> db_fault e \<and> d' = d
      | Inr n \<Rightarrow> n = int (length (filter p (rows d))) \<and>
          (\<exists>rs'. list_all2 (\<lambda>r r'. if p r then same (f r) r' else r' = r) (rows d) rs' \<and> d' = put rs' d)"
      if "run_state (tb_update (list_table rows put number clash) p f) d = (res, d')" for p f d res d'
    proof -
      have "list_all2 (\<lambda>r r'. if p r then same (f r) r' else r' = r) (rows d)
          (map (\<lambda>r. if p r then f r else r) (rows d))"
        using refl by (auto simp: list_all2_map2 intro!: list.rel_refl)
      moreover have r: "res = Inr (int (length (filter p (rows d))))"
        "d' = put (map (\<lambda>r. if p r then f r else r) (rows d)) d"
        using that by (simp_all add: list_table_def)
      ultimately show ?thesis unfolding r sum.case by blast
    qed
  qed (auto simp: list_table_def add lock db_fault_def duplicate_def gorm_ErrRecordNotFound_def find_None_iff
      find_Some_iff selects_sort_by split: option.splits if_splits)
qed

definition plain_tx :: "('d, 'a res) state \<Rightarrow> ('d, 'a res) state" where
  "plain_tx fc = State (\<lambda>d. case run_state fc d of (Inl e, d') \<Rightarrow> (Inl e, d) | (Inr a, d') \<Rightarrow> (Inr a, d'))"

lemma plain_tx_laws: "tx_laws (\<lambda>t. t) plain_tx"
  by (auto simp: tx_laws_def plain_tx_def split: sum.splits prod.splits)

definition table_db :: "JsonCodec \<Rightarrow> (time \<Rightarrow> string) \<Rightarrow> (string \<Rightarrow> time option) \<Rightarrow> time \<Rightarrow> Tables DB" where
  "table_db js fmt parse now = \<lparr>
     db_orders = list_table t_orders (\<lambda>rs. t_orders_update (\<lambda>_. rs)) (\<lambda>_ r. r) order_clash,
     db_lines = list_table t_lines (\<lambda>rs. t_lines_update (\<lambda>_. rs))
       (\<lambda>out r. r\<lparr>lp_ID := of_nat (length out) + 1\<rparr>) no_clash,
     db_promotions = list_table t_promotions (\<lambda>rs. t_promotions_update (\<lambda>_. rs)) (\<lambda>_ r. r) no_clash,
     db_legs = list_table t_legs (\<lambda>rs. t_legs_update (\<lambda>_. rs)) (\<lambda>_ r. r) no_clash,
     db_outbox = list_table t_outbox (\<lambda>rs. t_outbox_update (\<lambda>_. rs)) (\<lambda>_ r. r) outbox_clash,
     db_idem = list_table t_idem (\<lambda>rs. t_idem_update (\<lambda>_. rs)) (\<lambda>_ r. r) idem_clash,
     db_refunds = list_table t_refunds (\<lambda>rs. t_refunds_update (\<lambda>_. rs)) (\<lambda>_ r. r) no_clash,
     db_comps = list_table t_comps (\<lambda>rs. t_comps_update (\<lambda>_. rs))
       (\<lambda>out r. if kp_ID r = 0 then r\<lparr>kp_ID := of_nat (length out) + 1\<rparr> else r) no_clash,
     db_tx_unit = plain_tx, db_tx_order = plain_tx, db_tx_comps = plain_tx,
     db_now = State_Monad.return now, db_js = js, db_lt = (\<lambda>a b. a < b), db_format = fmt,
     db_parse = parse\<rparr>"

definition no_rows :: Tables where
  "no_rows = \<lparr>t_orders = [], t_lines = [], t_promotions = [], t_legs = [], t_outbox = [], t_idem = [],
     t_refunds = [], t_comps = []\<rparr>"

lemma row_same_refl: "order_row_same js (\<lambda>x. x) r r" "line_row_same js l (l\<lparr>lp_ID := i\<rparr>)" "line_row_same js l l"
proof -
  show "order_row_same js (\<lambda>x. x) r r" unfolding order_row_same_def
    by (intro exI [of _ "po_ContextJSON r"] exI [of _ "po_CreatedAt r"] exI [of _ "po_UpdatedAt r"])
      (simp add: option.map_ident)
  have l: "line_row_same js l (l\<lparr>lp_ID := i\<rparr>)" for i unfolding line_row_same_def
    by (intro exI [of _ i] exI [of _ "lp_AttributesJSON l"] exI [of _ "lp_SnapshotJSON l"]
        exI [of _ "lp_CreatedAt l"]) simp
  show "line_row_same js l (l\<lparr>lp_ID := i\<rparr>)" by (rule l)
  show "line_row_same js l l" using l [of "lp_ID l"] by simp
qed

interpretation tables: relational_db "table_db js fmt parse now" "\<lambda>t. t" "\<lambda>x. x"
  by (rule relational_db.intro)
    (auto simp: table_db_def plain_tx_laws row_same_refl any_row_def outbox_row_same_def idem_row_same_def
      comp_row_same_def intro!: list_table_laws)

end
