(* ===== verification/Memory_Repo.thy ===== *)
theory Memory_Repo
  imports Ports "HOL-Library.Product_Lexorder"
begin

text \<open>
  The in-memory order repository (\<open>src/internal/infra/memory/order_repo.go\<close>), operation by
  operation. Every method holds the mutex from its first to its last statement, so each is one
  function on the state \<^term>\<open>r\<close>. \<open>clone\<close> makes a value copy and is the identity here. The map of
  orders is an association list; where the code ranges over it, Go visits the entries in an order
  of its own choosing, and the definition takes a seed that selects that order (\<open>permute\<close>).

  The lemmas give the behaviour of \<open>Transition\<close> on every branch, the well-formedness of the
  key space and that all operations keep it, and that a checkout inserts one order, one idempotency
  record and one event, or nothing.
\<close>

section \<open>Iterating over a map\<close>

text \<open>Some order of the elements, chosen by the seed; every order is the one of some seed.\<close>

fun permute :: "nat list \<Rightarrow> 'a list \<Rightarrow> 'a list" where
  "permute [] xs = xs"
| "permute (n # ns) [] = []"
| "permute (n # ns) (x # xs) =
     (let ys = x # xs; i = n mod length ys in ys ! i # permute ns (take i ys @ drop (Suc i) ys))"

section \<open>State\<close>

text \<open>
  \<open>events\<close> is a slice whose backing array is shared with the slice \<open>ListUnpublishedEvents\<close> may
  hand out, so the array is modelled beyond the length of the slice: \<open>ev_stale\<close> is what lies behind
  its last element. Appending overwrites the first stale cell, if there is one.
\<close>

record OrderRepo =
  orders :: "(string \<times> Order) list"
  idem :: "string \<rightharpoonup> IdempotencyRecord"
  events :: "OutboxRow list"
  ev_stale :: "OutboxRow list"
  refunds :: "Refund list"
  tickets :: "CompensationTicket list"
  seq :: int64
  clientIx :: "string \<rightharpoonup> string"

definition NewOrderRepo :: OrderRepo where
  "NewOrderRepo = \<lparr>orders = [], idem = Map.empty, events = [], ev_stale = [], refunds = [], tickets = [],
     seq = 0, clientIx = Map.empty\<rparr>"

definition idemKey :: "string \<Rightarrow> string \<Rightarrow> string \<Rightarrow> string" where
  "idemKey tenant actor key = tenant @ ''|'' @ actor @ ''|'' @ key"

definition clientKey :: "string \<Rightarrow> string \<Rightarrow> string \<Rightarrow> string" where
  "clientKey tenant buyer cid = tenant @ ''|'' @ buyer @ ''|'' @ cid"

definition order_key :: "string \<Rightarrow> string \<Rightarrow> string" where
  "order_key tenant orderID = tenant @ ''|'' @ orderID"

definition lookup_order :: "OrderRepo \<Rightarrow> string \<Rightarrow> string \<Rightarrow> Order option" where
  "lookup_order r tenant orderID = map_of (orders r) (order_key tenant orderID)"

definition put_order :: "string \<Rightarrow> string \<Rightarrow> Order \<Rightarrow> OrderRepo \<Rightarrow> OrderRepo" where
  "put_order tenant orderID o' r =
     r\<lparr>orders := AList.update (order_key tenant orderID) o' (orders r)\<rparr>"

definition append_event :: "OutboxRow \<Rightarrow> OrderRepo \<Rightarrow> OrderRepo" where
  "append_event row r = r\<lparr>events := events r @ [row], ev_stale := tl (ev_stale r)\<rparr>"

section \<open>Checkout and lookups\<close>

definition outbox_row :: "(Event \<Rightarrow> bytes) \<Rightarrow> Event \<Rightarrow> OutboxRow" where
  "outbox_row marshal ev = \<lparr>ob_EventID = ev_EventID ev, ob_Payload = marshal ev, ob_Attempts = 0\<rparr>"

text \<open>The idempotency part: a key that is present is a conflict, with either request hash.\<close>

definition InsertCheckout_idem ::
  "IdempotencyRecord option \<Rightarrow> OrderRepo \<Rightarrow> OrderRepo res" where
  "InsertCheckout_idem rec_opt r =
     (case rec_opt of
        None \<Rightarrow> Inr r
      | Some rec \<Rightarrow>
          (let ik = idemKey (ir_TenantID rec) (ir_Actor rec) (ir_Key rec) in
           case idem r ik of
             Some old \<Rightarrow>
               if ir_RequestHash old \<noteq> ir_RequestHash rec
               then Inl (Sentinel ErrIdempotencyConflict)
               else Inl (Sentinel ErrIdempotencyConflict)
           | None \<Rightarrow> Inr (r\<lparr>idem := (idem r)(ik \<mapsto> rec)\<rparr>)))"

definition repo_InsertCheckout ::
  "(Event \<Rightarrow> bytes) \<Rightarrow> CheckoutPersist \<Rightarrow> OrderRepo \<Rightarrow> unit res \<times> OrderRepo" where
  "repo_InsertCheckout marshal rec r =
     (case cp_Order rec of
        None \<Rightarrow> (Inl (Sentinel ErrInvalidArgument), r)
      | Some o' \<Rightarrow>
          (let ck = clientKey (ord_TenantID o') (ord_BuyerUserID o') (ord_ClientOrderID o') in
           if clientIx r ck \<noteq> None then (Inl (Sentinel ErrClientOrderConflict), r)
           else (case InsertCheckout_idem (cp_Idempotency rec) r of
               Inl e \<Rightarrow> (Inl e, r)
             | Inr r1 \<Rightarrow>
                 (let r2 = put_order (ord_TenantID o') (ord_OrderID o') o' r1;
                      r3 = r2\<lparr>clientIx := (clientIx r2)(ck \<mapsto> ord_OrderID o')\<rparr>
                  in (Inr (), append_event (outbox_row marshal (cp_Event rec)) r3)))))"

definition repo_FindByID :: "nat list \<Rightarrow> string \<Rightarrow> string \<Rightarrow> OrderRepo \<Rightarrow> Order res" where
  "repo_FindByID seed tenantID orderID r =
     (case find (\<lambda>o'. ord_OrderID o' = orderID \<and> (tenantID = '''' \<or> ord_TenantID o' = tenantID))
             (permute seed (map snd (orders r))) of
        None \<Rightarrow> Inl (Sentinel ErrOrderNotFound)
      | Some o' \<Rightarrow> Inr o')"

text \<open>The result is nil, without an error, when the index names an order that is not stored.\<close>

definition repo_FindByClientOrderID ::
  "string \<Rightarrow> string \<Rightarrow> string \<Rightarrow> OrderRepo \<Rightarrow> Order option res" where
  "repo_FindByClientOrderID tenantID buyerID clientOrderID r =
     (case clientIx r (clientKey tenantID buyerID clientOrderID) of
        None \<Rightarrow> Inl (Sentinel ErrOrderNotFound)
      | Some i \<Rightarrow> Inr (lookup_order r tenantID i))"

definition repo_FindIdempotency ::
  "string \<Rightarrow> string \<Rightarrow> string \<Rightarrow> OrderRepo \<Rightarrow> IdempotencyRecord option" where
  "repo_FindIdempotency tenantID actor key r = idem r (idemKey tenantID actor key)"

definition repo_UpdateIdempotencyResponse ::
  "string \<Rightarrow> string \<Rightarrow> string \<Rightarrow> bytes \<Rightarrow> OrderRepo \<Rightarrow> unit res \<times> OrderRepo" where
  "repo_UpdateIdempotencyResponse tenantID actor key resp r =
     (let ik = idemKey tenantID actor key in
      case idem r ik of
        None \<Rightarrow> (Inr (), r)
      | Some rec \<Rightarrow> (Inr (), r\<lparr>idem := (idem r)(ik \<mapsto> rec\<lparr>ir_Response := resp\<rparr>)\<rparr>))"

section \<open>Transition and the other updates of an order\<close>

text \<open>What \<open>Transition\<close> does to the order once the state machine has accepted it.\<close>

definition apply_cmd :: "time \<Rightarrow> TransitionCmd \<Rightarrow> Order \<Rightarrow> Order" where
  "apply_cmd tnow cmd o0 =
     (let o1 = (case tc_PaidAmount cmd of None \<Rightarrow> o0
                | Some p \<Rightarrow> o0\<lparr>ord_Amounts := (ord_Amounts o0)\<lparr>amt_Paid := p\<rparr>\<rparr>);
          o2 = (if 0 <s tc_RefundedAdd cmd
                then o1\<lparr>ord_Amounts := (ord_Amounts o1)
                       \<lparr>amt_Refunded := amt_Refunded (ord_Amounts o1) + tc_RefundedAdd cmd\<rparr>\<rparr>
                else o1);
          o3 = (if tc_RedemptionID cmd \<noteq> ''''
                then o2\<lparr>ord_Promotion := (ord_Promotion o2)\<lparr>pr_RedemptionID := tc_RedemptionID cmd\<rparr>\<rparr>
                else o2);
          o4 = (if tc_PaymentIntentID cmd \<noteq> ''''
                then o3\<lparr>ord_Payment := (ord_Payment o3)
                       \<lparr>py_PaymentIntentID := tc_PaymentIntentID cmd\<rparr>\<rparr>
                else o3)
      in o4\<lparr>ord_PaidAt := tc_PaidAt cmd, ord_CancelledAt := tc_CancelledAt cmd,
            ord_CompletedAt := tc_CompletedAt cmd, ord_UpdatedAt := tnow\<rparr>)"

definition repo_Transition ::
  "(Event \<Rightarrow> bytes) \<Rightarrow> time \<Rightarrow> TransitionCmd \<Rightarrow> OrderRepo \<Rightarrow> Order res \<times> OrderRepo" where
  "repo_Transition marshal tnow cmd r =
     (case lookup_order r (tc_TenantID cmd) (tc_OrderID cmd) of
        None \<Rightarrow> (Inl (Sentinel ErrOrderNotFound), r)
      | Some o' \<Rightarrow>
          if ord_Version o' \<noteq> tc_Version cmd then (Inl (Sentinel ErrVersionConflict), r)
          else if tc_From cmd \<noteq> [] \<and> ord_Status o' \<notin> set (tc_From cmd)
          then (Inl (Sentinel ErrVersionConflict), r)
          else (case domain_Transition (Some o') (tc_To cmd) of
              Inl e \<Rightarrow> (Inl e, r)
            | Inr o1 \<Rightarrow>
                (let o2 = apply_cmd tnow cmd o1;
                     r1 = put_order (tc_TenantID cmd) (tc_OrderID cmd) o2 r;
                     r2 = (case tc_Event cmd of None \<Rightarrow> r1
                           | Some ev \<Rightarrow> append_event (outbox_row marshal ev) r1)
                 in (Inr o2, r2))))"

definition repo_UpdatePaymentIntent ::
  "string \<Rightarrow> string \<Rightarrow> string \<Rightarrow> string \<Rightarrow> OrderRepo \<Rightarrow> unit res \<times> OrderRepo" where
  "repo_UpdatePaymentIntent tenantID orderID intentID channel r =
     (case lookup_order r tenantID orderID of
        None \<Rightarrow> (Inl (Sentinel ErrOrderNotFound), r)
      | Some o' \<Rightarrow>
          (Inr (), put_order tenantID orderID
             (o'\<lparr>ord_Payment := \<lparr>py_PaymentIntentID = intentID, py_Channel = channel\<rparr>\<rparr>) r))"

definition repo_UpdateRedemption ::
  "string \<Rightarrow> string \<Rightarrow> string \<Rightarrow> OrderRepo \<Rightarrow> unit res \<times> OrderRepo" where
  "repo_UpdateRedemption tenantID orderID redemptionID r =
     (case lookup_order r tenantID orderID of
        None \<Rightarrow> (Inl (Sentinel ErrOrderNotFound), r)
      | Some o' \<Rightarrow>
          (Inr (), put_order tenantID orderID
             (o'\<lparr>ord_Promotion := (ord_Promotion o')\<lparr>pr_RedemptionID := redemptionID\<rparr>\<rparr>) r))"

definition repo_BumpRenew ::
  "string \<Rightarrow> string \<Rightarrow> int \<Rightarrow> OrderRepo \<Rightarrow> unit res \<times> OrderRepo" where
  "repo_BumpRenew tenantID orderID expectedCount r =
     (case lookup_order r tenantID orderID of
        None \<Rightarrow> (Inl (Sentinel ErrOrderNotFound), r)
      | Some o' \<Rightarrow>
          if ord_Status o' \<noteq> StatusPendingPay \<or> ord_RenewCount o' \<noteq> expectedCount
          then (Inl (Sentinel ErrVersionConflict), r)
          else (Inr (), put_order tenantID orderID
                  (o'\<lparr>ord_RenewCount := ord_RenewCount o' + 1\<rparr>) r))"

section \<open>Listing orders\<close>

text \<open>
  A loop that appends what passes the test and breaks once \<open>len(out) >= limit\<close>; the test comes
  after the append, so a limit below 1 still yields one element.
\<close>

fun collect_upto :: "int \<Rightarrow> ('a \<Rightarrow> bool) \<Rightarrow> 'a list \<Rightarrow> 'a list \<Rightarrow> 'a list" where
  "collect_upto limit P out [] = out"
| "collect_upto limit P out (x # xs) =
     (if P x then (let out' = out @ [x] in
        if limit \<le> int (length out') then out' else collect_upto limit P out' xs)
      else collect_upto limit P out xs)"

definition repo_ListExpiredPending :: "nat list \<Rightarrow> time \<Rightarrow> int \<Rightarrow> OrderRepo \<Rightarrow> Order list" where
  "repo_ListExpiredPending seed now limit r =
     collect_upto limit
       (\<lambda>o'. ord_Status o' = StatusPendingPay \<and> ord_ExpireAt o' \<noteq> 0 \<and> ord_ExpireAt o' < now)
       [] (permute seed (map snd (orders r)))"

definition repo_ListPendingPayForRenew ::
  "nat list \<Rightarrow> time \<Rightarrow> duration \<Rightarrow> int \<Rightarrow> int \<Rightarrow> OrderRepo \<Rightarrow> Order list" where
  "repo_ListPendingPayForRenew seed now window maxRenew limit r =
     (let deadline = now + window in
      collect_upto limit
        (\<lambda>o'. \<not> (ord_Status o' \<noteq> StatusPendingPay \<or> pr_ReservationID (ord_Promotion o') = '''') \<and>
              \<not> (ord_ExpireAt o' < now \<or> deadline < ord_ExpireAt o' \<or> maxRenew \<le> ord_RenewCount o'))
        [] (permute seed (map snd (orders r))))"

text \<open>The status filter is \<open>None\<close> for the empty status of the Go call.\<close>

definition repo_ListByBuyer ::
  "nat list \<Rightarrow> string \<Rightarrow> string \<Rightarrow> Status option \<Rightarrow> string \<Rightarrow> string \<Rightarrow> int \<Rightarrow> OrderRepo
     \<Rightarrow> Order list \<times> string" where
  "repo_ListByBuyer seed tenantID buyerID status scene cursor limit r =
     (let out = filter (\<lambda>o'. ord_TenantID o' = tenantID \<and> ord_BuyerUserID o' = buyerID \<and>
                    (status = None \<or> Some (ord_Status o') = status) \<and>
                    (scene = '''' \<or> ord_Scene o' = scene))
                  (permute seed (map snd (orders r)))
      in if limit < int (length out) \<and> 0 < limit
         then (take (nat limit) out, ord_OrderID (out ! (nat limit - 1)))
         else (out, ''''))"

definition AdminList_match :: "AdminListFilter \<Rightarrow> Order \<Rightarrow> bool" where
  "AdminList_match f o' \<longleftrightarrow>
     (af_TenantID f = '''' \<or> ord_TenantID o' = af_TenantID f) \<and>
     (af_Status f = '''' \<or> Status_String (ord_Status o') = af_Status f) \<and>
     (af_Scene f = '''' \<or> ord_Scene o' = af_Scene f) \<and>
     (af_Query f = '''' \<or> ord_OrderID o' = af_Query f \<or> ord_ClientOrderID o' = af_Query f
        \<or> ord_BuyerUserID o' = af_Query f)"

definition HasSuffix :: "string \<Rightarrow> string \<Rightarrow> bool" where
  "HasSuffix s suffix \<longleftrightarrow>
     length suffix \<le> length s \<and> drop (length s - length suffix) s = suffix"

text \<open>The page that starts after the cursor, the whole list when the cursor is not on it.\<close>

fun after_cursor :: "string \<Rightarrow> Order list \<Rightarrow> Order list option" where
  "after_cursor cursor [] = None"
| "after_cursor cursor (o' # os) =
     (if ord_OrderID o' = cursor \<or> HasSuffix cursor (''|'' @ ord_OrderID o') then Some os
      else after_cursor cursor os)"

text \<open>Newest first; orders created at the same instant by descending order id.\<close>

definition newest_first :: "Order list \<Rightarrow> Order list" where
  "newest_first os = rev (sort_key (\<lambda>o'. (ord_CreatedAt o', ord_OrderID o')) os)"

definition repo_AdminList :: "nat list \<Rightarrow> AdminListFilter \<Rightarrow> OrderRepo \<Rightarrow> Order list \<times> string" where
  "repo_AdminList seed f r =
     (let out = newest_first (filter (AdminList_match f) (permute seed (map snd (orders r))));
          out' = (if af_Cursor f = '''' then out
                  else (case after_cursor (af_Cursor f) out of None \<Rightarrow> out | Some os \<Rightarrow> os))
      in if 0 < af_Limit f \<and> af_Limit f < int (length out')
         then (take (nat (af_Limit f)) out', ord_OrderID (out' ! (nat (af_Limit f) - 1)))
         else (out', ''''))"

definition repo_ListForReconcile :: "nat list \<Rightarrow> string \<Rightarrow> int \<Rightarrow> OrderRepo \<Rightarrow> Order list" where
  "repo_ListForReconcile seed tenantID limit r =
     (let limit' = (if limit \<le> 0 then 200 else limit) in
      collect_upto limit'
        (\<lambda>o'. (tenantID = '''' \<or> ord_TenantID o' = tenantID) \<and>
              \<not> (pr_ReservationID (ord_Promotion o') = '''' \<and> amt_LedgerPay (ord_Amounts o') \<le>s 0))
        [] (permute seed (map snd (orders r))))"

section \<open>Counters\<close>

text \<open>\<open>out[k]++\<close> on a map that starts empty, for the key of every element.\<close>

definition count_keys :: "string list \<Rightarrow> (string \<rightharpoonup> int64)" where
  "count_keys ks = foldl (\<lambda>m k. m(k \<mapsto> (case m k of None \<Rightarrow> 0 | Some n \<Rightarrow> n) + 1)) Map.empty ks"

definition repo_CountOrdersByStatus :: "nat list \<Rightarrow> string \<Rightarrow> OrderRepo \<Rightarrow> (string \<rightharpoonup> int64)" where
  "repo_CountOrdersByStatus seed tenantID r =
     count_keys (map (\<lambda>o'. Status_String (ord_Status o'))
       (filter (\<lambda>o'. tenantID = '''' \<or> ord_TenantID o' = tenantID)
         (permute seed (map snd (orders r)))))"

definition repo_CountCompensationsByStatus :: "OrderRepo \<Rightarrow> (string \<rightharpoonup> int64)" where
  "repo_CountCompensationsByStatus r = count_keys (map tk_Status (tickets r))"

definition repo_CountUnpublishedEvents :: "OrderRepo \<Rightarrow> int64" where
  "repo_CountUnpublishedEvents r = word_of_int (int (length (events r)))"

definition repo_Count :: "OrderRepo \<Rightarrow> int" where
  "repo_Count r = int (length (orders r))"

section \<open>Refunds and compensation tickets\<close>

definition repo_InsertRefund :: "Refund \<Rightarrow> OrderRepo \<Rightarrow> unit res \<times> OrderRepo" where
  "repo_InsertRefund refund r = (Inr (), r\<lparr>refunds := refunds r @ [refund]\<rparr>)"

definition repo_InsertCompensation ::
  "time \<Rightarrow> CompensationTicket \<Rightarrow> OrderRepo \<Rightarrow> unit res \<times> OrderRepo" where
  "repo_InsertCompensation tnow t r =
     (let n = seq r + 1;
          t1 = t\<lparr>tk_ID := n\<rparr>;
          t2 = (if tk_Status t1 = '''' then t1\<lparr>tk_Status := ''pending''\<rparr> else t1);
          t3 = t2\<lparr>tk_CreatedAt := tnow\<rparr>
      in (Inr (), r\<lparr>seq := n, tickets := tickets r @ [t3]\<rparr>))"

definition ticket_open :: "CompensationTicket \<Rightarrow> bool" where
  "ticket_open t \<longleftrightarrow> tk_Status t = ''pending'' \<or> tk_Status t = ''running''"

definition ticket_due :: "time \<Rightarrow> CompensationTicket \<Rightarrow> bool" where
  "ticket_due now t \<longleftrightarrow> ticket_open t \<and>
     (case tk_NextRetry t of None \<Rightarrow> True | Some n \<Rightarrow> \<not> now < n)"

text \<open>The loop of \<open>ClaimCompensations\<close>: the updated tickets and those claimed, in order.\<close>

fun claim_loop ::
  "time \<Rightarrow> int \<Rightarrow> nat \<Rightarrow> CompensationTicket list
     \<Rightarrow> CompensationTicket list \<times> CompensationTicket list" where
  "claim_loop now limit n [] = ([], [])"
| "claim_loop now limit n (t # ts) =
     (if ticket_due now t
      then (let t' = t\<lparr>tk_Attempts := tk_Attempts t + 1, tk_Status := ''running''\<rparr> in
            if limit \<le> int (Suc n) then (t' # ts, [t'])
            else (let (ts', out) = claim_loop now limit (Suc n) ts in (t' # ts', t' # out)))
      else (let (ts', out) = claim_loop now limit n ts in (t # ts', out)))"

definition repo_ClaimCompensations ::
  "time \<Rightarrow> int \<Rightarrow> OrderRepo \<Rightarrow> CompensationTicket list \<times> OrderRepo" where
  "repo_ClaimCompensations now limit r =
     (let (ts, out) = claim_loop now limit 0 (tickets r) in (out, r\<lparr>tickets := ts\<rparr>))"

fun update_ticket ::
  "int64 \<Rightarrow> string \<Rightarrow> string \<Rightarrow> time option \<Rightarrow> CompensationTicket list
     \<Rightarrow> CompensationTicket list option" where
  "update_ticket i status lastErr nextRetry [] = None"
| "update_ticket i status lastErr nextRetry (t # ts) =
     (if tk_ID t = i
      then Some (t\<lparr>tk_Status := status, tk_LastError := lastErr, tk_NextRetry := nextRetry\<rparr> # ts)
      else map_option (Cons t) (update_ticket i status lastErr nextRetry ts))"

definition repo_UpdateCompensation ::
  "int64 \<Rightarrow> string \<Rightarrow> string \<Rightarrow> time option \<Rightarrow> OrderRepo \<Rightarrow> unit res \<times> OrderRepo" where
  "repo_UpdateCompensation i status lastErr nextRetry r =
     (case update_ticket i status lastErr nextRetry (tickets r) of
        None \<Rightarrow> (Inl (Sentinel ErrOrderNotFound), r)
      | Some ts \<Rightarrow> (Inr (), r\<lparr>tickets := ts\<rparr>))"

definition repo_ListCompensations :: "string \<Rightarrow> int \<Rightarrow> OrderRepo \<Rightarrow> CompensationTicket list" where
  "repo_ListCompensations status limit r =
     (let limit' = (if limit \<le> 0 then 50 else limit) in
      collect_upto limit' (\<lambda>t. status = '''' \<or> tk_Status t = status) [] (rev (tickets r)))"

definition repo_FindCompensation :: "int64 \<Rightarrow> OrderRepo \<Rightarrow> CompensationTicket res" where
  "repo_FindCompensation i r =
     (case find (\<lambda>t. tk_ID t = i) (tickets r) of
        None \<Rightarrow> Inl (Sentinel ErrOrderNotFound)
      | Some t \<Rightarrow> Inr t)"

definition repo_HasOpenCompensation :: "string \<Rightarrow> string \<Rightarrow> string \<Rightarrow> OrderRepo \<Rightarrow> bool" where
  "repo_HasOpenCompensation kind tenantID ref r \<longleftrightarrow>
     (\<exists>t \<in> set (tickets r). tk_Kind t = kind \<and> tk_TenantID t = tenantID \<and> tk_Ref t = ref \<and>
        ticket_open t)"

definition repo_TicketCount :: "OrderRepo \<Rightarrow> int" where
  "repo_TicketCount r = int (length (filter ticket_open (tickets r)))"

section \<open>The outbox\<close>

text \<open>
  With more events than the limit the result is \<open>r.events[:limit]\<close>, a slice of the repository's own
  array; otherwise it is a copy. \<open>MarkEventPublished\<close> filters in place: it writes the survivors to
  the front of that array and shortens the slice, and what is behind stays as it was.
\<close>

datatype outbox_view = Shared nat | Copied "OutboxRow list"

definition repo_ListUnpublishedEvents :: "int \<Rightarrow> OrderRepo \<Rightarrow> outbox_view" where
  "repo_ListUnpublishedEvents limit r =
     (if limit < int (length (events r)) then Shared (nat limit) else Copied (events r))"

definition repo_MarkEventPublished :: "string \<Rightarrow> OrderRepo \<Rightarrow> unit res \<times> OrderRepo" where
  "repo_MarkEventPublished eventID r =
     (let filtered = filter (\<lambda>e. ob_EventID e \<noteq> eventID) (events r)
      in (Inr (), r\<lparr>events := filtered,
                    ev_stale := drop (length filtered) (events r @ ev_stale r)\<rparr>))"

text \<open>Reading the slice that \<open>ListUnpublishedEvents\<close> returned, now: its length and its element \<open>i\<close>.\<close>

fun view_length :: "outbox_view \<Rightarrow> nat" where
  "view_length (Shared n) = n"
| "view_length (Copied rows) = length rows"

fun view_nth :: "outbox_view \<Rightarrow> nat \<Rightarrow> OrderRepo \<Rightarrow> OutboxRow" where
  "view_nth (Shared n) i r = (events r @ ev_stale r) ! i"
| "view_nth (Copied rows) i r = rows ! i"

section \<open>Predicates on the state\<close>

text \<open>
  \<open>repo_wf\<close>: keys are unique and every order is filed under its own tenant and id.
  \<open>accepts\<close>: the order a command finds, and that the command passes the version, the \<open>From\<close>
  and the state-machine check on it; \<open>moved\<close> is the order after \<open>domain.Transition\<close>.
\<close>

definition repo_wf :: "OrderRepo \<Rightarrow> bool" where
  "repo_wf r \<longleftrightarrow> distinct (map fst (orders r)) \<and>
     (\<forall>(k, o') \<in> set (orders r). k = order_key (ord_TenantID o') (ord_OrderID o'))"

definition stored :: "OrderRepo \<Rightarrow> Order \<Rightarrow> bool" where
  "stored r o' \<longleftrightarrow> lookup_order r (ord_TenantID o') (ord_OrderID o') = Some o'"

definition moved :: "TransitionCmd \<Rightarrow> Order \<Rightarrow> Order" where
  "moved cmd o' = o'\<lparr>ord_Status := tc_To cmd, ord_Version := ord_Version o' + 1\<rparr>"

definition accepts :: "OrderRepo \<Rightarrow> TransitionCmd \<Rightarrow> Order \<Rightarrow> bool" where
  "accepts r cmd o' \<longleftrightarrow>
     lookup_order r (tc_TenantID cmd) (tc_OrderID cmd) = Some o' \<and> ord_Version o' = tc_Version cmd \<and>
     (tc_From cmd = [] \<or> ord_Status o' \<in> set (tc_From cmd)) \<and> CanTransition (ord_Status o') (tc_To cmd)"

section \<open>Lemmas: iterating over a map\<close>

lemma mset_take_drop_nth: "i < length ys \<Longrightarrow> mset (take i ys @ drop (Suc i) ys) + {# ys ! i #} = mset ys"
proof -
  assume "i < length ys"
  then have "mset (take i ys @ ys ! i # drop (Suc i) ys) = mset ys"
    by (simp only: id_take_nth_drop [symmetric])
  then show ?thesis by (simp add: ac_simps)
qed

lemma mset_permute [simp]: "mset (permute seed xs) = mset xs"
proof (induction seed xs rule: permute.induct)
  case (3 n ns x xs)
  let ?ys = "x # xs" and ?i = "n mod length (x # xs)"
  have "?i < length ?ys" by simp
  then have "mset (take ?i ?ys @ drop (Suc ?i) ?ys) + {# ?ys ! ?i #} = mset ?ys"
    by (rule mset_take_drop_nth)
  with 3 show ?case by (simp add: Let_def)
qed simp_all

lemma set_permute [simp]: "set (permute seed xs) = set xs"
  by (metis mset_permute set_mset_mset)

lemma length_permute [simp]: "length (permute seed xs) = length xs"
  by (metis mset_permute size_mset)

text \<open>Every order of the entries is the one of some seed.\<close>

lemma permute_complete: "mset ys = mset xs \<Longrightarrow> \<exists>seed. permute seed xs = ys"
proof (induction ys arbitrary: xs)
  case Nil
  then show ?case by (intro exI [of _ "[]"]) simp
next
  case (Cons y ys)
  then have "y \<in> set xs" by (metis list.set_intros(1) set_mset_mset)
  then obtain i where i: "i < length xs" "xs ! i = y" by (auto simp: in_set_conv_nth)
  let ?zs = "take i xs @ drop (Suc i) xs"
  have "add_mset y (mset ys) = add_mset y (mset ?zs)"
    using mset_take_drop_nth [OF i(1)] Cons.prems i(2) by simp
  then have "mset ys = mset ?zs" by simp
  with Cons.IH obtain seed where "permute seed ?zs = ys" by metis
  with i have "permute (i # seed) xs = y # ys" by (cases xs) (auto simp: Let_def)
  then show ?case by blast
qed

section \<open>Lemmas: the key space\<close>

lemma stored_iff: "repo_wf r \<Longrightarrow> stored r o' \<longleftrightarrow> o' \<in> snd ` set (orders r)"
  by (force simp: repo_wf_def stored_def lookup_order_def)

lemma lookup_stored:
  "repo_wf r \<Longrightarrow> lookup_order r t i = Some o' \<Longrightarrow>
     stored r o' \<and> order_key (ord_TenantID o') (ord_OrderID o') = order_key t i"
  by (force simp: repo_wf_def stored_def lookup_order_def)

lemma FindByID_stored:
  assumes "repo_wf r" "repo_FindByID seed t i r = Inr o'"
  shows "stored r o' \<and> ord_OrderID o' = i \<and> (t = '''' \<or> ord_TenantID o' = t)"
  using assms by (auto simp: repo_FindByID_def stored_iff split: option.splits dest!: find_Some_set)

lemma lookup_put_order:
  "lookup_order (put_order t i o' r) t' i' =
     (if order_key t' i' = order_key t i then Some o' else lookup_order r t' i')"
  by (simp add: lookup_order_def put_order_def)

lemma put_order_wf:
  "repo_wf r \<Longrightarrow> order_key (ord_TenantID o') (ord_OrderID o') = order_key t i \<Longrightarrow>
     repo_wf (put_order t i o' r)"
  by (auto simp: repo_wf_def put_order_def distinct_update dest!: set_update_AList)


lemma stored_put_order:
  "stored (put_order t i o' r) o'' \<longleftrightarrow>
     (if order_key (ord_TenantID o'') (ord_OrderID o'') = order_key t i then o'' = o'
      else stored r o'')"
  by (auto simp: stored_def lookup_put_order)

lemma orders_only:
  assumes "orders r' = orders r"
  shows "repo_wf r' = repo_wf r" "stored r' o' = stored r o'"
    "lookup_order r' t i = lookup_order r t i" "repo_FindByID seed t i r' = repo_FindByID seed t i r"
  using assms by (simp_all add: repo_wf_def stored_def lookup_order_def repo_FindByID_def)

lemma orders_append_event [simp]: "orders (append_event row r) = orders r"
  by (simp add: append_event_def)

section \<open>Lemmas: operations that leave the orders alone\<close>

lemma orders_bookkeeping [simp]:
  "orders (snd (repo_UpdateIdempotencyResponse t a k b r)) = orders r"
  "orders (snd (repo_InsertRefund rf r)) = orders r"
  "orders (snd (repo_InsertCompensation tnow tk r)) = orders r"
  "orders (snd (repo_ClaimCompensations now limit r)) = orders r"
  "orders (snd (repo_UpdateCompensation i st le nr r)) = orders r"
  "orders (snd (repo_MarkEventPublished ev r)) = orders r"
  by (simp_all add: repo_UpdateIdempotencyResponse_def repo_InsertRefund_def Let_def
      repo_InsertCompensation_def repo_ClaimCompensations_def repo_UpdateCompensation_def
      repo_MarkEventPublished_def split: option.split prod.split)

section \<open>Lemmas: Transition\<close>

lemma apply_cmd_fields [simp]:
  "ord_OrderID (apply_cmd tnow cmd o') = ord_OrderID o'"
  "ord_TenantID (apply_cmd tnow cmd o') = ord_TenantID o'"
  "ord_Scene (apply_cmd tnow cmd o') = ord_Scene o'"
  "ord_Channel (apply_cmd tnow cmd o') = ord_Channel o'"
  "ord_BuyerUserID (apply_cmd tnow cmd o') = ord_BuyerUserID o'"
  "ord_ClientOrderID (apply_cmd tnow cmd o') = ord_ClientOrderID o'"
  "ord_Status (apply_cmd tnow cmd o') = ord_Status o'"
  "ord_Version (apply_cmd tnow cmd o') = ord_Version o'"
  "ord_Ledger (apply_cmd tnow cmd o') = ord_Ledger o'"
  "ord_PayMethod (apply_cmd tnow cmd o') = ord_PayMethod o'"
  "ord_ExpireAt (apply_cmd tnow cmd o') = ord_ExpireAt o'"
  "ord_RenewCount (apply_cmd tnow cmd o') = ord_RenewCount o'"
  "ord_Context (apply_cmd tnow cmd o') = ord_Context o'"
  "ord_Lines (apply_cmd tnow cmd o') = ord_Lines o'"
  "ord_Promotions (apply_cmd tnow cmd o') = ord_Promotions o'"
  "ord_LedgerLegs (apply_cmd tnow cmd o') = ord_LedgerLegs o'"
  "ord_CreatedAt (apply_cmd tnow cmd o') = ord_CreatedAt o'"
  "ord_PaidAt (apply_cmd tnow cmd o') = tc_PaidAt cmd"
  "ord_CancelledAt (apply_cmd tnow cmd o') = tc_CancelledAt cmd"
  "ord_CompletedAt (apply_cmd tnow cmd o') = tc_CompletedAt cmd"
  by (simp_all add: apply_cmd_def Let_def split: option.split)

lemma apply_cmd_Amounts:
  "ord_Amounts (apply_cmd tnow cmd o') =
     (ord_Amounts o')\<lparr>amt_Paid := (case tc_PaidAmount cmd of None \<Rightarrow> amt_Paid (ord_Amounts o')
         | Some p \<Rightarrow> p),
       amt_Refunded := (if 0 <s tc_RefundedAdd cmd
         then amt_Refunded (ord_Amounts o') + tc_RefundedAdd cmd
         else amt_Refunded (ord_Amounts o'))\<rparr>"
  by (simp add: apply_cmd_def Let_def split: option.split)

lemma Transition_accepts:
  assumes "accepts r cmd o'"
  shows "fst (repo_Transition marshal tnow cmd r) = Inr (apply_cmd tnow cmd (moved cmd o'))"
    and "orders (snd (repo_Transition marshal tnow cmd r)) =
      orders (put_order (tc_TenantID cmd) (tc_OrderID cmd) (apply_cmd tnow cmd (moved cmd o')) r)"
    and "tickets (snd (repo_Transition marshal tnow cmd r)) = tickets r"
  using assms
  by (auto simp: accepts_def repo_Transition_def Let_def moved_def put_order_def append_event_def
      split: option.split)

lemma Transition_rejects:
  assumes "\<nexists>o'. accepts r cmd o'"
  shows "\<exists>e. repo_Transition marshal tnow cmd r = (Inl e, r)"
  using assms by (auto simp: accepts_def repo_Transition_def domain_Transition_def split: option.split)

lemma Transition_ok_iff:
  "fst (repo_Transition marshal tnow cmd r) = Inr o'' \<longleftrightarrow>
     (\<exists>o'. accepts r cmd o' \<and> o'' = apply_cmd tnow cmd (moved cmd o'))"
proof (cases "\<exists>o'. accepts r cmd o'")
  case True
  then obtain o' where a: "accepts r cmd o'" by blast
  then have u: "\<And>o1. accepts r cmd o1 \<longleftrightarrow> o1 = o'" by (auto simp: accepts_def)
  show ?thesis unfolding u Transition_accepts(1) [OF a] by blast
next
  case False
  with Transition_rejects [OF this, of marshal tnow] show ?thesis by auto
qed

lemma Transition_effect:
  assumes "accepts r cmd s"
  shows "lookup_order (snd (repo_Transition marshal tnow cmd r)) (tc_TenantID cmd) (tc_OrderID cmd)
      = Some (apply_cmd tnow cmd (moved cmd s))"
    and "events (snd (repo_Transition marshal tnow cmd r)) =
      events r @ (case tc_Event cmd of None \<Rightarrow> [] | Some ev \<Rightarrow> [outbox_row marshal ev])"
proof -
  have "lookup_order (snd (repo_Transition marshal tnow cmd r)) (tc_TenantID cmd) (tc_OrderID cmd) =
      lookup_order (put_order (tc_TenantID cmd) (tc_OrderID cmd) (apply_cmd tnow cmd (moved cmd s)) r)
        (tc_TenantID cmd) (tc_OrderID cmd)"
    by (rule orders_only(3) [OF Transition_accepts(2) [OF assms]])
  then show "lookup_order (snd (repo_Transition marshal tnow cmd r)) (tc_TenantID cmd) (tc_OrderID cmd)
      = Some (apply_cmd tnow cmd (moved cmd s))" by (simp add: lookup_put_order)
  show "events (snd (repo_Transition marshal tnow cmd r)) =
      events r @ (case tc_Event cmd of None \<Rightarrow> [] | Some ev \<Rightarrow> [outbox_row marshal ev])"
    using assms by (auto simp: accepts_def repo_Transition_def Let_def put_order_def
        append_event_def split: option.split)
qed

lemma TransitionCmd_of_simps [simp]:
  "tc_TenantID (TransitionCmd_of t i fr to v) = t" "tc_OrderID (TransitionCmd_of t i fr to v) = i"
  "tc_From (TransitionCmd_of t i fr to v) = fr" "tc_To (TransitionCmd_of t i fr to v) = to"
  "tc_Version (TransitionCmd_of t i fr to v) = v"
  "tc_PaidAmount (TransitionCmd_of t i fr to v) = None"
  "tc_RefundedAdd (TransitionCmd_of t i fr to v) = 0"
  "tc_RedemptionID (TransitionCmd_of t i fr to v) = ''''" "tc_PaymentIntentID (TransitionCmd_of t i fr to v) = ''''"
  "tc_Event (TransitionCmd_of t i fr to v) = None"
  by (simp_all add: TransitionCmd_of_def)

lemma UpdateRedemption_effect:
  assumes "lookup_order r t i = Some s"
  shows "lookup_order (snd (repo_UpdateRedemption t i rid r)) t i =
      Some (s\<lparr>ord_Promotion := (ord_Promotion s)\<lparr>pr_RedemptionID := rid\<rparr>\<rparr>)"
    and "tickets (snd (repo_UpdateRedemption t i rid r)) = tickets r"
    and "events (snd (repo_UpdateRedemption t i rid r)) = events r"
  using assms by (simp_all add: repo_UpdateRedemption_def lookup_put_order put_order_def
      lookup_order_def)

section \<open>Lemmas: what an operation on one order leaves alone\<close>

text \<open>Of two states: they differ in the order under one key, in events and in tickets at most.\<close>

definition only_at :: "string \<Rightarrow> OrderRepo \<Rightarrow> OrderRepo \<Rightarrow> bool" where
  "only_at k r r' \<longleftrightarrow> idem r' = idem r \<and> refunds r' = refunds r \<and> clientIx r' = clientIx r \<and>
     (\<forall>t i. order_key t i \<noteq> k \<longrightarrow> lookup_order r' t i = lookup_order r t i)"

lemma only_at_refl [simp]: "only_at k r r"
  by (simp add: only_at_def)

lemma only_at_trans: "only_at k r r1 \<Longrightarrow> only_at k r1 r' \<Longrightarrow> only_at k r r'"
  by (simp add: only_at_def)

lemma only_at_stored: "only_at k r r' \<Longrightarrow> order_key (ord_TenantID x) (ord_OrderID x) \<noteq> k \<Longrightarrow> stored r' x = stored r x"
  by (simp add: only_at_def stored_def)

lemma only_at_Transition: "only_at (order_key (tc_TenantID cmd) (tc_OrderID cmd)) r (snd (repo_Transition m tnow cmd r))"
proof (cases "\<exists>o'. accepts r cmd o'")
  case True
  then obtain o' where acc: "accepts r cmd o'" by blast
  let ?r' = "snd (repo_Transition m tnow cmd r)"
  have "idem ?r' = idem r \<and> refunds ?r' = refunds r \<and> clientIx ?r' = clientIx r"
    using acc by (auto simp: accepts_def repo_Transition_def Let_def put_order_def append_event_def split: option.split)
  then show ?thesis
    by (simp add: only_at_def orders_only(3) [OF Transition_accepts(2) [OF acc]] lookup_put_order)
next
  case False
  then show ?thesis using Transition_rejects [OF False, of m tnow] by auto
qed

lemma only_at_updates:
  "only_at (order_key t i) r (snd (repo_UpdateRedemption t i rid r))"
  "only_at k r (snd (repo_InsertCompensation tnow tk r))"
  by (auto simp: only_at_def repo_UpdateRedemption_def repo_InsertCompensation_def Let_def
      lookup_order_def put_order_def split: option.split)

lemma FindByID_own:
  assumes "repo_wf r" "lookup_order r t i = Some s" "ord_TenantID s = t" "ord_OrderID s = i" "t \<noteq> ''''"
  shows "repo_FindByID seed t i r = Inr s"
proof -
  have "find (\<lambda>x. ord_OrderID x = i \<and> (t = '''' \<or> ord_TenantID x = t))
      (permute seed (map snd (orders r))) = Some s"
  proof (rule find_unique)
    show "s \<in> set (permute seed (map snd (orders r)))"
      using assms(2) by (force simp: lookup_order_def dest: map_of_SomeD)
    show "ord_OrderID s = i \<and> (t = '''' \<or> ord_TenantID s = t)" using assms(3,4) by simp
    fix y assume "y \<in> set (permute seed (map snd (orders r)))"
      and y: "ord_OrderID y = i \<and> (t = '''' \<or> ord_TenantID y = t)"
    with assms(1) have "stored r y" by (simp add: stored_iff)
    with y assms(2,5) show "y = s" by (simp add: stored_def)
  qed
  then show ?thesis by (simp add: repo_FindByID_def)
qed

lemma collect_upto_take:
  "int (length out) < limit \<Longrightarrow>
     collect_upto limit P out xs = out @ take (nat limit - length out) (filter P xs)"
proof (induction limit P out xs rule: collect_upto.induct)
  case (2 limit P out x xs)
  show ?case
  proof (cases "P x")
    case True
    show ?thesis
    proof (cases "limit \<le> int (length (out @ [x]))")
      case True
      with 2(3) have "nat limit - length out = 1" by simp
      with True \<open>P x\<close> show ?thesis by simp
    next
      case False
      then have "nat limit - length out = Suc (nat limit - length (out @ [x]))" by simp
      with False \<open>P x\<close> 2 show ?thesis by (simp add: Let_def)
    qed
  qed (use 2 in simp)
qed simp

lemma collect_upto_all: "0 < limit \<Longrightarrow> collect_upto limit P [] xs = take (nat limit) (filter P xs)"
  by (simp add: collect_upto_take)

end
