(* ===== verification/Amount_Engine.thy ===== *)
theory Amount_Engine
  imports Domain_Types
begin

text \<open>
  The amount engine (\<open>src/internal/domain/amount.go\<close>): the checked arithmetic \<open>Mul\<close>,
  \<open>Add\<close>, \<open>Sub\<close>, the line totals, \<open>BuildAmounts\<close> with \<open>Validate\<close>, and the allocation of a
  discount to the lines. Functions that update the slice of lines in place return the updated
  list. The lemmas say when the checked operations succeed and that their results are the exact
  integer ones, that \<open>BuildAmounts\<close> succeeds on exactly the consistent inputs, and that an
  allocation always adds up.
\<close>

section \<open>Checked arithmetic\<close>

definition Mul :: "int64 \<Rightarrow> int64 \<Rightarrow> int64 res" where
  "Mul a b =
     (if a = 0 \<or> b = 0 then Inr 0
      else let r = a * b in
        if go_div r a \<noteq> b then Inl (Sentinel ErrOverflow) else Inr r)"

definition Add :: "int64 \<Rightarrow> int64 \<Rightarrow> int64 res" where
  "Add a b =
     (let r = a + b in
      if (0 <s b \<and> r <s a) \<or> (b <s 0 \<and> a <s r) then Inl (Sentinel ErrOverflow) else Inr r)"

definition Sub :: "int64 \<Rightarrow> int64 \<Rightarrow> int64 res" where
  "Sub a b = Add a (- b)"

section \<open>Line totals\<close>

definition LineOriginal :: "int64 \<Rightarrow> int64 \<Rightarrow> int64 res" where
  "LineOriginal unitPrice quantity =
     (if unitPrice <s 0 \<or> quantity \<le>s 0
      then Inl (Wrapped ErrInvalidArgument ''unit_price/quantity'')
      else Mul unitPrice quantity)"

text \<open>The loop of \<open>SumOriginal\<close>, from the running sum.\<close>

fun SumOriginal_loop :: "int64 \<Rightarrow> OrderLine list \<Rightarrow> (OrderLine list \<times> int64) res" where
  "SumOriginal_loop acc [] = Inr ([], acc)"
| "SumOriginal_loop acc (l # ls) =
     (case LineOriginal (ln_UnitPrice l) (ln_Quantity l) of
        Inl e \<Rightarrow> Inl e
      | Inr orig \<Rightarrow>
          if ln_OriginalAmount l \<noteq> 0 \<and> ln_OriginalAmount l \<noteq> orig
          then Inl (Wrapped ErrAmountInvariant
                 (''line '' @ ln_LineID l @ '' original mismatch''))
          else (case Add acc orig of
              Inl e \<Rightarrow> Inl e
            | Inr acc' \<Rightarrow>
                (case SumOriginal_loop acc' ls of
                   Inl e \<Rightarrow> Inl e
                 | Inr (ls', tot) \<Rightarrow> Inr (l\<lparr>ln_OriginalAmount := orig\<rparr> # ls', tot))))"

definition SumOriginal :: "OrderLine list \<Rightarrow> (OrderLine list \<times> int64) res" where
  "SumOriginal lines = SumOriginal_loop 0 lines"

section \<open>The amounts of an order\<close>

definition Validate :: "Amounts \<Rightarrow> error option" where
  "Validate a =
     (if amt_Original a <s 0 \<or> amt_Discount a <s 0 \<or> amt_Payable a <s 0 \<or> amt_LedgerPay a <s 0
         \<or> amt_ChannelPay a <s 0 \<or> amt_Paid a <s 0 \<or> amt_Refunded a <s 0
      then Some (Wrapped ErrAmountInvariant ''negative'')
      else if amt_Original a <s amt_Discount a
      then Some (Wrapped ErrAmountInvariant ''discount > original'')
      else if amt_Original a - amt_Discount a \<noteq> amt_Payable a
      then Some (Wrapped ErrAmountInvariant ''payable != original - discount'')
      else if amt_LedgerPay a + amt_ChannelPay a \<noteq> amt_Payable a
      then Some (Wrapped ErrAmountInvariant ''payable != ledger + channel'')
      else if amt_Payable a <s amt_Paid a
      then Some (Wrapped ErrAmountInvariant ''paid > payable'')
      else if amt_Paid a <s amt_Refunded a
      then Some (Wrapped ErrAmountInvariant ''refunded > paid'')
      else None)"

definition BuildAmounts :: "string \<Rightarrow> int64 \<Rightarrow> int64 \<Rightarrow> int64 \<Rightarrow> Amounts res" where
  "BuildAmounts currency original discount ledgerPay =
     (if currency = '''' then Inl (Wrapped ErrInvalidArgument ''currency required'')
      else if original <s 0 \<or> discount <s 0 \<or> ledgerPay <s 0
      then Inl (Wrapped ErrInvalidArgument ''negative amount'')
      else if original <s discount
      then Inl (Wrapped ErrAmountInvariant ''discount > original'')
      else (case Sub original discount of
          Inl e \<Rightarrow> Inl e
        | Inr payable \<Rightarrow>
            if payable <s ledgerPay
            then Inl (Wrapped ErrAmountInvariant ''ledger_pay > payable'')
            else (case Sub payable ledgerPay of
                Inl e \<Rightarrow> Inl e
              | Inr channelPay \<Rightarrow>
                  (let a = \<lparr>amt_Currency = currency, amt_Original = original,
                       amt_Discount = discount, amt_Payable = payable,
                       amt_LedgerPay = ledgerPay, amt_ChannelPay = channelPay,
                       amt_Paid = 0, amt_Refunded = 0\<rparr>
                   in case Validate a of None \<Rightarrow> Inr a | Some e \<Rightarrow> Inl e))))"

section \<open>Allocating a discount to the lines\<close>

text \<open>The first loop of \<open>AllocateDiscount\<close>: fill missing line totals and add them up.\<close>

fun AllocateDiscount_originals ::
  "int64 \<Rightarrow> OrderLine list \<Rightarrow> (OrderLine list \<times> int64) res" where
  "AllocateDiscount_originals original [] = Inr ([], original)"
| "AllocateDiscount_originals original (l # ls) =
     (case (if ln_OriginalAmount l = 0 then LineOriginal (ln_UnitPrice l) (ln_Quantity l)
            else Inr (ln_OriginalAmount l)) of
        Inl e \<Rightarrow> Inl e
      | Inr orig \<Rightarrow>
          (case Add original orig of
             Inl e \<Rightarrow> Inl e
           | Inr original' \<Rightarrow>
               (case AllocateDiscount_originals original' ls of
                  Inl e \<Rightarrow> Inl e
                | Inr (ls', tot) \<Rightarrow> Inr (l\<lparr>ln_OriginalAmount := orig\<rparr> # ls', tot))))"

definition set_discount :: "int64 \<Rightarrow> OrderLine \<Rightarrow> OrderLine" where
  "set_discount d l =
     l\<lparr>ln_DiscountAmount := d, ln_PayableAmount := ln_OriginalAmount l - d\<rparr>"

text \<open>The last loop: a proportional share for every line, the rest for the last one.\<close>

fun AllocateDiscount_shares ::
  "int64 \<Rightarrow> int64 \<Rightarrow> int64 \<Rightarrow> OrderLine list \<Rightarrow> OrderLine list" where
  "AllocateDiscount_shares totalDiscount original allocated [] = []"
| "AllocateDiscount_shares totalDiscount original allocated [l] =
     [set_discount (totalDiscount - allocated) l]"
| "AllocateDiscount_shares totalDiscount original allocated (l # l' # ls) =
     (let d = go_div (ln_OriginalAmount l * totalDiscount) original in
      set_discount d l
        # AllocateDiscount_shares totalDiscount original (allocated + d) (l' # ls))"

definition AllocateDiscount :: "OrderLine list \<Rightarrow> int64 \<Rightarrow> OrderLine list res" where
  "AllocateDiscount lines totalDiscount =
     (if totalDiscount <s 0 then Inl (Sentinel ErrInvalidArgument)
      else (case AllocateDiscount_originals 0 lines of
          Inl e \<Rightarrow> Inl e
        | Inr (lines', original) \<Rightarrow>
            if original <s totalDiscount
            then Inl (Wrapped ErrAmountInvariant ''discount > original'')
            else if original = 0
            then Inr (map (\<lambda>l. l\<lparr>ln_DiscountAmount := 0, ln_PayableAmount := 0\<rparr>) lines')
            else Inr (AllocateDiscount_shares totalDiscount original 0 lines')))"

section \<open>What the engine promises\<close>

text \<open>
  The exact line total, a line the engine accepts, the line with its total filled in, and lines
  whose totals, discounts and payables add up to those of the order.
\<close>

definition line_total :: "OrderLine \<Rightarrow> int" where
  "line_total l = sint (ln_UnitPrice l) * sint (ln_Quantity l)"

definition line_priced :: "OrderLine \<Rightarrow> bool" where
  "line_priced l \<longleftrightarrow> 0 \<le> sint (ln_UnitPrice l) \<and> 0 < sint (ln_Quantity l)"

definition with_original :: "OrderLine \<Rightarrow> OrderLine" where
  "with_original l = l\<lparr>ln_OriginalAmount := ln_UnitPrice l * ln_Quantity l\<rparr>"

definition lines_add_up :: "OrderLine list \<Rightarrow> int64 \<Rightarrow> int64 \<Rightarrow> bool" where
  "lines_add_up ls original discount \<longleftrightarrow>
     (\<Sum>l\<leftarrow>ls. ln_OriginalAmount l) = original \<and>
     (\<Sum>l\<leftarrow>ls. ln_DiscountAmount l) = discount \<and>
     (\<Sum>l\<leftarrow>ls. ln_PayableAmount l) = original - discount \<and>
     (\<forall>l \<in> set ls. ln_PayableAmount l = ln_OriginalAmount l - ln_DiscountAmount l)"

section \<open>Checked arithmetic is exact\<close>

lemma Add_exact:
  "Add a b = (if in64 (sint a + sint b) then Inr (a + b) else Inl (Sentinel ErrOverflow))"
proof -
  have b: "- (2 ^ 63) \<le> sint a" "sint a < 2 ^ 63" "- (2 ^ 63) \<le> sint b" "sint b < 2 ^ 63"
    using in64_sint [of a] in64_sint [of b] by (simp_all add: in64_def)
  have r: "- (2 ^ 63) \<le> sint (a + b)" "sint (a + b) < 2 ^ 63"
    using in64_sint [of "a + b"] by (simp_all add: in64_def)
  have "(0 < sint b \<and> sint (a + b) < sint a \<or> sint b < 0 \<and> sint a < sint (a + b))
      \<longleftrightarrow> \<not> in64 (sint a + sint b)"
    using sint_add64_cases [of a b] b r unfolding in64_def by auto
  then show ?thesis
    unfolding Add_def Let_def by (simp add: int64_simps)
qed

lemma Add_InrD: "Add a b = Inr r \<Longrightarrow> r = a + b \<and> sint r = sint a + sint b"
  by (auto simp: Add_exact sint_add64 split: if_splits)

lemma Sub_exact:
  assumes "b \<noteq> - (2 ^ 63)"
  shows "Sub a b = (if in64 (sint a - sint b) then Inr (a - b) else Inl (Sentinel ErrOverflow))"
proof -
  have "sint b \<noteq> - (2 ^ 63)"
    using assms by (auto simp: word_eq_sint)
  then have "in64 (- sint b)"
    using in64_sint [of b] by (auto simp: in64_def)
  then have "sint (- b) = - sint b" by (rule sint_minus64)
  then show ?thesis by (simp add: Sub_def Add_exact)
qed

lemma Sub_nonneg:
  assumes "0 \<le> sint b" "sint b \<le> sint a"
  shows "Sub a b = Inr (a - b)" and "sint (a - b) = sint a - sint b"
proof -
  have "in64 (sint a - sint b)"
    using assms in64_sint [of a] by (auto simp: in64_def)
  moreover have "b \<noteq> - (2 ^ 63)" using assms(1) by auto
  ultimately show "Sub a b = Inr (a - b)" and "sint (a - b) = sint a - sint b"
    by (simp_all add: Sub_exact sint_diff64)
qed

lemma sdiv_pos: "0 \<le> x \<Longrightarrow> 0 < y \<Longrightarrow> (x :: int) sdiv y = x div y"
  by (cases "x = 0") (simp_all add: signed_divide_int_def)

lemma div_le_self: "0 \<le> x \<Longrightarrow> 0 < y \<Longrightarrow> (x :: int) div y \<le> x"
  using zdiv_mono2 [of x 1 y] by simp

lemma sint_go_div_nonneg:
  assumes "0 \<le> sint a" "0 < sint b"
  shows "sint (go_div a b) = sint a div sint b"
proof -
  have "sint a div sint b \<le> sint a" "0 \<le> sint a div sint b"
    using assms div_le_self by (simp_all add: pos_imp_zdiv_nonneg_iff)
  then have "in64 (sint a div sint b)"
    using in64_sint [of a] by (auto simp: in64_def)
  then show ?thesis
    using assms by (simp add: go_div_def sdiv_pos sint_of_int64)
qed

lemma sint_go_div_nonpos:
  assumes "sint a < 0" "0 < sint b"
  shows "sint (go_div a b) \<le> 0"
proof -
  have "- (sint a sdiv sint b) \<le> 2 ^ 63 \<and> sint a sdiv sint b \<le> 0"
    using assms in64_sint [of a] div_le_self [of "- sint a" "sint b"]
    by (auto simp: signed_divide_int_def in64_def pos_imp_zdiv_nonneg_iff)
  then show ?thesis
    by (simp add: go_div_def sint_of_int64 in64_def)
qed

lemma Mul_nonneg:
  assumes "0 \<le> sint a" "0 \<le> sint b"
  shows "Mul a b = (if in64 (sint a * sint b) then Inr (a * b) else Inl (Sentinel ErrOverflow))"
proof (cases "a = 0 \<or> b = 0")
  case True
  then show ?thesis by (auto simp: Mul_def in64_def)
next
  case False
  with assms have pos: "0 < sint a" "0 < sint b"
    by (auto simp: word_eq_sint order_less_le)
  show ?thesis
  proof (cases "in64 (sint a * sint b)")
    case True
    with pos have "sint (go_div (a * b) a) = sint b"
      by (simp add: sint_mult64 sint_go_div_nonneg)
    with False True show ?thesis
      by (simp add: Mul_def Let_def word_eq_sint [of "go_div (a * b) a" b])
  next
    case out: False
    have "go_div (a * b) a \<noteq> b"
    proof
      assume eq: "go_div (a * b) a = b"
      show False
      proof (cases "0 \<le> sint (a * b)")
        case True
        with eq pos have "sint (a * b) div sint a = sint b"
          using sint_go_div_nonneg by metis
        then have "sint a * sint b + sint (a * b) mod sint a = sint (a * b)"
          using mult_div_mod_eq [of "sint a" "sint (a * b)"] by simp
        then have "sint a * sint b \<le> sint (a * b)"
          using pos_mod_sign [OF pos(1), of "sint (a * b)"] by linarith
        moreover have "0 < sint a * sint b" using pos by simp
        ultimately show False
          using out in64_sint [of "a * b"] by (auto simp: in64_def)
      next
        case False
        with eq pos show False using sint_go_div_nonpos [of "a * b" a] by simp
      qed
    qed
    with False out show ?thesis by (simp add: Mul_def Let_def)
  qed
qed

section \<open>Line totals and amounts\<close>

lemma line_total_nonneg: "line_priced l \<Longrightarrow> 0 \<le> line_total l"
  by (simp add: line_priced_def line_total_def)

lemma LineOriginal_exact:
  "LineOriginal (ln_UnitPrice l) (ln_Quantity l) = Inr r \<longleftrightarrow>
     line_priced l \<and> in64 (line_total l) \<and> r = ln_UnitPrice l * ln_Quantity l"
  by (auto simp: LineOriginal_def line_priced_def line_total_def int64_simps Mul_nonneg)

lemma sint_line_total:
  "in64 (line_total l) \<Longrightarrow> sint (ln_UnitPrice l * ln_Quantity l) = line_total l"
  by (simp add: line_total_def sint_mult64)

lemma sum_totals_nonneg: "\<forall>l \<in> set ls. line_priced l \<Longrightarrow> 0 \<le> (\<Sum>l\<leftarrow>ls. line_total l)"
  by (induction ls) (auto simp: line_total_nonneg)

lemma SumOriginal_loop_InrD:
  assumes "SumOriginal_loop acc ls = Inr (ls', tot)"
  shows "ls' = map with_original ls \<and> sint tot = sint acc + (\<Sum>l\<leftarrow>ls. line_total l) \<and>
    (\<forall>l \<in> set ls. line_priced l \<and> in64 (line_total l) \<and>
      (ln_OriginalAmount l = 0 \<or> ln_OriginalAmount l = ln_UnitPrice l * ln_Quantity l))"
  using assms
proof (induction ls arbitrary: acc ls')
  case Nil
  then show ?case by simp
next
  case (Cons l ls)
  from Cons.prems obtain orig acc' ls'' where
    orig: "LineOriginal (ln_UnitPrice l) (ln_Quantity l) = Inr orig"
      "ln_OriginalAmount l = 0 \<or> ln_OriginalAmount l = orig"
    and add: "Add acc orig = Inr acc'"
    and rest: "SumOriginal_loop acc' ls = Inr (ls'', tot)"
    and ls': "ls' = l\<lparr>ln_OriginalAmount := orig\<rparr> # ls''"
    by (auto split: sum.splits if_splits)
  from orig(1) have "line_priced l" "in64 (line_total l)" "orig = ln_UnitPrice l * ln_Quantity l"
    by (simp_all add: LineOriginal_exact)
  with Cons.IH [OF rest] Add_InrD [OF add] orig ls' show ?case
    by (auto simp: with_original_def sint_line_total)
qed

lemma SumOriginal_loop_total:
  assumes "\<forall>l \<in> set ls. line_priced l \<and>
      (ln_OriginalAmount l = 0 \<or> ln_OriginalAmount l = ln_UnitPrice l * ln_Quantity l)"
    and "0 \<le> sint acc" and "in64 (sint acc + (\<Sum>l\<leftarrow>ls. line_total l))"
  shows "\<exists>r. SumOriginal_loop acc ls = Inr r"
  using assms
proof (induction ls arbitrary: acc)
  case Nil
  then show ?case by simp
next
  case (Cons l ls)
  have nn: "0 \<le> line_total l" "0 \<le> (\<Sum>l\<leftarrow>ls. line_total l)"
    using Cons.prems(1) sum_totals_nonneg [of ls] by (auto simp: line_total_nonneg)
  with Cons.prems have in1: "in64 (line_total l)" "in64 (sint acc + line_total l)"
    by (auto simp: in64_def)
  let ?o = "ln_UnitPrice l * ln_Quantity l"
  have o: "LineOriginal (ln_UnitPrice l) (ln_Quantity l) = Inr ?o"
    using Cons.prems(1) in1 by (simp add: LineOriginal_exact)
  have add: "Add acc ?o = Inr (acc + ?o)" "sint (acc + ?o) = sint acc + line_total l"
    using in1 by (simp_all add: Add_exact sint_line_total sint_add64)
  have "\<exists>r. SumOriginal_loop (acc + ?o) ls = Inr r"
    using Cons.prems nn by (intro Cons.IH) (auto simp: add add.assoc)
  with o add(1) Cons.prems(1) show ?case by (auto split: sum.splits)
qed

lemma sint_sum_eq_iff:
  fixes a b c :: int64
  assumes "0 \<le> sint a" "0 \<le> sint b" "0 \<le> sint c"
  shows "a + b = c \<longleftrightarrow> sint c = sint a + sint b"
  using assms sint_add64_cases [of a b] in64_sint [of "a + b"]
    in64_sint [of a] in64_sint [of b] in64_sint [of c]
  by (auto simp: word_eq_sint [of "a + b" c] in64_def)

lemma sint_diff_eq_iff:
  fixes a b c :: int64
  assumes "0 \<le> sint b" "sint b \<le> sint a"
  shows "a - b = c \<longleftrightarrow> sint c = sint a - sint b"
  using Sub_nonneg(2) [OF assms] by (auto simp: word_eq_sint [of "a - b" c])

lemma Validate_None_iff:
  "Validate a = None \<longleftrightarrow>
     0 \<le> sint (amt_Discount a) \<and> sint (amt_Discount a) \<le> sint (amt_Original a) \<and>
     sint (amt_Payable a) = sint (amt_Original a) - sint (amt_Discount a) \<and>
     0 \<le> sint (amt_LedgerPay a) \<and> 0 \<le> sint (amt_ChannelPay a) \<and>
     sint (amt_Payable a) = sint (amt_LedgerPay a) + sint (amt_ChannelPay a) \<and>
     0 \<le> sint (amt_Refunded a) \<and> sint (amt_Refunded a) \<le> sint (amt_Paid a) \<and>
     sint (amt_Paid a) \<le> sint (amt_Payable a)" (is "_ \<longleftrightarrow> ?R")
proof
  assume "Validate a = None"
  then have "0 \<le> sint (amt_Discount a)" "sint (amt_Discount a) \<le> sint (amt_Original a)"
    "0 \<le> sint (amt_LedgerPay a)" "0 \<le> sint (amt_ChannelPay a)" "0 \<le> sint (amt_Payable a)"
    "0 \<le> sint (amt_Refunded a)" "sint (amt_Refunded a) \<le> sint (amt_Paid a)"
    "sint (amt_Paid a) \<le> sint (amt_Payable a)" "amt_Original a - amt_Discount a = amt_Payable a"
    "amt_LedgerPay a + amt_ChannelPay a = amt_Payable a"
    by (simp_all add: Validate_def int64_simps split: if_splits)
  then show ?R by (simp add: sint_sum_eq_iff sint_diff_eq_iff)
next
  assume R: ?R
  then have "amt_Original a - amt_Discount a = amt_Payable a"
    "amt_LedgerPay a + amt_ChannelPay a = amt_Payable a"
    by (simp_all add: sint_sum_eq_iff sint_diff_eq_iff)
  with R show "Validate a = None"
    by (simp add: Validate_def int64_simps)
qed

lemma BuildAmounts_Inr_iff:
  "BuildAmounts cur orig disc lp = Inr a \<longleftrightarrow>
     cur \<noteq> '''' \<and> 0 \<le> sint disc \<and> sint disc \<le> sint orig \<and>
     0 \<le> sint lp \<and> sint lp \<le> sint orig - sint disc \<and>
     a = \<lparr>amt_Currency = cur, amt_Original = orig, amt_Discount = disc,
        amt_Payable = orig - disc, amt_LedgerPay = lp, amt_ChannelPay = orig - disc - lp,
        amt_Paid = 0, amt_Refunded = 0\<rparr>"
proof (cases "cur \<noteq> '''' \<and> 0 \<le> sint disc \<and> sint disc \<le> sint orig \<and> 0 \<le> sint lp
    \<and> sint lp \<le> sint orig - sint disc")
  case True
  then have s1: "Sub orig disc = Inr (orig - disc)" "sint (orig - disc) = sint orig - sint disc"
    by (simp_all add: Sub_nonneg)
  with True have s2: "Sub (orig - disc) lp = Inr (orig - disc - lp)"
    "sint (orig - disc - lp) = sint orig - sint disc - sint lp"
    by (simp_all add: Sub_nonneg)
  from True s1 s2 have "Validate \<lparr>amt_Currency = cur, amt_Original = orig, amt_Discount = disc,
        amt_Payable = orig - disc, amt_LedgerPay = lp, amt_ChannelPay = orig - disc - lp,
        amt_Paid = 0, amt_Refunded = 0\<rparr> = None"
    by (simp add: Validate_None_iff)
  with True s1 s2 show ?thesis
    by (auto simp: BuildAmounts_def int64_simps Let_def)
next
  case False
  have "sint disc \<le> sint orig \<Longrightarrow> 0 \<le> sint disc \<Longrightarrow> Sub orig disc = Inr (orig - disc)"
    "sint disc \<le> sint orig \<Longrightarrow> 0 \<le> sint disc \<Longrightarrow> sint (orig - disc) = sint orig - sint disc"
    by (simp_all add: Sub_nonneg)
  with False show ?thesis
    by (auto simp: BuildAmounts_def int64_simps)
qed

lemma BuildAmounts_valid: "BuildAmounts cur orig disc lp = Inr a \<Longrightarrow> Validate a = None"
  by (auto simp: BuildAmounts_def Let_def split: if_splits sum.splits option.splits)

lemma BuildAmounts_fields:
  assumes "BuildAmounts cur orig disc lp = Inr a"
  shows "Validate a = None" "amt_Currency a = cur" "amt_Original a = orig" "amt_Discount a = disc"
    "amt_Payable a = orig - disc" "amt_LedgerPay a = lp" "amt_Paid a = 0" "amt_Refunded a = 0"
  using assms BuildAmounts_valid by (auto simp: BuildAmounts_Inr_iff)

section \<open>The allocation adds up\<close>

lemma shares_fields:
  "map (\<lambda>l. l\<lparr>ln_DiscountAmount := 0, ln_PayableAmount := 0\<rparr>)
     (AllocateDiscount_shares td orig al ls) =
   map (\<lambda>l. l\<lparr>ln_DiscountAmount := 0, ln_PayableAmount := 0\<rparr>) ls"
  by (induction td orig al ls rule: AllocateDiscount_shares.induct)
    (simp_all add: set_discount_def Let_def)

lemma shares_payable:
  "l \<in> set (AllocateDiscount_shares td orig al ls) \<Longrightarrow>
     ln_PayableAmount l = ln_OriginalAmount l - ln_DiscountAmount l"
  by (induction td orig al ls rule: AllocateDiscount_shares.induct)
    (auto simp: set_discount_def Let_def)

lemma shares_originals:
  "map ln_OriginalAmount (AllocateDiscount_shares td orig al ls) = map ln_OriginalAmount ls"
  by (induction td orig al ls rule: AllocateDiscount_shares.induct)
    (simp_all add: set_discount_def Let_def)

lemma shares_sum:
  "ls \<noteq> [] \<Longrightarrow>
     (\<Sum>l\<leftarrow>AllocateDiscount_shares td orig al ls. ln_DiscountAmount l) = td - al"
  by (induction td orig al ls rule: AllocateDiscount_shares.induct)
    (simp_all add: set_discount_def Let_def)

lemma sum_list_diff_word:
  fixes f g :: "'a \<Rightarrow> int64"
  shows "(\<forall>x \<in> set xs. h x = f x - g x) \<Longrightarrow>
    (\<Sum>x\<leftarrow>xs. h x) = (\<Sum>x\<leftarrow>xs. f x) - (\<Sum>x\<leftarrow>xs. g x)"
  by (induction xs) simp_all

text \<open>
  The lines \<open>SumOriginal\<close> returns go through the first loop of \<open>AllocateDiscount\<close> unchanged,
  and the loop finds the same total.
\<close>

lemma originals_of_SumOriginal:
  assumes "SumOriginal_loop acc ls = Inr (ls', tot)"
  shows "AllocateDiscount_originals acc ls' = Inr (ls', tot)"
  using assms
proof (induction ls arbitrary: acc ls')
  case Nil
  then show ?case by simp
next
  case (Cons l ls)
  from Cons.prems obtain orig acc' ls'' where
    orig: "LineOriginal (ln_UnitPrice l) (ln_Quantity l) = Inr orig"
    and add: "Add acc orig = Inr acc'"
    and rest: "SumOriginal_loop acc' ls = Inr (ls'', tot)"
    and ls': "ls' = l\<lparr>ln_OriginalAmount := orig\<rparr> # ls''"
    by (auto split: sum.splits if_splits)
  from Cons.IH [OF rest] orig add ls' show ?case
    by auto
qed

lemma sum_originals_word:
  assumes "SumOriginal_loop acc ls = Inr (ls', tot)"
  shows "acc + (\<Sum>l\<leftarrow>ls'. ln_OriginalAmount l) = tot"
  using assms
proof (induction ls arbitrary: acc ls')
  case Nil
  then show ?case by simp
next
  case (Cons l ls)
  from Cons.prems obtain orig acc' ls'' where
    add: "Add acc orig = Inr acc'"
    and rest: "SumOriginal_loop acc' ls = Inr (ls'', tot)"
    and ls': "ls' = l\<lparr>ln_OriginalAmount := orig\<rparr> # ls''"
    by (auto split: sum.splits if_splits)
  from Cons.IH [OF rest] Add_InrD [OF add] ls' show ?case
    by (simp add: add.assoc)
qed

lemma zero_total_lines:
  assumes "SumOriginal ls = Inr (ls', 0)" "l \<in> set ls'"
  shows "ln_OriginalAmount l = 0"
proof -
  from assms(1) have *: "ls' = map with_original ls" "(\<Sum>l\<leftarrow>ls. line_total l) = 0"
    "\<forall>l \<in> set ls. line_priced l \<and> in64 (line_total l)"
    unfolding SumOriginal_def by (auto dest: SumOriginal_loop_InrD)
  from *(3) have "\<forall>x \<in> set (map line_total ls). 0 \<le> x"
    by (auto simp: line_total_nonneg)
  with *(2) have z: "\<forall>x \<in> set (map line_total ls). x = 0"
    using sum_list_nonneg_eq_0_iff by blast
  from assms(2) * obtain k where "k \<in> set ls" "l = with_original k" by auto
  with z *(3) have "sint (ln_OriginalAmount l) = 0"
    by (auto simp: with_original_def sint_line_total)
  then show ?thesis by (simp add: word_eq_sint)
qed

lemma AllocateDiscount_adds_up:
  assumes "SumOriginal items = Inr (lines, original)"
    and "AllocateDiscount lines discount = Inr lines'" and "items \<noteq> []"
  shows "lines_add_up lines' original discount \<and> map ln_LineID lines' = map ln_LineID items"
proof -
  note sum = SumOriginal_loop_InrD [OF assms(1) [unfolded SumOriginal_def]]
  have ids: "map ln_LineID lines = map ln_LineID items" and ne: "lines \<noteq> []"
    using sum assms(3) by (auto simp: with_original_def)
  have first: "AllocateDiscount_originals 0 lines = Inr (lines, original)"
    using originals_of_SumOriginal assms(1) by (simp add: SumOriginal_def)
  have tot: "(\<Sum>l\<leftarrow>lines. ln_OriginalAmount l) = original"
    using sum_originals_word [OF assms(1) [unfolded SumOriginal_def]] by simp
  have d: "0 \<le> sint discount" "sint discount \<le> sint original"
    using assms(2) by (auto simp: AllocateDiscount_def first int64_simps split: if_splits)
  show ?thesis
  proof (cases "original = 0")
    case True
    with d have "discount = 0" by (auto simp: word_eq_sint)
    from assms(2) True first d have
      l': "lines' = map (\<lambda>l. l\<lparr>ln_DiscountAmount := 0, ln_PayableAmount := 0\<rparr>) lines"
      by (simp add: AllocateDiscount_def int64_simps)
    have z: "\<forall>l \<in> set lines. ln_OriginalAmount l = 0"
      using zero_total_lines assms(1) True by blast
    with l' True \<open>discount = 0\<close> tot ids show ?thesis
      by (auto simp: lines_add_up_def comp_def sum_list_0)
  next
    case False
    with assms(2) first d have l': "lines' = AllocateDiscount_shares discount original 0 lines"
      by (simp add: AllocateDiscount_def int64_simps)
    have "map ln_LineID lines' = map ln_LineID items"
      using arg_cong [OF shares_fields [of discount original 0 lines], of "map ln_LineID"] ids
      by (simp add: l' comp_def)
    moreover have "(\<Sum>l\<leftarrow>lines'. ln_OriginalAmount l) = original"
      using shares_originals [of discount original 0 lines] tot by (simp add: l')
    moreover have "(\<Sum>l\<leftarrow>lines'. ln_DiscountAmount l) = discount"
      using shares_sum [OF ne, of discount original 0] by (simp add: l')
    moreover have "\<forall>l \<in> set lines'. ln_PayableAmount l = ln_OriginalAmount l - ln_DiscountAmount l"
      using shares_payable by (simp add: l')
    ultimately show ?thesis
      using sum_list_diff_word [of lines' ln_PayableAmount ln_OriginalAmount ln_DiscountAmount]
      by (simp add: lines_add_up_def)
  qed
qed

section \<open>Shares without overflow\<close>

text \<open>
  When \<open>original * discount\<close> fits 64 bits no product of the last loop wraps: every share is
  non-negative, the shares add up over the integers, and no line but the last gets more than its
  own total. \<open>S\<close> is what the lines still to come cost.
\<close>

lemma share_exact:
  assumes "0 \<le> sint w" "sint w \<le> sint original" "0 < sint original" "0 \<le> sint td"
    "sint td \<le> sint original" "sint original * sint td < 2 ^ 63"
  defines "d \<equiv> go_div (w * td) original"
  shows "sint d = sint w * sint td div sint original" "0 \<le> sint d" "sint d \<le> sint w"
    "sint d * sint original \<le> sint w * sint td"
proof -
  have nn: "0 \<le> sint w * sint td" "sint w * sint td \<le> sint original * sint td"
    using assms by (simp_all add: mult_right_mono)
  then have "sint (w * td) = sint w * sint td"
    using assms(6) by (intro sint_mult64) (auto simp: in64_def)
  with nn assms(3) show eq: "sint d = sint w * sint td div sint original"
    unfolding d_def by (simp add: sint_go_div_nonneg)
  then show "0 \<le> sint d" using nn assms(3) by (simp add: pos_imp_zdiv_nonneg_iff)
  have "sint w * sint td \<le> sint w * sint original"
    using assms by (simp add: mult_left_mono)
  then have "sint w * sint td div sint original \<le> sint w * sint original div sint original"
    using assms(3) by (intro zdiv_mono1) auto
  then show "sint d \<le> sint w" using eq assms(3) by simp
  show "sint d * sint original \<le> sint w * sint td"
    unfolding eq using minus_mod_eq_div_mult [of "sint w * sint td" "sint original"]
      pos_mod_sign [OF assms(3), of "sint w * sint td"] by linarith
qed

lemma shares_bounds:
  assumes "0 < sint original" "0 \<le> sint td" "sint td \<le> sint original"
    "sint original * sint td < 2 ^ 63"
    and "\<forall>l \<in> set ls. 0 \<le> sint (ln_OriginalAmount l)"
    and "(\<Sum>l\<leftarrow>ls. sint (ln_OriginalAmount l)) \<le> sint original"
    and "0 \<le> sint al"
    and "sint al * sint original + (\<Sum>l\<leftarrow>ls. sint (ln_OriginalAmount l)) * sint td
      \<le> sint original * sint td"
    and "ls \<noteq> []"
  shows "(\<forall>l \<in> set (AllocateDiscount_shares td original al ls). 0 \<le> sint (ln_DiscountAmount l)) \<and>
    (\<forall>l \<in> set (butlast (AllocateDiscount_shares td original al ls)).
       sint (ln_DiscountAmount l) \<le> sint (ln_OriginalAmount l)) \<and>
    (\<Sum>l\<leftarrow>AllocateDiscount_shares td original al ls. sint (ln_DiscountAmount l)) = sint td - sint al"
  using assms
proof (induction td original al ls rule: AllocateDiscount_shares.induct)
  case (1 td original al)
  then show ?case by simp
next
  case (2 td original al l)
  have "0 \<le> sint (ln_OriginalAmount l) * sint td"
    using 2 by simp
  with "2.prems"(8) have "sint al * sint original \<le> sint td * sint original"
    by (simp add: mult.commute)
  then have "sint al \<le> sint td" using 2(1) by (simp only: mult_le_cancel_right)
  with 2 have "sint (td - al) = sint td - sint al" by (simp add: Sub_nonneg)
  with \<open>sint al \<le> sint td\<close> show ?case by (simp add: set_discount_def)
next
  case (3 td original al l l' ls)
  let ?w = "ln_OriginalAmount l" and ?S = "\<Sum>l\<leftarrow>l' # ls. sint (ln_OriginalAmount l)"
  let ?d = "go_div (?w * td) original"
  have "0 \<le> ?S" using "3.prems"(5) by (intro sum_list_nonneg) auto
  then have S: "0 \<le> ?S" "0 \<le> sint ?w" "sint ?w + ?S \<le> sint original"
    using "3.prems"(5,6) by simp_all
  then have w: "sint ?w \<le> sint original" by simp
  note d = share_exact [OF S(2) w "3.prems"(1,2,3,4)]
  have bal: "(sint al + sint ?d) * sint original + ?S * sint td \<le> sint original * sint td"
    using d(4) "3.prems"(8) by (simp add: algebra_simps)
  moreover have "0 \<le> ?S * sint td" using S "3.prems"(2) by simp
  ultimately have "(sint al + sint ?d) * sint original \<le> sint td * sint original"
    by (simp add: mult.commute)
  then have "sint al + sint ?d \<le> sint td" using "3.prems"(1) by simp
  then have al': "sint (al + ?d) = sint al + sint ?d"
    using "3.prems"(7) d(2) in64_sint [of td] by (intro sint_add64) (auto simp: in64_def)
  have IH: "(\<forall>l \<in> set (AllocateDiscount_shares td original (al + ?d) (l' # ls)).
       0 \<le> sint (ln_DiscountAmount l)) \<and>
    (\<forall>l \<in> set (butlast (AllocateDiscount_shares td original (al + ?d) (l' # ls))).
       sint (ln_DiscountAmount l) \<le> sint (ln_OriginalAmount l)) \<and>
    (\<Sum>l\<leftarrow>AllocateDiscount_shares td original (al + ?d) (l' # ls). sint (ln_DiscountAmount l))
      = sint td - sint (al + ?d)"
    using "3.prems" S bal al' d(2) by (intro "3.IH") auto
  moreover have "AllocateDiscount_shares td original (al + ?d) (l' # ls) \<noteq> []"
    by (cases ls) (simp_all add: Let_def)
  ultimately show ?case
    using d(2,3) al' by (simp add: Let_def set_discount_def)
qed

lemma AllocateDiscount_bounds:
  assumes "SumOriginal items = Inr (lines, original)"
    and "AllocateDiscount lines discount = Inr lines'" and "items \<noteq> []"
    and "sint original * sint discount < 2 ^ 63"
  shows "(\<forall>l \<in> set lines'. 0 \<le> sint (ln_DiscountAmount l)) \<and>
    (\<forall>l \<in> set (butlast lines'). sint (ln_DiscountAmount l) \<le> sint (ln_OriginalAmount l)) \<and>
    (\<Sum>l\<leftarrow>lines'. sint (ln_DiscountAmount l)) = sint discount"
proof -
  note sum = SumOriginal_loop_InrD [OF assms(1) [unfolded SumOriginal_def]]
  have first: "AllocateDiscount_originals 0 lines = Inr (lines, original)"
    using originals_of_SumOriginal assms(1) by (simp add: SumOriginal_def)
  have d: "0 \<le> sint discount" "sint discount \<le> sint original"
    using assms(2) by (auto simp: AllocateDiscount_def first int64_simps split: if_splits)
  show ?thesis
  proof (cases "original = 0")
    case True
    with d have "discount = 0" by (auto simp: word_eq_sint)
    have "\<forall>l \<in> set lines. ln_OriginalAmount l = 0"
      using zero_total_lines assms(1) True by blast
    with assms(2) True first \<open>discount = 0\<close> show ?thesis
      by (auto simp: AllocateDiscount_def int64_simps comp_def sum_list_0 dest!: in_set_butlastD)
  next
    case False
    with assms(2) first d have l': "lines' = AllocateDiscount_shares discount original 0 lines"
      by (simp add: AllocateDiscount_def int64_simps)
    have "map (\<lambda>l. sint (ln_OriginalAmount l)) lines = map line_total items"
      using sum by (auto simp: with_original_def sint_line_total)
    with sum have tot: "(\<Sum>l\<leftarrow>lines. sint (ln_OriginalAmount l)) = sint original"
      by (metis add_0 signed_0)
    have nn: "\<forall>l \<in> set lines. 0 \<le> sint (ln_OriginalAmount l)"
      using sum by (auto simp: with_original_def sint_line_total line_total_nonneg)
    have "0 < sint original" using False d by (auto simp: word_eq_sint)
    with shares_bounds [of original discount lines 0] d assms(3,4) tot nn sum
    show ?thesis by (auto simp: l')
  qed
qed

section \<open>Properties\<close>

text \<open>A line as a request states it, for the examples.\<close>

definition sample_line :: "string \<Rightarrow> int64 \<Rightarrow> int64 \<Rightarrow> OrderLine" where
  "sample_line i n p = \<lparr>ln_LineID = i, ln_ObjectType = ''sku'', ln_ObjectID = ''x'', ln_Quantity = n,
     ln_UnitPrice = p, ln_OriginalAmount = 0, ln_DiscountAmount = 0, ln_PayableAmount = 0,
     ln_Attributes = None, ln_Snapshot = None\<rparr>"

text \<open>An order over 200, less 20, of which 30 are paid from the ledger and 150 by channel.\<close>

definition sample_order :: Order where
  "sample_order = \<lparr>ord_OrderID = ''ord_253067538726916096'', ord_TenantID = ''t1'',
     ord_Scene = ''mall_checkout'', ord_Channel = ''app'', ord_BuyerUserID = ''u1'',
     ord_ClientOrderID = ''c1'', ord_Status = StatusPendingPay, ord_Version = 1,
     ord_Amounts = \<lparr>amt_Currency = ''CNY'', amt_Original = 200, amt_Discount = 20,
       amt_Payable = 180, amt_LedgerPay = 30, amt_ChannelPay = 150, amt_Paid = 0, amt_Refunded = 0\<rparr>,
     ord_Promotion = \<lparr>pr_QuoteID = ''quote_1'', pr_ReservationID = ''rsv_ord_253067538726916096'',
       pr_RedemptionID = ''''\<rparr>,
     ord_Ledger = \<lparr>lr_FreezeID = ''fz_1'', lr_AssetCode = ''CNY'',
       lr_BizNo = ''order:freeze:ord_253067538726916096''\<rparr>,
     ord_Payment = \<lparr>py_PaymentIntentID = ''pi_mock_1'', py_Channel = ''mock''\<rparr>,
     ord_PayMethod = ''mix'', ord_ExpireAt = 63900000902000000000, ord_RenewCount = 0,
     ord_Context = None,
     ord_Lines = [
       (sample_line ''a'' 2 50)\<lparr>ln_OriginalAmount := 100, ln_DiscountAmount := 10, ln_PayableAmount := 90\<rparr>,
       (sample_line ''b'' 1 100)\<lparr>ln_OriginalAmount := 100, ln_DiscountAmount := 10, ln_PayableAmount := 90\<rparr>],
     ord_Promotions = [\<lparr>pd_SourceType = ''coupon'', pd_SourceID = ''k'', pd_DiscountAmount = 20,
       pd_Allocations = [\<lparr>al_LineID = ''a'', al_DiscountAmount = 10\<rparr>,
         \<lparr>al_LineID = ''b'', al_DiscountAmount = 10\<rparr>], pd_RuleSnapshotVersion = ''''\<rparr>],
     ord_LedgerLegs = [\<lparr>lg_Command = ''freeze'', lg_BizNo = ''order:freeze:ord_253067538726916096'',
       lg_FreezeID = ''fz_1'', lg_AssetCode = ''CNY'', lg_Amount = 30, lg_Status = ''accepted''\<rparr>],
     ord_CreatedAt = 63900000002000000000, ord_UpdatedAt = 63900000002000000000,
     ord_PaidAt = None, ord_CancelledAt = None, ord_CompletedAt = None\<rparr>"

lemma sample_lines_priced:
  "SumOriginal [sample_line ''a'' 2 50, sample_line ''b'' 1 101] =
     Inr ([(sample_line ''a'' 2 50)\<lparr>ln_OriginalAmount := 100\<rparr>,
           (sample_line ''b'' 1 101)\<lparr>ln_OriginalAmount := 101\<rparr>], 201)"
  "AllocateDiscount [(sample_line ''a'' 2 50)\<lparr>ln_OriginalAmount := 100\<rparr>,
       (sample_line ''b'' 1 101)\<lparr>ln_OriginalAmount := 101\<rparr>] 21 =
     Inr [(sample_line ''a'' 2 50)\<lparr>ln_OriginalAmount := 100, ln_DiscountAmount := 10, ln_PayableAmount := 90\<rparr>,
       (sample_line ''b'' 1 101)\<lparr>ln_OriginalAmount := 101, ln_DiscountAmount := 11, ln_PayableAmount := 90\<rparr>]"
  by (simp_all add: SumOriginal_def LineOriginal_def Mul_def Add_def sample_line_def go_div_def
      word_sless_alt word_sle_eq signed_divide_int_def AllocateDiscount_def set_discount_def Let_def)

text \<open>
  C27: whatever the rounding, allocating a discount over priced lines keeps the books of the lines:
  their originals add up to the original amount, their discounts to the discount, and their
  payables to the difference; every payable is original less discount, and the lines are the same.
\<close>

theorem discount_allocation_adds_up:
  assumes "SumOriginal items = Inr (lines, original)"
    and "AllocateDiscount lines discount = Inr lines'" and "items \<noteq> []"
  shows "lines_add_up lines' original discount \<and> map ln_LineID lines' = map ln_LineID items"
  by (rule AllocateDiscount_adds_up [OF assms])

theorem discount_allocation_adds_up_witness:
  "lines_add_up
     [(sample_line ''a'' 2 50)\<lparr>ln_OriginalAmount := 100, ln_DiscountAmount := 10, ln_PayableAmount := 90\<rparr>,
      (sample_line ''b'' 1 101)\<lparr>ln_OriginalAmount := 101, ln_DiscountAmount := 11, ln_PayableAmount := 90\<rparr>]
     201 21"
  using discount_allocation_adds_up [OF sample_lines_priced] by simp

text \<open>
  C28: as long as original times discount fits 64 bits, no share is negative, no line but the last
  gets more than it costs, and the shares add up to the discount over the integers.
\<close>

theorem discount_shares_within_bounds:
  assumes "SumOriginal items = Inr (lines, original)"
    and "AllocateDiscount lines discount = Inr lines'" and "items \<noteq> []"
    and "sint original * sint discount < 2 ^ 63"
  shows "(\<forall>l \<in> set lines'. 0 \<le> sint (ln_DiscountAmount l)) \<and>
    (\<forall>l \<in> set (butlast lines'). sint (ln_DiscountAmount l) \<le> sint (ln_OriginalAmount l)) \<and>
    (\<Sum>l\<leftarrow>lines'. sint (ln_DiscountAmount l)) = sint discount"
  by (rule AllocateDiscount_bounds [OF assms])

theorem discount_shares_within_bounds_witness:
  "sint (10 :: int64) + sint (11 :: int64) = sint (21 :: int64)"
  using discount_shares_within_bounds [OF sample_lines_priced] by (simp add: sample_line_def)

text \<open>
  C29: \<open>BuildAmounts\<close> succeeds exactly on a named currency, a discount between 0 and the original
  amount and a ledger part between 0 and what is left, and then the payable and the channel part
  are the exact differences.
\<close>

theorem BuildAmounts_succeeds_iff:
  "BuildAmounts cur orig disc lp = Inr a \<longleftrightarrow>
     cur \<noteq> '''' \<and> 0 \<le> sint disc \<and> sint disc \<le> sint orig \<and>
     0 \<le> sint lp \<and> sint lp \<le> sint orig - sint disc \<and>
     a = \<lparr>amt_Currency = cur, amt_Original = orig, amt_Discount = disc,
        amt_Payable = orig - disc, amt_LedgerPay = lp, amt_ChannelPay = orig - disc - lp,
        amt_Paid = 0, amt_Refunded = 0\<rparr>"
  by (rule BuildAmounts_Inr_iff)

text \<open>
  C30: \<open>Validate\<close>, which compares wrapped sums and differences, accepts exactly the amounts that are
  consistent over the integers.
\<close>

theorem Validate_accepts_iff:
  "Validate a = None \<longleftrightarrow>
     0 \<le> sint (amt_Discount a) \<and> sint (amt_Discount a) \<le> sint (amt_Original a) \<and>
     sint (amt_Payable a) = sint (amt_Original a) - sint (amt_Discount a) \<and>
     0 \<le> sint (amt_LedgerPay a) \<and> 0 \<le> sint (amt_ChannelPay a) \<and>
     sint (amt_Payable a) = sint (amt_LedgerPay a) + sint (amt_ChannelPay a) \<and>
     0 \<le> sint (amt_Refunded a) \<and> sint (amt_Refunded a) \<le> sint (amt_Paid a) \<and>
     sint (amt_Paid a) \<le> sint (amt_Payable a)"
  by (rule Validate_None_iff)

text \<open>
  C31: pricing succeeds exactly when every line has a price and a positive quantity, states no
  total or the right one, and the exact total of the order fits 64 bits.
\<close>

theorem SumOriginal_succeeds_iff:
  "(\<exists>r. SumOriginal ls = Inr r) \<longleftrightarrow>
     list_all (\<lambda>l. line_priced l \<and> ln_OriginalAmount l \<in> {0, ln_UnitPrice l * ln_Quantity l}) ls \<and>
     in64 (\<Sum>l\<leftarrow>ls. line_total l)" (is "?L \<longleftrightarrow> ?R")
proof
  assume ?L
  then obtain ls' tot where "SumOriginal_loop 0 ls = Inr (ls', tot)" by (auto simp: SumOriginal_def)
  from SumOriginal_loop_InrD [OF this] in64_sint [of tot] show ?R by (auto simp: list_all_iff)
next
  assume ?R
  then show ?L using SumOriginal_loop_total [of ls 0] by (auto simp: list_all_iff SumOriginal_def)
qed

text \<open>
  On non-negative operands the checked operations are exact: they return the sum, difference
  or product when it fits 64 bits, and \<open>ErrOverflow\<close> when it does not.
\<close>

theorem checked_arithmetic_exact:
  assumes "0 \<le> sint a" "0 \<le> sint b"
  shows "Add a b = (if in64 (sint a + sint b) then Inr (a + b) else Inl (Sentinel ErrOverflow)) \<and>
    Sub a b = Inr (a - b) \<and> sint (a - b) = sint a - sint b \<and>
    Mul a b = (if in64 (sint a * sint b) then Inr (a * b) else Inl (Sentinel ErrOverflow))"
proof -
  have "in64 (sint a - sint b)" using assms in64_sint [of a] in64_sint [of b] by (auto simp: in64_def)
  moreover have "b \<noteq> - (2 ^ 63)" using assms(2) by auto
  ultimately show ?thesis using assms by (simp add: Add_exact Sub_exact Mul_nonneg sint_diff64)
qed

theorem checked_arithmetic_exact_witness:
  "Mul 3037000500 3037000500 = Inl (Sentinel ErrOverflow) \<and> Sub 5 7 = Inr (- 2) \<and>
   Add 9223372036854775807 1 = Inl (Sentinel ErrOverflow)"
  using checked_arithmetic_exact [of 3037000500 3037000500] checked_arithmetic_exact [of 5 7]
    checked_arithmetic_exact [of 9223372036854775807 1]
  by (simp add: in64_def)

end
