(* ===== verification/Service_World.thy ===== *)
theory Service_World
  imports Memory_Repo Amount_Engine
begin

text \<open>
  What the services run in: a \<open>World\<close> with the repository and the state of the external systems,
  the lifts \<open>ext_op\<close>, \<open>repo_op\<close> and \<open>repo_get\<close>, and the repository methods as the services call them,
  with the clock reading or the iteration order they take from the runtime.

  \<open>wp m Q r\<close> says that \<open>m\<close>, started on the repository \<open>r\<close> and on any external state, ends with a
  value and a repository that satisfy \<open>Q\<close>. Its rules, collected in \<open>wp_intros\<close>, execute a service
  symbolically: the repository is followed step by step, while an external call may return anything.

  The locale \<open>repo_contract\<close> states what a predicate on repositories has to satisfy so that every
  service keeps it: it looks at the stored orders only, it survives the three field updates
  that are not transitions (a payment reference of an order that waits for payment, a redemption of an
  order that holds a reservation, a renewal), and it survives a transition that the services would ask for
  (\<open>legit\<close>). \<open>repo_contract_insert\<close> adds the insertion of a new order. The services' theories prove
  their preservation lemmas once, inside these locales, and \<open>Repo_Invariants\<close> interprets them for the
  well-formedness of the key space, for the monetary invariant, for the bound on renewals and for
  the evolution of the stored orders since a fixed state.
\<close>

section \<open>The world of a service call\<close>

record 'x World =
  w_repo :: OrderRepo
  w_ext :: 'x

definition ext_op :: "('x, 'a) state \<Rightarrow> ('x World, 'a) state" where
  "ext_op m = State (\<lambda>w. case run_state m (w_ext w) of (a, x) \<Rightarrow> (a, w\<lparr>w_ext := x\<rparr>))"

definition repo_op :: "(OrderRepo \<Rightarrow> 'a \<times> OrderRepo) \<Rightarrow> ('x World, 'a) state" where
  "repo_op f = State (\<lambda>w. case f (w_repo w) of (a, r) \<Rightarrow> (a, w\<lparr>w_repo := r\<rparr>))"

definition repo_get :: "(OrderRepo \<Rightarrow> 'a) \<Rightarrow> ('x World, 'a) state" where
  "repo_get f = State (\<lambda>w. (f (w_repo w), w))"

text \<open>The value \<open>_ = f()\<close> of a call whose error is dropped, and a nil dereference.\<close>

definition ignore :: "('s, 'a) state \<Rightarrow> ('s, unit) state" where
  "ignore m = State_Monad.bind m (\<lambda>_. State_Monad.return ())"

definition nil_panic :: error where
  "nil_panic = Opaque ''runtime error: invalid memory address or nil pointer dereference''"

section \<open>Repository methods as called by the services\<close>

definition FindByID :: "'x Deps \<Rightarrow> string \<Rightarrow> string \<Rightarrow> ('x World, Order res) state" where
  "FindByID d tenantID orderID = do {
     seed \<leftarrow> ext_op (dp_range d);
     repo_get (repo_FindByID seed tenantID orderID) }"

definition InsertCheckout :: "'x Deps \<Rightarrow> CheckoutPersist \<Rightarrow> ('x World, unit res) state" where
  "InsertCheckout d rec = repo_op (repo_InsertCheckout (dp_marshal_Event d) rec)"

definition Transition :: "'x Deps \<Rightarrow> TransitionCmd \<Rightarrow> ('x World, Order res) state" where
  "Transition d cmd = do {
     tnow \<leftarrow> ext_op (dp_time_Now d);
     repo_op (repo_Transition (dp_marshal_Event d) tnow cmd) }"

definition InsertCompensation :: "'x Deps \<Rightarrow> CompensationTicket \<Rightarrow> ('x World, unit res) state" where
  "InsertCompensation d t = do {
     tnow \<leftarrow> ext_op (dp_time_Now d);
     repo_op (repo_InsertCompensation tnow t) }"

section \<open>Symbolic execution\<close>

abbreviation wp :: "('x World, 'a) state \<Rightarrow> ('a \<Rightarrow> OrderRepo \<Rightarrow> bool) \<Rightarrow> OrderRepo \<Rightarrow> bool" where
  "wp \<equiv> vc w_repo"

lemma wp_ext_op [wp_intros]: "(\<And>a. Q a r) \<Longrightarrow> wp (ext_op m) Q r"
  by (simp add: vc_def ext_op_def split: prod.splits)

lemma wp_repo_op [wp_intros]: "Q (fst (f r)) (snd (f r)) \<Longrightarrow> wp (repo_op f) Q r"
  by (auto simp: vc_def repo_op_def split: prod.splits)

lemma wp_repo_get [wp_intros]: "Q (f r) r \<Longrightarrow> wp (repo_get f) Q r"
  by (simp add: vc_def repo_get_def)

lemma wp_ignore [wp_intros]: "wp m (\<lambda>_. Q ()) r \<Longrightarrow> wp (ignore m) Q r"
  unfolding ignore_def by (rule wp_bind) (erule wp_mono, rule wp_return)

lemma wp_FindByID [wp_intros]:
  "(\<And>seed. Q (repo_FindByID seed t i r) r) \<Longrightarrow> wp (FindByID d t i) Q r"
  by (auto simp: FindByID_def intro!: wp_intros)

lemma wp_InsertCheckout [wp_intros]:
  "Q (fst (repo_InsertCheckout (dp_marshal_Event d) rec r))
     (snd (repo_InsertCheckout (dp_marshal_Event d) rec r)) \<Longrightarrow> wp (InsertCheckout d rec) Q r"
  by (auto simp: InsertCheckout_def intro!: wp_intros)

lemma wp_Transition [wp_intros]:
  "(\<And>tnow. Q (fst (repo_Transition (dp_marshal_Event d) tnow cmd r))
      (snd (repo_Transition (dp_marshal_Event d) tnow cmd r))) \<Longrightarrow> wp (Transition d cmd) Q r"
  by (auto simp: Transition_def intro!: wp_intros)

lemma wp_InsertCompensation [wp_intros]:
  "(\<And>tnow. Q (fst (repo_InsertCompensation tnow t r)) (snd (repo_InsertCompensation tnow t r))) \<Longrightarrow>
     wp (InsertCompensation d t) Q r"
  by (auto simp: InsertCompensation_def intro!: wp_intros)

section \<open>What the services ask of a predicate\<close>

text \<open>
  The transition commands the services issue, judged on the order they meet: PAID comes with the
  payable amount of an order that waits for payment, REFUNDING starts only when something is left to
  refund, a refund is booked on an order in REFUNDING, is at most what is left and ends in REFUNDED
  exactly when nothing is left, and no other command touches the amounts. No command carries the
  reference of a redemption or of a payment.
\<close>

definition legit :: "Order \<Rightarrow> TransitionCmd \<Rightarrow> bool" where
  "legit o' cmd \<longleftrightarrow> tc_RedemptionID cmd = '''' \<and> tc_PaymentIntentID cmd = '''' \<and>
     (case tc_PaidAmount cmd of
        None \<Rightarrow> tc_To cmd \<noteq> StatusPaid
      | Some p \<Rightarrow> tc_To cmd = StatusPaid \<and> ord_Status o' = StatusPendingPay \<and>
                  p = amt_Payable (ord_Amounts o')) \<and>
     (tc_To cmd = StatusRefunding \<longrightarrow> 0 <s RefundableAmount o') \<and>
     (if tc_To cmd = StatusRefunded \<or> tc_To cmd = StatusPartialRefunded
      then ord_Status o' = StatusRefunding \<and> 0 <s tc_RefundedAdd cmd \<and>
        tc_RefundedAdd cmd \<le>s RefundableAmount o' \<and>
        (tc_To cmd = StatusRefunded \<longleftrightarrow>
           amt_Refunded (ord_Amounts o') + tc_RefundedAdd cmd = amt_Paid (ord_Amounts o'))
      else tc_RefundedAdd cmd = 0 \<and> ord_Status o' \<noteq> StatusRefunding)"

definition legit_cmd :: "OrderRepo \<Rightarrow> TransitionCmd \<Rightarrow> bool" where
  "legit_cmd r cmd \<longleftrightarrow> (\<forall>o'. accepts r cmd o' \<longrightarrow> legit o' cmd)"

abbreviation redeemed :: "string \<Rightarrow> Order \<Rightarrow> Order" where
  "redeemed rid o' \<equiv> o'\<lparr>ord_Promotion := (ord_Promotion o')\<lparr>pr_RedemptionID := rid\<rparr>\<rparr>"

text \<open>The two updates of a reference, and the renewal of a reservation.\<close>

definition ref_update :: "Order \<Rightarrow> Order \<Rightarrow> bool" where
  "ref_update o' o'' \<longleftrightarrow> (\<exists>p i. o'' = o'\<lparr>ord_Payment := p,
     ord_Promotion := (ord_Promotion o')\<lparr>pr_RedemptionID := i\<rparr>\<rparr>)"

definition renew_update :: "Order \<Rightarrow> Order \<Rightarrow> bool" where
  "renew_update o' o'' \<longleftrightarrow> ord_Status o' = StatusPendingPay \<and>
     ord_RenewCount o' < MaxReservationRenew \<and> o'' = o'\<lparr>ord_RenewCount := ord_RenewCount o' + 1\<rparr>"

definition new_order :: "Order \<Rightarrow> bool" where
  "new_order o' \<longleftrightarrow> ord_Status o' = StatusPendingPay \<and> ord_Version o' = 1 \<and>
     ord_RenewCount o' = 0 \<and> Validate (ord_Amounts o') = None \<and>
     amt_Paid (ord_Amounts o') = 0 \<and> amt_Refunded (ord_Amounts o') = 0 \<and>
     lines_add_up (ord_Lines o') (amt_Original (ord_Amounts o')) (amt_Discount (ord_Amounts o'))"

abbreviation put_own :: "Order \<Rightarrow> Order \<Rightarrow> OrderRepo \<Rightarrow> OrderRepo" where
  "put_own o' o'' r \<equiv> put_order (ord_TenantID o') (ord_OrderID o') o'' r"

lemma ref_update_payment: "ref_update o' (o'\<lparr>ord_Payment := p\<rparr>)"
  unfolding ref_update_def
  by (intro exI [of _ p] exI [of _ "pr_RedemptionID (ord_Promotion o')"]) simp

lemma ref_update_redemption:
  "ref_update o' (redeemed i o')"
  unfolding ref_update_def by (intro exI [of _ "ord_Payment o'"] exI [of _ i]) simp

locale repo_contract =
  fixes P :: "OrderRepo \<Rightarrow> bool"
  assumes P_wf: "P r \<Longrightarrow> repo_wf r"
    and P_orders: "P r \<Longrightarrow> orders r' = orders r \<Longrightarrow> P r'"
    and P_pay: "P r \<Longrightarrow> stored r o' \<Longrightarrow> ord_Status o' = StatusPendingPay \<Longrightarrow>
      P (put_own o' (o'\<lparr>ord_Payment := pay\<rparr>) r)"
    and P_redeem: "P r \<Longrightarrow> stored r o' \<Longrightarrow> HasOfferReservation o' \<Longrightarrow> rid \<noteq> '''' \<Longrightarrow>
      P (put_own o' (redeemed rid o') r)"
    and P_renew: "P r \<Longrightarrow> stored r o' \<Longrightarrow> renew_update o' o'' \<Longrightarrow> P (put_own o' o'' r)"
    and P_step: "P r \<Longrightarrow> stored r o' \<Longrightarrow> CanTransition (ord_Status o') (tc_To cmd) \<Longrightarrow> legit o' cmd \<Longrightarrow>
      P (put_own o' (apply_cmd tnow cmd (moved cmd o')) r)"
begin

lemma put_own_key: "order_key t i = order_key t' i' \<Longrightarrow> put_order t i o' r = put_order t' i' o' r"
  by (simp add: put_order_def)

lemma keeps_Transition:
  assumes "P r" "legit_cmd r cmd"
  shows "P (snd (repo_Transition marshal tnow cmd r))"
proof (cases "\<exists>o'. accepts r cmd o'")
  case True
  then obtain o' where o': "accepts r cmd o'" by blast
  then have lk: "lookup_order r (tc_TenantID cmd) (tc_OrderID cmd) = Some o'"
    and can: "CanTransition (ord_Status o') (tc_To cmd)" and lg: "legit o' cmd"
    using assms(2) by (auto simp: accepts_def legit_cmd_def)
  have st: "stored r o'" "order_key (ord_TenantID o') (ord_OrderID o') =
      order_key (tc_TenantID cmd) (tc_OrderID cmd)"
    using lookup_stored [OF P_wf [OF assms(1)] lk] by simp_all
  have "orders (snd (repo_Transition marshal tnow cmd r)) =
      orders (put_own o' (apply_cmd tnow cmd (moved cmd o')) r)"
    unfolding Transition_accepts(2) [OF o'] put_own_key [OF st(2)] ..
  with P_step [OF assms(1) st(1) can lg] show ?thesis by (rule P_orders)
next
  case False
  with Transition_rejects [OF this, of marshal tnow] assms(1) show ?thesis by auto
qed

lemma keeps_bookkeeping:
  assumes "P r"
  shows "P (snd (repo_UpdateIdempotencyResponse t a k b r))" "P (snd (repo_InsertRefund rf r))"
    "P (snd (repo_InsertCompensation tnow tk r))" "P (snd (repo_ClaimCompensations now limit r))"
    "P (snd (repo_UpdateCompensation i st le nr r))" "P (snd (repo_MarkEventPublished ev r))"
  using assms by (auto intro: P_orders)

lemma put_at:
  assumes "P r" "lookup_order r t i = Some o'"
  shows "stored r o'" "put_order t i o'' r = put_own o' o'' r"
proof -
  have st: "stored r o'" "order_key (ord_TenantID o') (ord_OrderID o') = order_key t i"
    using lookup_stored [OF P_wf [OF assms(1)] assms(2)] by simp_all
  show "stored r o'" by (rule st(1))
  show "put_order t i o'' r = put_own o' o'' r" by (rule put_own_key [OF st(2) [symmetric]])
qed

lemma keeps_UpdatePaymentIntent:
  assumes "P r" "\<And>s. lookup_order r t i = Some s \<Longrightarrow> ord_Status s = StatusPendingPay"
  shows "P (snd (repo_UpdatePaymentIntent t i it ch r))"
proof (cases "lookup_order r t i")
  case (Some s)
  from P_pay [OF assms(1) put_at(1) [OF assms(1) Some] assms(2) [OF Some]] show ?thesis
    by (simp add: repo_UpdatePaymentIntent_def Some put_at(2) [OF assms(1) Some])
qed (simp add: repo_UpdatePaymentIntent_def assms(1))

lemma keeps_UpdateRedemption:
  assumes "P r" "rid \<noteq> ''''" "\<And>s. lookup_order r t i = Some s \<Longrightarrow> HasOfferReservation s"
  shows "P (snd (repo_UpdateRedemption t i rid r))"
proof (cases "lookup_order r t i")
  case (Some s)
  from P_redeem [OF assms(1) put_at(1) [OF assms(1) Some] assms(3) [OF Some] assms(2)] show ?thesis
    by (simp add: repo_UpdateRedemption_def Some put_at(2) [OF assms(1) Some])
qed (simp add: repo_UpdateRedemption_def assms(1))

lemma keeps_BumpRenew:
  assumes "P r" "n < MaxReservationRenew"
  shows "P (snd (repo_BumpRenew t i n r))"
proof (cases "lookup_order r t i")
  case (Some s)
  have "P (put_own s (s\<lparr>ord_RenewCount := ord_RenewCount s + 1\<rparr>) r)"
    if "ord_Status s = StatusPendingPay" "ord_RenewCount s = n"
    using P_renew [OF assms(1) put_at(1) [OF assms(1) Some]] that assms(2) by (simp add: renew_update_def)
  with assms(1) show ?thesis by (simp add: repo_BumpRenew_def Some put_at(2) [OF assms(1) Some])
qed (simp add: repo_BumpRenew_def assms(1))

lemmas keeps_repo = keeps_bookkeeping keeps_BumpRenew keeps_Transition

end

locale repo_contract_insert = repo_contract +
  assumes P_insert: "P r \<Longrightarrow> new_order o' \<Longrightarrow> P (put_own o' o' r)"
begin

lemma keeps_InsertCheckout:
  assumes "P r" "\<And>o'. cp_Order rec = Some o' \<Longrightarrow> new_order o'"
  shows "P (snd (repo_InsertCheckout marshal rec r))"
proof (cases "\<exists>o' r1. cp_Order rec = Some o' \<and> InsertCheckout_idem (cp_Idempotency rec) r = Inr r1")
  case True
  then obtain o' r1 where o': "cp_Order rec = Some o'"
    and r1: "InsertCheckout_idem (cp_Idempotency rec) r = Inr r1" by blast
  from r1 have "orders r1 = orders r"
    by (auto simp: InsertCheckout_idem_def Let_def split: option.splits if_splits)
  then have "P (put_own o' o' r1)"
    using P_insert P_orders [OF assms(1)] assms(2) o' by blast
  then show ?thesis
    using assms(1) o' r1 by (auto simp: repo_InsertCheckout_def Let_def intro: P_orders)
next
  case False
  with assms(1) show ?thesis
    by (auto simp: repo_InsertCheckout_def Let_def split: option.splits sum.splits)
qed

end

end
