(* ===== verification/Repo_Invariants.thy ===== *)
theory Repo_Invariants
  imports Service_World
begin

text \<open>
  The predicates on the repository that every service keeps, each an interpretation of the contract
  of \<open>Service_World\<close>: \<open>repo_wf\<close> (qualifier \<open>wf\<close>), the monetary invariant \<open>repo_ok\<close> (\<open>money\<close>), the
  bound on renewals \<open>renew_ok\<close> (\<open>renew\<close>), and \<open>repo_follows r0\<close> (\<open>evolving\<close>): the orders of \<open>r0\<close> are
  still there, with the same frozen part, a status reachable in the life cycle and references that
  change only where they are filled in. The last is no
  instance of the contract with insertion, since a generated id may be that of a stored order.
\<close>

section \<open>The invariants\<close>

text \<open>
  The money of an order: the amounts are consistent, the lines add up to them, nothing is paid
  before PAID and the full payable amount from then on, and refunds are booked only on the way
  through REFUNDING: in part in PARTIAL_REFUNDED, in full in REFUNDED.
\<close>

definition refunds_ok :: "Status \<Rightarrow> Amounts \<Rightarrow> bool" where
  "refunds_ok s a \<longleftrightarrow>
     (case s of
        StatusRefunding \<Rightarrow> amt_Refunded a <s amt_Paid a
      | StatusPartialRefunded \<Rightarrow> 0 <s amt_Refunded a \<and> amt_Refunded a <s amt_Paid a
      | StatusRefunded \<Rightarrow> amt_Refunded a = amt_Paid a
      | _ \<Rightarrow> amt_Refunded a = 0)"

definition order_ok :: "Order \<Rightarrow> bool" where
  "order_ok o' \<longleftrightarrow>
     Validate (ord_Amounts o') = None \<and>
     lines_add_up (ord_Lines o') (amt_Original (ord_Amounts o')) (amt_Discount (ord_Amounts o')) \<and>
     amt_Paid (ord_Amounts o') =
       (if paid_branch (ord_Status o') then amt_Payable (ord_Amounts o') else 0) \<and>
     refunds_ok (ord_Status o') (ord_Amounts o')"

definition repo_ok :: "OrderRepo \<Rightarrow> bool" where
  "repo_ok r \<longleftrightarrow> repo_wf r \<and> (\<forall>o'. stored r o' \<longrightarrow> order_ok o')"

definition renew_ok :: "OrderRepo \<Rightarrow> bool" where
  "renew_ok r \<longleftrightarrow> repo_wf r \<and>
     (\<forall>o'. stored r o' \<longrightarrow> 0 \<le> ord_RenewCount o' \<and> ord_RenewCount o' \<le> MaxReservationRenew)"

text \<open>The part of an order that no operation changes after checkout.\<close>

definition frozen_part :: "Order \<Rightarrow> Order" where
  "frozen_part o' = o'\<lparr>ord_Status := StatusPendingPay, ord_Version := 0,
     ord_Amounts := (ord_Amounts o')\<lparr>amt_Paid := 0, amt_Refunded := 0\<rparr>,
     ord_Promotion := (ord_Promotion o')\<lparr>pr_RedemptionID := ''''\<rparr>,
     ord_Payment := \<lparr>py_PaymentIntentID = '''', py_Channel = ''''\<rparr>, ord_RenewCount := 0,
     ord_UpdatedAt := 0, ord_PaidAt := None, ord_CancelledAt := None, ord_CompletedAt := None\<rparr>"

text \<open>
  The part that a payment or a cancellation does not change: the status, the version, the amounts
  paid and refunded, the redemption and the times are left open, and only they.
\<close>

definition body_part :: "Order \<Rightarrow> Order" where
  "body_part o' = o'\<lparr>ord_Status := StatusPendingPay, ord_Version := 0,
     ord_Amounts := (ord_Amounts o')\<lparr>amt_Paid := 0, amt_Refunded := 0\<rparr>,
     ord_Promotion := (ord_Promotion o')\<lparr>pr_RedemptionID := ''''\<rparr>,
     ord_UpdatedAt := 0, ord_PaidAt := None, ord_CancelledAt := None, ord_CompletedAt := None\<rparr>"

lemma body_frozen: "body_part s = body_part o' \<Longrightarrow> frozen_part s = frozen_part o'"
  by (drule arg_cong [of _ _ frozen_part]) (simp add: frozen_part_def body_part_def)

definition order_evolves :: "Order \<Rightarrow> Order \<Rightarrow> bool" where
  "order_evolves o' o'' \<longleftrightarrow> frozen_part o'' = frozen_part o' \<and>
     evolves (ord_Status o') (ord_Status o'')"

text \<open>
  What becomes of the parts that are filled in later. The reference of the payment and the count of
  renewals change only while the order waits for payment, what has been paid stays from then on, the
  redemption is noted only on an order that holds a reservation, and is not lost again.
\<close>

definition refs_follow :: "Order \<Rightarrow> Order \<Rightarrow> bool" where
  "refs_follow o' o'' \<longleftrightarrow>
     (ord_Status o' \<noteq> StatusPendingPay \<longrightarrow>
        ord_Payment o'' = ord_Payment o' \<and> ord_RenewCount o'' = ord_RenewCount o' \<and>
        amt_Paid (ord_Amounts o'') = amt_Paid (ord_Amounts o')) \<and>
     ord_RenewCount o' \<le> ord_RenewCount o'' \<and>
     (\<not> HasOfferReservation o' \<longrightarrow> ord_Promotion o'' = ord_Promotion o') \<and>
     (pr_RedemptionID (ord_Promotion o') \<noteq> '''' \<longrightarrow> pr_RedemptionID (ord_Promotion o'') \<noteq> '''')"

definition order_follows :: "Order \<Rightarrow> Order \<Rightarrow> bool" where
  "order_follows o' o'' \<longleftrightarrow> order_evolves o' o'' \<and> refs_follow o' o''"

text \<open>Every order of an earlier state is still there, in a relation to its former self.\<close>

definition repo_steps :: "(Order \<Rightarrow> Order \<Rightarrow> bool) \<Rightarrow> OrderRepo \<Rightarrow> OrderRepo \<Rightarrow> bool" where
  "repo_steps R r0 r \<longleftrightarrow> repo_wf r \<and> (\<forall>o'. stored r0 o' \<longrightarrow> (\<exists>o''. stored r o'' \<and> R o' o''))"

abbreviation repo_evolves :: "OrderRepo \<Rightarrow> OrderRepo \<Rightarrow> bool" where
  "repo_evolves \<equiv> repo_steps order_evolves"

abbreviation repo_follows :: "OrderRepo \<Rightarrow> OrderRepo \<Rightarrow> bool" where
  "repo_follows \<equiv> repo_steps order_follows"

lemmas repo_evolves_def = repo_steps_def [of order_evolves]

lemma frozen_part_key:
  "frozen_part o'' = frozen_part o' \<Longrightarrow>
     ord_TenantID o'' = ord_TenantID o' \<and> ord_OrderID o'' = ord_OrderID o'"
  by (drule arg_cong [of _ _ "\<lambda>x. (ord_TenantID x, ord_OrderID x)"]) (simp add: frozen_part_def)

section \<open>Contracts\<close>

text \<open>Commands that move an order without touching its amounts, from statuses other than REFUNDING.\<close>

lemma legit_plain:
  assumes "tc_PaidAmount cmd = None" "tc_RefundedAdd cmd = 0" "tc_RedemptionID cmd = ''''"
    "tc_PaymentIntentID cmd = ''''" "tc_From cmd \<noteq> []" "StatusRefunding \<notin> set (tc_From cmd)"
    "tc_To cmd \<notin> {StatusPaid, StatusRefunding, StatusRefunded, StatusPartialRefunded}"
  shows "legit_cmd r cmd"
  using assms by (auto simp: legit_cmd_def legit_def accepts_def)

text \<open>A predicate on single orders gives a contract when it survives the updates.\<close>

lemma all_stored_put:
  assumes "repo_wf r \<and> (\<forall>o'. stored r o' \<longrightarrow> Q o')" "Q o''"
    "ord_TenantID o'' = ord_TenantID o'" "ord_OrderID o'' = ord_OrderID o'"
  shows "repo_wf (put_own o' o'' r) \<and> (\<forall>o1. stored (put_own o' o'' r) o1 \<longrightarrow> Q o1)"
  using assms by (auto simp: stored_put_order put_order_wf)

lemma contract_of_orders:
  assumes "\<And>o' o''. Q o' \<Longrightarrow> ref_update o' o'' \<Longrightarrow> Q o''"
    and "\<And>o' o''. Q o' \<Longrightarrow> renew_update o' o'' \<Longrightarrow> Q o''"
    and "\<And>o' cmd tnow. Q o' \<Longrightarrow> CanTransition (ord_Status o') (tc_To cmd) \<Longrightarrow> legit o' cmd \<Longrightarrow>
      Q (apply_cmd tnow cmd (moved cmd o'))"
  shows "repo_contract (\<lambda>r. repo_wf r \<and> (\<forall>o'. stored r o' \<longrightarrow> Q o'))"
proof
  fix r r' :: OrderRepo
  assume "repo_wf r \<and> (\<forall>o'. stored r o' \<longrightarrow> Q o')" "orders r' = orders r"
  then show "repo_wf r' \<and> (\<forall>o'. stored r' o' \<longrightarrow> Q o')"
    using orders_only(1,2) [of r' r] by simp
next
  fix r o' pay
  assume *: "repo_wf r \<and> (\<forall>o'. stored r o' \<longrightarrow> Q o')" "stored r o'"
  with assms(1) [OF _ ref_update_payment] show "repo_wf (put_own o' (o'\<lparr>ord_Payment := pay\<rparr>) r) \<and>
      (\<forall>o1. stored (put_own o' (o'\<lparr>ord_Payment := pay\<rparr>) r) o1 \<longrightarrow> Q o1)"
    by (intro all_stored_put) simp_all
next
  fix r o' rid
  assume *: "repo_wf r \<and> (\<forall>o'. stored r o' \<longrightarrow> Q o')" "stored r o'"
  with assms(1) [OF _ ref_update_redemption] show "repo_wf (put_own o' (redeemed rid o') r) \<and>
      (\<forall>o1. stored (put_own o' (redeemed rid o') r) o1 \<longrightarrow> Q o1)"
    by (intro all_stored_put) simp_all
next
  fix r o' o''
  assume *: "repo_wf r \<and> (\<forall>o'. stored r o' \<longrightarrow> Q o')" "stored r o'" "renew_update o' o''"
  with assms(2) have "Q o''" by blast
  with * show "repo_wf (put_own o' o'' r) \<and> (\<forall>o1. stored (put_own o' o'' r) o1 \<longrightarrow> Q o1)"
    by (intro all_stored_put) (auto simp: renew_update_def)
next
  fix r o' cmd tnow
  let ?o = "apply_cmd tnow cmd (moved cmd o')"
  assume *: "repo_wf r \<and> (\<forall>o'. stored r o' \<longrightarrow> Q o')" "stored r o'"
    "CanTransition (ord_Status o') (tc_To cmd)" "legit o' cmd"
  with assms(3) have "Q ?o" by blast
  with * show "repo_wf (put_own o' ?o r) \<and> (\<forall>o1. stored (put_own o' ?o r) o1 \<longrightarrow> Q o1)"
    by (intro all_stored_put) (auto simp: moved_def)
qed blast

interpretation wf: repo_contract_insert repo_wf
proof -
  have "repo_contract repo_wf"
    using contract_of_orders [of "\<lambda>_. True"] by simp
  then show "repo_contract_insert repo_wf"
    by (simp add: repo_contract_insert_def repo_contract_insert_axioms_def put_order_wf)
qed

lemma renew_ok_contract: "repo_contract renew_ok"
  unfolding renew_ok_def
  by (rule contract_of_orders) (auto simp: ref_update_def renew_update_def moved_def)

interpretation renew: repo_contract_insert renew_ok
proof -
  have "P_insert": "renew_ok r \<Longrightarrow> new_order o' \<Longrightarrow> renew_ok (put_own o' o' r)" for r o'
    by (auto simp: renew_ok_def new_order_def MaxReservationRenew_def put_order_wf stored_put_order)
  with renew_ok_contract show "repo_contract_insert renew_ok"
    by (simp add: repo_contract_insert_def repo_contract_insert_axioms_def)
qed

section \<open>The monetary invariant is a contract\<close>

lemma order_ok_ref: "order_ok o' \<Longrightarrow> ref_update o' o'' \<Longrightarrow> order_ok o''"
  by (auto simp: order_ok_def ref_update_def)

lemma order_ok_renew: "order_ok o' \<Longrightarrow> renew_update o' o'' \<Longrightarrow> order_ok o''"
  by (auto simp: order_ok_def renew_update_def)

lemma order_ok_new: "new_order o' \<Longrightarrow> order_ok o'"
  by (simp add: order_ok_def refunds_ok_def new_order_def paid_branch_def)

text \<open>A refund that is at most what is left adds up without wrap-around.\<close>

lemma refund_exact:
  fixes rf pd add :: int64
  assumes "0 \<le> sint rf" "sint rf \<le> sint pd" "0 < sint add" "add \<le>s pd - rf"
  shows "sint (rf + add) = sint rf + sint add" "sint rf + sint add \<le> sint pd"
proof -
  have "sint (pd - rf) = sint pd - sint rf" using assms(1,2) by (rule Sub_nonneg(2))
  with assms(4) show le: "sint rf + sint add \<le> sint pd" by (simp add: int64_simps)
  then show "sint (rf + add) = sint rf + sint add"
    using assms in64_sint [of pd] by (intro sint_add64) (auto simp: in64_def)
qed

lemma apply_cmd_Amounts_same:
  "tc_PaidAmount cmd = None \<Longrightarrow> tc_RefundedAdd cmd = 0 \<Longrightarrow>
     ord_Amounts (apply_cmd tnow cmd o') = ord_Amounts o'"
  by (simp add: apply_cmd_Amounts)

lemma order_ok_step:
  assumes "order_ok o'" "CanTransition (ord_Status o') (tc_To cmd)" "legit o' cmd"
  shows "order_ok (apply_cmd tnow cmd (moved cmd o'))"
proof -
  let ?a = "ord_Amounts o'" and ?s = "ord_Status o'"
  have v: "Validate ?a = None" using assms(1) by (simp add: order_ok_def)
  then have nn: "0 \<le> sint (amt_Refunded ?a)" "sint (amt_Refunded ?a) \<le> sint (amt_Paid ?a)"
    "sint (amt_Paid ?a) \<le> sint (amt_Payable ?a)" "0 \<le> sint (amt_Payable ?a)"
    by (simp_all add: Validate_None_iff)
  consider (pay) "tc_PaidAmount cmd \<noteq> None"
    | (book) "tc_PaidAmount cmd = None" "tc_To cmd = StatusRefunded \<or> tc_To cmd = StatusPartialRefunded"
    | (start) "tc_PaidAmount cmd = None" "tc_To cmd = StatusRefunding"
    | (other) "tc_PaidAmount cmd = None"
      "tc_To cmd \<notin> {StatusRefunded, StatusPartialRefunded, StatusRefunding}" by blast
  then show ?thesis
  proof cases
    case pay
    then obtain p where p: "tc_PaidAmount cmd = Some p" by blast
    with assms(3) have "tc_To cmd = StatusPaid" "?s = StatusPendingPay" "p = amt_Payable ?a"
      "tc_RefundedAdd cmd = 0" by (auto simp: legit_def)
    with p assms(1) v nn show ?thesis
      by (simp add: order_ok_def refunds_ok_def apply_cmd_Amounts moved_def paid_branch_def Validate_None_iff)
  next
    case book
    with assms(3) have b: "?s = StatusRefunding" "0 < sint (tc_RefundedAdd cmd)"
      "tc_RefundedAdd cmd \<le>s amt_Paid ?a - amt_Refunded ?a"
      "tc_To cmd = StatusRefunded \<longleftrightarrow> amt_Refunded ?a + tc_RefundedAdd cmd = amt_Paid ?a"
      by (auto simp: legit_def RefundableAmount_def int64_simps)
    note ex = refund_exact [OF nn(1,2) b(2,3)]
    have "amt_Refunded ?a + tc_RefundedAdd cmd = amt_Paid ?a \<longleftrightarrow>
        sint (amt_Refunded ?a) + sint (tc_RefundedAdd cmd) = sint (amt_Paid ?a)"
      by (simp add: word_eq_sint [of "_ + _"] ex(1))
    with book b assms(1) v nn ex show ?thesis
      by (auto simp: order_ok_def refunds_ok_def apply_cmd_Amounts moved_def paid_branch_def Validate_None_iff
          int64_simps)
  next
    case start
    with assms(3) have s: "0 <s amt_Paid ?a - amt_Refunded ?a" "tc_RefundedAdd cmd = 0"
      by (auto simp: legit_def RefundableAmount_def)
    then have "sint (amt_Refunded ?a) < sint (amt_Paid ?a)"
      using Sub_nonneg(2) [OF nn(1,2)] by (simp add: int64_simps)
    moreover have "paid_branch ?s"
      using start(2) assms(2) by (cases ?s) (simp_all add: paid_branch_def CanTransition_defs)
    ultimately show ?thesis using start s assms(1) v
      by (simp add: order_ok_def refunds_ok_def apply_cmd_Amounts_same moved_def paid_branch_def int64_simps)
  next
    case other
    with assms(3) have s: "tc_RefundedAdd cmd = 0" "?s \<noteq> StatusRefunding" "tc_To cmd \<noteq> StatusPaid"
      by (auto simp: legit_def)
    with other assms(1,2) v show ?thesis
      by (cases ?s; cases "tc_To cmd")
        (simp_all add: order_ok_def refunds_ok_def apply_cmd_Amounts_same moved_def paid_branch_def CanTransition_defs)
  qed
qed

lemma repo_ok_contract: "repo_contract repo_ok"
  unfolding repo_ok_def
  by (rule contract_of_orders) (auto intro: order_ok_ref order_ok_renew order_ok_step)

interpretation money: repo_contract_insert repo_ok
proof -
  have "repo_ok r \<Longrightarrow> new_order o' \<Longrightarrow> repo_ok (put_own o' o' r)" for r o'
    by (auto simp: repo_ok_def order_ok_new put_order_wf stored_put_order)
  with repo_ok_contract show "repo_contract_insert repo_ok"
    by (simp add: repo_contract_insert_def repo_contract_insert_axioms_def)
qed

section \<open>Evolution since a fixed state is a contract\<close>

lemma order_evolves_trans: "order_evolves a b \<Longrightarrow> order_evolves b c \<Longrightarrow> order_evolves a c"
  by (auto simp: order_evolves_def intro: evolves_trans)

lemma order_evolves_key:
  "order_evolves o' o'' \<Longrightarrow> ord_TenantID o'' = ord_TenantID o' \<and> ord_OrderID o'' = ord_OrderID o'"
  by (auto simp: order_evolves_def dest: frozen_part_key)

lemma moved_Status [simp]: "ord_Status (moved cmd o') = tc_To cmd"
  by (simp add: moved_def)

lemma moved_keys [simp]:
  "ord_TenantID (moved cmd o') = ord_TenantID o'" "ord_OrderID (moved cmd o') = ord_OrderID o'"
  "ord_RenewCount (moved cmd o') = ord_RenewCount o'"
  by (simp_all add: moved_def)

lemma moved_Amounts: "ord_Amounts (moved cmd o') = ord_Amounts o'"
  by (simp add: moved_def)

lemma moved_Version: "ord_Version (moved cmd o') = ord_Version o' + 1"
  by (simp add: moved_def)

lemma frozen_part_apply_cmd: "frozen_part (apply_cmd tnow cmd (moved cmd o')) = frozen_part o'"
  by (simp add: frozen_part_def apply_cmd_def moved_def Let_def split: option.split)

lemma repo_steps_put:
  assumes "repo_steps R r0 r" "stored r o'" "R o' o''" "order_evolves o' o''" "transp R"
  shows "repo_steps R r0 (put_own o' o'' r)"
  unfolding repo_steps_def
proof (intro conjI allI impI)
  note key = order_evolves_key [OF assms(4)]
  show "repo_wf (put_own o' o'' r)"
    using assms(1) key by (simp add: repo_steps_def put_order_wf)
  fix a assume "stored r0 a"
  with assms(1) obtain b where b: "stored r b" "R a b"
    by (auto simp: repo_steps_def)
  show "\<exists>c. stored (put_own o' o'' r) c \<and> R a c"
  proof (cases "order_key (ord_TenantID b) (ord_OrderID b) = order_key (ord_TenantID o') (ord_OrderID o')")
    case True
    with b(1) assms(2) have "b = o'" by (simp add: stored_def lookup_order_def)
    with b assms(3) key show ?thesis
      by (intro exI [of _ o'']) (auto simp: stored_put_order intro: transpD [OF assms(5)])
  next
    case False
    with b show ?thesis by (intro exI [of _ b]) (simp add: stored_put_order)
  qed
qed

lemma order_evolves_transp: "transp order_evolves"
  by (auto intro: transpI order_evolves_trans)

lemma repo_evolves_put:
  "repo_evolves r0 r \<Longrightarrow> stored r o' \<Longrightarrow> order_evolves o' o'' \<Longrightarrow> repo_evolves r0 (put_own o' o'' r)"
  using repo_steps_put [OF _ _ _ _ order_evolves_transp] .

lemma repo_evolves_refl: "repo_wf r \<Longrightarrow> repo_evolves r r"
  by (auto simp: repo_evolves_def order_evolves_def intro: evolves.stay)

text \<open>With the references.\<close>

lemma frozen_part_holds: "frozen_part b = frozen_part a \<Longrightarrow> HasOfferReservation b = HasOfferReservation a"
  by (drule arg_cong [of _ _ "\<lambda>x. pr_ReservationID (ord_Promotion x)"])
    (simp add: frozen_part_def HasOfferReservation_def)

lemma order_follows_transp: "transp order_follows"
proof (rule transpI)
  fix a b c
  assume ab: "order_follows a b" and bc: "order_follows b c"
  have "ord_Status b \<noteq> StatusPendingPay" if "ord_Status a \<noteq> StatusPendingPay"
    using ab that evolves_pending by (auto simp: order_follows_def order_evolves_def)
  moreover have "HasOfferReservation b = HasOfferReservation a"
    using ab by (intro frozen_part_holds) (simp add: order_follows_def order_evolves_def)
  ultimately have "refs_follow a c" using ab bc by (auto simp: order_follows_def refs_follow_def)
  then show "order_follows a c"
    using ab bc order_evolves_trans by (auto simp: order_follows_def)
qed

lemma repo_follows_put:
  assumes "repo_follows r0 r" "stored r o'" "order_follows o' o''"
  shows "repo_follows r0 (put_own o' o'' r)"
  using repo_steps_put [OF assms _ order_follows_transp] assms(3) by (simp add: order_follows_def)

lemma repo_follows_refl: "repo_wf r \<Longrightarrow> repo_follows r r"
  by (auto simp: repo_steps_def order_follows_def refs_follow_def order_evolves_def intro: evolves.stay)

lemma apply_cmd_refs:
  assumes "legit o' cmd"
  shows "ord_Payment (apply_cmd tnow cmd (moved cmd o')) = ord_Payment o'"
    "ord_Promotion (apply_cmd tnow cmd (moved cmd o')) = ord_Promotion o'"
    "ord_RenewCount (apply_cmd tnow cmd (moved cmd o')) = ord_RenewCount o'"
  using assms by (simp_all add: legit_def apply_cmd_def moved_def Let_def split: option.split)

lemma body_part_apply_cmd:
  "tc_PaymentIntentID cmd = '''' \<Longrightarrow> body_part (apply_cmd tnow cmd (moved cmd o')) = body_part o'"
  "tc_RedemptionID cmd = '''' \<Longrightarrow> ord_Promotion (apply_cmd tnow cmd (moved cmd o')) = ord_Promotion o'"
  "ord_Version (apply_cmd tnow cmd (moved cmd o')) = ord_Version o' + 1"
  by (simp_all add: body_part_def apply_cmd_def moved_def Let_def split: option.split)

lemma legit_paid:
  "legit o' cmd \<Longrightarrow> ord_Status o' \<noteq> StatusPendingPay \<Longrightarrow>
   amt_Paid (ord_Amounts (apply_cmd tnow cmd (moved cmd o'))) = amt_Paid (ord_Amounts o')"
  by (auto simp: legit_def apply_cmd_Amounts moved_Amounts split: option.splits)

interpretation evolving: repo_contract "repo_follows r0" for r0
proof
  fix r o' pay
  assume "repo_follows r0 r" "stored r o'" "ord_Status o' = StatusPendingPay"
  then show "repo_follows r0 (put_own o' (o'\<lparr>ord_Payment := pay\<rparr>) r)"
    by (intro repo_follows_put)
      (auto simp: order_follows_def refs_follow_def order_evolves_def frozen_part_def intro: evolves.stay)
next
  fix r o' and rid :: string
  assume "repo_follows r0 r" "stored r o'" "HasOfferReservation o'" "rid \<noteq> ''''"
  then show "repo_follows r0 (put_own o' (redeemed rid o') r)"
    by (intro repo_follows_put)
      (auto simp: order_follows_def refs_follow_def order_evolves_def frozen_part_def intro: evolves.stay)
next
  fix r o' o''
  assume "repo_follows r0 r" "stored r o'" "renew_update o' o''"
  then show "repo_follows r0 (put_own o' o'' r)"
    by (intro repo_follows_put) (auto simp: renew_update_def order_follows_def refs_follow_def
        order_evolves_def frozen_part_def intro: evolves.stay)
next
  fix r o' tnow and cmd :: TransitionCmd
  assume *: "repo_follows r0 r" "stored r o'" "CanTransition (ord_Status o') (tc_To cmd)" "legit o' cmd"
  then have "order_follows o' (apply_cmd tnow cmd (moved cmd o'))"
    using apply_cmd_refs [OF *(4), of tnow] legit_paid [OF *(4), of tnow]
    by (simp add: order_follows_def refs_follow_def order_evolves_def frozen_part_apply_cmd evolves_step)
  with * show "repo_follows r0 (put_own o' (apply_cmd tnow cmd (moved cmd o')) r)"
    by (intro repo_follows_put)
next
  fix r r' :: OrderRepo
  assume "repo_follows r0 r" "orders r' = orders r"
  then show "repo_follows r0 r'"
    using orders_only(1,2) [of r' r] by (simp add: repo_steps_def)
qed (simp add: repo_steps_def)

end
