(* ===== verification/Order_Store.thy ===== *)
theory Order_Store
  imports Repo_Invariants
begin

text \<open>
  What the in-memory repository promises about the state of an order, as an abstract store: a map
  from keys to status, version, paid and refunded amount, on which \<open>spec_transition\<close> is a
  compare-and-swap guarded by the life cycle. \<open>abs_repo\<close> reads the store off a repository, and the
  lemmas show that \<open>Transition\<close> implements the specification and that the other operations do not
  touch it.
\<close>

section \<open>The abstract store\<close>

type_synonym abs_order = "Status \<times> int64 \<times> int64 \<times> int64"

definition abs_of :: "Order \<Rightarrow> abs_order" where
  "abs_of o' = (ord_Status o', ord_Version o', amt_Paid (ord_Amounts o'), amt_Refunded (ord_Amounts o'))"

definition abs_repo :: "OrderRepo \<Rightarrow> string \<rightharpoonup> abs_order" where
  "abs_repo r k = map_option abs_of (map_of (orders r) k)"

definition spec_transition ::
  "'k \<Rightarrow> TransitionCmd \<Rightarrow> ('k \<rightharpoonup> abs_order) \<Rightarrow> bool \<times> ('k \<rightharpoonup> abs_order)" where
  "spec_transition k cmd m =
     (case m k of
        None \<Rightarrow> (False, m)
      | Some (s, v, paid, refunded) \<Rightarrow>
          if v = tc_Version cmd \<and> (tc_From cmd = [] \<or> s \<in> set (tc_From cmd)) \<and> lifecycle s (tc_To cmd)
          then (True, m(k \<mapsto> (tc_To cmd, v + 1,
                 (case tc_PaidAmount cmd of None \<Rightarrow> paid | Some p \<Rightarrow> p),
                 (if 0 <s tc_RefundedAdd cmd then refunded + tc_RefundedAdd cmd else refunded))))
          else (False, m))"

text \<open>
  The same without the life cycle: what the update statement of Postgres implements, which compares the version
  and the expected statuses only. \<open>effect\<close> is what a command that is accepted makes of an order.
\<close>

fun effect :: "TransitionCmd \<Rightarrow> abs_order \<Rightarrow> abs_order" where
  "effect cmd (s, v, paid, refunded) =
     (tc_To cmd, v + 1, (case tc_PaidAmount cmd of None \<Rightarrow> paid | Some p \<Rightarrow> p),
      (if 0 <s tc_RefundedAdd cmd then refunded + tc_RefundedAdd cmd else refunded))"

fun due :: "TransitionCmd \<Rightarrow> abs_order \<Rightarrow> bool" where
  "due cmd (s, v, paid, refunded) \<longleftrightarrow> v = tc_Version cmd \<and> (tc_From cmd = [] \<or> s \<in> set (tc_From cmd))"

definition spec_update :: "'k \<Rightarrow> TransitionCmd \<Rightarrow> ('k \<rightharpoonup> abs_order) \<Rightarrow> bool \<times> ('k \<rightharpoonup> abs_order)" where
  "spec_update k cmd m =
     (case m k of
        None \<Rightarrow> (False, m)
      | Some e \<Rightarrow> if due cmd e then (True, m(k \<mapsto> effect cmd e)) else (False, m))"

lemma spec_transition_update:
  "spec_transition k cmd m =
     (if \<exists>e. m k = Some e \<and> lifecycle (fst e) (tc_To cmd) then spec_update k cmd m else (False, m))"
  by (auto simp: spec_transition_def spec_update_def split: option.splits prod.splits)

section \<open>The repository refines it\<close>

lemma Transition_refines:
  "(\<exists>u. fst (repo_Transition marshal tnow cmd r) = Inr u, abs_repo (snd (repo_Transition marshal tnow cmd r))) =
     spec_transition (order_key (tc_TenantID cmd) (tc_OrderID cmd)) cmd (abs_repo r)"
proof (cases "\<exists>o'. accepts r cmd o'")
  case True
  then obtain o' where a: "accepts r cmd o'" by blast
  let ?k = "order_key (tc_TenantID cmd) (tc_OrderID cmd)" and ?u = "apply_cmd tnow cmd (moved cmd o')"
  have "abs_repo (snd (repo_Transition marshal tnow cmd r)) = (abs_repo r)(?k \<mapsto> abs_of ?u)"
    using Transition_accepts(2) [OF a, of marshal tnow]
    by (auto simp: abs_repo_def put_order_def fun_eq_iff)
  moreover have "abs_of ?u = (tc_To cmd, ord_Version o' + 1,
      (case tc_PaidAmount cmd of None \<Rightarrow> amt_Paid (ord_Amounts o') | Some p \<Rightarrow> p),
      (if 0 <s tc_RefundedAdd cmd then amt_Refunded (ord_Amounts o') + tc_RefundedAdd cmd
       else amt_Refunded (ord_Amounts o')))"
    by (simp add: abs_of_def apply_cmd_Amounts moved_Amounts moved_Version split: option.split)
  moreover have "abs_repo r ?k = Some (abs_of o')" using a
    by (simp add: abs_repo_def accepts_def lookup_order_def)
  ultimately show ?thesis
    using Transition_accepts(1) [OF a, of marshal tnow] a
    by (simp add: spec_transition_def accepts_def abs_of_def lifecycle_iff)
next
  case False
  obtain e where "repo_Transition marshal tnow cmd r = (Inl e, r)"
    using Transition_rejects [OF False] by blast
  with False show ?thesis
    by (auto simp: spec_transition_def accepts_def abs_repo_def abs_of_def lookup_order_def lifecycle_iff
        split: option.split)
qed

lemma Transition_version_used:
  assumes "fst (repo_Transition marshal tnow cmd r) = Inr u"
    "tc_TenantID cmd' = tc_TenantID cmd" "tc_OrderID cmd' = tc_OrderID cmd" "tc_Version cmd' = tc_Version cmd"
  shows "repo_Transition marshal' tnow' cmd' (snd (repo_Transition marshal tnow cmd r)) =
    (Inl (Sentinel ErrVersionConflict), snd (repo_Transition marshal tnow cmd r))"
proof -
  from assms(1) obtain o' where a: "accepts r cmd o'" by (auto simp: Transition_ok_iff)
  have "lookup_order (snd (repo_Transition marshal tnow cmd r)) (tc_TenantID cmd') (tc_OrderID cmd') =
      Some (apply_cmd tnow cmd (moved cmd o'))"
    using Transition_effect(1) [OF a] assms(2,3) by simp
  moreover have "ord_Version (apply_cmd tnow cmd (moved cmd o')) \<noteq> tc_Version cmd'"
    using a assms(4) by (simp add: moved_Version accepts_def)
  ultimately show ?thesis by (simp add: repo_Transition_def)
qed

lemma other_operations_keep_store:
  "abs_repo (snd (repo_UpdatePaymentIntent t i it ch r)) = abs_repo r"
  "abs_repo (snd (repo_UpdateRedemption t i rid r)) = abs_repo r"
  "abs_repo (snd (repo_BumpRenew t i n r)) = abs_repo r"
  by (auto simp: repo_UpdatePaymentIntent_def repo_UpdateRedemption_def repo_BumpRenew_def
      abs_repo_def put_order_def lookup_order_def abs_of_def fun_eq_iff split: option.split)

section \<open>Properties\<close>

text \<open>
  C15: \<open>Transition\<close> of the in-memory repository implements the compare-and-swap of the abstract
  store: it succeeds exactly when the order is there, its version is the expected one, its status
  is among the expected ones and the life cycle has that step; it then moves the order on, counts
  the version up, and books the paid and refunded amounts of the command. Otherwise nothing changes.
\<close>

theorem transition_implements_store:
  "(\<exists>u. fst (repo_Transition marshal tnow cmd r) = Inr u,
    abs_repo (snd (repo_Transition marshal tnow cmd r))) =
   spec_transition (order_key (tc_TenantID cmd) (tc_OrderID cmd)) cmd (abs_repo r)"
  by (rule Transition_refines)

text \<open>
  Optimistic locking. Once a transition has succeeded, every other command that was prepared
  against the same version of the order is refused with a version conflict and changes nothing.
\<close>

theorem one_transition_per_version:
  assumes "fst (repo_Transition marshal tnow cmd r) = Inr u"
    and "tc_TenantID cmd' = tc_TenantID cmd" "tc_OrderID cmd' = tc_OrderID cmd"
    and "tc_Version cmd' = tc_Version cmd"
  shows "repo_Transition marshal' tnow' cmd' (snd (repo_Transition marshal tnow cmd r)) =
    (Inl (Sentinel ErrVersionConflict), snd (repo_Transition marshal tnow cmd r))"
  by (rule Transition_version_used [OF assms])

definition sample_repo :: OrderRepo where
  "sample_repo = NewOrderRepo\<lparr>orders := [(''t1|ord_253067538726916096'', sample_order)]\<rparr>"

definition sample_cmd :: "Status \<Rightarrow> TransitionCmd" where
  "sample_cmd to = TransitionCmd_of ''t1'' ''ord_253067538726916096'' [StatusPendingPay] to 1"

theorem one_transition_per_version_witness:
  "fst (repo_Transition (\<lambda>_. '''') 0 (sample_cmd StatusCancelled)
     (snd (repo_Transition (\<lambda>_. '''') 0 (sample_cmd StatusPaid) sample_repo))) =
   Inl (Sentinel ErrVersionConflict)"
proof -
  have "\<exists>u. fst (repo_Transition (\<lambda>_. '''') 0 (sample_cmd StatusPaid) sample_repo) = Inr u"
    by (simp add: repo_Transition_def sample_cmd_def sample_repo_def sample_order_def NewOrderRepo_def
        lookup_order_def order_key_def CanTransition_defs Let_def)
  then obtain u where "fst (repo_Transition (\<lambda>_. '''') 0 (sample_cmd StatusPaid) sample_repo) = Inr u" ..
  from one_transition_per_version [OF this, of "sample_cmd StatusCancelled" "\<lambda>_. ''''" 0]
  show ?thesis by (simp add: sample_cmd_def)
qed

end
