(* ===== verification/Pg_Store.thy ===== *)
theory Pg_Store
  imports Pg_Laws Order_Store
begin

text \<open>
  What the Postgres repository promises, under the laws of \<open>Pg_Laws\<close>. \<open>abs_tables\<close> reads the abstract
  store of \<open>Order_Store\<close> off the table of orders, and \<open>Transition\<close> implements its compare-and-swap, as
  long as the life cycle has a step from every expected status to the new one, since the update
  itself does not look at the life cycle. A checkout is inserted as a whole or not at all and can be
  read back.
\<close>

section \<open>The store in the tables\<close>

definition abs_row :: "OrderPO \<Rightarrow> abs_order" where
  "abs_row po = (Status_of (po_Status po), po_Version po, po_PaidAmount po, po_RefundedAmount po)"

definition row_at :: "string \<Rightarrow> string \<Rightarrow> OrderPO \<Rightarrow> bool" where
  "row_at ten i po \<longleftrightarrow> po_TenantID po = ten \<and> po_OrderID po = i"

definition abs_tables :: "Tables \<Rightarrow> string \<times> string \<rightharpoonup> abs_order" where
  "abs_tables t k = map_option abs_row (find (row_at (fst k) (snd k)) (t_orders t))"

text \<open>Order ids are unique, and a status column holds the printed form of a status.\<close>

definition rows_ok :: "OrderPO list \<Rightarrow> bool" where
  "rows_ok rows \<longleftrightarrow> distinct (map po_OrderID rows) \<and>
     (\<forall>po \<in> set rows. \<exists>s. po_Status po = Status_String s)"

lemma order_row_sameD:
  assumes "order_row_same js rnd r r'"
  shows "po_OrderID r' = po_OrderID r" "po_TenantID r' = po_TenantID r" "po_Status r' = po_Status r"
    "po_Version r' = po_Version r" "po_PaidAmount r' = po_PaidAmount r"
    "po_RefundedAmount r' = po_RefundedAmount r" "po_BuyerUserID r' = po_BuyerUserID r"
    "po_ClientOrderID r' = po_ClientOrderID r"
  using assms by (auto simp: order_row_same_def)

lemma transition_row_simps [simp]:
  "po_OrderID (transition_row now cmd po) = po_OrderID po"
  "po_TenantID (transition_row now cmd po) = po_TenantID po"
  "po_Status (transition_row now cmd po) = Status_String (tc_To cmd)"
  "po_Version (transition_row now cmd po) = po_Version po + 1"
  "po_PaidAmount (transition_row now cmd po) =
     (case tc_PaidAmount cmd of None \<Rightarrow> po_PaidAmount po | Some p \<Rightarrow> p)"
  "po_RefundedAmount (transition_row now cmd po) =
     (if 0 <s tc_RefundedAdd cmd then po_RefundedAmount po + tc_RefundedAdd cmd else po_RefundedAmount po)"
  by (simp_all add: transition_row_def Let_def split: option.split)

section \<open>The update of a transition\<close>

definition stepped :: "'d DB \<Rightarrow> (time \<Rightarrow> time) \<Rightarrow> time \<Rightarrow> TransitionCmd \<Rightarrow> OrderPO \<Rightarrow> OrderPO \<Rightarrow> bool" where
  "stepped db rnd now cmd r r' \<longleftrightarrow>
     (if transition_where cmd r then order_row_same (db_js db) rnd (transition_row now cmd r) r' else r' = r)"

lemma stepped_keys:
  assumes "stepped db rnd now cmd r r'"
  shows "po_OrderID r' = po_OrderID r" "po_TenantID r' = po_TenantID r"
  using assms by (auto simp: stepped_def dest: order_row_sameD split: if_splits)

lemma stepped_rows_ok:
  assumes "list_all2 (stepped db rnd now cmd) rows rows'" "rows_ok rows"
  shows "rows_ok rows'"
proof -
  have "map po_OrderID rows' = map po_OrderID rows"
    using assms(1) by (induction rule: list_all2_induct) (auto dest: stepped_keys)
  moreover have "\<exists>s. po_Status r' = Status_String s" if "r' \<in> set rows'" for r'
  proof -
    from list_all2_origin [OF assms(1) that] obtain r where "r \<in> set rows" "stepped db rnd now cmd r r'"
      by blast
    then show ?thesis using assms(2)
      by (auto simp: stepped_def rows_ok_def dest: order_row_sameD split: if_splits)
  qed
  ultimately show ?thesis using assms(2) by (simp add: rows_ok_def)
qed

lemma rows_ok_unique:
  assumes "rows_ok rows" "po \<in> set rows" "row_at ten i po"
  shows "find (row_at ten i) rows = Some po"
  using assms by (intro find_unique) (auto simp: rows_ok_def row_at_def dest: inj_onD [OF conjunct2 [OF iffD1 [OF distinct_map]]])

lemma abs_row_stepped:
  assumes "stepped db rnd now cmd r r'"
  shows "abs_row r' =
    (if transition_where cmd r
     then (tc_To cmd, po_Version r + 1,
       (case tc_PaidAmount cmd of None \<Rightarrow> po_PaidAmount r | Some p \<Rightarrow> p),
       (if 0 <s tc_RefundedAdd cmd then po_RefundedAmount r + tc_RefundedAdd cmd else po_RefundedAmount r))
     else abs_row r)"
  using assms by (auto simp: stepped_def abs_row_def dest: order_row_sameD split: if_splits)

definition steps_allowed :: "TransitionCmd \<Rightarrow> bool" where
  "steps_allowed cmd \<longleftrightarrow> tc_From cmd \<noteq> [] \<and> (\<forall>s \<in> set (tc_From cmd). lifecycle s (tc_To cmd))"

lemma where_iff:
  assumes "\<exists>s. po_Status po = Status_String s"
  shows "transition_where cmd po \<longleftrightarrow> row_at (tc_TenantID cmd) (tc_OrderID cmd) po \<and> due cmd (abs_row po)"
  using assms by (auto simp: transition_where_def row_at_def abs_row_def image_iff)

lemma update_implements_update:
  assumes ok: "rows_ok (t_orders t)" and step: "list_all2 (stepped db rnd now cmd) (t_orders t) rows'"
    and t': "t_orders t' = rows'"
  shows "(\<exists>po \<in> set (t_orders t). transition_where cmd po, abs_tables t') =
    spec_update (tc_TenantID cmd, tc_OrderID cmd) cmd (abs_tables t)"
proof -
  let ?k = "(tc_TenantID cmd, tc_OrderID cmd)"
  have rel: "rel_option (stepped db rnd now cmd) (find (row_at ten i) (t_orders t))
      (find (row_at ten i) rows')" for ten i
    by (rule find_list_all2 [OF step]) (auto simp: row_at_def dest: stepped_keys)
  have status: "\<exists>s. po_Status po = Status_String s" if "po \<in> set (t_orders t)" for po
    using ok that by (simp add: rows_ok_def)
  have other: "abs_tables t' k = abs_tables t k" if "k \<noteq> ?k" for k
  proof (cases "find (row_at (fst k) (snd k)) (t_orders t)")
    case (Some x)
    then obtain y where y: "find (row_at (fst k) (snd k)) rows' = Some y" "stepped db rnd now cmd x y"
      using rel [of "fst k" "snd k"] by (auto simp: option_rel_Some1)
    have "\<not> transition_where cmd x"
      using that find_Some_set [OF Some] by (cases k) (auto simp: transition_where_def row_at_def)
    then show ?thesis using Some y by (simp add: abs_tables_def t' abs_row_stepped)
  qed (use rel [of "fst k" "snd k"] in \<open>simp add: abs_tables_def t'\<close>)
  show ?thesis
  proof (cases "find (row_at (tc_TenantID cmd) (tc_OrderID cmd)) (t_orders t)")
    case None
    then have "\<not> (\<exists>po \<in> set (t_orders t). transition_where cmd po)"
      by (auto simp: find_None_iff transition_where_def row_at_def)
    moreover have "abs_tables t' ?k = abs_tables t ?k"
      using rel [of "tc_TenantID cmd" "tc_OrderID cmd"] None by (simp add: abs_tables_def t')
    then have "abs_tables t' = abs_tables t" using other by (intro ext) (rename_tac k, case_tac "k = ?k", simp_all)
    ultimately show ?thesis using None by (simp add: spec_update_def abs_tables_def)
  next
    case (Some po)
    then have po: "po \<in> set (t_orders t)" "row_at (tc_TenantID cmd) (tc_OrderID cmd) po"
      by (auto dest: find_Some_set)
    have ex: "(\<exists>po \<in> set (t_orders t). transition_where cmd po) \<longleftrightarrow> transition_where cmd po"
    proof
      assume "\<exists>q \<in> set (t_orders t). transition_where cmd q"
      then obtain q where q: "q \<in> set (t_orders t)" "transition_where cmd q" by blast
      with rows_ok_unique [OF ok q(1), of "tc_TenantID cmd" "tc_OrderID cmd"] Some
      show "transition_where cmd po" by (auto simp: transition_where_def row_at_def)
    qed (use po in blast)
    obtain po' where po': "find (row_at (tc_TenantID cmd) (tc_OrderID cmd)) rows' = Some po'"
      "stepped db rnd now cmd po po'"
      using rel [of "tc_TenantID cmd" "tc_OrderID cmd"] Some by (auto simp: option_rel_Some1)
    have "abs_tables t' = (abs_tables t)(?k \<mapsto> abs_row po')"
      using other po'(1) by (auto simp: fun_eq_iff abs_tables_def t')
    moreover have "abs_tables t ?k = Some (abs_row po)" using Some by (simp add: abs_tables_def)
    moreover have "abs_row po' = (if transition_where cmd po then effect cmd (abs_row po) else abs_row po)"
      using abs_row_stepped [OF po'(2)] by (simp add: abs_row_def)
    ultimately show ?thesis
      using ex where_iff [OF status [OF po(1)]] po(2) by (auto simp: spec_update_def)
  qed
qed

lemma update_implements_spec:
  assumes "rows_ok (t_orders t)" "list_all2 (stepped db rnd now cmd) (t_orders t) rows'"
    and allowed: "steps_allowed cmd" and "t_orders t' = rows'"
  shows "(\<exists>po \<in> set (t_orders t). transition_where cmd po, abs_tables t') =
    spec_transition (tc_TenantID cmd, tc_OrderID cmd) cmd (abs_tables t)"
proof -
  have "spec_update k cmd m = spec_transition k cmd m" for k and m :: "'b \<rightharpoonup> abs_order"
    using allowed by (auto simp: spec_update_def spec_transition_def steps_allowed_def split: option.split prod.split)
  then show ?thesis using update_implements_update [OF assms(1,2,4)] by simp
qed


section \<open>Transition\<close>

lemma abs_of_poToOrder: "abs_of (poToOrder js po lines) = abs_row po"
  by (simp add: abs_of_def abs_row_def poToOrder_def)

definition transition_result :: "TransitionCmd \<Rightarrow> Tables \<Rightarrow> Order res \<Rightarrow> Tables \<Rightarrow> bool" where
  "transition_result cmd t res t' \<longleftrightarrow>
     (let k = (tc_TenantID cmd, tc_OrderID cmd) in
      case res of
        Inr o' \<Rightarrow> (True, abs_tables t') = spec_transition k cmd (abs_tables t) \<and>
          abs_tables t' k = Some (abs_of o') \<and> rows_ok (t_orders t')
      | Inl e \<Rightarrow> t' = t \<and> (e = Sentinel ErrVersionConflict \<and> \<not> fst (spec_transition k cmd (abs_tables t)) \<or>
          db_fault e))"

lemma transition_committed:
  assumes ok: "rows_ok (t_orders t)" and step: "list_all2 (stepped db rnd now cmd) (t_orders t) (t_orders t')"
    and allowed: "steps_allowed cmd" and hit: "filter (transition_where cmd) (t_orders t) \<noteq> []"
    and po: "po \<in> set (t_orders t')" "po_TenantID po = tc_TenantID cmd" "po_OrderID po = tc_OrderID cmd"
  shows "transition_result cmd t (Inr (poToOrder js po lines)) t'"
proof -
  have rows: "rows_ok (t_orders t')" using step ok by (rule stepped_rows_ok)
  moreover have "abs_tables t' (tc_TenantID cmd, tc_OrderID cmd) = Some (abs_row po)"
    using rows_ok_unique [OF rows po(1)] po(2,3) by (simp add: abs_tables_def row_at_def)
  moreover have "\<exists>po \<in> set (t_orders t). transition_where cmd po"
    using hit by (auto simp: filter_empty_conv)
  ultimately show ?thesis
    using update_implements_spec [OF ok step allowed refl] by (simp add: transition_result_def abs_of_poToOrder)
qed

lemma transition_conflict:
  assumes ok: "rows_ok (t_orders t)" and step: "list_all2 (stepped db rnd now cmd) (t_orders t) rows'"
    and allowed: "steps_allowed cmd" and miss: "filter (transition_where cmd) (t_orders t) = []"
  shows "transition_result cmd t (Inl (Sentinel ErrVersionConflict)) t"
proof -
  have "\<not> (\<exists>po \<in> set (t_orders t). transition_where cmd po)"
    using miss by (auto simp: filter_empty_conv)
  then have "\<not> fst (spec_transition (tc_TenantID cmd, tc_OrderID cmd) cmd (abs_tables t))"
    using update_implements_spec [OF ok step allowed, of "t\<lparr>t_orders := rows'\<rparr>"] by (auto simp: prod_eq_iff)
  then show ?thesis by (simp add: transition_result_def)
qed

context relational_db
begin

lemmas vc_db = vc_now vc_orders vc_lines vc_details vc_outbox vc_idem vc_comps

lemma vc_order_lines:
  assumes "\<And>e. db_fault e \<Longrightarrow> Q (Inl e) t"
    and "\<And>out. selects (by_key (\<lambda>l. sint (lp_ID l))) None (filter (\<lambda>l. lp_OrderID l = i) (t_lines t)) out \<Longrightarrow> Q (Inr out) t"
  shows "vc cur (order_lines db i) Q t"
  unfolding order_lines_def by (intro vc_db order_by_keys assms)

lemma transition_tx_outcome:
  assumes ok: "rows_ok (t_orders t)" and allowed: "steps_allowed cmd"
  shows "vc cur (transition_tx db cmd) (\<lambda>res t'. case res of
      Inl e \<Rightarrow> transition_result cmd t (Inl e) t | Inr o' \<Rightarrow> transition_result cmd t (Inr o') t') t"
proof -
  have fault: "transition_result cmd t (Inl e) t" if "db_fault e" for e
    using that by (simp add: transition_result_def)
  show ?thesis
    unfolding transition_tx_def
    by (intro wp_intros vc_db vc_order_lines conjI allI impI)
      (auto simp: fault stepped_def [symmetric] intro: transition_conflict [OF ok _ allowed]
        transition_committed [OF ok _ allowed] fault)
qed

lemma Transition_outcome:
  assumes "rows_ok (t_orders t)" "steps_allowed cmd"
  shows "vc cur (pg_Transition db cmd) (transition_result cmd t) t"
  unfolding pg_Transition_def
  by (rule vc_tx [OF tx_order wp_mono [OF transition_tx_outcome [OF assms]]])
    (auto simp: transition_result_def split: sum.split)

end

text \<open>Whatever the command asks for, it is an update of the abstract store.\<close>

definition update_result :: "TransitionCmd \<Rightarrow> Tables \<Rightarrow> Order res \<Rightarrow> Tables \<Rightarrow> bool" where
  "update_result cmd t res t' \<longleftrightarrow> rows_ok (t_orders t') \<and>
     (case res of
        Inr o' \<Rightarrow> (True, abs_tables t') = spec_update (tc_TenantID cmd, tc_OrderID cmd) cmd (abs_tables t)
      | Inl e \<Rightarrow> t' = t)"

lemma update_committed:
  assumes "rows_ok (t_orders t)" "list_all2 (stepped db rnd now cmd) (t_orders t) (t_orders t')"
    and "filter (transition_where cmd) (t_orders t) \<noteq> []"
  shows "update_result cmd t (Inr o') t'"
proof -
  have "\<exists>po \<in> set (t_orders t). transition_where cmd po" using assms(3) by (auto simp: filter_empty_conv)
  then show ?thesis
    using update_implements_update [OF assms(1,2) refl] stepped_rows_ok [OF assms(2,1)] by (simp add: update_result_def)
qed

context relational_db
begin

lemma transition_tx_updates:
  assumes ok: "rows_ok (t_orders t)"
  shows "vc cur (transition_tx db cmd) (\<lambda>res t'. case res of
      Inl e \<Rightarrow> True | Inr o' \<Rightarrow> update_result cmd t (Inr o') t') t"
  unfolding transition_tx_def
  by (intro wp_intros vc_db vc_order_lines conjI allI impI)
    (auto simp: stepped_def [symmetric] intro: update_committed [OF ok])

lemma Transition_updates:
  assumes "rows_ok (t_orders t)"
  shows "vc cur (pg_Transition db cmd) (update_result cmd t) t"
  unfolding pg_Transition_def
  by (rule vc_tx [OF tx_order wp_mono [OF transition_tx_updates [OF assms]]])
    (auto simp: update_result_def assms split: sum.split)

end

section \<open>Checkout\<close>

text \<open>What a checkout leaves behind, and nothing else.\<close>

definition inserted :: "'d DB \<Rightarrow> (time \<Rightarrow> time) \<Rightarrow> CheckoutPersist \<Rightarrow> Order \<Rightarrow> Tables \<Rightarrow> Tables \<Rightarrow> bool" where
  "inserted db rnd rec o' t t' \<longleftrightarrow>
     (\<exists>po lines ev. t_orders t' = t_orders t @ [po] \<and>
        order_row_same (db_js db) rnd (orderToPO (db_js db) o') po \<and>
        (\<forall>q \<in> set (t_orders t). \<not> order_clash q po) \<and>
        t_lines t' = t_lines t @ lines \<and> list_all2 (line_row_same (db_js db)) (linesToPO (db_js db) o') lines \<and>
        t_outbox t' = t_outbox t @ [ev] \<and> ox_EventID ev = ev_EventID (cp_Event rec) \<and> ox_PublishedAt ev = None) \<and>
     (case cp_Idempotency rec of
        None \<Rightarrow> t_idem t' = t_idem t
      | Some irec \<Rightarrow> \<exists>row. t_idem t' = t_idem t @ [row] \<and> idem_row_same (idemToPO irec) row \<and>
          (\<forall>q \<in> set (t_idem t). \<not> idem_clash q row)) \<and>
     t_refunds t' = t_refunds t \<and> t_comps t' = t_comps t"

lemma order_clash_same: "order_row_same js rnd r r' \<Longrightarrow> order_clash q r' \<longleftrightarrow> order_clash q r"
  by (auto simp: order_clash_def dest: order_row_sameD)

text \<open>A postcondition for the case of success only.\<close>

definition on_ok :: "('a \<Rightarrow> 't \<Rightarrow> bool) \<Rightarrow> 'a res \<Rightarrow> 't \<Rightarrow> bool" where
  "on_ok R res t = (case res of Inl e \<Rightarrow> True | Inr a \<Rightarrow> R a t)"

lemma on_ok_simps [simp]: "on_ok R (Inl e) t" "on_ok R (Inr a) t \<longleftrightarrow> R a t"
  by (simp_all add: on_ok_def)

lemma on_ok_Inl: "on_ok R (Inl e) t"
  by simp

lemma on_ok_Inr: "R a t \<Longrightarrow> on_ok R (Inr a) t"
  by simp

lemma ok_tryE: "vc v m (on_ok (\<lambda>a. vc v (f a) (on_ok R))) t \<Longrightarrow> vc v (tryE m f) (on_ok R) t"
  by (rule wp_tryE) (erule wp_mono, auto)

lemma ok_map_err: "vc v m (on_ok R) t \<Longrightarrow> vc v (map_err f m) (on_ok R) t"
  unfolding map_err_def by (intro wp_bind wp_case_sum; erule wp_mono) (auto intro: wp_fail wp_ok split: sum.split)

lemma ok_ok: "R a t \<Longrightarrow> vc v (ok a) (on_ok R) t"
  by (rule wp_ok) simp

lemma ok_create_all:
  assumes "\<And>x t. P t \<Longrightarrow> vc v (create x) (on_ok (\<lambda>_. P)) t" "P t"
  shows "vc v (create_all create xs) (on_ok (\<lambda>_. P)) t"
  using assms(2)
proof (induction xs arbitrary: t)
  case (Cons x xs)
  show ?case
    by (simp, rule ok_tryE, rule wp_mono [OF assms(1) [OF Cons.prems]])
      (auto simp: on_ok_def [of _ a for a] intro: Cons.IH split: sum.splits)
qed (simp add: ok_ok)

text \<open>The tables that are only written.\<close>

definition core :: "Tables \<Rightarrow> Tables" where
  "core t = t\<lparr>t_promotions := [], t_legs := []\<rparr>"

lemma core_eqE:
  assumes "core t' = core t"
  obtains "t_orders t' = t_orders t" "t_lines t' = t_lines t" "t_idem t' = t_idem t"
    "t_outbox t' = t_outbox t" "t_refunds t' = t_refunds t" "t_comps t' = t_comps t"
  using assms by (cases t; cases t'; simp add: core_def)

lemma idem_clash_same: "idem_row_same r r' \<Longrightarrow> idem_clash q r' \<longleftrightarrow> idem_clash q r"
  by (auto simp: idem_clash_def idem_row_same_def)

context relational_db
begin

lemma ok_promotions: "(\<And>t'. core t' = core t \<Longrightarrow> R () t') \<Longrightarrow>
    vc cur (create_all (tb_create (db_promotions db)) ps) (on_ok R) t"
  by (rule wp_mono [OF ok_create_all [of "\<lambda>t'. core t' = core t"]])
    (auto simp: on_ok_def core_def intro!: vc_db split: sum.splits)

lemma ok_legs: "(\<And>t'. core t' = core t \<Longrightarrow> R () t') \<Longrightarrow>
    vc cur (create_all (tb_create (db_legs db)) ls) (on_ok R) t"
  by (rule wp_mono [OF ok_create_all [of "\<lambda>t'. core t' = core t"]])
    (auto simp: on_ok_def core_def intro!: vc_db split: sum.splits)

lemma insert_rows_outcome:
  assumes "cp_Order rec = Some o'"
  shows "vc cur (insert_rows db rec o') (on_ok (\<lambda>_. inserted db rnd rec o' t)) t"
  unfolding insert_rows_def
  by (intro ok_tryE ok_map_err ok_promotions ok_legs wp_if wp_case_option ok_ok vc_orders(1) vc_lines(1) vc_idem(1) vc_outbox(1)
    on_ok_Inl on_ok_Inr)
   (auto simp: inserted_def order_clash_same idem_clash_same outbox_row_same_def eventToPO_def elim!: core_eqE)

lemma InsertCheckout_outcome:
  "vc cur (pg_InsertCheckout db rec) (\<lambda>res t'. case res of
     Inl e \<Rightarrow> t' = t | Inr _ \<Rightarrow> \<exists>o'. cp_Order rec = Some o' \<and> inserted db rnd rec o' t t') t"
proof (cases "cp_Order rec")
  case (Some o')
  have "vc cur (db_tx_unit db (insert_rows db rec o')) (\<lambda>res t'. case res of
     Inl e \<Rightarrow> t' = t | Inr _ \<Rightarrow> \<exists>o'. cp_Order rec = Some o' \<and> inserted db rnd rec o' t t') t"
    by (rule vc_tx [OF tx_unit wp_mono [OF insert_rows_outcome [OF Some]]])
      (auto simp: Some on_ok_def split: sum.splits)
  then show ?thesis by (simp add: pg_InsertCheckout_def Some)
qed (simp add: pg_InsertCheckout_def wp_fail)

end

section \<open>Reading an order\<close>

text \<open>The stored order: times in the precision of the database, without promotions and legs.\<close>

definition stored_form :: "(time \<Rightarrow> time) \<Rightarrow> Order \<Rightarrow> Order" where
  "stored_form rnd o' = (without_details o')\<lparr>
     ord_ExpireAt := (if ord_ExpireAt o' = 0 then 0 else rnd (ord_ExpireAt o')),
     ord_CreatedAt := rnd (ord_CreatedAt o'), ord_UpdatedAt := rnd (ord_UpdatedAt o'),
     ord_PaidAt := map_option rnd (ord_PaidAt o'), ord_CancelledAt := map_option rnd (ord_CancelledAt o'),
     ord_CompletedAt := map_option rnd (ord_CompletedAt o')\<rparr>"

definition reads_back :: "(time \<Rightarrow> time) \<Rightarrow> Order \<Rightarrow> Order \<Rightarrow> bool" where
  "reads_back rnd o' o'' \<longleftrightarrow> mset (ord_Lines o'') = mset (ord_Lines o') \<and>
     o''\<lparr>ord_Lines := []\<rparr> = (stored_form rnd o')\<lparr>ord_Lines := []\<rparr>"

text \<open>Every line in the table belongs to an order in the table.\<close>

definition lines_owned :: "Tables \<Rightarrow> bool" where
  "lines_owned t \<longleftrightarrow> lp_OrderID ` set (t_lines t) \<subseteq> po_OrderID ` set (t_orders t)"

lemma poToLine_same:
  assumes "codec_keeps js o'" "l \<in> set (ord_Lines o')" "line_row_same js (lineToPO js o' l) r"
  shows "poToLine js r = l" "lp_OrderID r = ord_OrderID o'"
  using assms by (auto simp: codec_keeps_def line_row_same_def poToLine_def lineToPO_def)

lemma poToLine_rows:
  assumes "codec_keeps js o'" "list_all2 (line_row_same js) (map (lineToPO js o') ls) rows"
    "set ls \<subseteq> set (ord_Lines o')"
  shows "map (poToLine js) rows = ls" "\<forall>r \<in> set rows. lp_OrderID r = ord_OrderID o'"
proof -
  have "map (poToLine js) rows = ls \<and> (\<forall>r \<in> set rows. lp_OrderID r = ord_OrderID o')"
    using assms(2,3)
    by (induction ls arbitrary: rows) (auto simp: list_all2_Cons1 poToLine_same [OF assms(1)])
  then show "map (poToLine js) rows = ls" "\<forall>r \<in> set rows. lp_OrderID r = ord_OrderID o'" by auto
qed

lemma poToOrder_stored:
  assumes "codec_keeps js o'" "lr_BizNo (ord_Ledger o') = ''order:freeze:'' @ ord_OrderID o'"
    "order_row_same js rnd (orderToPO js o') po" "ord_CreatedAt o' \<noteq> 0" "ord_UpdatedAt o' \<noteq> 0"
  shows "(poToOrder js po lines)\<lparr>ord_Lines := []\<rparr> = (stored_form rnd o')\<lparr>ord_Lines := []\<rparr>"
  using assms
  by (auto simp: order_row_same_def orderToPO_def poToOrder_def stored_form_def without_details_def codec_keeps_def)

lemma wp_map_err [wp_intros]:
  "vc v m (\<lambda>res t'. (\<forall>e. res = Inl e \<longrightarrow> Q (Inl (f e)) t') \<and> (\<forall>a. res = Inr a \<longrightarrow> Q (Inr a) t')) t \<Longrightarrow>
     vc v (map_err f m) Q t"
  unfolding map_err_def by (rule wp_bind, erule wp_mono) (auto intro: wp_fail wp_ok split: sum.split)

context relational_db
begin

lemma FindByID_reads_back:
  assumes ins: "inserted db rnd rec o' t t'" and own: "lines_owned t" and codec: "codec_keeps (db_js db) o'"
    and biz: "lr_BizNo (ord_Ledger o') = ''order:freeze:'' @ ord_OrderID o'"
    and times: "ord_CreatedAt o' \<noteq> 0" "ord_UpdatedAt o' \<noteq> 0" and ten: "ten = '''' \<or> ten = ord_TenantID o'"
  shows "vc cur (pg_FindByID db ten (ord_OrderID o')) (\<lambda>res t''. t'' = t' \<and>
    (case res of Inl e \<Rightarrow> db_fault e | Inr o'' \<Rightarrow> reads_back rnd o' o'')) t'"
proof -
  obtain po lines where po: "t_orders t' = t_orders t @ [po]"
      "order_row_same (db_js db) rnd (orderToPO (db_js db) o') po" "\<forall>q \<in> set (t_orders t). \<not> order_clash q po"
    and lines: "t_lines t' = t_lines t @ lines"
      "list_all2 (line_row_same (db_js db)) (map (lineToPO (db_js db) o') (ord_Lines o')) lines"
    using ins by (auto simp: inserted_def linesToPO_def)
  have id: "po_OrderID po = ord_OrderID o'" "po_TenantID po = ord_TenantID o'"
    using order_row_sameD(1,2) [OF po(2)] by (simp_all add: orderToPO_def)
  have only: "q = po" if "q \<in> set (t_orders t')" "po_OrderID q = ord_OrderID o'" for q
    using that po(1,3) id(1) by (auto simp: order_clash_def)
  have rows: "filter (\<lambda>l. lp_OrderID l = ord_OrderID o') (t_lines t') = lines"
  proof -
    have "ord_OrderID o' \<notin> po_OrderID ` set (t_orders t)"
      using po(3) id(1) by (auto simp: order_clash_def)
    then have "ord_OrderID o' \<notin> lp_OrderID ` set (t_lines t)"
      using own unfolding lines_owned_def by blast
    then have "filter (\<lambda>l. lp_OrderID l = ord_OrderID o') (t_lines t) = []"
      by (auto simp: filter_empty_conv image_iff)
    then show ?thesis using poToLine_rows(2) [OF codec lines(2) order_refl] lines(1) by simp
  qed
  have read: "reads_back rnd o' (poToOrder (db_js db) po out)" if "mset out = mset lines" for out
  proof -
    have "mset (map (poToLine (db_js db)) out) = mset (map (poToLine (db_js db)) lines)"
      using that by simp
    then show ?thesis
      using poToLine_rows(1) [OF codec lines(2) order_refl] poToOrder_stored [OF codec biz po(2) times, of out]
      by (simp add: reads_back_def) (simp add: poToOrder_def)
  qed
  have found: "po \<in> set (t_orders t')" using po(1) by simp
  show ?thesis
    unfolding pg_FindByID_def
    by (intro wp_intros vc_db vc_order_lines conjI allI impI)
      (use found id ten in \<open>auto simp: not_found_def rows selects_def limited_def intro!: read dest: only\<close>)
qed

end

end
