(* ===== verification/Pg_Simulation.thy ===== *)
theory Pg_Simulation
  imports Pg_Store Repo_Invariants
begin

text \<open>
  The two repositories side by side. A \<open>repo_write\<close> is one call that changes orders, idempotency
  records or the outbox. \<open>related\<close> says that both repositories hold the same orders (up to the times,
  the context and the lines), the same keys and the same events waiting for publication. The
  lemmas give what an update of one row, and the same update in memory, make of the relation.
\<close>

section \<open>Writes\<close>

datatype repo_write =
    WInsert CheckoutPersist
  | WTransition TransitionCmd
  | WIntent string string string string
  | WRedemption string string string
  | WRenew string string int
  | WResponse string string string bytes
  | WPublished string

definition is_ok :: "'a res \<Rightarrow> bool" where
  "is_ok res \<longleftrightarrow> (case res of Inl e \<Rightarrow> False | Inr a \<Rightarrow> True)"

lemma is_ok_simps [simp]: "is_ok (Inr a)" "\<not> is_ok (Inl e)"
  by (simp_all add: is_ok_def)

fun mem_write :: "(Event \<Rightarrow> bytes) \<Rightarrow> time \<Rightarrow> repo_write \<Rightarrow> OrderRepo \<Rightarrow> bool \<times> OrderRepo" where
  "mem_write marshal tnow (WInsert rec) r = apfst is_ok (repo_InsertCheckout marshal rec r)"
| "mem_write marshal tnow (WTransition cmd) r = apfst is_ok (repo_Transition marshal tnow cmd r)"
| "mem_write marshal tnow (WIntent t i it ch) r = apfst is_ok (repo_UpdatePaymentIntent t i it ch r)"
| "mem_write marshal tnow (WRedemption t i rid) r = apfst is_ok (repo_UpdateRedemption t i rid r)"
| "mem_write marshal tnow (WRenew t i n) r = apfst is_ok (repo_BumpRenew t i n r)"
| "mem_write marshal tnow (WResponse t a k b) r = apfst is_ok (repo_UpdateIdempotencyResponse t a k b r)"
| "mem_write marshal tnow (WPublished i) r = apfst is_ok (repo_MarkEventPublished i r)"

definition succeeds :: "('d, 'a res) state \<Rightarrow> ('d, bool) state" where
  "succeeds m = do { res \<leftarrow> m; State_Monad.return (is_ok res) }"

fun pg_write :: "'d DB \<Rightarrow> repo_write \<Rightarrow> ('d, bool) state" where
  "pg_write db (WInsert rec) = succeeds (pg_InsertCheckout db rec)"
| "pg_write db (WTransition cmd) = succeeds (pg_Transition db cmd)"
| "pg_write db (WIntent t i it ch) = succeeds (pg_UpdatePaymentIntent db t i it ch)"
| "pg_write db (WRedemption t i rid) = succeeds (pg_UpdateRedemption db t i rid)"
| "pg_write db (WRenew t i n) = succeeds (pg_BumpRenew db t i n)"
| "pg_write db (WResponse t a k b) = succeeds (pg_UpdateIdempotencyResponse db t a k b)"
| "pg_write db (WPublished i) = succeeds (pg_MarkEventPublished db i)"

text \<open>The writes that succeeded, in order.\<close>

primrec pg_writes :: "'d DB \<Rightarrow> repo_write list \<Rightarrow> ('d, repo_write list) state" where
  "pg_writes db [] = State_Monad.return []"
| "pg_writes db (op # ops) = do {
     done \<leftarrow> pg_write db op;
     rest \<leftarrow> pg_writes db ops;
     State_Monad.return (if done then op # rest else rest) }"

text \<open>
  Postgres reports success for two updates of an order that does not exist (\<open>UPDATE\<close> with no row), memory refuses
  them. These are the only writes on which the two do not decide alike.
\<close>

fun decided :: "repo_write \<Rightarrow> OrderRepo \<Rightarrow> bool" where
  "decided (WIntent t i it ch) r \<longleftrightarrow> lookup_order r t i \<noteq> None"
| "decided (WRedemption t i rid) r \<longleftrightarrow> lookup_order r t i \<noteq> None"
| "decided _ _ \<longleftrightarrow> True"

lemma undecided_refused:
  assumes "\<not> decided op r"
  shows "mem_write marshal tnow op r = (False, r)"
  using assms by (cases op) (auto simp: repo_UpdatePaymentIntent_def repo_UpdateRedemption_def)

text \<open>
  The same writes in memory: whether all of them are accepted, those apart whose order is not stored, and the
  repository after them.
\<close>

primrec mem_writes ::
  "(Event \<Rightarrow> bytes) \<Rightarrow> time \<Rightarrow> repo_write list \<Rightarrow> OrderRepo \<Rightarrow> bool \<times> OrderRepo" where
  "mem_writes marshal tnow [] r = (True, r)"
| "mem_writes marshal tnow (op # ops) r =
     (let (done, r1) = mem_write marshal tnow op r;
          (rest, r2) = mem_writes marshal tnow ops r1
      in ((decided op r \<longrightarrow> done) \<and> rest, r2))"

section \<open>Keys\<close>

text \<open>In memory the parts of a key are joined by bars; a part without a bar can be told from the rest.\<close>

definition bare :: "string \<Rightarrow> bool" where
  "bare s \<longleftrightarrow> CHR ''|'' \<notin> set s"

lemma bar_split:
  "bare a \<Longrightarrow> bare b \<Longrightarrow> a @ ''|'' @ x = b @ ''|'' @ y \<longleftrightarrow> a = b \<and> x = y"
proof (induction a arbitrary: b)
  case Nil
  then show ?case by (cases b) (auto simp: bare_def)
next
  case (Cons c a)
  then show ?case by (cases b) (auto simp: bare_def)
qed

lemma keys_inject [simp]:
  "bare t \<Longrightarrow> bare t' \<Longrightarrow> order_key t i = order_key t' i' \<longleftrightarrow> t = t' \<and> i = i'"
  "bare t \<Longrightarrow> bare t' \<Longrightarrow> bare b \<Longrightarrow> bare b' \<Longrightarrow>
     clientKey t b c = clientKey t' b' c' \<longleftrightarrow> t = t' \<and> b = b' \<and> c = c'"
  "bare t \<Longrightarrow> bare t' \<Longrightarrow> bare b \<Longrightarrow> bare b' \<Longrightarrow>
     idemKey t b c = idemKey t' b' c' \<longleftrightarrow> t = t' \<and> b = b' \<and> c = c'"
  unfolding order_key_def clientKey_def idemKey_def by (simp_all only: bar_split)

text \<open>The tenants and users of a write have no bar in them, and a transition asks for steps of the life cycle.\<close>

fun keys_bare :: "repo_write \<Rightarrow> bool" where
  "keys_bare (WInsert rec) \<longleftrightarrow>
     (case cp_Order rec of None \<Rightarrow> True | Some o' \<Rightarrow> bare (ord_TenantID o') \<and> bare (ord_BuyerUserID o')) \<and>
     (case cp_Idempotency rec of None \<Rightarrow> True | Some ir \<Rightarrow> bare (ir_TenantID ir) \<and> bare (ir_Actor ir))"
| "keys_bare (WTransition cmd) \<longleftrightarrow> bare (tc_TenantID cmd) \<and> steps_allowed cmd"
| "keys_bare (WIntent t i it ch) \<longleftrightarrow> bare t"
| "keys_bare (WRedemption t i rid) \<longleftrightarrow> bare t"
| "keys_bare (WRenew t i n) \<longleftrightarrow> bare t"
| "keys_bare (WResponse t a k b) \<longleftrightarrow> bare t \<and> bare a"
| "keys_bare (WPublished i) \<longleftrightarrow> True"

section \<open>The relation\<close>

definition same_order :: "Order \<Rightarrow> OrderPO \<Rightarrow> bool" where
  "same_order o' po \<longleftrightarrow>
     po_OrderID po = ord_OrderID o' \<and> po_TenantID po = ord_TenantID o' \<and> po_Scene po = ord_Scene o' \<and>
     po_Channel po = ord_Channel o' \<and> po_BuyerUserID po = ord_BuyerUserID o' \<and>
     po_ClientOrderID po = ord_ClientOrderID o' \<and> po_Status po = Status_String (ord_Status o') \<and>
     po_Version po = ord_Version o' \<and>
     po_Currency po = amt_Currency (ord_Amounts o') \<and> po_OriginalAmount po = amt_Original (ord_Amounts o') \<and>
     po_DiscountAmount po = amt_Discount (ord_Amounts o') \<and> po_PayableAmount po = amt_Payable (ord_Amounts o') \<and>
     po_LedgerPayAmount po = amt_LedgerPay (ord_Amounts o') \<and>
     po_ChannelPayAmount po = amt_ChannelPay (ord_Amounts o') \<and> po_PaidAmount po = amt_Paid (ord_Amounts o') \<and>
     po_RefundedAmount po = amt_Refunded (ord_Amounts o') \<and> po_QuoteID po = pr_QuoteID (ord_Promotion o') \<and>
     po_ReservationID po = pr_ReservationID (ord_Promotion o') \<and>
     po_RedemptionID po = pr_RedemptionID (ord_Promotion o') \<and>
     po_FreezeID po = lr_FreezeID (ord_Ledger o') \<and> po_AssetCode po = lr_AssetCode (ord_Ledger o') \<and>
     po_PayMethod po = ord_PayMethod o' \<and>
     po_PaymentIntentID po = py_PaymentIntentID (ord_Payment o') \<and>
     po_PaymentChannel po = py_Channel (ord_Payment o') \<and>
     po_RenewCount po = ord_RenewCount o'"

definition client_of :: "OrderPO \<Rightarrow> string \<times> string \<times> string" where
  "client_of po = (po_TenantID po, po_BuyerUserID po, po_ClientOrderID po)"

definition client_at :: "string \<Rightarrow> string \<Rightarrow> string \<Rightarrow> OrderPO \<Rightarrow> bool" where
  "client_at a b c po \<longleftrightarrow> client_of po = (a, b, c)"

definition idem_of :: "IdempotencyPO \<Rightarrow> string \<times> string \<times> string" where
  "idem_of row = (ip_TenantID row, ip_Actor row, ip_IdemKey row)"

definition pending :: "OutboxPO list \<Rightarrow> string list" where
  "pending rows = map ox_EventID (filter (\<lambda>ox. ox_PublishedAt ox = None) rows)"

definition orders_related :: "OrderRepo \<Rightarrow> OrderPO list \<Rightarrow> bool" where
  "orders_related r rows \<longleftrightarrow> repo_wf r \<and> rows_ok rows \<and> distinct (map client_of rows) \<and>
     (\<forall>(a, b, c) \<in> client_of ` set rows. bare a \<and> bare b) \<and>
     (\<forall>ten i. bare ten \<longrightarrow> rel_option same_order (lookup_order r ten i) (find (row_at ten i) rows)) \<and>
     (\<forall>a b c. bare a \<longrightarrow> bare b \<longrightarrow>
        clientIx r (clientKey a b c) = map_option po_OrderID (find (client_at a b c) rows))"

definition idem_related :: "OrderRepo \<Rightarrow> IdempotencyPO list \<Rightarrow> bool" where
  "idem_related r rows \<longleftrightarrow> (\<forall>(a, b, c) \<in> idem_of ` set rows. bare a \<and> bare b) \<and>
     (\<forall>a b c. bare a \<longrightarrow> bare b \<longrightarrow>
        (idem r (idemKey a b c) \<noteq> None \<longleftrightarrow> (a, b, c) \<in> idem_of ` set rows))"

definition related :: "OrderRepo \<Rightarrow> Tables \<Rightarrow> bool" where
  "related r t \<longleftrightarrow> orders_related r (t_orders t) \<and> idem_related r (t_idem t) \<and>
     map ob_EventID (events r) = pending (t_outbox t)"

lemma same_order_stored: "same_order o' po \<Longrightarrow> order_row_same js rnd po po' \<Longrightarrow> same_order o' po'"
  unfolding order_row_same_def same_order_def by (elim exE conjE) simp

lemma same_order_written: "order_row_same js rnd (orderToPO js o') po \<Longrightarrow> same_order o' po"
  by (rule same_order_stored) (simp_all add: same_order_def orderToPO_def)

lemma same_order_set:
  assumes "same_order o' po"
  shows "same_order (moved cmd o') (po\<lparr>po_Status := Status_String (tc_To cmd), po_Version := po_Version po + 1,
      po_UpdatedAt := now\<rparr>)"
    and "same_order (o'\<lparr>ord_Amounts := (ord_Amounts o')\<lparr>amt_Paid := a\<rparr>\<rparr>) (po\<lparr>po_PaidAmount := a\<rparr>)"
    and "same_order (o'\<lparr>ord_Amounts := (ord_Amounts o')\<lparr>amt_Refunded := amt_Refunded (ord_Amounts o') + a\<rparr>\<rparr>)
      (po\<lparr>po_RefundedAmount := po_RefundedAmount po + a\<rparr>)"
    and "same_order (o'\<lparr>ord_Promotion := (ord_Promotion o')\<lparr>pr_RedemptionID := s\<rparr>\<rparr>) (po\<lparr>po_RedemptionID := s\<rparr>)"
    and "same_order (o'\<lparr>ord_Payment := (ord_Payment o')\<lparr>py_PaymentIntentID := s\<rparr>\<rparr>) (po\<lparr>po_PaymentIntentID := s\<rparr>)"
    and "same_order (o'\<lparr>ord_Payment := \<lparr>py_PaymentIntentID = s, py_Channel = ch\<rparr>\<rparr>)
      (po\<lparr>po_PaymentIntentID := s, po_PaymentChannel := ch\<rparr>)"
    and "same_order (o'\<lparr>ord_RenewCount := ord_RenewCount o' + 1\<rparr>) (po\<lparr>po_RenewCount := po_RenewCount po + 1\<rparr>)"
    and "same_order o' (po\<lparr>po_UpdatedAt := now\<rparr>)" "same_order o' (po\<lparr>po_PaidAt := pa\<rparr>)"
      "same_order o' (po\<lparr>po_CancelledAt := pa\<rparr>)" "same_order o' (po\<lparr>po_CompletedAt := pa\<rparr>)"
    and "same_order (o'\<lparr>ord_PaidAt := t1, ord_CancelledAt := t2, ord_CompletedAt := t3, ord_UpdatedAt := t4\<rparr>) po"
  using assms by (simp_all add: same_order_def moved_def)

lemma same_order_transition:
  assumes "same_order o' po"
  shows "same_order (apply_cmd tnow cmd (moved cmd o')) (transition_row now cmd po)"
proof -
  define p1 where "p1 = po\<lparr>po_Status := Status_String (tc_To cmd), po_Version := po_Version po + 1, po_UpdatedAt := now\<rparr>"
  define o1 where "o1 = (case tc_PaidAmount cmd of None \<Rightarrow> moved cmd o'
    | Some p \<Rightarrow> (moved cmd o')\<lparr>ord_Amounts := (ord_Amounts (moved cmd o'))\<lparr>amt_Paid := p\<rparr>\<rparr>)"
  define p2 where "p2 = (case tc_PaidAmount cmd of None \<Rightarrow> p1 | Some p \<Rightarrow> p1\<lparr>po_PaidAmount := p\<rparr>)"
  define o2 where "o2 = (if 0 <s tc_RefundedAdd cmd
    then o1\<lparr>ord_Amounts := (ord_Amounts o1)\<lparr>amt_Refunded := amt_Refunded (ord_Amounts o1) + tc_RefundedAdd cmd\<rparr>\<rparr>
    else o1)"
  define p3 where "p3 = (if 0 <s tc_RefundedAdd cmd
    then p2\<lparr>po_RefundedAmount := po_RefundedAmount p2 + tc_RefundedAdd cmd\<rparr> else p2)"
  define o3 where "o3 = (if tc_RedemptionID cmd \<noteq> ''''
    then o2\<lparr>ord_Promotion := (ord_Promotion o2)\<lparr>pr_RedemptionID := tc_RedemptionID cmd\<rparr>\<rparr> else o2)"
  define p4 where "p4 = (if tc_RedemptionID cmd \<noteq> '''' then p3\<lparr>po_RedemptionID := tc_RedemptionID cmd\<rparr> else p3)"
  define o4 where "o4 = (if tc_PaymentIntentID cmd \<noteq> ''''
    then o3\<lparr>ord_Payment := (ord_Payment o3)\<lparr>py_PaymentIntentID := tc_PaymentIntentID cmd\<rparr>\<rparr> else o3)"
  define p5 where "p5 = (if tc_PaymentIntentID cmd \<noteq> ''''
    then p4\<lparr>po_PaymentIntentID := tc_PaymentIntentID cmd\<rparr> else p4)"
  have "same_order (moved cmd o') p1" unfolding p1_def by (rule same_order_set(1) [OF assms])
  then have "same_order o1 p2" by (simp add: o1_def p2_def same_order_set split: option.split)
  then have "same_order o2 p3" by (simp add: o2_def p3_def same_order_set)
  then have "same_order o3 p4" by (simp add: o3_def p4_def same_order_set)
  then have s: "same_order o4 p5" by (simp add: o4_def p5_def same_order_set)
  have o: "apply_cmd tnow cmd (moved cmd o') = o4\<lparr>ord_PaidAt := tc_PaidAt cmd,
      ord_CancelledAt := tc_CancelledAt cmd, ord_CompletedAt := tc_CompletedAt cmd, ord_UpdatedAt := tnow\<rparr>"
    unfolding apply_cmd_def Let_def o4_def o3_def o2_def o1_def ..
  have "transition_row now cmd po =
      (let p6 = (if tc_PaidAt cmd \<noteq> None then p5\<lparr>po_PaidAt := tc_PaidAt cmd\<rparr> else p5);
           p7 = (if tc_CancelledAt cmd \<noteq> None then p6\<lparr>po_CancelledAt := tc_CancelledAt cmd\<rparr> else p6)
       in (if tc_CompletedAt cmd \<noteq> None then p7\<lparr>po_CompletedAt := tc_CompletedAt cmd\<rparr> else p7))"
    unfolding transition_row_def Let_def p5_def p4_def p3_def p2_def p1_def ..
  then show ?thesis using s by (simp add: o same_order_set Let_def)
qed

lemma orders_related_cong:
  "orders r' = orders r \<Longrightarrow> clientIx r' = clientIx r \<Longrightarrow> orders_related r' rows = orders_related r rows"
  by (simp add: orders_related_def orders_only(1,3) [of r' r])

lemma related_row:
  assumes "orders_related r rows" "bare ten" "lookup_order r ten i = Some o'"
  obtains po where "po \<in> set rows" "row_at ten i po" "same_order o' po" "find (row_at ten i) rows = Some po"
  using assms unfolding orders_related_def by (metis find_Some_set option_rel_Some1)

lemma related_order:
  assumes "orders_related r rows" "po \<in> set rows" "row_at ten i po"
  obtains o' where "lookup_order r ten i = Some o'" "same_order o' po"
proof -
  have "find (row_at ten i) rows = Some po"
    using assms by (auto simp: orders_related_def intro: rows_ok_unique)
  moreover have "bare ten"
    using assms by (fastforce simp: orders_related_def row_at_def client_of_def)
  ultimately show ?thesis using assms(1) that unfolding orders_related_def by (metis option_rel_Some2)
qed

section \<open>Updates of one order\<close>

lemma updated_row:
  assumes rel: "orders_related r rows" and ten: "bare ten" and found: "lookup_order r ten i = Some o'"
    and rows: "list_all2 S rows rows'"
    and keys: "\<And>x y. S x y \<Longrightarrow> po_OrderID y = po_OrderID x \<and> client_of y = client_of x"
    and other: "\<And>x y. S x y \<Longrightarrow> \<not> row_at ten i x \<Longrightarrow> y = x"
    and step: "\<And>x y. row_at ten i x \<Longrightarrow> same_order o' x \<Longrightarrow> S x y \<Longrightarrow> same_order o'' y"
    and r': "orders r' = orders (put_order ten i o'' r)" "clientIx r' = clientIx r"
  shows "orders_related r' rows'"
proof -
  obtain po where po: "po \<in> set rows" "row_at ten i po" "same_order o' po" "find (row_at ten i) rows = Some po"
    using related_row [OF rel ten found] by blast
  have find: "rel_option S (find (row_at a j) rows) (find (row_at a j) rows')" for a j
    by (rule find_list_all2 [OF rows]) (auto simp: row_at_def client_of_def dest: keys)
  obtain po' where po': "find (row_at ten i) rows' = Some po'" "S po po'"
    using find [of ten i] po(4) by (auto simp: option_rel_Some1)
  have so: "same_order o'' po'" by (rule step [OF po(2,3) po'(2)])
  have key: "ord_TenantID o'' = ten" "ord_OrderID o'' = i"
    using so find_Some_set [OF po'(1)] by (auto simp: same_order_def row_at_def)
  have wf: "repo_wf r'"
    using rel r'(1) key put_order_wf [of r o'' ten i] by (simp add: orders_related_def orders_only(1) [OF r'(1)])
  have ids: "map po_OrderID rows' = map po_OrderID rows"
    using rows by (induction rule: list_all2_induct) (auto dest: keys)
  have status: "\<exists>s. po_Status y = Status_String s" if y: "y \<in> set rows'" for y
  proof -
    obtain x where x: "x \<in> set rows" "S x y" using list_all2_origin [OF rows y] by blast
    show ?thesis
    proof (cases "row_at ten i x")
      case True
      then have "x = po" using rel x(1) po(4) rows_ok_unique by (fastforce simp: orders_related_def)
      then have "same_order o'' y" using step True po(3) x(2) by blast
      then show ?thesis by (auto simp: same_order_def)
    next
      case False
      then show ?thesis using other [OF x(2)] x(1) rel by (auto simp: orders_related_def rows_ok_def)
    qed
  qed
  have look: "rel_option same_order (lookup_order r' a j) (find (row_at a j) rows')" if "bare a" for a j
  proof (cases "a = ten \<and> j = i")
    case True
    then show ?thesis using so po'(1) ten by (simp add: orders_only(3) [OF r'(1)] lookup_put_order)
  next
    case False
    then have l: "lookup_order r' a j = lookup_order r a j"
      using that ten by (auto simp: orders_only(3) [OF r'(1)] lookup_put_order)
    have "find (row_at a j) rows' = find (row_at a j) rows"
    proof (cases "find (row_at a j) rows")
      case None
      then show ?thesis using find [of a j] by simp
    next
      case (Some x)
      then obtain y where y: "find (row_at a j) rows' = Some y" "S x y"
        using find [of a j] by (auto simp: option_rel_Some1)
      have "\<not> row_at ten i x" using False find_Some_set [OF Some] by (auto simp: row_at_def)
      then show ?thesis using other [OF y(2)] y(1) Some by simp
    qed
    then show ?thesis using l rel that by (simp add: orders_related_def)
  qed
  have cl: "map client_of rows' = map client_of rows"
    using rows by (induction rule: list_all2_induct) (auto dest: keys)
  then have set: "client_of ` set rows' = client_of ` set rows" by (metis list.set_map)
  have ix: "map_option po_OrderID (find (client_at a b c) rows') = map_option po_OrderID (find (client_at a b c) rows)" for a b c
    using rows by (induction rule: list_all2_induct) (auto simp: client_at_def dest: keys)
  show ?thesis
    using rel wf ids status look unfolding orders_related_def rows_ok_def cl set ix r'(2) by simp
qed

lemma list_all2_same:
  "list_all2 (\<lambda>x y. if p x then S x y else y = x) xs ys \<Longrightarrow> \<forall>x \<in> set xs. \<not> p x \<Longrightarrow> ys = xs"
  by (induction rule: list_all2_induct) auto

text \<open>
  An update of the row of one order under a condition, and the same update in memory: \<open>g\<close> is the
  condition there, \<open>n\<close> the new order.
\<close>

lemma condition_met:
  assumes rel: "orders_related r rows" and ten: "bare ten"
    and p: "\<And>x. p x \<longleftrightarrow> row_at ten i x \<and> c x" and cond: "\<And>o' x. same_order o' x \<Longrightarrow> c x \<longleftrightarrow> g o'"
  shows "(\<exists>x \<in> set rows. p x) \<longleftrightarrow> (\<exists>o'. lookup_order r ten i = Some o' \<and> g o')"
proof
  assume "\<exists>x \<in> set rows. p x"
  then show "\<exists>o'. lookup_order r ten i = Some o' \<and> g o'"
    using p cond by (auto elim!: related_order [OF rel])
next
  assume "\<exists>o'. lookup_order r ten i = Some o' \<and> g o'"
  then show "\<exists>x \<in> set rows. p x"
    using p cond by (auto elim!: related_row [OF rel ten])
qed

lemma conditional_update:
  assumes rel: "orders_related r rows" and ten: "bare ten"
    and rows: "list_all2 (\<lambda>x y. if p x then order_row_same js rnd (f x) y else y = x) rows rows'"
    and p: "\<And>x. p x \<longleftrightarrow> row_at ten i x \<and> c x" and cond: "\<And>o' x. same_order o' x \<Longrightarrow> c x \<longleftrightarrow> g o'"
    and keys: "\<And>x. po_OrderID (f x) = po_OrderID x" "\<And>x. client_of (f x) = client_of x"
    and upd: "\<And>o' x. same_order o' x \<Longrightarrow> same_order (n o') (f x)"
    and r': "\<And>o'. lookup_order r ten i = Some o' \<Longrightarrow> g o' \<Longrightarrow>
        orders r' = orders (put_order ten i (n o') r) \<and> clientIx r' = clientIx r"
      "\<nexists>o'. lookup_order r ten i = Some o' \<and> g o' \<Longrightarrow> r' = r"
  shows "orders_related r' rows'"
proof (cases "\<exists>o'. lookup_order r ten i = Some o' \<and> g o'")
  case True
  then obtain o' where o': "lookup_order r ten i = Some o'" "g o'" by blast
  show ?thesis
  proof (rule updated_row [OF rel ten o'(1) rows])
    show "po_OrderID y = po_OrderID x \<and> client_of y = client_of x"
      if "if p x then order_row_same js rnd (f x) y else y = x" for x y
      using that keys by (auto simp: client_of_def dest: order_row_sameD split: if_splits)
    show "y = x" if "if p x then order_row_same js rnd (f x) y else y = x" "\<not> row_at ten i x" for x y
      using that p by simp
    show "same_order (n o') y" if "row_at ten i x" "same_order o' x"
      "if p x then order_row_same js rnd (f x) y else y = x" for x y
      using that p cond [OF that(2)] o'(2) by (auto intro: same_order_stored upd)
  qed (use r'(1) [OF o'] in auto)
next
  case False
  then have "rows' = rows" using condition_met [of r rows ten p i c g, OF rel ten p cond] by (intro list_all2_same [OF rows]) auto
  then show ?thesis using rel r'(2) [OF False] by simp
qed

end
