(* ===== verification/Pg_Lists.thy ===== *)
theory Pg_Lists
  imports Pg_Store
begin

text \<open>
  The lists and the tickets of the Postgres repository. A cursor names a position in the listing of all
  rows that match, newest first, and the page behind it is the next piece of that listing, so
  reading page after page gives every row once. A claim takes tickets that wait and leaves them running.
\<close>

section \<open>Pages\<close>

lemma last_bar_None: "CHR ''|'' \<notin> set xs \<Longrightarrow> last_bar xs = None"
  by (induction xs) auto

lemma last_bar_append: "CHR ''|'' \<notin> set ys \<Longrightarrow> last_bar (xs @ CHR ''|'' # ys) = Some (length xs)"
  by (induction xs) (simp_all add: last_bar_None)

text \<open>The cursor codec loses nothing: times are printed readably, and no order id has a bar in it.\<close>

definition cursors_ok :: "'d DB \<Rightarrow> OrderPO list \<Rightarrow> bool" where
  "cursors_ok db rows \<longleftrightarrow> (\<forall>po \<in> set rows. CHR ''|'' \<notin> set (po_OrderID po) \<and>
     db_format db (po_CreatedAt po) \<noteq> '''' \<and>
     db_parse db (db_format db (po_CreatedAt po)) = Some (po_CreatedAt po))"

lemma splitCursor_cursor_of:
  assumes "cursors_ok db rows" "po \<in> set rows"
  shows "splitCursor (db_parse db) (cursor_of db po) = Some (row_pos po)" "cursor_of db po \<noteq> ''''"
  using assms by (auto simp: cursors_ok_def splitCursor_def cursor_of_def last_bar_append row_pos_def)

lemma sorted_wrt_mset_unique:
  assumes "sorted_wrt le xs" "sorted_wrt le ys" "mset xs = mset ys"
    "\<And>a b. a \<in> set xs \<Longrightarrow> b \<in> set xs \<Longrightarrow> le a b \<Longrightarrow> le b a \<Longrightarrow> a = b"
  shows "xs = ys"
  using assms
proof (induction xs arbitrary: ys)
  case (Cons x xs)
  then obtain y zs where ys: "ys = y # zs" by (cases ys) auto
  have "set (x # xs) = set ys" using Cons.prems(3) by (metis set_mset_mset)
  then have "x \<in> set ys" "y \<in> set (x # xs)" using ys by auto
  then have "x = y"
    using Cons.prems(1,2) Cons.prems(4) [of x y] ys by auto
  then show ?case using Cons ys by auto
qed simp

text \<open>The listing that the pages cut up.\<close>

definition listing :: "'d DB \<Rightarrow> (OrderPO \<Rightarrow> bool) \<Rightarrow> Tables \<Rightarrow> OrderPO list" where
  "listing db p t = sort_by (newest (db_lt db)) (filter p (t_orders t))"

context relational_db
begin

lemma newer_irrefl: "\<not> newer (db_lt db) x x"
  using lt_irrefl by (simp add: newer_def)

lemma newer_asym: "newer (db_lt db) x y \<Longrightarrow> \<not> newer (db_lt db) y x"
  using lt_irrefl lt_trans [of "snd x" "snd y" "snd x"] by (auto simp: newer_def)

lemma newest_antisym:
  assumes "rows_ok rows" "a \<in> set rows" "b \<in> set rows" "newest (db_lt db) a b" "newest (db_lt db) b a"
  shows "a = b"
proof -
  have "row_pos a = row_pos b" using assms(4,5) newer_asym [of "row_pos a" "row_pos b"] by (auto simp: newest_def)
  then show ?thesis using assms(1-3) by (auto simp: row_pos_def rows_ok_def distinct_map dest: inj_onD)
qed

lemma listing_facts:
  "sorted_wrt (newest (db_lt db)) (listing db p t)" "mset (listing db p t) = mset (filter p (t_orders t))"
  "set (listing db p t) = {po \<in> set (t_orders t). p po}"
proof -
  show m: "mset (listing db p t) = mset (filter p (t_orders t))" by (simp add: listing_def)
  have "set_mset (mset (listing db p t)) = set_mset (mset (filter p (t_orders t)))" by (simp only: m)
  then show "set (listing db p t) = {po \<in> set (t_orders t). p po}" by simp
qed (simp add: listing_def sorted_sort_by order_by_newest)

lemma selects_listing:
  assumes "rows_ok (t_orders t)" "selects (newest (db_lt db)) lim (filter (\<lambda>po. p po \<and> q po) (t_orders t)) out"
  shows "out = limited lim (filter q (listing db p t))"
proof -
  obtain s where s: "mset s = mset (filter (\<lambda>po. p po \<and> q po) (t_orders t))"
    "sorted_wrt (newest (db_lt db)) s" "out = limited lim s"
    using assms(2) by (auto simp: selects_def)
  have "s = filter q (listing db p t)"
  proof (rule sorted_wrt_mset_unique [OF s(2)])
    show "mset s = mset (filter q (listing db p t))"
      using s(1) listing_facts(2) [of p t] by (simp add: filter_filter_mset conj_commute)
    show "a = b" if "a \<in> set s" "b \<in> set s" "newest (db_lt db) a b" "newest (db_lt db) b a" for a b
    proof -
      have "set s \<subseteq> set (t_orders t)" using s(1) by (metis filter_is_subset set_mset_mset)
      then show ?thesis using newest_antisym [OF assms(1)] that by blast
    qed
  qed (simp add: listing_facts(1) sorted_wrt_filter)
  then show ?thesis using s(3) by simp
qed

lemma listing_strict:
  assumes "rows_ok (t_orders t)" "i < j" "j < length (listing db p t)"
  shows "newer (db_lt db) (row_pos (listing db p t ! i)) (row_pos (listing db p t ! j))"
proof -
  let ?S = "listing db p t"
  have "newest (db_lt db) (?S ! i) (?S ! j)"
    using listing_facts(1) [of p t] assms(2,3) by (simp add: sorted_wrt_nth_less)
  moreover have "row_pos (?S ! i) \<noteq> row_pos (?S ! j)"
  proof
    assume eq: "row_pos (?S ! i) = row_pos (?S ! j)"
    have "mset (map po_OrderID ?S) = mset (map po_OrderID (filter p (t_orders t)))"
      by (simp add: listing_facts(2) del: mset_filter)
    moreover have "distinct (map po_OrderID (filter p (t_orders t)))"
      using assms(1) by (simp add: rows_ok_def distinct_map_filter)
    ultimately have "distinct (map po_OrderID ?S)" by (metis mset_eq_imp_distinct_iff)
    then show False using eq assms(2,3) nth_eq_iff_index_eq [of "map po_OrderID ?S" i j]
      by (simp add: row_pos_def)
  qed
  ultimately show ?thesis by (simp add: newest_def)
qed

lemma after_listing:
  assumes "rows_ok (t_orders t)" "0 < k" "k \<le> length (listing db p t)"
  shows "filter (\<lambda>po. newer (db_lt db) (row_pos (listing db p t ! (k - 1))) (row_pos po)) (listing db p t) =
    drop k (listing db p t)"
proof -
  let ?S = "listing db p t" and ?q = "\<lambda>po. newer (db_lt db) (row_pos (listing db p t ! (k - 1))) (row_pos po)"
  have "filter ?q (take k ?S) = []"
  proof -
    have "\<not> ?q (?S ! j)" if "j < k" for j
      using that assms listing_strict [OF assms(1), of j "k - 1" p] newer_irrefl newer_asym
      by (cases "j = k - 1") auto
    then show ?thesis using assms(3) by (auto simp: filter_empty_conv in_set_conv_nth)
  qed
  moreover have "filter ?q (drop k ?S) = drop k ?S"
  proof -
    have "?q (?S ! (k + j))" if "k + j < length ?S" for j
      using listing_strict [OF assms(1), of "k - 1" "k + j" p] that assms(2) by simp
    then show ?thesis using assms(3) by (auto simp: filter_id_conv in_set_conv_nth)
  qed
  ultimately show ?thesis by (metis append.left_neutral append_take_drop_id filter_append)
qed

end

text \<open>The orders a buyer's list is about, and a reader that follows the cursors to the end.\<close>

definition buyer_rows :: "string \<Rightarrow> string \<Rightarrow> Status option \<Rightarrow> string \<Rightarrow> OrderPO \<Rightarrow> bool" where
  "buyer_rows ten buyer status scene po \<longleftrightarrow> po_TenantID po = ten \<and> po_BuyerUserID po = buyer \<and>
     (case status of None \<Rightarrow> True | Some s \<Rightarrow> po_Status po = Status_String s) \<and>
     (scene \<noteq> '''' \<longrightarrow> po_Scene po = scene)"

fun read_pages ::
  "nat \<Rightarrow> (string \<Rightarrow> ('d, (Order list \<times> string) res) state) \<Rightarrow> string \<Rightarrow> ('d, Order list res) state" where
  "read_pages 0 page cursor = ok []"
| "read_pages (Suc n) page cursor =
     tryE (page cursor) (\<lambda>(os, after). if after = '''' then ok os
       else tryE (read_pages n page after) (\<lambda>rest. ok (os @ rest)))"

definition cursor_at :: "'d DB \<Rightarrow> OrderPO list \<Rightarrow> nat \<Rightarrow> string" where
  "cursor_at db S k = (if k = 0 then '''' else cursor_of db (S ! (k - 1)))"

lemma bare_orders_append: "bare_orders db (xs @ ys) = bare_orders db xs @ bare_orders db ys"
  by (simp add: bare_orders_def)

context relational_db
begin

lemma after_cursor_at:
  assumes "rows_ok (t_orders t)" "cursors_ok db (t_orders t)" "k \<le> length (listing db p t)"
  shows "filter (after_pos db (cursor_at db (listing db p t) k)) (listing db p t) = drop k (listing db p t)"
proof (cases "k = 0")
  case False
  then have "listing db p t ! (k - 1) \<in> set (listing db p t)" using assms(3) by (intro nth_mem) simp
  then have "listing db p t ! (k - 1) \<in> set (t_orders t)" by (simp add: listing_facts(3))
  from splitCursor_cursor_of [OF assms(2) this] have
    "after_pos db (cursor_at db (listing db p t) k) =
      (\<lambda>po. newer (db_lt db) (row_pos (listing db p t ! (k - 1))) (row_pos po))"
    using False by (simp add: after_pos_def cursor_at_def fun_eq_iff)
  then show ?thesis using after_listing [OF assms(1) _ assms(3)] False by simp
qed (simp add: cursor_at_def after_pos_def)

lemma page_of_listing:
  assumes "1 \<le> limit" "k \<le> length S"
  shows "page_of db limit (limited (Some (limit + 1)) (drop k S)) =
    (bare_orders db (take (nat limit) (drop k S)),
     if k + nat limit < length S then cursor_at db S (k + nat limit) else '''')"
proof -
  have n: "nat (limit + 1) = Suc (nat limit)" "0 < nat limit" using assms(1) by auto
  show ?thesis
    using assms n by (auto simp: page_of_def limited_def cursor_at_def min_def)
qed

lemma ListByBuyer_page:
  assumes "rows_ok (t_orders t)" "cursors_ok db (t_orders t)" "1 \<le> limit"
    and S: "S = listing db (buyer_rows ten buyer status scene) t" and k: "k \<le> length S"
  shows "vc cur (pg_ListByBuyer db ten buyer status scene (cursor_at db S k) limit) (\<lambda>res t'. t' = t \<and>
    (case res of Inl e \<Rightarrow> db_fault e
     | Inr page \<Rightarrow> page = (bare_orders db (take (nat limit) (drop k S)),
         if k + nat limit < length S then cursor_at db S (k + nat limit) else ''''))) t"
proof -
  have p: "(\<lambda>po. po_TenantID po = ten \<and> po_BuyerUserID po = buyer \<and>
      (case status of None \<Rightarrow> True | Some s \<Rightarrow> po_Status po = Status_String s) \<and>
      (scene \<noteq> '''' \<longrightarrow> po_Scene po = scene) \<and> after_pos db c po) =
    (\<lambda>po. buyer_rows ten buyer status scene po \<and> after_pos db c po)" for c
    by (simp add: buyer_rows_def fun_eq_iff)
  have next_rows: "filter (after_pos db (cursor_at db S k)) S = drop k S"
    using after_cursor_at [OF assms(1,2), of k] k by (simp add: S)
  show ?thesis
    unfolding pg_ListByBuyer_def p
    by (intro wp_intros vc_db order_by_newest conjI allI impI)
      (auto dest!: selects_listing [OF assms(1)]
        simp: next_rows S [symmetric] page_of_listing [OF assms(3) k])
qed

lemma read_pages_listing:
  assumes ok: "rows_ok (t_orders t)" "cursors_ok db (t_orders t)" "1 \<le> limit"
    and S: "S = listing db (buyer_rows ten buyer status scene) t"
  shows "k \<le> length S \<Longrightarrow> length S - k < fuel \<Longrightarrow>
    vc cur (read_pages fuel (\<lambda>c. pg_ListByBuyer db ten buyer status scene c limit) (cursor_at db S k))
      (\<lambda>res t'. t' = t \<and> (case res of Inl e \<Rightarrow> db_fault e | Inr os \<Rightarrow> os = bare_orders db (drop k S))) t"
proof (induction fuel arbitrary: k)
  case (Suc fuel)
  have rest: "k + nat limit < length S \<Longrightarrow>
    vc cur (read_pages fuel (\<lambda>c. pg_ListByBuyer db ten buyer status scene c limit) (cursor_at db S (k + nat limit)))
      (\<lambda>res t'. t' = t \<and> (case res of Inl e \<Rightarrow> db_fault e
         | Inr os \<Rightarrow> os = bare_orders db (drop (k + nat limit) S))) t"
    using Suc.prems assms(3) by (intro Suc.IH) auto
  have nonempty: "cursor_at db S (k + nat limit) \<noteq> ''''" if "k + nat limit < length S"
  proof -
    have "S ! (k + nat limit - 1) \<in> set S" using that by (intro nth_mem) simp
    then have "S ! (k + nat limit - 1) \<in> set (t_orders t)" by (simp add: S listing_facts(3))
    then show ?thesis using splitCursor_cursor_of(2) [OF ok(2)] assms(3) by (auto simp: cursor_at_def)
  qed
  have join: "bare_orders db (take n (drop k S)) @ bare_orders db (drop (k + n) S) = bare_orders db (drop k S)" for n
    by (metis append_take_drop_id bare_orders_append drop_drop add.commute)
  show ?case
    by (simp, rule wp_tryE, rule wp_mono [OF ListByBuyer_page [OF ok S Suc.prems(1)]])
      (auto intro!: wp_ok wp_tryE wp_mono [OF rest] simp: nonempty nonempty [THEN not_sym] join split: if_splits)
qed simp

end

section \<open>Tickets\<close>

definition tickets_ok :: "Tables \<Rightarrow> bool" where
  "tickets_ok t \<longleftrightarrow> 0 \<notin> kp_ID ` set (t_comps t)"

text \<open>Everything claimed waited for a claim and is running afterwards.\<close>

definition claims :: "Tables \<Rightarrow> CompensationPO list \<Rightarrow> Tables \<Rightarrow> bool" where
  "claims t rows t' \<longleftrightarrow> tickets_ok t' \<and>
     (\<forall>row \<in> set rows. \<exists>r \<in> set (t_comps t). kp_Status r = ''pending'' \<and> row = r\<lparr>kp_Attempts := kp_Attempts r + 1\<rparr>) \<and>
     (\<forall>r' \<in> set (t_comps t'). kp_ID r' \<in> kp_ID ` set rows \<longrightarrow> kp_Status r' = ''running'')"

context relational_db
begin

lemma claim_tx_outcome:
  assumes "tickets_ok t"
  shows "vc cur (claim_tx db now limit) (on_ok (\<lambda>rows. claims t rows)) t"
proof -
  have sub: "x \<in> set (t_comps t) \<and> kp_Status x = ''pending''"
    if "mset free \<subseteq># {#x \<in># mset (t_comps t). kp_Status x = ''pending'' \<and> retry_due now x#}"
      "selects le lim free out" "x \<in> set out" for free out le lim x
  proof -
    have "x \<in> set free" using that(2,3)
      by (auto simp: selects_def limited_def dest!: mset_eq_setD in_set_takeD split: option.splits)
    then show ?thesis using set_mset_mono [OF that(1)] by auto
  qed
  have claimed: "claims t (map (\<lambda>row. row\<lparr>kp_Attempts := kp_Attempts row + 1\<rparr>) out) (t\<lparr>t_comps := rows'\<rparr>)"
    if out: "set out \<subseteq> {r \<in> set (t_comps t). kp_Status r = ''pending''}"
      and upd: "list_all2 (\<lambda>r r'. if kp_ID r \<in> kp_ID ` set out
        then comp_row_same (r\<lparr>kp_Attempts := kp_Attempts r + 1, kp_Status := ''running''\<rparr>) r' else r' = r)
        (t_comps t) rows'" for out rows'
  proof -
    have "kp_ID r' \<noteq> 0 \<and> (kp_ID r' \<in> kp_ID ` set out \<longrightarrow> kp_Status r' = ''running'')" if mem: "r' \<in> set rows'" for r'
    proof -
      obtain r where r: "r \<in> set (t_comps t)" "if kp_ID r \<in> kp_ID ` set out
        then comp_row_same (r\<lparr>kp_Attempts := kp_Attempts r + 1, kp_Status := ''running''\<rparr>) r' else r' = r"
        using list_all2_origin [OF upd mem] by blast
      moreover have "kp_ID r \<noteq> 0" using assms r(1) by (force simp: tickets_ok_def)
      ultimately show ?thesis by (auto simp: comp_row_same_def split: if_splits)
    qed
    then show ?thesis using out by (fastforce simp: claims_def tickets_ok_def image_iff)
  qed
  show ?thesis
    unfolding claim_tx_def Let_def
    by (intro ok_tryE wp_if ok_ok vc_comps(4,5) order_by_keys on_ok_Inl on_ok_Inr)
      (use assms in \<open>auto simp: claims_def [of _ "[]"] intro!: claimed dest!: sub\<close>)
qed

lemma claim_committed:
  assumes "tickets_ok t"
  shows "vc cur (db_tx_comps db (claim_tx db now limit)) (\<lambda>res t'. case res of
    Inl e \<Rightarrow> t' = t | Inr rows \<Rightarrow> claims t rows t') t"
  by (rule vc_tx [OF tx_comps wp_mono [OF claim_tx_outcome [OF assms]]])
    (auto simp: on_ok_def split: sum.splits)

lemma claimed_once:
  assumes "tickets_ok t"
  shows "vc cur (State_Monad.bind (db_tx_comps db (claim_tx db now limit)) (\<lambda>a.
      State_Monad.bind (db_tx_comps db (claim_tx db now' limit')) (\<lambda>b. State_Monad.return (a, b))))
    (\<lambda>(a, b) t'. \<forall>xs ys. a = Inr xs \<longrightarrow> b = Inr ys \<longrightarrow> kp_ID ` set xs \<inter> kp_ID ` set ys = {}) t"
proof -
  have disj: "kp_ID ` set xs \<inter> kp_ID ` set ys = {}" if "claims t xs t1" "claims t1 ys t2" for xs ys t1 t2
  proof -
    have fresh: "kp_ID y \<notin> kp_ID ` set xs" if y: "y \<in> set ys" for y
    proof -
      obtain r where "r \<in> set (t_comps t1)" "kp_Status r = ''pending''" "kp_ID y = kp_ID r"
        using \<open>claims t1 ys t2\<close> y unfolding claims_def by fastforce
      then show ?thesis using \<open>claims t xs t1\<close> by (auto simp: claims_def)
    qed
    show ?thesis
    proof (rule equals0I)
      fix i assume "i \<in> kp_ID ` set xs \<inter> kp_ID ` set ys"
      then have "i \<in> kp_ID ` set xs" "i \<in> kp_ID ` set ys" by simp_all
      then show False using fresh by (elim imageE [of i kp_ID "set ys"]) simp
    qed
  qed
  have ok: "tickets_ok t1" if "case a of Inl e \<Rightarrow> t1 = t | Inr xs \<Rightarrow> claims t xs t1" for a t1
    using that assms by (cases a) (simp_all add: claims_def)
  show ?thesis
  proof (rule wp_bind, rule wp_mono [OF claim_committed [OF assms]], rule wp_bind)
    fix a t1 assume a: "case a of Inl e \<Rightarrow> t1 = t | Inr rows \<Rightarrow> claims t rows t1"
    let ?Q = "\<lambda>b t'. \<forall>xs ys. a = Inr xs \<longrightarrow> b = Inr ys \<longrightarrow> kp_ID ` set xs \<inter> kp_ID ` set ys = {}"
    have "?Q b t'" if "case b of Inl e \<Rightarrow> t' = t1 | Inr rows \<Rightarrow> claims t1 rows t'" for b t'
    proof (intro allI impI)
      fix xs ys assume "a = Inr xs" "b = Inr ys"
      then show "kp_ID ` set xs \<inter> kp_ID ` set ys = {}" using a that disj by simp
    qed
    then show "vc cur (db_tx_comps db (claim_tx db now' limit'))
        (\<lambda>b. vc cur (State_Monad.return (a, b)) (\<lambda>(a, b) t'. \<forall>xs ys. a = Inr xs \<longrightarrow> b = Inr ys \<longrightarrow>
          kp_ID ` set xs \<inter> kp_ID ` set ys = {})) t1"
      by (intro wp_mono [OF claim_committed [OF ok [OF a]]] wp_return) simp
  qed
qed

end

end
