(* ===== verification/Preview_Service.thy ===== *)
theory Preview_Service
  imports Repo_Invariants
begin

text \<open>
  \<open>src/internal/application/preview.go\<close>: the validation of order lines and the preview of an
  order, which prices the lines, asks OfferHub for a quote, checks it, splits the payable amount
  between ledger and channel, and caches a snapshot under the quote id.
\<close>

section \<open>Definitions\<close>

record LedgerPay =
  lp_AssetCode :: string
  lp_Amount :: int64

record PreviewCmd =
  pv_Scene :: string
  pv_Channel :: string
  pv_CouponIDs :: "string list"
  pv_AutoBest :: bool
  pv_Items :: "OrderLine list"
  pv_LedgerPay :: "LedgerPay option"
  pv_Ext :: anymap

record PreviewResult =
  pvr_QuoteID :: string
  pvr_OriginalAmount :: int64
  pvr_DiscountAmount :: int64
  pvr_PayableAmount :: int64
  pvr_Allocations :: "Allocation list"
  pvr_LedgerPayAmount :: int64
  pvr_ChannelPayAmount :: int64
  pvr_Currency :: string
  pvr_ExpiresAt :: time
  pvr_LedgerBalance :: "int64 option"
  pvr_ContextHash :: string

definition quoteTTL :: duration where "quoteTTL = 5 * time_Minute"

text \<open>The loop of \<open>validateLines\<close>, with the line ids seen so far; \<open>None\<close> is the nil error.\<close>

fun validateLines_loop :: "string list \<Rightarrow> OrderLine list \<Rightarrow> error option" where
  "validateLines_loop seen [] = None"
| "validateLines_loop seen (it # items) =
     (if ln_LineID it = '''' \<or> ln_ObjectType it = '''' \<or> ln_ObjectID it = ''''
      then Some (Wrapped ErrInvalidArgument ''line fields'')
      else if ln_LineID it \<in> set seen
      then Some (Wrapped ErrInvalidArgument (''duplicate line_id '' @ ln_LineID it))
      else if ln_Quantity it \<le>s 0 \<or> ln_UnitPrice it <s 0
      then Some (Wrapped ErrInvalidArgument ''quantity/unit_price'')
      else validateLines_loop (ln_LineID it # seen) items)"

definition validateLines :: "OrderLine list \<Rightarrow> error option" where
  "validateLines items =
     (if items = [] then Some (Wrapped ErrInvalidArgument ''items required'')
      else validateLines_loop [] items)"

text \<open>\<open>if err := f(); err != nil { return nil, err }\<close> for a function that returns an error only.\<close>

definition checkE :: "error option \<Rightarrow> ('s, 'a res) state \<Rightarrow> ('s, 'a res) state" where
  "checkE e m = (case e of Some err \<Rightarrow> fail err | None \<Rightarrow> m)"

lemma wp_checkE [wp_intros]:
  "(\<And>err. e = Some err \<Longrightarrow> Q (Inl err) r) \<Longrightarrow> (e = None \<Longrightarrow> wp m Q r) \<Longrightarrow> wp (checkE e m) Q r"
  by (auto simp: checkE_def intro!: wp_intros split: option.split)

text \<open>
  The amounts of a preview: the requested ledger part, except that a scene that captures from the
  ledger pays the whole payable amount from there when the request names none. The result is the
  amounts, the ledger part and the asset.
\<close>

definition preview_amounts ::
  "SceneConfig \<Rightarrow> LedgerPay option \<Rightarrow> int64 \<Rightarrow> int64 \<Rightarrow> (Amounts \<times> int64 \<times> string) res" where
  "preview_amounts scene lp original discount =
     (let ledgerPay = (case lp of None \<Rightarrow> 0 | Some p \<Rightarrow> lp_Amount p);
          asset = (case lp of None \<Rightarrow> '''' | Some p \<Rightarrow> lp_AssetCode p)
      in case BuildAmounts (sc_Currency scene) original discount ledgerPay of
           Inl e \<Rightarrow> Inl e
         | Inr amounts \<Rightarrow>
             if sc_Ledger scene = LedgerFreezeCapture \<and> ledgerPay = 0
             then (case BuildAmounts (sc_Currency scene) original discount (amt_Payable amounts) of
                 Inl e \<Rightarrow> Inl e
               | Inr amounts' \<Rightarrow> Inr (amounts', amt_LedgerPay amounts',
                   if asset = '''' then sc_Currency scene else asset))
             else Inr (amounts, ledgerPay, asset))"

definition preview_quote_request ::
  "Identity \<Rightarrow> PreviewCmd \<Rightarrow> SceneConfig \<Rightarrow> OrderLine list \<Rightarrow> QuoteRequest" where
  "preview_quote_request ident cmd scene items = \<lparr>
     qr_TenantID = id_TenantID ident, qr_UserID = id_UserID ident,
     qr_OrderID = ''preview:'' @ id_UserID ident, qr_Scene = pv_Scene cmd,
     qr_Channel = pv_Channel cmd, qr_Currency = sc_Currency scene,
     qr_CouponIDs = pv_CouponIDs cmd, qr_AutoBest = pv_AutoBest cmd, qr_Items = items,
     qr_Attributes = id_Attributes ident, qr_Context = pv_Ext cmd\<rparr>"

text \<open>The balance is shown only when an asset is involved and the ledger answers.\<close>

definition preview_balance ::
  "'x Deps \<Rightarrow> Identity \<Rightarrow> string \<Rightarrow> ('x World, int64 option) state" where
  "preview_balance d ident asset =
     (if asset = '''' then State_Monad.return None
      else do {
        b \<leftarrow> ext_op (lc_GetBalance (dp_ledger d) (id_TenantID ident) (id_UserID ident) asset);
        State_Monad.return (case b of Inl e \<Rightarrow> None | Inr v \<Rightarrow> Some v) })"

text \<open>From the priced and allocated lines on: hash, expiry, cache entry and result.\<close>

definition preview_finish ::
  "'x Deps \<Rightarrow> Identity \<Rightarrow> PreviewCmd \<Rightarrow> SceneConfig \<Rightarrow> OrderLine list \<Rightarrow> QuoteResult \<Rightarrow> Amounts
     \<Rightarrow> int64 \<Rightarrow> string \<Rightarrow> ('x World, PreviewResult res) state" where
  "preview_finish d ident cmd scene items quote amounts ledgerPay asset = do {
     balance \<leftarrow> preview_balance d ident asset;
     let hash = ContextHash (dp_digest d) \<lparr>hi_Scene = pv_Scene cmd, hi_Channel = pv_Channel cmd,
       hi_Currency = sc_Currency scene, hi_CouponIDs = pv_CouponIDs cmd, hi_Items = items,
       hi_LedgerPay = ledgerPay, hi_AssetCode = asset, hi_Ext = pv_Ext cmd\<rparr>;
     expires \<leftarrow> (if q_ExpiresAt quote = 0
       then do { now \<leftarrow> ext_op (dp_clock d); State_Monad.return (now + quoteTTL) }
       else State_Monad.return (q_ExpiresAt quote));
     let snap = \<lparr>ps_QuoteID = q_QuoteID quote, ps_ContextHash = hash, ps_Scene = pv_Scene cmd,
       ps_Channel = pv_Channel cmd, ps_Currency = sc_Currency scene,
       ps_CouponIDs = pv_CouponIDs cmd, ps_Items = items, ps_Allocations = q_Allocations quote,
       ps_Promotions = q_Promotions quote, ps_OriginalAmount = amt_Original amounts,
       ps_DiscountAmount = amt_Discount amounts, ps_PayableAmount = amt_Payable amounts,
       ps_LedgerPay = amt_LedgerPay amounts, ps_AssetCode = asset,
       ps_ChannelPay = amt_ChannelPay amounts, ps_Ext = pv_Ext cmd, ps_ExpiresAt = expires,
       ps_SubjectAttrs = id_Attributes ident\<rparr>;
     _ \<leftarrow> (case dp_cache d of None \<Rightarrow> State_Monad.return ()
       | Some c \<Rightarrow> do {
           now \<leftarrow> ext_op (dp_time_Now d);
           ignore (ext_op (pc_Put c (id_TenantID ident) (id_UserID ident) (q_QuoteID quote) snap
             (expires - now))) });
     ok \<lparr>pvr_QuoteID = q_QuoteID quote, pvr_OriginalAmount = amt_Original amounts,
       pvr_DiscountAmount = amt_Discount amounts, pvr_PayableAmount = amt_Payable amounts,
       pvr_Allocations = q_Allocations quote, pvr_LedgerPayAmount = amt_LedgerPay amounts,
       pvr_ChannelPayAmount = amt_ChannelPay amounts, pvr_Currency = amt_Currency amounts,
       pvr_ExpiresAt = expires, pvr_LedgerBalance = balance, pvr_ContextHash = hash\<rparr> }"

definition Preview ::
  "'x Deps \<Rightarrow> Identity \<Rightarrow> PreviewCmd \<Rightarrow> ('x World, PreviewResult res) state" where
  "Preview d ident cmd0 =
     (case dp_scenes d (pv_Scene cmd0) of
        None \<Rightarrow> fail (Wrapped ErrSceneNotFound (pv_Scene cmd0))
      | Some scene \<Rightarrow>
          (let cmd = (if pv_Channel cmd0 = '''' then cmd0\<lparr>pv_Channel := ''app''\<rparr> else cmd0) in
           checkE (validateLines (pv_Items cmd))
             (tryE (lift_res (SumOriginal (pv_Items cmd))) (\<lambda>(items, original).
               tryE (ext_op (oc_Quote (dp_offer d) (preview_quote_request ident cmd scene items)))
                 (\<lambda>quote.
                   if q_Currency quote \<noteq> sc_Currency scene \<or> q_OriginalAmount quote \<noteq> original
                   then fail (Sentinel ErrQuoteStale)
                   else tryE (lift_res (AllocateDiscount items (q_DiscountAmount quote))) (\<lambda>items'.
                     tryE (lift_res (preview_amounts scene (pv_LedgerPay cmd) original
                             (q_DiscountAmount quote))) (\<lambda>(amounts, ledgerPay, asset).
                       preview_finish d ident cmd scene items' quote amounts ledgerPay asset)))))))"

section \<open>Lemmas\<close>

lemma validateLines_loop_None:
  "validateLines_loop seen items = None \<Longrightarrow>
     (\<forall>l \<in> set items. line_priced l \<and> ln_LineID l \<noteq> '''' \<and> ln_LineID l \<notin> set seen) \<and>
     distinct (map ln_LineID items)"
  by (induction seen items rule: validateLines_loop.induct)
    (auto simp: line_priced_def int64_simps split: if_splits)

lemma validateLines_None:
  "validateLines items = None \<Longrightarrow> items \<noteq> [] \<and> distinct (map ln_LineID items) \<and>
     (\<forall>l \<in> set items. line_priced l \<and> ln_LineID l \<noteq> '''')"
  using validateLines_loop_None [of "[]" items] by (auto simp: validateLines_def split: if_splits)

lemma preview_amounts_valid:
  assumes "preview_amounts scene lp original discount = Inr (amounts, ledgerPay, asset)"
  shows "Validate amounts = None \<and> amt_Original amounts = original \<and>
    amt_Discount amounts = discount \<and> amt_LedgerPay amounts = ledgerPay \<and>
    amt_Currency amounts = sc_Currency scene \<and>
    (sc_Ledger scene = LedgerFreezeCapture \<longrightarrow> ledgerPay = 0 \<longrightarrow> amt_Payable amounts = 0)"
  using assms
  by (auto simp: preview_amounts_def Let_def BuildAmounts_fields split: sum.splits if_splits)

section \<open>Lemmas: the result of a preview\<close>

definition preview_ok :: "PreviewResult \<Rightarrow> bool" where
  "preview_ok p \<longleftrightarrow> 0 \<le> sint (pvr_DiscountAmount p) \<and>
     sint (pvr_PayableAmount p) = sint (pvr_OriginalAmount p) - sint (pvr_DiscountAmount p) \<and>
     0 \<le> sint (pvr_LedgerPayAmount p) \<and> 0 \<le> sint (pvr_ChannelPayAmount p) \<and>
     sint (pvr_PayableAmount p) = sint (pvr_LedgerPayAmount p) + sint (pvr_ChannelPayAmount p)"

lemma preview_finish_ok:
  assumes "Validate amounts = None"
  shows "wp (preview_finish d ident cmd scene items quote amounts lp asset)
    (\<lambda>res r'. r' = r \<and> (case res of Inl e \<Rightarrow> True | Inr p \<Rightarrow> preview_ok p)) r"
  unfolding preview_finish_def preview_balance_def Let_def
  by (intro wp_intros) (use assms in \<open>simp_all add: preview_ok_def Validate_None_iff\<close>)

lemma Preview_consistent:
  "wp (Preview d ident cmd) (\<lambda>res r'. r' = r \<and> (case res of Inl e \<Rightarrow> True | Inr p \<Rightarrow> preview_ok p)) r"
  unfolding Preview_def Let_def
  by (intro wp_intros conjI allI impI preview_finish_ok) (auto dest: preview_amounts_valid)

section \<open>Properties\<close>

text \<open>
  C35: a preview never touches the repository, and the amounts it shows are consistent: the payable
  is original less discount, it is split into a ledger and a channel part, and none is negative.
\<close>

theorem preview_shows_consistent_amounts:
  "wp (Preview d ident cmd) (\<lambda>res r'. r' = r \<and> (case res of Inl e \<Rightarrow> True | Inr p \<Rightarrow> preview_ok p)) r"
  by (rule Preview_consistent)

end
