(* ===== verification/Checkout_Service.thy ===== *)
theory Checkout_Service
  imports Preview_Service
begin

text \<open>
  \<open>src/internal/application/checkout.go\<close>: the checkout saga. A checkout replays a stored result
  for a known idempotency key, takes the checkout lock, resolves the cached quote, prices the order,
  reserves the offer, freezes ledger funds and reserves inventory, and then persists order,
  idempotency record and event in one repository call; a failure on the way releases what was
  taken. The payment intent is created last, and its failure is not one of the checkout.

  The long method is cut at its blank lines: \<open>resolveSnapshot\<close>, \<open>rollback\<close>, the order and the
  result it builds, the insertion, the payment intent, the part under the lock, and the entry.
\<close>

section \<open>Definitions\<close>

record CheckoutCmd =
  co_ClientOrderID :: string
  co_Scene :: string
  co_Channel :: string
  co_QuoteID :: string
  co_CouponIDs :: "string list"
  co_Items :: "OrderLine list"
  co_PayMethod :: PayMethod
  co_LedgerPay :: "LedgerPay option"
  co_Ext :: anymap
  co_IdempotencyKey :: string
  co_TraceID :: string

text \<open>The values \<open>resolveSnapshot\<close> returns besides its error.\<close>

record Resolved =
  rv_items :: "OrderLine list"
  rv_quoteID :: string
  rv_coupons :: "string list"
  rv_ledgerPay :: int64
  rv_asset :: string
  rv_ext :: anymap
  rv_promotions :: "PromotionDetail list"

definition request_resolved :: "CheckoutCmd \<Rightarrow> Resolved" where
  "request_resolved cmd = \<lparr>rv_items = co_Items cmd, rv_quoteID = co_QuoteID cmd,
     rv_coupons = co_CouponIDs cmd,
     rv_ledgerPay = (case co_LedgerPay cmd of None \<Rightarrow> 0 | Some p \<Rightarrow> lp_Amount p),
     rv_asset = (case co_LedgerPay cmd of None \<Rightarrow> '''' | Some p \<Rightarrow> lp_AssetCode p),
     rv_ext = co_Ext cmd, rv_promotions = []\<rparr>"

text \<open>What the request leaves open is taken from the snapshot.\<close>

definition merge_snapshot :: "CheckoutCmd \<Rightarrow> PreviewSnapshot \<Rightarrow> Resolved" where
  "merge_snapshot cmd snap =
     (let rv = request_resolved cmd in
      rv\<lparr>rv_items := (if rv_items rv = [] then ps_Items snap else rv_items rv),
         rv_coupons := (if rv_coupons rv = [] then ps_CouponIDs snap else rv_coupons rv),
         rv_ledgerPay := (if co_LedgerPay cmd = None then ps_LedgerPay snap else rv_ledgerPay rv),
         rv_asset := (if co_LedgerPay cmd = None then ps_AssetCode snap else rv_asset rv),
         rv_ext := (if rv_ext rv = None then ps_Ext snap else rv_ext rv),
         rv_promotions := ps_Promotions snap\<rparr>)"

definition resolved_hash :: "digest \<Rightarrow> CheckoutCmd \<Rightarrow> SceneConfig \<Rightarrow> Resolved \<Rightarrow> string" where
  "resolved_hash digest cmd scene rv = ContextHash digest \<lparr>hi_Scene = co_Scene cmd,
     hi_Channel = co_Channel cmd, hi_Currency = sc_Currency scene, hi_CouponIDs = rv_coupons rv,
     hi_Items = rv_items rv, hi_LedgerPay = rv_ledgerPay rv, hi_AssetCode = rv_asset rv,
     hi_Ext = rv_ext rv\<rparr>"

definition resolve_items :: "Resolved \<Rightarrow> ('s, Resolved res) state" where
  "resolve_items rv =
     (if rv_items rv = [] then fail (Wrapped ErrInvalidArgument ''items required'') else ok rv)"

definition resolveSnapshot ::
  "'x Deps \<Rightarrow> Identity \<Rightarrow> SceneConfig \<Rightarrow> CheckoutCmd \<Rightarrow> ('x World, Resolved res) state" where
  "resolveSnapshot d ident scene cmd =
     (case dp_cache d of
        None \<Rightarrow> resolve_items (request_resolved cmd)
      | Some cache \<Rightarrow>
          if co_QuoteID cmd = '''' then resolve_items (request_resolved cmd)
          else do {
            got \<leftarrow> ext_op (pc_GetByQuote cache (id_TenantID ident) (co_QuoteID cmd));
            (case got of
               Inl e \<Rightarrow> fail (Sentinel ErrQuoteStale)
             | Inr snap \<Rightarrow> do {
                 now \<leftarrow> ext_op (dp_clock d);
                 (if ps_ExpiresAt snap < now then fail (Sentinel ErrQuoteStale)
                  else let rv = merge_snapshot cmd snap in
                    if co_Scene cmd \<noteq> ps_Scene snap then fail (Sentinel ErrQuoteStale)
                    else if resolved_hash (dp_digest d) cmd scene rv \<noteq> ps_ContextHash snap
                    then fail (Sentinel ErrQuoteStale)
                    else resolve_items rv) }) })"

text \<open>
  The order literal of \<open>rollback\<close>; the fields it does not name are zero values. The zero value of
  the status is the empty string, which is no status; no adapter reads it.
\<close>

definition rollback_order :: "Identity \<Rightarrow> SceneConfig \<Rightarrow> string \<Rightarrow> OrderLine list \<Rightarrow> Order" where
  "rollback_order ident scene orderID items = \<lparr>ord_OrderID = orderID,
     ord_TenantID = id_TenantID ident, ord_Scene = sc_Name scene, ord_Channel = '''',
     ord_BuyerUserID = '''', ord_ClientOrderID = '''', ord_Status = StatusPendingPay,
     ord_Version = 0,
     ord_Amounts = \<lparr>amt_Currency = '''', amt_Original = 0, amt_Discount = 0, amt_Payable = 0,
       amt_LedgerPay = 0, amt_ChannelPay = 0, amt_Paid = 0, amt_Refunded = 0\<rparr>,
     ord_Promotion = \<lparr>pr_QuoteID = '''', pr_ReservationID = '''', pr_RedemptionID = ''''\<rparr>,
     ord_Ledger = \<lparr>lr_FreezeID = '''', lr_AssetCode = '''', lr_BizNo = ''''\<rparr>,
     ord_Payment = \<lparr>py_PaymentIntentID = '''', py_Channel = ''''\<rparr>, ord_PayMethod = '''',
     ord_ExpireAt = 0, ord_RenewCount = 0, ord_Context = None, ord_Lines = items,
     ord_Promotions = [], ord_LedgerLegs = [], ord_CreatedAt = 0, ord_UpdatedAt = 0,
     ord_PaidAt = None, ord_CancelledAt = None, ord_CompletedAt = None\<rparr>"

definition rollback ::
  "'x Deps \<Rightarrow> Identity \<Rightarrow> SceneConfig \<Rightarrow> string \<Rightarrow> OrderLine list \<Rightarrow> string \<Rightarrow> string \<Rightarrow> bool
     \<Rightarrow> ('x World, unit) state" where
  "rollback d ident scene orderID items reservationID freezeID reservedInv = do {
     _ \<leftarrow> (if reservedInv
       then (case dp_fulfill d (sc_Name scene) of
           None \<Rightarrow> State_Monad.return ()
         | Some adapter \<Rightarrow>
             ignore (ext_op (fa_Release adapter (rollback_order ident scene orderID items))))
       else State_Monad.return ());
     _ \<leftarrow> (if freezeID \<noteq> ''''
       then ignore (ext_op (lc_Release (dp_ledger d) freezeID (''order:release:'' @ orderID)))
       else State_Monad.return ());
     (if reservationID \<noteq> ''''
      then ignore (ext_op (oc_Release (dp_offer d) (id_TenantID ident) reservationID orderID
             (''order:'' @ orderID @ '':release'')))
      else State_Monad.return ()) }"

definition checkout_order ::
  "Identity \<Rightarrow> CheckoutCmd \<Rightarrow> SceneConfig \<Rightarrow> Resolved \<Rightarrow> OrderLine list \<Rightarrow> QuoteResult \<Rightarrow> Amounts
     \<Rightarrow> string \<Rightarrow> string \<Rightarrow> string \<Rightarrow> string \<Rightarrow> time \<Rightarrow> Order" where
  "checkout_order ident cmd scene rv items quote amounts asset orderID reservationID freezeID now =
     \<lparr>ord_OrderID = orderID, ord_TenantID = id_TenantID ident, ord_Scene = sc_Name scene,
      ord_Channel = co_Channel cmd, ord_BuyerUserID = id_UserID ident,
      ord_ClientOrderID = co_ClientOrderID cmd, ord_Status = StatusPendingPay, ord_Version = 1,
      ord_Amounts = amounts,
      ord_Promotion = \<lparr>pr_QuoteID = q_QuoteID quote, pr_ReservationID = reservationID,
        pr_RedemptionID = ''''\<rparr>,
      ord_Ledger = \<lparr>lr_FreezeID = freezeID, lr_AssetCode = asset,
        lr_BizNo = ''order:freeze:'' @ orderID\<rparr>,
      ord_Payment = \<lparr>py_PaymentIntentID = '''', py_Channel = ''''\<rparr>,
      ord_PayMethod = (if co_PayMethod cmd = ''''
        then ResolvePayMethod (amt_LedgerPay amounts) (amt_ChannelPay amounts)
        else co_PayMethod cmd),
      ord_ExpireAt = now + sc_PayTimeout scene, ord_RenewCount = 0, ord_Context = rv_ext rv,
      ord_Lines = items,
      ord_Promotions = (if rv_promotions rv = [] then q_Promotions quote else rv_promotions rv),
      ord_LedgerLegs = (if freezeID \<noteq> ''''
        then [\<lparr>lg_Command = ''freeze'', lg_BizNo = ''order:freeze:'' @ orderID,
               lg_FreezeID = freezeID, lg_AssetCode = asset,
               lg_Amount = amt_LedgerPay amounts, lg_Status = ''accepted''\<rparr>]
        else []),
      ord_CreatedAt = now, ord_UpdatedAt = now, ord_PaidAt = None, ord_CancelledAt = None,
      ord_CompletedAt = None\<rparr>"

definition checkout_result :: "Order \<Rightarrow> CheckoutResult" where
  "checkout_result order = \<lparr>cr_OrderID = ord_OrderID order,
     cr_Status = Status_String (ord_Status order),
     cr_ReservationID = pr_ReservationID (ord_Promotion order),
     cr_FreezeID = lr_FreezeID (ord_Ledger order), cr_PaymentIntent = None,
     cr_PayableAmount = amt_Payable (ord_Amounts order),
     cr_Currency = amt_Currency (ord_Amounts order), cr_ExpireAt = ord_ExpireAt order\<rparr>"

text \<open>After the insertion: the payment intent, noted on the order and in the stored response.\<close>

definition checkout_pay ::
  "'x Deps \<Rightarrow> Identity \<Rightarrow> CheckoutCmd \<Rightarrow> Order \<Rightarrow> ('x World, CheckoutResult res) state" where
  "checkout_pay d ident cmd order =
     (let result = checkout_result order in
      case dp_pay d of
        None \<Rightarrow> ok result
      | Some pay \<Rightarrow>
          if \<not> NeedsChannelPay order then ok result
          else do {
            res \<leftarrow> ext_op (pa_CreateIntent pay order);
            (case res of
               Inl e \<Rightarrow> ok result
             | Inr None \<Rightarrow> ok result
             | Inr (Some intent) \<Rightarrow> do {
                 _ \<leftarrow> ignore (repo_op (repo_UpdatePaymentIntent (id_TenantID ident)
                        (ord_OrderID order) (pi_IntentID intent) (pi_Channel intent)));
                 let result' = result\<lparr>cr_PaymentIntent := Some intent\<rparr>;
                 _ \<leftarrow> ignore (repo_op (repo_UpdateIdempotencyResponse (id_TenantID ident)
                        (id_UserID ident) (co_IdempotencyKey cmd) (dp_marshal_Result d result')));
                 ok result' }) })"

definition checkout_persist ::
  "'x Deps \<Rightarrow> Identity \<Rightarrow> CheckoutCmd \<Rightarrow> string \<Rightarrow> Order \<Rightarrow> time \<Rightarrow> Event \<Rightarrow> CheckoutPersist" where
  "checkout_persist d ident cmd reqHash order now ev = \<lparr>cp_Order = Some order,
     cp_Idempotency = Some \<lparr>ir_TenantID = id_TenantID ident, ir_Actor = id_UserID ident,
       ir_Key = co_IdempotencyKey cmd, ir_RequestHash = reqHash,
       ir_Response = dp_marshal_Result d (checkout_result order),
       ir_OrderID = ord_OrderID order, ir_CreatedAt = now\<rparr>,
     cp_Event = ev\<rparr>"

text \<open>The insertion. A lost race on the idempotency key answers with the winner's response.\<close>

definition checkout_insert ::
  "'x Deps \<Rightarrow> Identity \<Rightarrow> CheckoutCmd \<Rightarrow> string \<Rightarrow> Order \<Rightarrow> time \<Rightarrow> ('x World, unit) state
     \<Rightarrow> ('x World, CheckoutResult res) state" where
  "checkout_insert d ident cmd reqHash order now undo = do {
     eventID \<leftarrow> ext_op (ig_EventID (dp_ids d));
     let ev = NewEvent eventID EventCreated (id_TenantID ident) (co_TraceID cmd) now
                (OrderEventData order);
     r \<leftarrow> InsertCheckout d (checkout_persist d ident cmd reqHash order now ev);
     (case r of
        Inl err \<Rightarrow> do {
          _ \<leftarrow> undo;
          (if errors_Is err ErrIdempotencyConflict
           then do {
             rec \<leftarrow> repo_get (repo_FindIdempotency (id_TenantID ident) (id_UserID ident)
                      (co_IdempotencyKey cmd));
             (case rec of
                Some rec \<Rightarrow> ok (snd (dp_unmarshal_Result d (ir_Response rec)))
              | None \<Rightarrow> fail err) }
           else fail err) }
      | Inr _ \<Rightarrow> checkout_pay d ident cmd order) }"

section \<open>Definitions: the steps of the saga\<close>

definition checkout_inventory ::
  "'x Deps \<Rightarrow> Identity \<Rightarrow> CheckoutCmd \<Rightarrow> SceneConfig \<Rightarrow> string \<Rightarrow> Order \<Rightarrow> time
     \<Rightarrow> ('x World, CheckoutResult res) state" where
  "checkout_inventory d ident cmd scene reqHash order now =
     (let undo = rollback d ident scene (ord_OrderID order) (ord_Lines order)
            (pr_ReservationID (ord_Promotion order)) (lr_FreezeID (ord_Ledger order));
          go = (\<lambda>reservedInv. checkout_insert d ident cmd reqHash order now (undo reservedInv))
      in if \<not> NeedsInventory scene then go False
         else (case dp_fulfill d (sc_Name scene) of
             None \<Rightarrow> go False
           | Some adapter \<Rightarrow> do {
               r \<leftarrow> ext_op (fa_Reserve adapter order);
               (case r of
                  Inl err \<Rightarrow> do {
                    _ \<leftarrow> undo False;
                    fail (Wrapped ErrInventoryReserve (error_text err)) }
                | Inr _ \<Rightarrow> go True) }))"

definition checkout_freeze ::
  "'x Deps \<Rightarrow> Identity \<Rightarrow> CheckoutCmd \<Rightarrow> SceneConfig \<Rightarrow> string \<Rightarrow> Resolved \<Rightarrow> OrderLine list
     \<Rightarrow> QuoteResult \<Rightarrow> Amounts \<Rightarrow> string \<Rightarrow> string \<Rightarrow> string \<Rightarrow> time
     \<Rightarrow> ('x World, CheckoutResult res) state" where
  "checkout_freeze d ident cmd scene reqHash rv items quote amounts asset orderID reservationID now =
     (let go = (\<lambda>freezeID. checkout_inventory d ident cmd scene reqHash
            (checkout_order ident cmd scene rv items quote amounts asset orderID reservationID
               freezeID now) now)
      in if \<not> (NeedsLedger scene (amt_LedgerPay amounts) \<and> 0 <s amt_LedgerPay amounts) then go ''''
         else do {
           r \<leftarrow> ext_op (lc_Freeze (dp_ledger d) \<lparr>fr_TenantID = id_TenantID ident,
             fr_UserID = id_UserID ident, fr_OrderID = orderID, fr_AssetCode = asset,
             fr_Amount = amt_LedgerPay amounts, fr_BizNo = ''order:freeze:'' @ orderID\<rparr>);
           (case r of
              Inl err \<Rightarrow> do {
                _ \<leftarrow> rollback d ident scene orderID items reservationID '''' False;
                fail (Wrapped ErrLedgerFreeze (error_text err)) }
            | Inr freezeID \<Rightarrow> go freezeID) })"

definition checkout_reserve ::
  "'x Deps \<Rightarrow> Identity \<Rightarrow> CheckoutCmd \<Rightarrow> SceneConfig \<Rightarrow> string \<Rightarrow> Resolved \<Rightarrow> OrderLine list
     \<Rightarrow> QuoteResult \<Rightarrow> Amounts \<Rightarrow> string \<Rightarrow> string \<Rightarrow> time \<Rightarrow> ('x World, CheckoutResult res) state" where
  "checkout_reserve d ident cmd scene reqHash rv items quote amounts asset orderID now =
     (let go = (\<lambda>reservationID. checkout_freeze d ident cmd scene reqHash rv items quote amounts
            asset orderID reservationID now)
      in if \<not> (NeedsOffer scene (q_QuoteID quote \<noteq> '''') (length (rv_coupons rv)) \<and>
               0 \<le>s q_DiscountAmount quote) then go ''''
         else do {
           r \<leftarrow> ext_op (oc_Reserve (dp_offer d) (id_TenantID ident) (q_QuoteID quote) orderID
             (''order:'' @ orderID @ '':reserve''));
           (case r of
              Inl err \<Rightarrow> fail (Wrapped ErrOfferReserve (error_text err))
            | Inr rs \<Rightarrow> go (rs_ReservationID rs)) })"

text \<open>A quote other than the one the request names must grant the discount of the cached one.\<close>

definition quote_still_good ::
  "'x Deps \<Rightarrow> Identity \<Rightarrow> string \<Rightarrow> QuoteResult \<Rightarrow> time \<Rightarrow> ('x World, bool) state" where
  "quote_still_good d ident quoteID quote now =
     (case dp_cache d of
        None \<Rightarrow> State_Monad.return True
      | Some cache \<Rightarrow>
          if quoteID = '''' \<or> q_QuoteID quote = quoteID then State_Monad.return True
          else do {
            got \<leftarrow> ext_op (pc_GetByQuote cache (id_TenantID ident) quoteID);
            State_Monad.return (case got of
                Inl e \<Rightarrow> True
              | Inr snap \<Rightarrow> \<not> (ps_DiscountAmount snap \<noteq> q_DiscountAmount quote
                                 \<or> ps_ExpiresAt snap < now)) })"

definition checkout_ledger :: "SceneConfig \<Rightarrow> Resolved \<Rightarrow> int64 \<Rightarrow> int64 \<Rightarrow> int64 \<times> string" where
  "checkout_ledger scene rv original discount =
     (if sc_Ledger scene = LedgerFreezeCapture \<and> rv_ledgerPay rv = 0
      then (original - discount, if rv_asset rv = '''' then sc_Currency scene else rv_asset rv)
      else (rv_ledgerPay rv, rv_asset rv))"

definition checkout_quote_request ::
  "Identity \<Rightarrow> CheckoutCmd \<Rightarrow> SceneConfig \<Rightarrow> Resolved \<Rightarrow> OrderLine list \<Rightarrow> string \<Rightarrow> QuoteRequest" where
  "checkout_quote_request ident cmd scene rv items orderID = \<lparr>
     qr_TenantID = id_TenantID ident, qr_UserID = id_UserID ident, qr_OrderID = orderID,
     qr_Scene = co_Scene cmd, qr_Channel = co_Channel cmd, qr_Currency = sc_Currency scene,
     qr_CouponIDs = rv_coupons rv, qr_AutoBest = (rv_coupons rv = []), qr_Items = items,
     qr_Attributes = id_Attributes ident, qr_Context = rv_ext rv\<rparr>"

text \<open>From the resolved request on: price, quote, allocate, and go through the saga.\<close>

definition checkout_price ::
  "'x Deps \<Rightarrow> Identity \<Rightarrow> CheckoutCmd \<Rightarrow> SceneConfig \<Rightarrow> string \<Rightarrow> Resolved
     \<Rightarrow> ('x World, CheckoutResult res) state" where
  "checkout_price d ident cmd scene reqHash rv =
     checkE (validateLines (rv_items rv))
       (tryE (lift_res (SumOriginal (rv_items rv))) (\<lambda>(items, original). do {
          now \<leftarrow> ext_op (dp_clock d);
          orderID \<leftarrow> ext_op (ig_OrderID (dp_ids d));
          tryE (ext_op (oc_Quote (dp_offer d)
                  (checkout_quote_request ident cmd scene rv items orderID))) (\<lambda>quote.
            if q_Currency quote \<noteq> sc_Currency scene \<or> q_OriginalAmount quote \<noteq> original
            then fail (Sentinel ErrQuoteStale)
            else do {
              good \<leftarrow> quote_still_good d ident (rv_quoteID rv) quote now;
              (if \<not> good then fail (Sentinel ErrQuoteStale)
               else tryE (lift_res (AllocateDiscount items (q_DiscountAmount quote))) (\<lambda>items'.
                 let (ledgerPay, asset) = checkout_ledger scene rv original (q_DiscountAmount quote)
                 in tryE (lift_res (BuildAmounts (sc_Currency scene) original
                            (q_DiscountAmount quote) ledgerPay)) (\<lambda>amounts.
                      checkout_reserve d ident cmd scene reqHash rv items' quote amounts asset
                        orderID now))) }) }))"

definition checkout_locked ::
  "'x Deps \<Rightarrow> Identity \<Rightarrow> CheckoutCmd \<Rightarrow> SceneConfig \<Rightarrow> string \<Rightarrow> ('x World, CheckoutResult res) state" where
  "checkout_locked d ident cmd scene reqHash = do {
     rec \<leftarrow> repo_get (repo_FindIdempotency (id_TenantID ident) (id_UserID ident)
              (co_IdempotencyKey cmd));
     (case rec of
        Some rec \<Rightarrow>
          if ir_RequestHash rec \<noteq> reqHash then fail (Sentinel ErrIdempotencyConflict)
          else ok (snd (dp_unmarshal_Result d (ir_Response rec)))
      | None \<Rightarrow> tryE (resolveSnapshot d ident scene cmd)
                  (\<lambda>rv. checkout_price d ident cmd scene reqHash rv)) }"

definition checkout_lock_key :: "Identity \<Rightarrow> CheckoutCmd \<Rightarrow> string" where
  "checkout_lock_key ident cmd =
     ''checkout:'' @ id_TenantID ident @ '':'' @ id_UserID ident @ '':'' @ co_ClientOrderID cmd"

definition with_lock ::
  "'x Deps \<Rightarrow> string \<Rightarrow> ('x World, 'a res) state \<Rightarrow> ('x World, 'a res) state" where
  "with_lock d key body =
     (case dp_lock d of
        None \<Rightarrow> body
      | Some lock \<Rightarrow>
          tryE (ext_op (lk_TryLock lock key (30 * time_Second))) (\<lambda>got.
            case got of
              None \<Rightarrow> fail (Wrapped ErrIdempotencyConflict ''checkout in progress'')
            | Some unlock \<Rightarrow> do { res \<leftarrow> body; _ \<leftarrow> ext_op unlock; State_Monad.return res }))"

definition checkout_hash :: "'x Deps \<Rightarrow> CheckoutCmd \<Rightarrow> string" where
  "checkout_hash d cmd = CheckoutHash (dp_digest d) (co_ClientOrderID cmd) (co_QuoteID cmd)
     \<lparr>hi_Scene = co_Scene cmd, hi_Channel = co_Channel cmd, hi_Currency = '''',
      hi_CouponIDs = co_CouponIDs cmd, hi_Items = co_Items cmd,
      hi_LedgerPay = rv_ledgerPay (request_resolved cmd),
      hi_AssetCode = rv_asset (request_resolved cmd), hi_Ext = co_Ext cmd\<rparr>"

definition checkout_defaults :: "CheckoutCmd \<Rightarrow> CheckoutCmd" where
  "checkout_defaults cmd = cmd\<lparr>
     co_IdempotencyKey := (if co_IdempotencyKey cmd = '''' then co_ClientOrderID cmd
                           else co_IdempotencyKey cmd),
     co_Channel := (if co_Channel cmd = '''' then ''app'' else co_Channel cmd)\<rparr>"

definition Checkout ::
  "'x Deps \<Rightarrow> Identity \<Rightarrow> CheckoutCmd \<Rightarrow> ('x World, CheckoutResult res) state" where
  "Checkout d ident cmd0 =
     (if co_ClientOrderID cmd0 = ''''
      then fail (Wrapped ErrInvalidArgument ''client_order_id required'')
      else (case dp_scenes d (co_Scene cmd0) of
          None \<Rightarrow> fail (Wrapped ErrSceneNotFound (co_Scene cmd0))
        | Some scene \<Rightarrow>
            (let cmd = checkout_defaults cmd0; reqHash = checkout_hash d cmd in do {
               rec \<leftarrow> repo_get (repo_FindIdempotency (id_TenantID ident) (id_UserID ident)
                        (co_IdempotencyKey cmd));
               (case rec of
                  Some rec \<Rightarrow>
                    if ir_RequestHash rec \<noteq> reqHash then fail (Sentinel ErrIdempotencyConflict)
                    else (case dp_unmarshal_Result d (ir_Response rec) of
                        (Some err, out) \<Rightarrow> fail err
                      | (None, out) \<Rightarrow> ok out)
                | None \<Rightarrow> do {
                    existing \<leftarrow> repo_get (repo_FindByClientOrderID (id_TenantID ident)
                      (id_UserID ident) (co_ClientOrderID cmd));
                    (case existing of
                       Inr (Some o') \<Rightarrow> fail (Sentinel ErrClientOrderConflict)
                     | Inr None \<Rightarrow> with_lock d (checkout_lock_key ident cmd)
                                     (checkout_locked d ident cmd scene reqHash)
                     | Inl err \<Rightarrow>
                         if \<not> errors_Is err ErrOrderNotFound then fail err
                         else with_lock d (checkout_lock_key ident cmd)
                                (checkout_locked d ident cmd scene reqHash)) }) })))"

section \<open>Lemmas: symbolic execution of a checkout\<close>

lemma new_order_checkout:
  assumes "SumOriginal items0 = Inr (items, original)" "items0 \<noteq> []"
    "AllocateDiscount items (q_DiscountAmount quote) = Inr items'"
    "BuildAmounts cur original (q_DiscountAmount quote) lp = Inr amounts"
  shows "new_order (checkout_order ident cmd scene rv items' quote amounts asset orderID resv fz now)"
  using AllocateDiscount_adds_up [OF assms(1,3,2)] BuildAmounts_fields [OF assms(4)]
  by (simp add: new_order_def checkout_order_def)

lemma wp_rollback [wp_intros]: "Q () r \<Longrightarrow> wp (rollback d ident scene i items rs fz b) Q r"
  unfolding rollback_def by (auto intro!: wp_intros split: option.split)

lemma wp_resolveSnapshot [wp_intros]:
  "(\<And>res. Q res r) \<Longrightarrow> wp (resolveSnapshot d ident scene cmd) Q r"
  unfolding resolveSnapshot_def resolve_items_def Let_def
  by (auto intro!: wp_intros split: option.split sum.split)

lemma wp_quote_still_good [wp_intros]:
  "(\<And>b. Q b r) \<Longrightarrow> wp (quote_still_good d ident i quote now) Q r"
  unfolding quote_still_good_def by (auto intro!: wp_intros split: option.split)

lemma wp_with_lock:
  "wp body Q r \<Longrightarrow> (\<And>e. Q (Inl e) r) \<Longrightarrow> wp (with_lock d key body) Q r"
  unfolding with_lock_def by (auto intro!: wp_intros elim!: wp_mono)

text \<open>
  What a checkout can do to the repository: an error leaves it as it is, so does the answer from a
  stored response, and otherwise a new order is inserted and the payment intent is created.
\<close>

definition insert_ends ::
  "'x Deps \<Rightarrow> Identity \<Rightarrow> CheckoutCmd \<Rightarrow> string \<Rightarrow> (CheckoutResult res \<Rightarrow> OrderRepo \<Rightarrow> bool)
     \<Rightarrow> OrderRepo \<Rightarrow> bool" where
  "insert_ends d ident cmd reqHash Q r \<longleftrightarrow>
     (\<forall>e. Q (Inl e) r) \<and>
     (\<forall>rec. repo_FindIdempotency (id_TenantID ident) (id_UserID ident) (co_IdempotencyKey cmd) r
        = Some rec \<longrightarrow> Q (Inr (snd (dp_unmarshal_Result d (ir_Response rec)))) r) \<and>
     (\<forall>order now eid r1. new_order order \<longrightarrow> ord_TenantID order = id_TenantID ident \<longrightarrow>
        ord_BuyerUserID order = id_UserID ident \<longrightarrow>
        ord_ClientOrderID order = co_ClientOrderID cmd \<longrightarrow>
        repo_InsertCheckout (dp_marshal_Event d)
          (checkout_persist d ident cmd reqHash order now (NewEvent eid EventCreated
             (id_TenantID ident) (co_TraceID cmd) now (OrderEventData order))) r = (Inr (), r1) \<longrightarrow>
        wp (checkout_pay d ident cmd order) Q r1)"

lemma InsertCheckout_error: "fst (repo_InsertCheckout m rec r) = Inl e \<Longrightarrow> snd (repo_InsertCheckout m rec r) = r"
  by (auto simp: repo_InsertCheckout_def Let_def split: option.splits sum.splits if_splits)

lemma wp_checkout_insert:
  assumes "insert_ends d ident cmd reqHash Q r" "new_order order"
    "ord_TenantID order = id_TenantID ident" "ord_BuyerUserID order = id_UserID ident"
    "ord_ClientOrderID order = co_ClientOrderID cmd" "\<And>Q. Q () r \<Longrightarrow> wp undo Q r"
  shows "wp (checkout_insert d ident cmd reqHash order now undo) Q r"
  unfolding checkout_insert_def Let_def
proof (rule wp_bind, rule wp_ext_op, rule wp_bind, rule wp_InsertCheckout, rule wp_case_sum,
    goal_cases)
  case (1 i e)
  from assms(1) have ends: "\<And>e. Q (Inl e) r"
    "\<And>rec. repo_FindIdempotency (id_TenantID ident) (id_UserID ident) (co_IdempotencyKey cmd) r
       = Some rec \<Longrightarrow> Q (Inr (snd (dp_unmarshal_Result d (ir_Response rec)))) r"
    by (simp_all add: insert_ends_def)
  show ?case unfolding InsertCheckout_error [OF 1]
    by (intro wp_bind assms(6) wp_intros ends)
next
  case (2 i u)
  with assms show ?case by (auto simp: insert_ends_def prod_eq_iff)
qed

lemma wp_checkout_reserve:
  assumes "insert_ends d ident cmd reqHash Q r"
    "\<And>resv fz. new_order (checkout_order ident cmd scene rv items quote amounts asset i resv fz now)"
  shows "wp (checkout_reserve d ident cmd scene reqHash rv items quote amounts asset i now) Q r"
proof -
  from assms(1) have err: "\<And>e. Q (Inl e) r" by (simp add: insert_ends_def)
  have ins: "wp (checkout_inventory d ident cmd scene reqHash
      (checkout_order ident cmd scene rv items quote amounts asset i resv fz now) now) Q r" for resv fz
    unfolding checkout_inventory_def Let_def
    by (intro wp_intros wp_checkout_insert assms err) (simp_all add: checkout_order_def)
  show ?thesis
    unfolding checkout_reserve_def checkout_freeze_def Let_def
    by (intro wp_intros ins err)
qed

lemma wp_checkout_price:
  assumes "insert_ends d ident cmd reqHash Q r"
  shows "wp (checkout_price d ident cmd scene reqHash rv) Q r"
proof -
  from assms have err: "\<And>e. Q (Inl e) r" by (simp add: insert_ends_def)
  show ?thesis
    unfolding checkout_price_def
    by (intro wp_intros err conjI allI impI wp_checkout_reserve assms)
      (auto intro!: new_order_checkout dest: validateLines_None)
qed

lemma wp_Checkout:
  fixes d :: "'x Deps"
  assumes "insert_ends d ident (checkout_defaults cmd) (checkout_hash d (checkout_defaults cmd)) Q r"
  shows "wp (Checkout d ident cmd) Q r"
proof -
  from assms have err: "\<And>e. Q (Inl e) r"
    and replay: "\<And>rec. repo_FindIdempotency (id_TenantID ident) (id_UserID ident)
        (co_IdempotencyKey (checkout_defaults cmd)) r = Some rec \<Longrightarrow>
      Q (Inr (snd (dp_unmarshal_Result d (ir_Response rec)))) r"
    by (simp_all add: insert_ends_def)
  have locked: "wp (checkout_locked d ident (checkout_defaults cmd) scene
      (checkout_hash d (checkout_defaults cmd))) Q r" for scene
    unfolding checkout_locked_def
    by (intro wp_intros err replay conjI allI impI wp_checkout_price assms) simp_all
  have replay': "dp_unmarshal_Result d (ir_Response rec) = (None, out) \<Longrightarrow>
      repo_FindIdempotency (id_TenantID ident) (id_UserID ident)
        (co_IdempotencyKey (checkout_defaults cmd)) r = Some rec \<Longrightarrow> Q (Inr out) r" for rec out
    using replay [of rec] by simp
  show ?thesis
    unfolding Checkout_def Let_def
    by (intro wp_intros err wp_with_lock locked) (auto intro: replay')
qed

section \<open>Lemmas: what every checkout keeps\<close>

context repo_contract
begin

lemma keeps_checkout_pay:
  "P r \<Longrightarrow> (\<And>s. lookup_order r (id_TenantID ident) (ord_OrderID order) = Some s \<Longrightarrow> ord_Status s = StatusPendingPay) \<Longrightarrow>
   wp (checkout_pay d ident cmd order) (\<lambda>_. P) r"
  unfolding checkout_pay_def Let_def
  by (intro wp_intros keeps_bookkeeping keeps_UpdatePaymentIntent)

end

context repo_contract_insert
begin

lemma keeps_Checkout: "P r \<Longrightarrow> wp (Checkout d ident cmd) (\<lambda>_. P) r"
proof (rule wp_Checkout, unfold insert_ends_def, intro conjI allI impI)
  fix order now eid r1
  let ?rec = "checkout_persist d ident (checkout_defaults cmd)
    (checkout_hash d (checkout_defaults cmd)) order now (NewEvent eid EventCreated
      (id_TenantID ident) (co_TraceID (checkout_defaults cmd)) now (OrderEventData order))"
  assume r: "P r" and new: "new_order order" and tenant: "ord_TenantID order = id_TenantID ident"
    and ins: "repo_InsertCheckout (dp_marshal_Event d) ?rec r = (Inr (), r1)"
  have "P r1"
    using keeps_InsertCheckout [OF r, of ?rec "dp_marshal_Event d"] ins new
    by (simp add: checkout_persist_def)
  moreover have "lookup_order r1 (ord_TenantID order) (ord_OrderID order) = Some order"
    using ins by (auto simp: repo_InsertCheckout_def checkout_persist_def Let_def lookup_order_def put_order_def
        append_event_def split: if_splits sum.splits option.splits)
  ultimately show "wp (checkout_pay d ident (checkout_defaults cmd) order) (\<lambda>_. P) r1"
    using new tenant by (intro keeps_checkout_pay) (auto simp: new_order_def)
qed

end

text \<open>A checkout that fails leaves the repository untouched.\<close>

lemma Checkout_error_unchanged: "wp (Checkout d ident cmd) (\<lambda>res r'. \<forall>e. res = Inl e \<longrightarrow> r' = r) r"
proof (rule wp_Checkout, unfold insert_ends_def, intro conjI allI impI)
  show "wp (checkout_pay d ident (checkout_defaults cmd) order) (\<lambda>res r'. \<forall>e. res = Inl e \<longrightarrow> r' = r) r1"
    for order r1
    unfolding checkout_pay_def Let_def by (intro wp_intros) simp_all
qed simp_all

text \<open>
  What a checkout that is not answered from a stored response leaves behind: one new order under
  the tenant of the caller, indexed by its client order id, the idempotency record with the response
  that was returned, and one more event, the creation of the order.
\<close>

definition checkout_done ::
  "'x Deps \<Rightarrow> Identity \<Rightarrow> CheckoutCmd \<Rightarrow> string \<Rightarrow> OrderRepo \<Rightarrow> CheckoutResult \<Rightarrow> OrderRepo \<Rightarrow> bool" where
  "checkout_done d ident cmd reqHash r out r' \<longleftrightarrow>
     (\<exists>o' rec ev. clientIx r (clientKey (id_TenantID ident) (id_UserID ident) (co_ClientOrderID cmd)) = None
        \<and> repo_FindIdempotency (id_TenantID ident) (id_UserID ident) (co_IdempotencyKey cmd) r = None
        \<and> new_order o' \<and> ord_TenantID o' = id_TenantID ident \<and> ord_BuyerUserID o' = id_UserID ident
        \<and> ord_ClientOrderID o' = co_ClientOrderID cmd
        \<and> lookup_order r' (id_TenantID ident) (cr_OrderID out) = Some o'
        \<and> ord_OrderID o' = cr_OrderID out \<and> amt_Payable (ord_Amounts o') = cr_PayableAmount out
        \<and> clientIx r' (clientKey (id_TenantID ident) (id_UserID ident) (co_ClientOrderID cmd))
            = Some (cr_OrderID out)
        \<and> repo_FindIdempotency (id_TenantID ident) (id_UserID ident) (co_IdempotencyKey cmd) r' = Some rec
        \<and> ir_RequestHash rec = reqHash \<and> ir_Response rec = dp_marshal_Result d out
        \<and> events r' = events r @ [outbox_row (dp_marshal_Event d) ev]
        \<and> ev_EventType ev = EventCreated)"

lemma checkout_inserted:
  assumes "repo_InsertCheckout (dp_marshal_Event d) (checkout_persist d ident cmd reqHash order now
      (NewEvent eid EventCreated t tr now' data)) r = (Inr (), r1)"
    "new_order order" "ord_TenantID order = id_TenantID ident"
    "ord_BuyerUserID order = id_UserID ident" "ord_ClientOrderID order = co_ClientOrderID cmd"
  shows "checkout_done d ident cmd reqHash r (checkout_result order) r1"
  using assms
  by (auto simp: checkout_done_def repo_InsertCheckout_def checkout_persist_def Let_def
      InsertCheckout_idem_def repo_FindIdempotency_def checkout_result_def append_event_def
      lookup_order_def put_order_def split: if_splits option.splits)
    (rule exI [of _ "NewEvent eid EventCreated t tr now' data"], simp)

lemma checkout_done_intent:
  assumes "checkout_done d ident cmd reqHash r out r1"
  shows "checkout_done d ident cmd reqHash r (out\<lparr>cr_PaymentIntent := Some it\<rparr>)
    (snd (repo_UpdateIdempotencyResponse (id_TenantID ident) (id_UserID ident) (co_IdempotencyKey cmd)
       (dp_marshal_Result d (out\<lparr>cr_PaymentIntent := Some it\<rparr>))
       (snd (repo_UpdatePaymentIntent (id_TenantID ident) (cr_OrderID out) pid ch r1))))"
proof -
  from assms obtain o' rec ev where o': "lookup_order r1 (id_TenantID ident) (cr_OrderID out) = Some o'"
      "new_order o'" "ord_TenantID o' = id_TenantID ident" "ord_BuyerUserID o' = id_UserID ident"
      "ord_ClientOrderID o' = co_ClientOrderID cmd" "ord_OrderID o' = cr_OrderID out"
      "amt_Payable (ord_Amounts o') = cr_PayableAmount out"
    and rec: "repo_FindIdempotency (id_TenantID ident) (id_UserID ident) (co_IdempotencyKey cmd) r1
        = Some rec" "ir_RequestHash rec = reqHash"
    and ev: "events r1 = events r @ [outbox_row (dp_marshal_Event d) ev]" "ev_EventType ev = EventCreated"
    and ix: "clientIx r1 (clientKey (id_TenantID ident) (id_UserID ident) (co_ClientOrderID cmd))
        = Some (cr_OrderID out)"
      "clientIx r (clientKey (id_TenantID ident) (id_UserID ident) (co_ClientOrderID cmd)) = None"
      "repo_FindIdempotency (id_TenantID ident) (id_UserID ident) (co_IdempotencyKey cmd) r = None"
    unfolding checkout_done_def by blast
  show ?thesis
    unfolding checkout_done_def
    apply (rule exI [of _ "o'\<lparr>ord_Payment := \<lparr>py_PaymentIntentID = pid, py_Channel = ch\<rparr>\<rparr>"])
    apply (rule exI [of _ "rec\<lparr>ir_Response := dp_marshal_Result d (out\<lparr>cr_PaymentIntent := Some it\<rparr>)\<rparr>"])
    apply (rule exI [of _ ev])
    using o' rec ev ix
    by (simp add: repo_UpdateIdempotencyResponse_def repo_UpdatePaymentIntent_def Let_def
        repo_FindIdempotency_def lookup_order_def put_order_def new_order_def)
qed

lemma Checkout_outcome:
  "wp (Checkout d ident cmd) (\<lambda>res r'. \<forall>out. res = Inr out \<longrightarrow>
     (r' = r \<and> (\<exists>rec. repo_FindIdempotency (id_TenantID ident) (id_UserID ident)
          (co_IdempotencyKey (checkout_defaults cmd)) r = Some rec \<and>
        out = snd (dp_unmarshal_Result d (ir_Response rec)))) \<or>
     checkout_done d ident (checkout_defaults cmd) (checkout_hash d (checkout_defaults cmd)) r out r') r"
proof (rule wp_Checkout, unfold insert_ends_def, intro conjI allI impI)
  fix order now eid r1
  let ?cmd = "checkout_defaults cmd"
  let ?done = "checkout_done d ident ?cmd (checkout_hash d ?cmd) r"
  assume ins: "repo_InsertCheckout (dp_marshal_Event d) (checkout_persist d ident ?cmd
      (checkout_hash d ?cmd) order now (NewEvent eid EventCreated (id_TenantID ident)
        (co_TraceID ?cmd) now (OrderEventData order))) r = (Inr (), r1)"
    "new_order order" "ord_TenantID order = id_TenantID ident"
    "ord_BuyerUserID order = id_UserID ident" "ord_ClientOrderID order = co_ClientOrderID ?cmd"
  note fin = checkout_inserted [OF ins]
  have oid: "cr_OrderID (checkout_result order) = ord_OrderID order"
    by (simp add: checkout_result_def)
  have "wp (checkout_pay d ident ?cmd order) (\<lambda>res r'. \<forall>out. res = Inr out \<longrightarrow> ?done out r') r1"
    unfolding checkout_pay_def Let_def
    by (intro wp_intros) (use fin checkout_done_intent [OF fin, unfolded oid] in auto)
  then show "wp (checkout_pay d ident ?cmd order) (\<lambda>res r'. \<forall>out. res = Inr out \<longrightarrow>
      r' = r \<and> (\<exists>rec. repo_FindIdempotency (id_TenantID ident) (id_UserID ident)
          (co_IdempotencyKey ?cmd) r = Some rec \<and>
        out = snd (dp_unmarshal_Result d (ir_Response rec))) \<or> ?done out r') r1"
    by (rule wp_mono) blast
qed auto

section \<open>Lemmas: repeating a checkout\<close>

lemma Checkout_entered:
  assumes "run_state (Checkout d ident cmd) w = (Inr out, w1)"
  shows "co_ClientOrderID cmd \<noteq> '''' \<and> (\<exists>scene. dp_scenes d (co_Scene cmd) = Some scene)"
  using assms by (auto simp: Checkout_def split: if_splits option.splits)

lemma Checkout_known_key:
  assumes "co_ClientOrderID cmd \<noteq> ''''" "dp_scenes d (co_Scene cmd) = Some scene"
    "repo_FindIdempotency (id_TenantID ident) (id_UserID ident)
       (co_IdempotencyKey (checkout_defaults cmd)) (w_repo w) = Some rec"
    "ir_RequestHash rec = checkout_hash d (checkout_defaults cmd)"
    "dp_unmarshal_Result d (ir_Response rec) = (None, out)"
  shows "run_state (Checkout d ident cmd) w = (Inr out, w)"
  using assms by (simp add: Checkout_def Let_def repo_get_def)

lemma Checkout_replays:
  assumes run: "run_state (Checkout d ident cmd) w = (Inr out, w1)"
    and new: "repo_FindIdempotency (id_TenantID ident) (id_UserID ident)
      (co_IdempotencyKey (checkout_defaults cmd)) (w_repo w) = None"
    and codec: "dp_unmarshal_Result d (dp_marshal_Result d out) = (None, out)"
    and same: "idem (w_repo w2) = idem (w_repo w1)"
  shows "run_state (Checkout d ident cmd) w2 = (Inr out, w2)"
proof -
  from Checkout_entered [OF run] obtain scene where "co_ClientOrderID cmd \<noteq> ''''"
    "dp_scenes d (co_Scene cmd) = Some scene" by blast
  moreover from wpD [OF Checkout_outcome run] new obtain rec where
    "repo_FindIdempotency (id_TenantID ident) (id_UserID ident)
       (co_IdempotencyKey (checkout_defaults cmd)) (w_repo w1) = Some rec"
    "ir_RequestHash rec = checkout_hash d (checkout_defaults cmd)"
    "ir_Response rec = dp_marshal_Result d out"
    by (auto simp: checkout_done_def)
  moreover from this(1) have "repo_FindIdempotency (id_TenantID ident) (id_UserID ident)
       (co_IdempotencyKey (checkout_defaults cmd)) (w_repo w2) = Some rec"
    by (simp add: repo_FindIdempotency_def same)
  ultimately show ?thesis using codec by (simp add: Checkout_known_key)
qed

text \<open>A different request under a known key is refused, and nothing happens.\<close>

lemma Checkout_conflict:
  assumes "co_ClientOrderID cmd \<noteq> ''''" "dp_scenes d (co_Scene cmd) = Some scene"
    "repo_FindIdempotency (id_TenantID ident) (id_UserID ident)
       (co_IdempotencyKey (checkout_defaults cmd)) (w_repo w) = Some rec"
    "ir_RequestHash rec \<noteq> checkout_hash d (checkout_defaults cmd)"
  shows "run_state (Checkout d ident cmd) w = (Inl (Sentinel ErrIdempotencyConflict), w)"
  using assms by (simp add: Checkout_def Let_def repo_get_def)

end
