(* ===== verification/Payment_Service.thy ===== *)
theory Payment_Service
  imports Repo_Invariants
begin

text \<open>
  The payment service of \<open>src/internal/application/payment_refund.go\<close>: payment intents, the
  payment callback, confirmation of a payment from the ledger alone, and what follows a payment
  (\<open>onPaid\<close>, \<open>afterPaid\<close>): the offer is committed, the frozen funds are captured, fulfilment is told,
  and the order moves on. When that fails the order goes to COMPENSATING with a ticket, from which
  \<open>RetryAfterPaid\<close> takes it up again.
\<close>

section \<open>Definitions\<close>

record PaymentCallback =
  cb_OrderID :: string
  cb_TenantID :: string
  cb_PaymentIntentID :: string
  cb_Success :: bool
  cb_PaidAmount :: int64
  cb_Channel :: string
  cb_TraceID :: string

definition RecreateIntent ::
  "'x Deps \<Rightarrow> Identity \<Rightarrow> string \<Rightarrow> ('x World, PaymentIntent res) state" where
  "RecreateIntent d ident orderID =
     tryE (FindByID d (id_TenantID ident) orderID) (\<lambda>o'.
       if ord_BuyerUserID o' \<noteq> id_UserID ident then fail (Sentinel ErrOrderNotFound)
       else if ord_Status o' \<noteq> StatusPendingPay then fail (Sentinel ErrStatusNotAllowed)
       else if \<not> NeedsChannelPay o' then fail (Wrapped ErrInvalidArgument ''no channel pay'')
       else (case dp_pay d of
           None \<Rightarrow> fail nil_panic
         | Some pay \<Rightarrow>
             tryE (ext_op (pa_CreateIntent pay o')) (\<lambda>got.
               case got of
                 None \<Rightarrow> fail nil_panic
               | Some intent \<Rightarrow> do {
                   _ \<leftarrow> ignore (repo_op (repo_UpdatePaymentIntent (ord_TenantID o') (ord_OrderID o')
                          (pi_IntentID intent) (pi_Channel intent)));
                   ok intent })))"

text \<open>The first part of \<open>afterPaid\<close>: commit the offer, and note the redemption on the order.\<close>

definition commit_offer :: "'x Deps \<Rightarrow> Order \<Rightarrow> ('x World, Order res) state" where
  "commit_offer d o' =
     (if \<not> HasOfferReservation o' then ok o'
      else tryE (ext_op (oc_Commit (dp_offer d) (ord_TenantID o')
                   (pr_ReservationID (ord_Promotion o')) (ord_OrderID o')
                   (''order:'' @ ord_OrderID o' @ '':commit''))) (\<lambda>rid.
             if rid = '''' then ok o'
             else do {
               _ \<leftarrow> ignore (repo_op (repo_UpdateRedemption (ord_TenantID o') (ord_OrderID o') rid));
               ok (o'\<lparr>ord_Promotion := (ord_Promotion o')\<lparr>pr_RedemptionID := rid\<rparr>\<rparr>) }))"

definition afterPaid_cmd :: "Order \<Rightarrow> Status \<Rightarrow> time \<Rightarrow> string \<Rightarrow> TransitionCmd" where
  "afterPaid_cmd o' next now eventID =
     (let cmd = TransitionCmd_of (ord_TenantID o') (ord_OrderID o')
            [StatusPaid, StatusCompensating] next (ord_Version o')
      in if next = StatusCompleted
         then cmd\<lparr>tc_CompletedAt := Some now,
                  tc_Event := Some (NewEvent eventID EventCompleted (ord_TenantID o') '''' now
                                (OrderEventData o'))\<rparr>
         else cmd\<lparr>tc_Event := Some (NewEvent eventID EventFulfilled (ord_TenantID o') '''' now
                                (OrderEventData o'))\<rparr>)"

definition afterPaid :: "'x Deps \<Rightarrow> Order \<Rightarrow> ('x World, unit res) state" where
  "afterPaid d o0 =
     (let scene = (case dp_scenes d (ord_Scene o0) of None \<Rightarrow> zero_SceneConfig | Some s \<Rightarrow> s) in
      tryE (commit_offer d o0) (\<lambda>o'.
      tryE (if HasLedgerFreeze o'
            then ext_op (lc_Capture (dp_ledger d) (lr_FreezeID (ord_Ledger o'))
                   (''order:capture:'' @ ord_OrderID o'))
            else ok ()) (\<lambda>_.
      tryE (case dp_fulfill d (ord_Scene o') of
              None \<Rightarrow> ok ()
            | Some adapter \<Rightarrow> ext_op (fa_Commit adapter o')) (\<lambda>_. do {
        let next = NextAfterPaid (sc_AutoCompleteOnPaid scene);
        now \<leftarrow> ext_op (dp_clock d);
        eventID \<leftarrow> ext_op (ig_EventID (dp_ids d));
        tryE (Transition d (afterPaid_cmd o' next now eventID)) (\<lambda>_. ok ()) }))))"

definition paid_status :: "Status \<Rightarrow> bool" where
  "paid_status s \<longleftrightarrow> s = StatusPaid \<or> s = StatusFulfilling \<or> s = StatusCompleted"

definition onPaid_cmd :: "Order \<Rightarrow> int64 \<Rightarrow> string \<Rightarrow> time \<Rightarrow> string \<Rightarrow> TransitionCmd" where
  "onPaid_cmd o' paid traceID now eventID =
     (TransitionCmd_of (ord_TenantID o') (ord_OrderID o') [StatusPendingPay] StatusPaid
        (ord_Version o'))
       \<lparr>tc_PaidAmount := Some paid, tc_PaidAt := Some now,
        tc_Event := Some (NewEvent eventID EventPaid (ord_TenantID o') traceID now
          (OrderEventData o'))\<rparr>"

definition onPaid :: "'x Deps \<Rightarrow> Order \<Rightarrow> int64 \<Rightarrow> string \<Rightarrow> ('x World, Order res) state" where
  "onPaid d o' paid traceID =
     (if ord_Status o' \<noteq> StatusPendingPay
      then (if paid_status (ord_Status o') then ok o' else fail (Sentinel ErrStatusNotAllowed))
      else do {
        now \<leftarrow> ext_op (dp_clock d);
        eventID \<leftarrow> ext_op (ig_EventID (dp_ids d));
        r \<leftarrow> Transition d (onPaid_cmd o' paid traceID now eventID);
        (case r of
           Inl err \<Rightarrow>
             if errors_Is err ErrVersionConflict
             then do {
               cur \<leftarrow> FindByID d (ord_TenantID o') (ord_OrderID o');
               (case cur of
                  Inl e \<Rightarrow> fail err
                | Inr c \<Rightarrow> if paid_status (ord_Status c) then ok c else fail err) }
             else fail err
         | Inr updated \<Rightarrow> do {
             a \<leftarrow> afterPaid d updated;
             _ \<leftarrow> (case a of
                 Inr _ \<Rightarrow> State_Monad.return ()
               | Inl err \<Rightarrow> do {
                   _ \<leftarrow> ignore (InsertCompensation d (CompensationTicket_of ''after_paid''
                          (ord_TenantID updated) (ord_OrderID updated) (error_text err)));
                   ignore (Transition d (TransitionCmd_of (ord_TenantID updated)
                     (ord_OrderID updated) [StatusPaid] StatusCompensating (ord_Version updated))) });
             FindByID d (ord_TenantID updated) (ord_OrderID updated) }) })"

definition ConfirmLedger :: "'x Deps \<Rightarrow> Identity \<Rightarrow> string \<Rightarrow> ('x World, Order res) state" where
  "ConfirmLedger d ident orderID =
     tryE (FindByID d (id_TenantID ident) orderID) (\<lambda>o'.
       if id_UserID ident \<noteq> '''' \<and> ord_BuyerUserID o' \<noteq> id_UserID ident
       then fail (Sentinel ErrOrderNotFound)
       else if NeedsChannelPay o'
       then fail (Wrapped ErrStatusNotAllowed ''channel pay required'')
       else onPaid d o' (amt_Payable (ord_Amounts o')) (id_TraceID ident))"

definition OnPaymentCallback :: "'x Deps \<Rightarrow> PaymentCallback \<Rightarrow> ('x World, Order res) state" where
  "OnPaymentCallback d cb =
     (if cb_OrderID cb = '''' then fail (Wrapped ErrInvalidArgument ''order_id'')
      else tryE (FindByID d (cb_TenantID cb) (cb_OrderID cb)) (\<lambda>o'.
        if \<not> cb_Success cb then ok o'
        else if 0 <s cb_PaidAmount cb \<and> cb_PaidAmount cb \<noteq> amt_ChannelPay (ord_Amounts o')
            \<and> 0 <s amt_ChannelPay (ord_Amounts o')
        then fail (Wrapped ErrAmountInvariant ''paid amount mismatch'')
        else if py_PaymentIntentID (ord_Payment o') \<noteq> '''' \<and> cb_PaymentIntentID cb \<noteq> ''''
            \<and> py_PaymentIntentID (ord_Payment o') \<noteq> cb_PaymentIntentID cb
        then fail (Wrapped ErrInvalidArgument ''payment intent mismatch'')
        else onPaid d o' (amt_Payable (ord_Amounts o')) (cb_TraceID cb)))"

definition RetryAfterPaid :: "'x Deps \<Rightarrow> string \<Rightarrow> string \<Rightarrow> ('x World, unit res) state" where
  "RetryAfterPaid d tenantID orderID =
     tryE (FindByID d tenantID orderID) (\<lambda>o'.
       if ord_Status o' = StatusFulfilling \<or> ord_Status o' = StatusCompleted then ok ()
       else if ord_Status o' \<noteq> StatusPaid \<and> ord_Status o' \<noteq> StatusCompensating
       then fail (Sentinel ErrStatusNotAllowed)
       else afterPaid d o')"

definition Complete_cmd :: "Order \<Rightarrow> time \<Rightarrow> string \<Rightarrow> TransitionCmd" where
  "Complete_cmd o' now eventID =
     (TransitionCmd_of (ord_TenantID o') (ord_OrderID o') [StatusFulfilling, StatusPaid]
        StatusCompleted (ord_Version o'))
       \<lparr>tc_CompletedAt := Some now,
        tc_Event := Some (NewEvent eventID EventCompleted (ord_TenantID o') '''' now
          (OrderEventData o'))\<rparr>"

definition Complete :: "'x Deps \<Rightarrow> string \<Rightarrow> string \<Rightarrow> ('x World, Order res) state" where
  "Complete d tenantID orderID =
     tryE (FindByID d tenantID orderID) (\<lambda>o'.
       if ord_Status o' \<noteq> StatusFulfilling \<and> ord_Status o' \<noteq> StatusPaid
       then fail (Sentinel ErrStatusNotAllowed)
       else do {
         now \<leftarrow> ext_op (dp_clock d);
         eventID \<leftarrow> ext_op (ig_EventID (dp_ids d));
         Transition d (Complete_cmd o' now eventID) })"

section \<open>Lemmas: what the payment service keeps\<close>

lemma legit_afterPaid_cmd: "legit_cmd r (afterPaid_cmd o' (NextAfterPaid b) now i)"
  by (rule legit_plain) (simp_all add: afterPaid_cmd_def NextAfterPaid_def Let_def)

lemma legit_compensating:
  "legit_cmd r (TransitionCmd_of t i [StatusPaid] StatusCompensating v)"
  by (rule legit_plain) simp_all

lemma legit_Complete_cmd: "legit_cmd r (Complete_cmd o' now i)"
  by (rule legit_plain) (simp_all add: Complete_cmd_def)

lemma legit_onPaid_cmd:
  assumes "stored r o'"
  shows "legit_cmd r (onPaid_cmd o' (amt_Payable (ord_Amounts o')) tr now i)"
  unfolding legit_cmd_def
proof (intro allI impI)
  fix s assume a: "accepts r (onPaid_cmd o' (amt_Payable (ord_Amounts o')) tr now i) s"
  then have "s = o'" using assms by (simp add: accepts_def onPaid_cmd_def stored_def)
  with a show "legit s (onPaid_cmd o' (amt_Payable (ord_Amounts o')) tr now i)"
    by (simp add: legit_def accepts_def onPaid_cmd_def)
qed

text \<open>The redemption is noted on the order that is stored, which holds the reservation of the order in hand.\<close>

abbreviation held :: "OrderRepo \<Rightarrow> Order \<Rightarrow> bool" where
  "held r o' \<equiv> \<forall>s. lookup_order r (ord_TenantID o') (ord_OrderID o') = Some s \<longrightarrow>
     HasOfferReservation s = HasOfferReservation o'"

context repo_contract
begin

lemma found_here:
  assumes "P r" "repo_FindByID seed t i r = Inr o'" "lookup_order r (ord_TenantID o') (ord_OrderID o') = Some s"
  shows "s = o'"
  using FindByID_stored [OF P_wf [OF assms(1)] assms(2)] assms(3) by (simp add: stored_def)

lemma keeps_RecreateIntent: "P r \<Longrightarrow> wp (RecreateIntent d ident i) (\<lambda>_. P) r"
  unfolding RecreateIntent_def
  by (intro wp_intros conjI allI impI keeps_UpdatePaymentIntent) (auto dest: found_here)


lemma keeps_commit_offer: "P r \<Longrightarrow> held r o' \<Longrightarrow> wp (commit_offer d o') (\<lambda>_. P) r"
  unfolding commit_offer_def by (intro wp_intros conjI allI impI keeps_UpdateRedemption) simp_all

lemma keeps_afterPaid: "P r \<Longrightarrow> held r o' \<Longrightarrow> wp (afterPaid d o') (\<lambda>_. P) r"
  unfolding afterPaid_def Let_def
  by (intro wp_intros conjI allI impI keeps_repo legit_afterPaid_cmd
      keeps_commit_offer [THEN wp_mono]) blast+

lemma held_transition:
  assumes "P r" "fst (repo_Transition m tnow cmd r) = Inr u"
  shows "held (snd (repo_Transition m tnow cmd r)) u"
proof -
  obtain o' where acc: "accepts r cmd o'" and u: "u = apply_cmd tnow cmd (moved cmd o')"
    using assms(2) by (auto simp: Transition_ok_iff)
  have "order_key (ord_TenantID u) (ord_OrderID u) = order_key (tc_TenantID cmd) (tc_OrderID cmd)"
    using lookup_stored [OF P_wf [OF assms(1)]] acc by (auto simp: accepts_def u)
  then show ?thesis
    using Transition_effect(1) [OF acc, of m tnow] by (simp add: lookup_order_def u)
qed

lemma keeps_onPaid:
  assumes "P r" "stored r o'"
  shows "wp (onPaid d o' (amt_Payable (ord_Amounts o')) tr) (\<lambda>_. P) r"
  unfolding onPaid_def
  by (intro wp_intros conjI allI impI keeps_repo legit_onPaid_cmd legit_compensating
      keeps_afterPaid [THEN wp_mono] held_transition assms)

lemma keeps_ConfirmLedger: "P r \<Longrightarrow> wp (ConfirmLedger d ident i) (\<lambda>_. P) r"
  unfolding ConfirmLedger_def
  by (intro wp_intros conjI allI impI keeps_onPaid FindByID_stored [THEN conjunct1] P_wf)

lemma keeps_OnPaymentCallback: "P r \<Longrightarrow> wp (OnPaymentCallback d cb) (\<lambda>_. P) r"
  unfolding OnPaymentCallback_def
  by (intro wp_intros conjI allI impI keeps_onPaid FindByID_stored [THEN conjunct1] P_wf)

lemma keeps_RetryAfterPaid: "P r \<Longrightarrow> wp (RetryAfterPaid d t i) (\<lambda>_. P) r"
  unfolding RetryAfterPaid_def
  by (intro wp_intros conjI allI impI keeps_afterPaid) (auto dest: found_here)

lemma keeps_Complete: "P r \<Longrightarrow> wp (Complete d t i) (\<lambda>_. P) r"
  unfolding Complete_def
  by (intro wp_intros conjI allI impI keeps_repo legit_Complete_cmd)

end

section \<open>Lemmas: the outcome of a payment\<close>

text \<open>
  \<open>untouched\<close>: of what decides a transition, nothing has changed for this order, no ticket and
  no event was added, and everything else is as it was. \<open>next_of\<close> is the status a scene sends a paid
  order to. A redemption can only have been noted where the order holds a reservation.
\<close>

abbreviation noted :: "Order \<Rightarrow> Order \<Rightarrow> bool" where
  "noted s s' \<equiv> body_part s' = body_part s \<and> (\<not> HasOfferReservation s \<longrightarrow> ord_Promotion s' = ord_Promotion s)"

definition untouched :: "OrderRepo \<Rightarrow> string \<Rightarrow> string \<Rightarrow> Order \<Rightarrow> OrderRepo \<Rightarrow> bool" where
  "untouched r t i s r' \<longleftrightarrow> tickets r' = tickets r \<and> events r' = events r \<and> only_at (order_key t i) r r' \<and>
     (\<exists>s'. lookup_order r' t i = Some s' \<and> ord_Amounts s' = ord_Amounts s \<and> noted s s' \<and>
        ord_Status s' = ord_Status s \<and> ord_Version s' = ord_Version s)"

definition next_of :: "'x Deps \<Rightarrow> Order \<Rightarrow> Status" where
  "next_of d o' = NextAfterPaid (sc_AutoCompleteOnPaid
     (case dp_scenes d (ord_Scene o') of None \<Rightarrow> zero_SceneConfig | Some c \<Rightarrow> c))"

text \<open>The event that announces the status after the payment.\<close>

definition event_of :: "Status \<Rightarrow> string" where
  "event_of st = (if st = StatusCompleted then EventCompleted else EventFulfilled)"

definition moved_on ::
  "(Event \<Rightarrow> bytes) \<Rightarrow> OrderRepo \<Rightarrow> string \<Rightarrow> string \<Rightarrow> Order \<Rightarrow> Status \<Rightarrow> OrderRepo \<Rightarrow> bool" where
  "moved_on m r t i s st r' \<longleftrightarrow> tickets r' = tickets r \<and> only_at (order_key t i) r r' \<and>
     (\<exists>ev. events r' = events r @ [outbox_row m ev] \<and> ev_EventType ev = event_of st) \<and>
     (\<exists>s'. lookup_order r' t i = Some s' \<and> ord_Amounts s' = ord_Amounts s \<and> noted s s' \<and>
        ord_Status s' = st \<and> ord_Version s' = ord_Version s + 1)"

lemma body_holds: "body_part s' = body_part s \<Longrightarrow> HasOfferReservation s' = HasOfferReservation s"
  by (rule frozen_part_holds [OF body_frozen])

lemma commit_offer_untouched:
  assumes "lookup_order r (ord_TenantID o') (ord_OrderID o') = Some s" "HasOfferReservation s = HasOfferReservation o'"
  shows "wp (commit_offer d o') (\<lambda>res r'. untouched r (ord_TenantID o') (ord_OrderID o') s r' \<and>
    (\<forall>o1. res = Inr o1 \<longrightarrow> ord_TenantID o1 = ord_TenantID o' \<and> ord_OrderID o1 = ord_OrderID o' \<and>
       ord_Version o1 = ord_Version o')) r"
  unfolding commit_offer_def untouched_def
  by (intro wp_intros allI impI conjI)
    (use assms in \<open>auto simp: UpdateRedemption_effect [OF assms(1)] body_part_def only_at_updates\<close>)

lemma afterPaid_cmd_moves:
  assumes "untouched r (ord_TenantID o1) (ord_OrderID o1) s r'" "ord_Version s = ord_Version o1"
    "ord_Status s = StatusPaid \<or> ord_Status s = StatusCompensating"
    "cmd = afterPaid_cmd o1 (NextAfterPaid b) now eid"
  shows "moved_on m r (ord_TenantID o1) (ord_OrderID o1) s (NextAfterPaid b)
      (snd (repo_Transition m tnow cmd r'))"
    and "fst (repo_Transition m tnow cmd r') \<noteq> Inl e"
proof -
  let ?k = "order_key (ord_TenantID o1) (ord_OrderID o1)" and ?r2 = "snd (repo_Transition m tnow cmd r')"
  from assms(1) obtain s' where s': "lookup_order r' (ord_TenantID o1) (ord_OrderID o1) = Some s'"
    "ord_Amounts s' = ord_Amounts s" "ord_Status s' = ord_Status s" "ord_Version s' = ord_Version s"
    "noted s s'"
    and r': "tickets r' = tickets r" "events r' = events r" "only_at ?k r r'"
    by (auto simp: untouched_def)
  have f: "tc_TenantID cmd = ord_TenantID o1" "tc_OrderID cmd = ord_OrderID o1"
    "tc_From cmd = [StatusPaid, StatusCompensating]" "tc_To cmd = NextAfterPaid b"
    "tc_Version cmd = ord_Version o1" "tc_PaidAmount cmd = None" "tc_RefundedAdd cmd = 0"
    "tc_RedemptionID cmd = ''''" "tc_PaymentIntentID cmd = ''''"
    "\<exists>ev. tc_Event cmd = Some ev \<and> ev_EventType ev = event_of (NextAfterPaid b)"
    by (simp_all add: assms(4) afterPaid_cmd_def Let_def NewEvent_def event_of_def)
  then have acc: "accepts r' cmd s'"
    using s' assms(2,3) NextAfterPaid_allowed by (auto simp: accepts_def)
  have "only_at ?k r ?r2"
    using only_at_trans [OF r'(3)] only_at_Transition [of cmd r' m tnow] f(1,2) by simp
  moreover have "noted s (apply_cmd tnow cmd (moved cmd s'))"
    using s'(5) body_part_apply_cmd(1,2) f(8,9) by metis
  moreover have "ord_Amounts (apply_cmd tnow cmd (moved cmd s')) = ord_Amounts s"
    "ord_Version (apply_cmd tnow cmd (moved cmd s')) = ord_Version s + 1"
    using s'(2,4) f(6,7) by (simp_all add: apply_cmd_Amounts_same moved_Amounts moved_Version)
  ultimately show "moved_on m r (ord_TenantID o1) (ord_OrderID o1) s (NextAfterPaid b) ?r2"
    using Transition_accepts(3) [OF acc, of m tnow] Transition_effect [OF acc, of m tnow] f(1,2,4,10) r'
    by (auto simp: moved_on_def)
  show "fst (repo_Transition m tnow cmd r') \<noteq> Inl e" using Transition_accepts(1) [OF acc, of m tnow] by simp
qed

lemma afterPaid_outcome:
  assumes "lookup_order r (ord_TenantID o') (ord_OrderID o') = Some s" "HasOfferReservation s = HasOfferReservation o'"
    "ord_Version s = ord_Version o'" "ord_Status s = StatusPaid \<or> ord_Status s = StatusCompensating"
  shows "wp (afterPaid d o') (\<lambda>res r'. case res of
      Inl e \<Rightarrow> untouched r (ord_TenantID o') (ord_OrderID o') s r'
    | Inr _ \<Rightarrow> moved_on (dp_marshal_Event d) r (ord_TenantID o') (ord_OrderID o') s (next_of d o') r') r"
  unfolding afterPaid_def Let_def
proof (rule wp_tryE, rule commit_offer_untouched [OF assms(1,2), THEN wp_mono], intro allI impI conjI,
    goal_cases)
  case (1 res r' e)
  then show ?case by simp
next
  case (2 res r' o1)
  then have u: "untouched r (ord_TenantID o1) (ord_OrderID o1) s r'"
    and v: "ord_Version s = ord_Version o1"
    and k: "ord_TenantID o' = ord_TenantID o1" "ord_OrderID o' = ord_OrderID o1"
    using assms(3) by auto
  have mv: "moved_on m r (ord_TenantID o1) (ord_OrderID o1) s (NextAfterPaid b)
        (snd (repo_Transition m tnow (afterPaid_cmd o1 (NextAfterPaid b) now eid) r'))"
      "fst (repo_Transition m tnow (afterPaid_cmd o1 (NextAfterPaid b) now eid) r') \<noteq> Inl e"
    for b m tnow now eid e
    by (rule afterPaid_cmd_moves [OF u v assms(4) HOL.refl])+
  show ?case
    unfolding k next_of_def
    by (intro wp_intros allI impI conjI)
      (simp_all only: u mv sum.case sum.distinct simp_thms)
qed

text \<open>
  What a payment leaves behind: \<open>s'\<close> is the order as it is stored now. Only its status, version, paid
  amount, redemption and times differ from \<open>o'\<close>; all other orders, the refunds and the idempotency
  records are as they were, and the outbox has grown by the announcement of each step.
\<close>

definition payment_done :: "'x Deps \<Rightarrow> Order \<Rightarrow> OrderRepo \<Rightarrow> OrderRepo \<Rightarrow> Order \<Rightarrow> bool" where
  "payment_done d o' r r' s' \<longleftrightarrow> only_at (order_key (ord_TenantID o') (ord_OrderID o')) r r' \<and>
     lookup_order r' (ord_TenantID o') (ord_OrderID o') = Some s' \<and> noted o' s' \<and>
     ord_Amounts s' = (ord_Amounts o')\<lparr>amt_Paid := amt_Payable (ord_Amounts o')\<rparr> \<and>
     ord_Version s' = ord_Version o' + 2 \<and>
     (\<exists>evs. events r' = events r @ map (outbox_row (dp_marshal_Event d)) evs \<and>
       (ord_Status s' = next_of d o' \<and> tickets r' = tickets r \<and>
          map ev_EventType evs = [EventPaid, event_of (next_of d o')] \<or>
        ord_Status s' = StatusCompensating \<and> map ev_EventType evs = [EventPaid] \<and>
        (\<exists>tk. tickets r' = tickets r @ [tk] \<and> tk_Kind tk = ''after_paid'' \<and>
           tk_TenantID tk = ord_TenantID o' \<and> tk_Ref tk = ord_OrderID o' \<and> ticket_open tk)))"

text \<open>The state after the first step of a payment, in which the order is \<open>u\<close>.\<close>

definition paid_step :: "'x Deps \<Rightarrow> Order \<Rightarrow> OrderRepo \<Rightarrow> Order \<Rightarrow> OrderRepo \<Rightarrow> bool" where
  "paid_step d o' r u r1 \<longleftrightarrow> repo_wf r1 \<and> lookup_order r1 (ord_TenantID o') (ord_OrderID o') = Some u \<and>
     ord_Status u = StatusPaid \<and> body_part u = body_part o' \<and> ord_Promotion u = ord_Promotion o' \<and>
     ord_Version u = ord_Version o' + 1 \<and> tickets r1 = tickets r \<and>
     only_at (order_key (ord_TenantID o') (ord_OrderID o')) r r1 \<and>
     (\<exists>ev. events r1 = events r @ [outbox_row (dp_marshal_Event d) ev] \<and> ev_EventType ev = EventPaid) \<and>
     ord_Amounts u = (ord_Amounts o')\<lparr>amt_Paid := amt_Payable (ord_Amounts o')\<rparr>"

lemma compensate_outcome:
  assumes p: "paid_step d o' r u r0" and u: "untouched r0 (ord_TenantID o') (ord_OrderID o') u r1"
    and r2: "r2 = snd (repo_InsertCompensation t0 (CompensationTicket_of ''after_paid'' (ord_TenantID o')
       (ord_OrderID o') msg) r1)"
    and r3: "r3 = snd (repo_Transition m tnow (TransitionCmd_of (ord_TenantID o') (ord_OrderID o')
       [StatusPaid] StatusCompensating (ord_Version u)) r2)"
  shows "\<exists>s'. payment_done d o' r r3 s'"
proof -
  let ?k = "order_key (ord_TenantID o') (ord_OrderID o')"
  from u obtain s' where s': "lookup_order r1 (ord_TenantID o') (ord_OrderID o') = Some s'"
    "ord_Amounts s' = ord_Amounts u" "ord_Status s' = ord_Status u" "ord_Version s' = ord_Version u"
    "noted u s'" and r1: "tickets r1 = tickets r0" "events r1 = events r0" "only_at ?k r0 r1"
    by (auto simp: untouched_def)
  let ?cmd = "TransitionCmd_of (ord_TenantID o') (ord_OrderID o') [StatusPaid] StatusCompensating
    (ord_Version u)"
  have "lookup_order r2 (ord_TenantID o') (ord_OrderID o') = Some s'"
    using s'(1) orders_only(3) [of r2 r1] by (simp add: r2)
  then have acc: "accepts r2 ?cmd s'"
    using s' p by (simp add: accepts_def paid_step_def CanTransition_defs)
  have tk: "\<exists>tk. tickets r2 = tickets r @ [tk] \<and> tk_Kind tk = ''after_paid'' \<and>
      tk_TenantID tk = ord_TenantID o' \<and> tk_Ref tk = ord_OrderID o' \<and> ticket_open tk"
    using p by (simp add: r2 r1 paid_step_def repo_InsertCompensation_def CompensationTicket_of_def Let_def
        ticket_open_def)
  have "only_at ?k r2 r3" using only_at_Transition [of ?cmd r2 m tnow] by (simp add: r3)
  then have at: "only_at ?k r r3"
    using p r1(3) only_at_updates(2) [of ?k r1] unfolding paid_step_def r2 by (blast intro: only_at_trans)
  obtain ev where ev: "events r3 = events r @ map (outbox_row (dp_marshal_Event d)) [ev]" "map ev_EventType [ev] = [EventPaid]"
    using Transition_effect(2) [OF acc, of m tnow] p r1(2)
    by (auto simp: r3 r2 repo_InsertCompensation_def Let_def paid_step_def)
  have s3: "lookup_order r3 (ord_TenantID o') (ord_OrderID o') = Some (apply_cmd tnow ?cmd (moved ?cmd s'))"
    "tickets r3 = tickets r2"
    using Transition_effect(1) [OF acc, of m tnow] Transition_accepts(3) [OF acc, of m tnow] by (simp_all add: r3)
  let ?u' = "apply_cmd tnow ?cmd (moved ?cmd s')"
  have "HasOfferReservation u = HasOfferReservation o'" using p by (intro body_holds) (simp add: paid_step_def)
  moreover have "noted u ?u'" using s'(5) body_part_apply_cmd(1,2) [of ?cmd tnow s'] by simp
  ultimately have noted: "noted o' ?u'" using p by (simp add: paid_step_def)
  show ?thesis
    unfolding payment_done_def
  proof (intro exI [of _ ?u'] exI [of _ "[ev]"] conjI disjI2 at ev)
    show "body_part ?u' = body_part o'" "\<not> HasOfferReservation o' \<longrightarrow> ord_Promotion ?u' = ord_Promotion o'"
      using noted by blast+
    show "ord_Amounts ?u' = (ord_Amounts o')\<lparr>amt_Paid := amt_Payable (ord_Amounts o')\<rparr>" "ord_Version ?u' = ord_Version o' + 2"
      using s'(2,4) p by (simp_all add: apply_cmd_Amounts_same moved_Amounts moved_Version paid_step_def)
  qed (use s3 tk in simp_all)
qed

lemma next_of_frozen: "frozen_part u = frozen_part o' \<Longrightarrow> next_of d u = next_of d o'"
  by (drule arg_cong [of _ _ ord_Scene]) (simp add: next_of_def frozen_part_def)

lemma moved_on_payment_done:
  assumes p: "paid_step d o' r u r1"
    and m: "moved_on (dp_marshal_Event d) r1 (ord_TenantID o') (ord_OrderID o') u (next_of d o') r2"
  shows "\<exists>s'. payment_done d o' r r2 s'"
proof -
  obtain ev1 where ev1: "events r1 = events r @ [outbox_row (dp_marshal_Event d) ev1]" "ev_EventType ev1 = EventPaid"
    using p by (auto simp: paid_step_def)
  obtain ev2 where ev2: "events r2 = events r1 @ [outbox_row (dp_marshal_Event d) ev2]"
    "ev_EventType ev2 = event_of (next_of d o')" using m by (auto simp: moved_on_def)
  have ev: "events r2 = events r @ map (outbox_row (dp_marshal_Event d)) [ev1, ev2]"
    "map ev_EventType [ev1, ev2] = [EventPaid, event_of (next_of d o')]"
    by (simp_all add: ev1 ev2)
  have at: "only_at (order_key (ord_TenantID o') (ord_OrderID o')) r r2"
    using assms unfolding moved_on_def paid_step_def by (blast intro: only_at_trans)
  obtain s' where s': "lookup_order r2 (ord_TenantID o') (ord_OrderID o') = Some s'"
    "ord_Amounts s' = ord_Amounts u" "noted u s'" "ord_Status s' = next_of d o'" "ord_Version s' = ord_Version u + 1"
    "tickets r2 = tickets r1" using m by (auto simp: moved_on_def)
  show ?thesis
    unfolding payment_done_def
  proof (intro exI [of _ s'] exI [of _ "[ev1, ev2]"] conjI disjI1 at ev)
    have "HasOfferReservation u = HasOfferReservation o'" using p by (intro body_holds) (simp add: paid_step_def)
    with s'(3) p show "body_part s' = body_part o'"
      "\<not> HasOfferReservation o' \<longrightarrow> ord_Promotion s' = ord_Promotion o'" by (simp_all add: paid_step_def)
  qed (use s' p in \<open>simp_all add: paid_step_def\<close>)
qed

text \<open>The last call of \<open>onPaid\<close> finds the order again.\<close>

lemma payment_done_found:
  assumes "repo_wf r'" "payment_done d o' r r' s'" "ord_TenantID o' \<noteq> ''''"
  shows "repo_FindByID seed (ord_TenantID o') (ord_OrderID o') r' = Inr s'"
proof (rule FindByID_own)
  show "lookup_order r' (ord_TenantID o') (ord_OrderID o') = Some s'"
    "ord_TenantID s' = ord_TenantID o'" "ord_OrderID s' = ord_OrderID o'"
    using assms(2) frozen_part_key [OF body_frozen, of s' o'] by (simp_all add: payment_done_def)
qed (use assms in simp_all)

lemma afterPaid_settles:
  fixes d :: "'x Deps"
  assumes p: "paid_step d o' r u r1"
  shows "wp (do {
      a \<leftarrow> afterPaid d u;
      _ \<leftarrow> (case a of
          Inr _ \<Rightarrow> State_Monad.return ()
        | Inl err \<Rightarrow> do {
            _ \<leftarrow> ignore (InsertCompensation d (CompensationTicket_of ''after_paid''
                   (ord_TenantID u) (ord_OrderID u) (error_text err)));
            ignore (Transition d (TransitionCmd_of (ord_TenantID u)
              (ord_OrderID u) [StatusPaid] StatusCompensating (ord_Version u))) });
      FindByID d (ord_TenantID u) (ord_OrderID u) })
    (\<lambda>res r'. \<exists>s'. payment_done d o' r r' s' \<and> (ord_TenantID o' \<noteq> '''' \<longrightarrow> res = Inr s')) r1"
proof -
  have fr: "frozen_part u = frozen_part o'" using p by (intro body_frozen) (simp add: paid_step_def)
  have key: "ord_TenantID u = ord_TenantID o'" "ord_OrderID u = ord_OrderID o'"
    using frozen_part_key [OF fr] by simp_all
  have u: "lookup_order r1 (ord_TenantID o') (ord_OrderID o') = Some u" "ord_Status u = StatusPaid" "repo_wf r1"
    using p by (simp_all add: paid_step_def)
  have "wp (afterPaid d u) (\<lambda>_. repo_wf) r1"
    by (rule wf.keeps_afterPaid [OF u(3)]) (simp add: key u(1))
  from wp_conj [OF this afterPaid_outcome [of r1 u u d, unfolded key next_of_frozen [OF fr]]] u
  have out: "wp (afterPaid d u) (\<lambda>a r2. repo_wf r2 \<and> (case a of
      Inl e \<Rightarrow> untouched r1 (ord_TenantID o') (ord_OrderID o') u r2
    | Inr _ \<Rightarrow> moved_on (dp_marshal_Event d) r1 (ord_TenantID o') (ord_OrderID o') u (next_of d o') r2)) r1"
    by simp
  have fin: "\<exists>s'. payment_done d o' r r2 s' \<and> (ord_TenantID o' \<noteq> '''' \<longrightarrow>
      repo_FindByID seed (ord_TenantID o') (ord_OrderID o') r2 = Inr s')"
    if "repo_wf r2" "\<exists>s'. payment_done d o' r r2 s'" for r2 seed
    using that payment_done_found by blast
  show ?thesis
    unfolding key
  proof (rule wp_bind, rule wp_mono [OF out], goal_cases)
    case (1 a r2)
    show ?case
    proof (cases a)
      case (Inl e)
      with 1 have u2: "untouched r1 (ord_TenantID o') (ord_OrderID o') u r2" and wf2: "repo_wf r2"
        by simp_all
      show ?thesis unfolding Inl sum.case
        by (intro wp_intros fin wf.keeps_repo legit_compensating wf2
            compensate_outcome [OF p u2 HOL.refl HOL.refl])
    next
      case (Inr x)
      with 1 have "moved_on (dp_marshal_Event d) r1 (ord_TenantID o') (ord_OrderID o') u (next_of d o') r2" "repo_wf r2"
        by simp_all
      then show ?thesis unfolding Inr sum.case
        by (intro wp_intros fin moved_on_payment_done [OF p])
    qed
  qed
qed

lemma onPaid_outcome:
  assumes "repo_wf r" "stored r o'" "ord_Status o' = StatusPendingPay"
  shows "wp (onPaid d o' (amt_Payable (ord_Amounts o')) tr)
    (\<lambda>res r'. \<exists>s'. payment_done d o' r r' s' \<and> (ord_TenantID o' \<noteq> '''' \<longrightarrow> res = Inr s')) r"
proof -
  let ?p = "amt_Payable (ord_Amounts o')"
  have step: "\<exists>u. fst (repo_Transition (dp_marshal_Event d) tnow (onPaid_cmd o' ?p tr now eid) r) = Inr u \<and>
      paid_step d o' r u (snd (repo_Transition (dp_marshal_Event d) tnow (onPaid_cmd o' ?p tr now eid) r))"
    for tnow now eid
  proof -
    let ?cmd = "onPaid_cmd o' ?p tr now eid" and ?m = "dp_marshal_Event d"
    obtain ev where f: "tc_TenantID ?cmd = ord_TenantID o'" "tc_OrderID ?cmd = ord_OrderID o'"
      "tc_From ?cmd = [StatusPendingPay]" "tc_To ?cmd = StatusPaid"
      "tc_Version ?cmd = ord_Version o'" "tc_PaidAmount ?cmd = Some ?p" "tc_RefundedAdd ?cmd = 0"
      "tc_RedemptionID ?cmd = ''''" "tc_PaymentIntentID ?cmd = ''''" "tc_Event ?cmd = Some ev"
      "ev_EventType ev = EventPaid"
      by (simp add: onPaid_cmd_def NewEvent_def)
    have acc: "accepts r ?cmd o'"
      using assms(2,3) f by (simp add: accepts_def stored_def CanTransition_defs)
    show ?thesis
      using Transition_accepts(1,3) [OF acc, of ?m tnow] Transition_effect [OF acc, of ?m tnow] f
        wf.keeps_Transition [OF assms(1) legit_onPaid_cmd [OF assms(2)], of ?m tnow tr now eid]
        only_at_Transition [of ?cmd r ?m tnow]
      by (auto simp: paid_step_def body_part_apply_cmd apply_cmd_Amounts moved_Amounts moved_Version)
  qed
  show ?thesis
    unfolding onPaid_def
    apply (simp only: assms(3) simp_thms if_False)
    apply (intro wp_bind wp_ext_op wp_Transition)
    subgoal for now eid tnow
      using step [of tnow now eid] by (elim exE conjE) (simp only: sum.case, rule afterPaid_settles)
    done
qed

end
