(* ===== verification/Refund_Service.thy ===== *)
theory Refund_Service
  imports Repo_Invariants
begin

text \<open>
  The refund service of \<open>src/internal/application/payment_refund.go\<close>: which lines and how much to
  refund (\<open>resolveRefundLines\<close>), the split of the amount between ledger and channel (\<open>splitRefund\<close>),
  the part of the discount to give back (\<open>reverseDiscount\<close>), and the refund itself, which moves the
  order to REFUNDING, pays back, and books the amount with a second transition.
\<close>

section \<open>Definitions\<close>

record RefundCmd =
  rc_Amount :: int64
  rc_Reason :: string
  rc_Lines :: "LineRefund list"

text \<open>The loop over the requested lines, from the running sum.\<close>

fun refund_lines_sum :: "(string \<rightharpoonup> OrderLine) \<Rightarrow> int64 \<Rightarrow> LineRefund list \<Rightarrow> int64 res" where
  "refund_lines_sum byID acc [] = Inr acc"
| "refund_lines_sum byID acc (lr # lrs) =
     (if lf_Amount lr \<le>s 0 then Inl (Wrapped ErrInvalidArgument ''line amount'')
      else (case byID (lf_LineID lr) of
          None \<Rightarrow> Inl (Wrapped ErrInvalidArgument (''unknown line '' @ lf_LineID lr))
        | Some line \<Rightarrow>
            if ln_PayableAmount line <s lf_Amount lr then Inl (Sentinel ErrRefundExceedsPaid)
            else refund_lines_sum byID (acc + lf_Amount lr) lrs))"

definition lines_by_id :: "OrderLine list \<Rightarrow> (string \<rightharpoonup> OrderLine)" where
  "lines_by_id ls = foldl (\<lambda>m l. m(ln_LineID l \<mapsto> l)) Map.empty ls"

definition resolveRefundLines :: "Order \<Rightarrow> RefundCmd \<Rightarrow> (LineRefund list \<times> int64) res" where
  "resolveRefundLines o' cmd =
     (if rc_Lines cmd \<noteq> []
      then (case refund_lines_sum (lines_by_id (ord_Lines o')) 0 (rc_Lines cmd) of
          Inl e \<Rightarrow> Inl e
        | Inr acc \<Rightarrow>
            if 0 <s rc_Amount cmd \<and> rc_Amount cmd \<noteq> acc
            then Inl (Wrapped ErrAmountInvariant ''amount != line sum'')
            else if acc \<le>s 0 \<or> RefundableAmount o' <s acc then Inl (Sentinel ErrRefundExceedsPaid)
            else Inr (rc_Lines cmd, acc))
      else (let amount = (if rc_Amount cmd \<le>s 0 then RefundableAmount o' else rc_Amount cmd) in
            if amount \<le>s 0 \<or> RefundableAmount o' <s amount then Inl (Sentinel ErrRefundExceedsPaid)
            else Inr ([], amount)))"

definition reverseDiscount :: "Order \<Rightarrow> int64 \<Rightarrow> bool \<Rightarrow> int64" where
  "reverseDiscount o' refundAmt full =
     (if amt_Discount (ord_Amounts o') \<le>s 0 then 0
      else if full \<or> amt_Payable (ord_Amounts o') \<le>s 0 then 0
      else go_div (amt_Discount (ord_Amounts o') * refundAmt) (amt_Payable (ord_Amounts o')))"

definition splitRefund :: "Order \<Rightarrow> int64 \<Rightarrow> int64 \<times> int64" where
  "splitRefund o' amount =
     (let den = amt_Payable (ord_Amounts o') in
      if den \<le>s 0 then (0, amount)
      else (let ledgerAmt = go_div (amt_LedgerPay (ord_Amounts o') * amount) den;
                channelAmt = amount - ledgerAmt
            in if channelAmt <s 0 then (amount, 0) else (ledgerAmt, channelAmt)))"

definition refund_event_data :: "Order \<Rightarrow> Refund \<Rightarrow> anymap" where
  "refund_event_data o' refund = Some [
     (''amount'', JInt (rf_Amount refund)),
     (''lines'', if rf_Lines refund = [] then JNull
        else JArr (map (\<lambda>l. JObj [(''LineID'', JStr (lf_LineID l)), (''Amount'', JInt (lf_Amount l))])
               (rf_Lines refund))),
     (''order_id'', JStr (ord_OrderID o')),
     (''refund_id'', JStr (rf_RefundID refund))]"

text \<open>The command that opens the refund and the one that books it.\<close>

definition refunding_cmd :: "Order \<Rightarrow> TransitionCmd" where
  "refunding_cmd o' = TransitionCmd_of (ord_TenantID o') (ord_OrderID o') [ord_Status o']
     StatusRefunding (ord_Version o')"

definition refunded_cmd :: "Order \<Rightarrow> Status \<Rightarrow> int64 \<Rightarrow> Event \<Rightarrow> TransitionCmd" where
  "refunded_cmd o' next amount ev =
     (TransitionCmd_of (ord_TenantID o') (ord_OrderID o') [StatusRefunding] next (ord_Version o'))
       \<lparr>tc_RefundedAdd := amount, tc_Event := Some ev\<rparr>"

definition refund_next :: "Order \<Rightarrow> int64 \<Rightarrow> Status" where
  "refund_next o' amount =
     (if amt_Refunded (ord_Amounts o') + amount = amt_Paid (ord_Amounts o')
      then StatusRefunded else StatusPartialRefunded)"

text \<open>Paying back through the channel and the ledger; the flags of the refund say which was used.\<close>

definition refund_channel :: "'x Deps \<Rightarrow> Refund \<Rightarrow> ('x World, Refund res) state" where
  "refund_channel d refund =
     (case dp_pay d of
        None \<Rightarrow> ok refund
      | Some pay \<Rightarrow>
          if 0 <s rf_ChannelAmount refund
          then (let refund' = refund\<lparr>rf_ChannelRefund := True\<rparr>
                in tryE (ext_op (pa_Refund pay refund')) (\<lambda>_. ok refund'))
          else ok refund)"

definition refund_ledger :: "'x Deps \<Rightarrow> Order \<Rightarrow> Refund \<Rightarrow> ('x World, Refund res) state" where
  "refund_ledger d o' refund =
     (if 0 <s rf_LedgerAmount refund \<and> HasLedgerFreeze o'
      then (let refund' = refund\<lparr>rf_LedgerCredit := True\<rparr>
            in tryE (ext_op (lc_Credit (dp_ledger d) (ord_TenantID o') (ord_BuyerUserID o')
                       (lr_AssetCode (ord_Ledger o')) (rf_LedgerAmount refund)
                       (''order:refund:'' @ rf_RefundID refund) (''order:capture:'' @ ord_OrderID o')))
                 (\<lambda>_. ok refund'))
      else ok refund)"

definition refund_offer :: "'x Deps \<Rightarrow> Order \<Rightarrow> Refund \<Rightarrow> bool \<Rightarrow> ('x World, unit) state" where
  "refund_offer d o' refund full =
     (if pr_RedemptionID (ord_Promotion o') = '''' then State_Monad.return ()
      else do {
        r \<leftarrow> ext_op (oc_Reverse (dp_offer d) (ord_TenantID o') (pr_RedemptionID (ord_Promotion o'))
          (rf_RefundID refund) (reverseDiscount o' (rf_Amount refund) full)
          (''order:'' @ rf_RefundID refund @ '':reverse''));
        (case r of
           Inr _ \<Rightarrow> State_Monad.return ()
         | Inl e \<Rightarrow> ignore (InsertCompensation d (CompensationTicket_of ''offer_reverse''
             (ord_TenantID o') (rf_RefundID refund) (pr_RedemptionID (ord_Promotion o'))))) })"

definition refund_book :: "'x Deps \<Rightarrow> TransitionCmd \<Rightarrow> Refund \<Rightarrow> ('x World, Refund res) state" where
  "refund_book d cmd refund =
     tryE (Transition d cmd) (\<lambda>_. do {
       _ \<leftarrow> ignore (repo_op (repo_InsertRefund refund));
       ok refund })"

text \<open>From REFUNDING on; \<open>o'\<close> is the order with its new version and status.\<close>

definition refund_settle ::
  "'x Deps \<Rightarrow> Identity \<Rightarrow> Order \<Rightarrow> Status \<Rightarrow> int64 \<Rightarrow> Refund \<Rightarrow> time \<Rightarrow> ('x World, Refund res) state" where
  "refund_settle d ident o' next amount refund now =
     tryE (refund_channel d refund) (\<lambda>refund.
     tryE (refund_ledger d o' refund) (\<lambda>refund. do {
       _ \<leftarrow> refund_offer d o' refund (next = StatusRefunded);
       let refund = refund\<lparr>rf_Status := ''succeeded''\<rparr>;
       eventID \<leftarrow> ext_op (ig_EventID (dp_ids d));
       let ev = NewEvent eventID EventRefunded (ord_TenantID o') (id_TraceID ident) now
                  (refund_event_data o' refund);
       refund_book d (refunded_cmd o' next amount ev) refund }))"

definition RefundOrder ::
  "'x Deps \<Rightarrow> Identity \<Rightarrow> string \<Rightarrow> RefundCmd \<Rightarrow> ('x World, Refund res) state" where
  "RefundOrder d ident orderID cmd =
     tryE (FindByID d (id_TenantID ident) orderID) (\<lambda>o'.
       if id_UserID ident \<noteq> '''' \<and> ord_BuyerUserID o' \<noteq> id_UserID ident
       then fail (Sentinel ErrOrderNotFound)
       else if ord_Status o' \<notin> {StatusPaid, StatusFulfilling, StatusCompleted, StatusPartialRefunded}
       then fail (Sentinel ErrStatusNotAllowed)
       else tryE (lift_res (resolveRefundLines o' cmd)) (\<lambda>(lines, amount). do {
         now \<leftarrow> ext_op (dp_clock d);
         refundID \<leftarrow> ext_op (ig_RefundID (dp_ids d));
         let (ledgerAmt, channelAmt) = splitRefund o' amount;
         let refund = \<lparr>rf_RefundID = refundID, rf_OrderID = ord_OrderID o',
           rf_TenantID = ord_TenantID o', rf_Amount = amount,
           rf_Currency = amt_Currency (ord_Amounts o'), rf_Status = ''processing'',
           rf_Reason = rc_Reason cmd, rf_ChannelRefund = False, rf_LedgerCredit = False,
           rf_LedgerAmount = ledgerAmt, rf_ChannelAmount = channelAmt, rf_Lines = lines,
           rf_CreatedAt = now\<rparr>;
         let next = refund_next o' amount;
         tryE (Transition d (refunding_cmd o')) (\<lambda>_.
           refund_settle d ident
             (o'\<lparr>ord_Version := ord_Version o' + 1, ord_Status := StatusRefunding\<rparr>)
             next amount refund now) }))"

section \<open>Lemmas: amounts of a refund\<close>

lemma resolveRefundLines_bounds:
  assumes "resolveRefundLines o' cmd = Inr (lines, amount)"
  shows "0 <s amount \<and> amount \<le>s RefundableAmount o' \<and> lines = rc_Lines cmd"
  using assms
  by (auto simp: resolveRefundLines_def Let_def int64_simps split: sum.splits if_splits)

lemma splitRefund_sum: "splitRefund o' amount = (l, c) \<Longrightarrow> l + c = amount"
  by (auto simp: splitRefund_def Let_def split: if_splits)

lemma splitRefund_exact:
  assumes "Validate (ord_Amounts o') = None" "0 < sint amount"
    "sint amount \<le> sint (amt_Payable (ord_Amounts o'))"
    "sint (amt_LedgerPay (ord_Amounts o')) * sint amount < 2 ^ 63"
    "splitRefund o' amount = (l, c)"
  shows "sint l = sint (amt_LedgerPay (ord_Amounts o')) * sint amount div sint (amt_Payable (ord_Amounts o'))"
    and "sint l + sint c = sint amount" and "0 \<le> sint l" and "0 \<le> sint c"
    and "sint l \<le> sint (amt_LedgerPay (ord_Amounts o'))" and "sint c \<le> sint (amt_ChannelPay (ord_Amounts o'))"
proof -
  let ?L = "sint (amt_LedgerPay (ord_Amounts o'))" and ?P = "sint (amt_Payable (ord_Amounts o'))"
    and ?C = "sint (amt_ChannelPay (ord_Amounts o'))" and ?a = "sint amount"
  have v: "0 \<le> ?L" "0 \<le> ?C" "?P = ?L + ?C" "0 < ?P"
    using assms(1-3) by (auto simp: Validate_None_iff)
  define l' where "l' = go_div (amt_LedgerPay (ord_Amounts o') * amount) (amt_Payable (ord_Amounts o'))"
  have nn: "0 \<le> ?L * ?a" using v assms(2) by simp
  then have "sint (amt_LedgerPay (ord_Amounts o') * amount) = ?L * ?a"
    using assms(4) by (intro sint_mult64) (simp add: in64_def)
  then have l': "sint l' = ?L * ?a div ?P"
    using nn v by (simp add: l'_def sint_go_div_nonneg)
  have le: "?L * ?a \<le> ?P * ?a" "?L * ?a \<le> ?L * ?P"
    using v assms(2,3) by (auto intro: mult_right_mono mult_left_mono)
  have b: "0 \<le> sint l'" "sint l' \<le> ?a" "sint l' \<le> ?L"
    using nn v le zdiv_mono1 [OF le(1) v(4)] zdiv_mono1 [OF le(2) v(4)]
    by (simp_all add: l' pos_imp_zdiv_nonneg_iff)
  then have c: "sint (amount - l') = ?a - sint l'" by (simp add: Sub_nonneg)
  have lc: "l = l'" "c = amount - l'"
    using assms(5) v b c by (auto simp: splitRefund_def l'_def Let_def int64_simps split: if_splits)
  show "sint l = ?L * ?a div ?P" "sint l + sint c = ?a" "0 \<le> sint l" "0 \<le> sint c" "sint l \<le> ?L"
    using b c l' by (simp_all add: lc)
  have "?P * (?a - sint l') \<le> ?P * ?C + (?P - 1)"
  proof -
    have "?P * sint l' = ?L * ?a - ?L * ?a mod ?P" by (simp add: l' minus_mod_eq_mult_div)
    moreover have "?L * ?a mod ?P \<le> ?P - 1" using pos_mod_bound [OF v(4)] by (simp add: zle_diff1_eq)
    moreover have "?C * ?a \<le> ?C * ?P" using v assms(3) by (simp add: mult_left_mono)
    ultimately show ?thesis using v(3) by (simp add: algebra_simps)
  qed
  then have "?P * (?a - sint l' - ?C) < ?P * 1" by (simp add: algebra_simps)
  then have "?a - sint l' - ?C < 1" using v(4) by (simp only: mult_less_cancel_left_pos)
  then show "sint c \<le> ?C" using c by (simp add: lc)
qed

section \<open>Lemmas: symbolic execution of a refund\<close>

text \<open>
  The order a refund is about, as it is stored before and while it is in REFUNDING: \<open>opened\<close> is the
  repository after the first transition and any compensation ticket that came with it.
\<close>

definition opened :: "OrderRepo \<Rightarrow> Order \<Rightarrow> OrderRepo \<Rightarrow> bool" where
  "opened r o' r' \<longleftrightarrow> refunds r' = refunds r \<and>
     (\<exists>s. lookup_order r' (ord_TenantID o') (ord_OrderID o') = Some s \<and>
        ord_Status s = StatusRefunding \<and> ord_Version s = ord_Version o' + 1 \<and>
        ord_Amounts s = ord_Amounts o' \<and> frozen_part s = frozen_part o')"

definition refund_request :: "OrderRepo \<Rightarrow> Order \<Rightarrow> int64 \<Rightarrow> bool" where
  "refund_request r o' amount \<longleftrightarrow> stored r o' \<and>
     ord_Status o' \<in> {StatusPaid, StatusFulfilling, StatusCompleted, StatusPartialRefunded} \<and>
     0 <s amount \<and> amount \<le>s RefundableAmount o'"

lemma refund_request_positive:
  "refund_request r o' amount \<Longrightarrow> 0 <s RefundableAmount o'"
  by (auto simp: refund_request_def int64_simps)

lemma legit_refunding_cmd:
  assumes "refund_request r o' amount"
  shows "legit_cmd r (refunding_cmd o')"
  unfolding legit_cmd_def
proof (intro allI impI)
  fix s assume "accepts r (refunding_cmd o') s"
  then have "s = o'"
    using assms by (simp add: accepts_def refunding_cmd_def refund_request_def stored_def)
  moreover have "ord_Status o' \<noteq> StatusRefunding" using assms by (auto simp: refund_request_def)
  ultimately show "legit s (refunding_cmd o')"
    using refund_request_positive [OF assms] by (simp add: legit_def refunding_cmd_def)
qed

lemma refunding_opens:
  assumes "refund_request r o' amount"
  shows "opened r o' (snd (repo_Transition m tnow (refunding_cmd o') r))"
    and "fst (repo_Transition m tnow (refunding_cmd o') r) \<noteq> Inl e"
proof -
  let ?cmd = "refunding_cmd o'"
  have f: "tc_TenantID ?cmd = ord_TenantID o'" "tc_OrderID ?cmd = ord_OrderID o'"
    "tc_To ?cmd = StatusRefunding" "tc_PaidAmount ?cmd = None" "tc_RefundedAdd ?cmd = 0"
    "tc_From ?cmd = [ord_Status o']" "tc_Version ?cmd = ord_Version o'" "tc_Event ?cmd = None"
    by (simp_all add: refunding_cmd_def)
  have acc: "accepts r ?cmd o'"
    using assms f by (auto simp: accepts_def refund_request_def stored_def CanTransition_defs)
  have "refunds (snd (repo_Transition m tnow ?cmd r)) = refunds r"
    using acc f by (auto simp: accepts_def repo_Transition_def Let_def put_order_def)
  then show "opened r o' (snd (repo_Transition m tnow ?cmd r))"
    using Transition_effect(1) [OF acc, of m tnow] f
    by (simp add: opened_def frozen_part_apply_cmd apply_cmd_Amounts_same moved_Amounts moved_Version)
  show "fst (repo_Transition m tnow ?cmd r) \<noteq> Inl e"
    using Transition_accepts(1) [OF acc, of m tnow] by simp
qed

lemma legit_refunded_cmd:
  assumes "refund_request r o' amount" "opened r o' r1"
    "o1 = o'\<lparr>ord_Version := ord_Version o' + 1, ord_Status := StatusRefunding\<rparr>"
  shows "legit_cmd r1 (refunded_cmd o1 (refund_next o' amount) amount ev)"
  unfolding legit_cmd_def
proof (intro allI impI)
  fix s assume a: "accepts r1 (refunded_cmd o1 (refund_next o' amount) amount ev) s"
  from assms(2,3) a have s: "ord_Status s = StatusRefunding" "ord_Amounts s = ord_Amounts o'"
    by (auto simp: opened_def accepts_def refunded_cmd_def)
  then have "RefundableAmount s = RefundableAmount o'" by (simp add: RefundableAmount_def)
  with s assms(1) show "legit s (refunded_cmd o1 (refund_next o' amount) amount ev)"
    by (auto simp: legit_def refunded_cmd_def refund_next_def refund_request_def)
qed

lemma wp_refund_channel [wp_intros]:
  assumes "\<And>e. Q (Inl e) r" "\<And>b. Q (Inr (refund\<lparr>rf_ChannelRefund := b\<rparr>)) r"
  shows "wp (refund_channel d refund) Q r"
  unfolding refund_channel_def Let_def
  using assms(2) [of "rf_ChannelRefund refund"]
  by (intro wp_intros allI impI conjI assms) simp_all

lemma wp_refund_ledger [wp_intros]:
  assumes "\<And>e. Q (Inl e) r" "\<And>b. Q (Inr (refund\<lparr>rf_LedgerCredit := b\<rparr>)) r"
  shows "wp (refund_ledger d o' refund) Q r"
  unfolding refund_ledger_def Let_def
  using assms(2) [of "rf_LedgerCredit refund"]
  by (intro wp_intros allI impI conjI assms) simp_all

lemma wp_refund_offer [wp_intros]:
  assumes "Q () r" "\<And>t tk. Q () (snd (repo_InsertCompensation t tk r))"
  shows "wp (refund_offer d o' refund full) Q r"
  unfolding refund_offer_def by (intro wp_intros assms)

lemma opened_InsertCompensation:
  "opened r o' r1 \<Longrightarrow> opened r o' (snd (repo_InsertCompensation t tk r1))"
  by (simp add: opened_def repo_InsertCompensation_def Let_def lookup_order_def)

lemma refunded_accepted:
  assumes "opened r o' r1" "o1 = o'\<lparr>ord_Version := ord_Version o' + 1, ord_Status := StatusRefunding\<rparr>"
  shows "\<exists>s. accepts r1 (refunded_cmd o1 (refund_next o' amount) amount ev) s \<and>
    ord_Amounts s = ord_Amounts o' \<and> frozen_part s = frozen_part o'"
proof -
  from assms(1) obtain s where s: "lookup_order r1 (ord_TenantID o') (ord_OrderID o') = Some s"
    "ord_Status s = StatusRefunding" "ord_Version s = ord_Version o' + 1"
    "ord_Amounts s = ord_Amounts o'" "frozen_part s = frozen_part o'"
    by (auto simp: opened_def)
  then have "accepts r1 (refunded_cmd o1 (refund_next o' amount) amount ev) s"
    by (simp add: accepts_def refunded_cmd_def assms(2) refund_next_def CanTransition_defs)
  with s show ?thesis by blast
qed

text \<open>
  What a refund can do to the repository: fail before it starts, get stuck in REFUNDING, or book
  the amount and append the refund.
\<close>

lemma wp_refund_settle:
  fixes d :: "'x Deps"
  assumes req: "refund_request r o' amount" and op1: "opened r o' r1"
    and o1: "o1 = o'\<lparr>ord_Version := ord_Version o' + 1, ord_Status := StatusRefunding\<rparr>"
    and rf: "rf_Amount refund = amount" "rf_OrderID refund = ord_OrderID o'"
      "rf_TenantID refund = ord_TenantID o'"
    and stuck: "\<And>e. Q (Inl e) r1"
    and book: "\<And>tnow r2 ev refund u. opened r o' r2 \<Longrightarrow> orders r2 = orders r1 \<Longrightarrow>
      rf_Amount refund = amount \<Longrightarrow> rf_OrderID refund = ord_OrderID o' \<Longrightarrow>
      rf_TenantID refund = ord_TenantID o' \<Longrightarrow>
      fst (repo_Transition (dp_marshal_Event d) tnow
        (refunded_cmd o1 (refund_next o' amount) amount ev) r2) = Inr u \<Longrightarrow>
      Q (Inr refund) (snd (repo_InsertRefund refund (snd (repo_Transition (dp_marshal_Event d) tnow
        (refunded_cmd o1 (refund_next o' amount) amount ev) r2))))"
  shows "wp (refund_settle d ident o1 (refund_next o' amount) amount refund now) Q r1"
proof -
  have booked: "wp (refund_book d (refunded_cmd o1 (refund_next o' amount) amount ev) refund') Q r2"
    if "opened r o' r2" "orders r2 = orders r1" "rf_Amount refund' = amount"
      "rf_OrderID refund' = ord_OrderID o'" "rf_TenantID refund' = ord_TenantID o'" for r2 ev refund'
    unfolding refund_book_def
  proof (rule wp_tryE, rule wp_Transition, intro conjI allI impI, goal_cases)
    case (1 tnow e)
    from refunded_accepted [OF that(1) o1] obtain s where
      "accepts r2 (refunded_cmd o1 (refund_next o' amount) amount ev) s" by blast
    from Transition_accepts(1) [OF this] 1 show ?case by simp
  next
    case (2 tnow u)
    show ?case by (intro wp_intros book [OF that 2])
  qed
  show ?thesis
    unfolding refund_settle_def Let_def
    by (intro wp_intros allI impI conjI stuck booked op1 opened_InsertCompensation)
      (auto simp: rf)
qed

lemma wp_RefundOrder:
  fixes d :: "'x Deps"
  assumes wf: "repo_wf r" and err: "\<And>e. Q (Inl e) r"
    and settle: "\<And>o' amount tnow r1 o1 refund now. refund_request r o' amount \<Longrightarrow>
      r1 = snd (repo_Transition (dp_marshal_Event d) tnow (refunding_cmd o') r) \<Longrightarrow>
      o1 = o'\<lparr>ord_Version := ord_Version o' + 1, ord_Status := StatusRefunding\<rparr> \<Longrightarrow>
      rf_Amount refund = amount \<Longrightarrow> rf_OrderID refund = ord_OrderID o' \<Longrightarrow>
      rf_TenantID refund = ord_TenantID o' \<Longrightarrow>
      wp (refund_settle d ident o1 (refund_next o' amount) amount refund now) Q r1"
  shows "wp (RefundOrder d ident i cmd) Q r"
proof -
  have req: "refund_request r o' amount"
    if "repo_FindByID seed (id_TenantID ident) i r = Inr o'"
      "\<not> ord_Status o' \<notin> {StatusPaid, StatusFulfilling, StatusCompleted, StatusPartialRefunded}"
      "resolveRefundLines o' cmd = Inr a" "a = (lines, amount)" for seed o' a lines amount
    using FindByID_stored [OF wf that(1)] resolveRefundLines_bounds [of o' cmd lines amount] that(2-4)
    by (simp add: refund_request_def)
  have open_ok: "Q (Inl e) r'"
    if "refund_request r o' amount" "fst (repo_Transition m tnow (refunding_cmd o') r) = Inl e"
    for e r' o' amount m tnow
    using refunding_opens(2) [OF that(1)] that(2) by blast
  show ?thesis
    unfolding RefundOrder_def Let_def
    by (intro wp_intros allI impI conjI err; (erule (3) req [THEN open_ok] | rule settle)?)
      (auto simp: req)
qed

section \<open>Lemmas: what a refund keeps, and its outcome\<close>

context repo_contract
begin

lemma keeps_RefundOrder:
  assumes "P r"
  shows "wp (RefundOrder d ident i cmd) (\<lambda>_. P) r"
proof (rule wp_RefundOrder)
  show "repo_wf r" by (rule P_wf [OF assms])
  show "P r" by (rule assms)
  fix o' amount tnow r1 o1 now and refund :: Refund
  assume req: "refund_request r o' amount"
    and r1: "r1 = snd (repo_Transition (dp_marshal_Event d) tnow (refunding_cmd o') r)"
    and o1: "o1 = o'\<lparr>ord_Version := ord_Version o' + 1, ord_Status := StatusRefunding\<rparr>"
    and rf: "rf_Amount refund = amount" "rf_OrderID refund = ord_OrderID o'"
      "rf_TenantID refund = ord_TenantID o'"
  have op1: "opened r o' r1" unfolding r1 by (rule refunding_opens(1) [OF req])
  have P1: "P r1" unfolding r1 by (rule keeps_Transition [OF assms legit_refunding_cmd [OF req]])
  show "wp (refund_settle d ident o1 (refund_next o' amount) amount refund now) (\<lambda>_. P) r1"
    by (rule wp_refund_settle [OF req op1 o1 rf], rule P1)
      (intro keeps_repo legit_refunded_cmd [OF req _ o1] P_orders [OF P1])
qed

end

text \<open>A refund that succeeds: what it has booked.\<close>

definition refund_booked :: "OrderRepo \<Rightarrow> Order \<Rightarrow> Refund \<Rightarrow> OrderRepo \<Rightarrow> bool" where
  "refund_booked r o' refund r' \<longleftrightarrow> refund_request r o' (rf_Amount refund) \<and>
     rf_OrderID refund = ord_OrderID o' \<and> rf_TenantID refund = ord_TenantID o' \<and>
     refunds r' = refunds r @ [refund] \<and>
     (\<exists>s. lookup_order r' (ord_TenantID o') (ord_OrderID o') = Some s \<and> frozen_part s = frozen_part o' \<and>
        amt_Paid (ord_Amounts s) = amt_Paid (ord_Amounts o') \<and>
        sint (amt_Refunded (ord_Amounts s)) =
          sint (amt_Refunded (ord_Amounts o')) + sint (rf_Amount refund) \<and>
        ord_Status s = (if amt_Refunded (ord_Amounts s) = amt_Paid (ord_Amounts s)
          then StatusRefunded else StatusPartialRefunded))"

lemma refund_books:
  assumes "order_ok o'" "refund_request r o' (rf_Amount refund)" "opened r o' r2"
    "o1 = o'\<lparr>ord_Version := ord_Version o' + 1, ord_Status := StatusRefunding\<rparr>"
    "rf_OrderID refund = ord_OrderID o'" "rf_TenantID refund = ord_TenantID o'"
    "cmd = refunded_cmd o1 (refund_next o' (rf_Amount refund)) (rf_Amount refund) ev"
  shows "refund_booked r o' refund (snd (repo_InsertRefund refund (snd (repo_Transition m tnow cmd r2))))"
proof -
  let ?a = "ord_Amounts o'" and ?r3 = "snd (repo_Transition m tnow cmd r2)"
  have nn: "0 \<le> sint (amt_Refunded ?a)" "sint (amt_Refunded ?a) \<le> sint (amt_Paid ?a)"
    using assms(1) by (auto simp: order_ok_def Validate_None_iff)
  have amt: "0 < sint (rf_Amount refund)" "rf_Amount refund \<le>s amt_Paid ?a - amt_Refunded ?a"
    using assms(2) by (auto simp: refund_request_def RefundableAmount_def int64_simps)
  note ex = refund_exact [OF nn amt]
  obtain s where acc: "accepts r2 cmd s" and s: "ord_Amounts s = ?a" "frozen_part s = frozen_part o'"
    using refunded_accepted [OF assms(3,4)] unfolding assms(7) by blast
  have f: "tc_TenantID cmd = ord_TenantID o'" "tc_OrderID cmd = ord_OrderID o'"
    "tc_PaidAmount cmd = None" "tc_RefundedAdd cmd = rf_Amount refund"
    "tc_To cmd = refund_next o' (rf_Amount refund)"
    by (simp_all add: assms(4,7) refunded_cmd_def)
  have "refunds ?r3 = refunds r"
    using acc assms(3) by (auto simp: accepts_def repo_Transition_def Let_def put_order_def
        append_event_def opened_def split: option.split)
  moreover have "lookup_order ?r3 (ord_TenantID o') (ord_OrderID o') =
      Some (apply_cmd tnow cmd (moved cmd s))"
    using Transition_effect(1) [OF acc, of m tnow] f by simp
  ultimately show ?thesis
    using assms(2,5,6) s ex f amt(1)
    by (simp add: refund_booked_def repo_InsertRefund_def lookup_order_def frozen_part_apply_cmd
        apply_cmd_Amounts moved_Amounts refund_next_def int64_simps)
qed

lemma Refund_outcome:
  assumes "repo_ok r"
  shows "wp (RefundOrder d ident i cmd) (\<lambda>res r'. case res of
      Inr refund \<Rightarrow> \<exists>o'. refund_booked r o' refund r'
    | Inl e \<Rightarrow> r' = r \<or> (\<exists>o' amount. refund_request r o' amount \<and> opened r o' r')) r"
proof (rule wp_RefundOrder)
  show "repo_wf r" using assms by (simp add: repo_ok_def)
  fix o' amount tnow r1 o1 now and refund :: Refund
  assume req: "refund_request r o' amount"
    and r1: "r1 = snd (repo_Transition (dp_marshal_Event d) tnow (refunding_cmd o') r)"
    and o1: "o1 = o'\<lparr>ord_Version := ord_Version o' + 1, ord_Status := StatusRefunding\<rparr>"
    and rf: "rf_Amount refund = amount" "rf_OrderID refund = ord_OrderID o'"
      "rf_TenantID refund = ord_TenantID o'"
  have op1: "opened r o' r1" unfolding r1 by (rule refunding_opens(1) [OF req])
  have "order_ok o'" using assms req by (simp add: repo_ok_def refund_request_def)
  show "wp (refund_settle d ident o1 (refund_next o' amount) amount refund now) (\<lambda>res r'. case res of
      Inr refund \<Rightarrow> \<exists>o'. refund_booked r o' refund r'
    | Inl e \<Rightarrow> r' = r \<or> (\<exists>o' amount. refund_request r o' amount \<and> opened r o' r')) r1"
  proof (rule wp_refund_settle [OF req op1 o1 rf], goal_cases)
    case (1 e)
    then show ?case using req op1 by auto
  next
    case (2 tnow r2 ev refund u)
    then show ?case
      using refund_books [OF \<open>order_ok o'\<close> _ 2(1) o1 2(4,5) HOL.refl] req by auto
  qed
qed simp

section \<open>Properties\<close>

text \<open>
  C32: on consistent amounts whose product does not overflow, a refund of at most the payable amount
  is split exactly: the ledger part is the proportional share rounded down, both parts are
  non-negative, they add up to the refund, and neither exceeds what was paid that way.
\<close>

theorem refund_split_exact:
  assumes "Validate (ord_Amounts o') = None" "0 < sint amount"
    "sint amount \<le> sint (amt_Payable (ord_Amounts o'))"
    "sint (amt_LedgerPay (ord_Amounts o')) * sint amount < 2 ^ 63"
    "splitRefund o' amount = (l, c)"
  shows "sint l = sint (amt_LedgerPay (ord_Amounts o')) * sint amount div sint (amt_Payable (ord_Amounts o')) \<and>
    sint l + sint c = sint amount \<and> 0 \<le> sint l \<and> 0 \<le> sint c \<and>
    sint l \<le> sint (amt_LedgerPay (ord_Amounts o')) \<and> sint c \<le> sint (amt_ChannelPay (ord_Amounts o'))"
  using splitRefund_exact [OF assms] by simp

theorem refund_split_exact_witness: "splitRefund sample_order 100 = (16, 84) \<and> sint (16 :: int64) = 30 * 100 div 180"
proof -
  have s: "splitRefund sample_order 100 = (16, 84)"
    by (simp add: splitRefund_def sample_order_def Let_def go_div_def word_sless_alt word_sle_eq
        signed_divide_int_def)
  have "Validate (ord_Amounts sample_order) = None"
    by (simp add: Validate_None_iff sample_order_def)
  from refund_split_exact [OF this _ _ _ s] s show ?thesis by (simp add: sample_order_def)
qed

lemma lines_by_id_foldl:
  "foldl (\<lambda>m l. m(ln_LineID l \<mapsto> l)) m ls i = Some l \<Longrightarrow> (l \<in> set ls \<and> ln_LineID l = i) \<or> m i = Some l"
proof (induction ls arbitrary: m)
  case (Cons a ls)
  from Cons.IH [of "m(ln_LineID a \<mapsto> a)"] Cons.prems show ?case by (auto split: if_splits)
qed simp

lemma lines_by_id_range: "lines_by_id ls i = Some l \<Longrightarrow> l \<in> set ls \<and> ln_LineID l = i"
  using lines_by_id_foldl [of Map.empty ls i l] by (simp add: lines_by_id_def)

lemma refund_lines_sum_ok:
  "refund_lines_sum (lines_by_id ls) acc lrs = Inr tot \<Longrightarrow> lr \<in> set lrs \<Longrightarrow>
     0 <s lf_Amount lr \<and> (\<exists>l \<in> set ls. ln_LineID l = lf_LineID lr \<and> lf_Amount lr \<le>s ln_PayableAmount l)"
  by (induction "lines_by_id ls" acc lrs rule: refund_lines_sum.induct)
    (auto simp: int64_simps dest!: lines_by_id_range split: if_splits option.splits)

text \<open>
  C33: the amount a refund request resolves to is positive and at most what is left to refund,
  whether it is stated, left open or given by lines; every line of the request is a line of the
  order and asks for at most what that line cost.
\<close>

theorem refund_amount_resolved:
  assumes "resolveRefundLines o' cmd = Inr (lines, amount)"
  shows "0 <s amount \<and> amount \<le>s RefundableAmount o' \<and> lines = rc_Lines cmd \<and>
    (\<forall>lr \<in> set lines. 0 <s lf_Amount lr \<and>
      (\<exists>l \<in> set (ord_Lines o'). ln_LineID l = lf_LineID lr \<and> lf_Amount lr \<le>s ln_PayableAmount l))"
proof -
  have "\<exists>tot. refund_lines_sum (lines_by_id (ord_Lines o')) 0 (rc_Lines cmd) = Inr tot" if "rc_Lines cmd \<noteq> []"
    using assms that by (auto simp: resolveRefundLines_def split: sum.splits)
  then show ?thesis
    using resolveRefundLines_bounds [OF assms] refund_lines_sum_ok [of "ord_Lines o'" 0 "rc_Lines cmd"]
    by (cases "rc_Lines cmd = []") auto
qed

definition sample_paid :: Order where
  "sample_paid = sample_order\<lparr>ord_Status := StatusPaid,
     ord_Amounts := (ord_Amounts sample_order)\<lparr>amt_Paid := 180\<rparr>\<rparr>"

theorem refund_amount_resolved_witness:
  "(90 :: int64) \<le>s RefundableAmount sample_paid"
proof -
  have "resolveRefundLines sample_paid
      \<lparr>rc_Amount = 0, rc_Reason = '''', rc_Lines = [\<lparr>lf_LineID = ''a'', lf_Amount = 90\<rparr>]\<rparr> =
    Inr ([\<lparr>lf_LineID = ''a'', lf_Amount = 90\<rparr>], 90)"
    by (simp add: resolveRefundLines_def sample_paid_def sample_order_def sample_line_def
        lines_by_id_def RefundableAmount_def word_sless_alt word_sle_eq)
  from refund_amount_resolved [OF this] show ?thesis by simp
qed

end
