(* ===== verification/Cancel_Service.thy ===== *)
theory Cancel_Service
  imports Repo_Invariants
begin

text \<open>
  \<open>src/internal/application/query_cancel.go\<close>: the queries, the cancellation of an order that has
  not been paid, with the release of what it holds, and the worker that cancels expired orders.
\<close>

section \<open>Definitions: queries\<close>

definition Get :: "'x Deps \<Rightarrow> Identity \<Rightarrow> string \<Rightarrow> ('x World, Order res) state" where
  "Get d ident orderID =
     tryE (FindByID d (id_TenantID ident) orderID) (\<lambda>o'.
       if ord_BuyerUserID o' \<noteq> id_UserID ident then fail (Sentinel ErrOrderNotFound) else ok o')"

definition GetInternal :: "'x Deps \<Rightarrow> string \<Rightarrow> string \<Rightarrow> ('x World, Order res) state" where
  "GetInternal d tenantID orderID = FindByID d tenantID orderID"

definition page_limit :: "int \<Rightarrow> int" where
  "page_limit limit = (if limit \<le> 0 \<or> 100 < limit then 20 else limit)"

definition List ::
  "'x Deps \<Rightarrow> Identity \<Rightarrow> string \<Rightarrow> string \<Rightarrow> string \<Rightarrow> int \<Rightarrow> ('x World, (Order list \<times> string) res) state" where
  "List d ident status scene cursor limit =
     (if status \<noteq> '''' \<and> ParseStatus status = None then fail (Wrapped ErrInvalidArgument ''status'')
      else do {
        seed \<leftarrow> ext_op (dp_range d);
        page \<leftarrow> repo_get (repo_ListByBuyer seed (id_TenantID ident) (id_UserID ident)
          (if status = '''' then None else ParseStatus status) scene cursor (page_limit limit));
        ok page })"

definition AdminList ::
  "'x Deps \<Rightarrow> AdminListFilter \<Rightarrow> ('x World, (Order list \<times> string) res) state" where
  "AdminList d f0 =
     (let f = f0\<lparr>af_Limit := page_limit (af_Limit f0)\<rparr> in
      if af_Status f \<noteq> '''' \<and> ParseStatus (af_Status f) = None
      then fail (Wrapped ErrInvalidArgument ''status'')
      else do {
        seed \<leftarrow> ext_op (dp_range d);
        page \<leftarrow> repo_get (repo_AdminList seed f);
        ok page })"

record AdminStatsResult =
  as_Orders :: "string \<rightharpoonup> int64"
  as_Compensations :: "string \<rightharpoonup> int64"
  as_UnpublishedEvents :: int64

definition AdminStats :: "'x Deps \<Rightarrow> string \<Rightarrow> ('x World, AdminStatsResult res) state" where
  "AdminStats d tenantID = do {
     seed \<leftarrow> ext_op (dp_range d);
     orders \<leftarrow> repo_get (repo_CountOrdersByStatus seed tenantID);
     comps \<leftarrow> repo_get repo_CountCompensationsByStatus;
     n \<leftarrow> repo_get repo_CountUnpublishedEvents;
     ok \<lparr>as_Orders = orders, as_Compensations = comps, as_UnpublishedEvents = n\<rparr> }"

definition ListOutbox :: "'x Deps \<Rightarrow> int \<Rightarrow> ('x World, outbox_view res) state" where
  "ListOutbox d limit = do {
     v \<leftarrow> repo_get (repo_ListUnpublishedEvents (if limit \<le> 0 \<or> 200 < limit then 50 else limit));
     ok v }"

section \<open>Definitions: cancellation\<close>

definition cancel_cmd :: "Order \<Rightarrow> string \<Rightarrow> time \<Rightarrow> string \<Rightarrow> TransitionCmd" where
  "cancel_cmd o' traceID now eventID =
     (TransitionCmd_of (ord_TenantID o') (ord_OrderID o') [StatusPendingPay] StatusCancelled
        (ord_Version o'))
       \<lparr>tc_CancelledAt := Some now,
        tc_Event := Some (NewEvent eventID EventCancelled (ord_TenantID o') traceID now
          (OrderEventData o'))\<rparr>"

text \<open>A release whose failure is noted as a compensation ticket.\<close>

definition release_or_ticket ::
  "'x Deps \<Rightarrow> ('x, unit res) state \<Rightarrow> CompensationTicket \<Rightarrow> ('x World, unit) state" where
  "release_or_ticket d m t = do {
     r \<leftarrow> ext_op m;
     (case r of
        Inr _ \<Rightarrow> State_Monad.return ()
      | Inl e \<Rightarrow> ignore (InsertCompensation d t)) }"

definition cancel_release :: "'x Deps \<Rightarrow> Order \<Rightarrow> ('x World, unit) state" where
  "cancel_release d u = do {
     _ \<leftarrow> (if HasOfferReservation u
       then release_or_ticket d
              (oc_Release (dp_offer d) (ord_TenantID u) (pr_ReservationID (ord_Promotion u))
                 (ord_OrderID u) (''order:'' @ ord_OrderID u @ '':release''))
              (CompensationTicket_of ''offer_release'' (ord_TenantID u)
                 (pr_ReservationID (ord_Promotion u)) (ord_OrderID u))
       else State_Monad.return ());
     _ \<leftarrow> (if HasLedgerFreeze u
       then release_or_ticket d
              (lc_Release (dp_ledger d) (lr_FreezeID (ord_Ledger u))
                 (''order:release:'' @ ord_OrderID u))
              (CompensationTicket_of ''ledger_release'' (ord_TenantID u)
                 (lr_FreezeID (ord_Ledger u)) (ord_OrderID u))
       else State_Monad.return ());
     _ \<leftarrow> (case dp_fulfill d (ord_Scene u) of
         None \<Rightarrow> State_Monad.return ()
       | Some adapter \<Rightarrow> release_or_ticket d (fa_Release adapter u)
           (CompensationTicket_of ''fulfill_release'' (ord_TenantID u) (ord_OrderID u) (ord_Scene u)));
     (case dp_pay d of
        None \<Rightarrow> State_Monad.return ()
      | Some pay \<Rightarrow>
          if py_PaymentIntentID (ord_Payment u) = '''' then State_Monad.return ()
          else ignore (ext_op (pa_CloseIntent pay (py_PaymentIntentID (ord_Payment u))))) }"

definition cancel :: "'x Deps \<Rightarrow> Order \<Rightarrow> string \<Rightarrow> ('x World, Order res) state" where
  "cancel d o' traceID =
     (if ord_Status o' \<noteq> StatusPendingPay
      then (if ord_Status o' = StatusPaid \<or> ord_Status o' = StatusFulfilling
               \<or> ord_Status o' = StatusCompleted
            then fail (Sentinel ErrAlreadyPaid) else fail (Sentinel ErrStatusNotAllowed))
      else do {
        now \<leftarrow> ext_op (dp_clock d);
        eventID \<leftarrow> ext_op (ig_EventID (dp_ids d));
        r \<leftarrow> Transition d (cancel_cmd o' traceID now eventID);
        (case r of
           Inl err \<Rightarrow>
             if errors_Is err ErrVersionConflict
             then do {
               cur \<leftarrow> FindByID d (ord_TenantID o') (ord_OrderID o');
               (case cur of
                  Inl e \<Rightarrow> fail err
                | Inr c \<Rightarrow>
                    if ord_Status c = StatusPaid then fail (Sentinel ErrAlreadyPaid)
                    else if ord_Status c = StatusCancelled then ok c
                    else fail err) }
             else fail err
         | Inr updated \<Rightarrow> do {
             _ \<leftarrow> cancel_release d updated;
             ok updated }) })"

definition Cancel :: "'x Deps \<Rightarrow> Identity \<Rightarrow> string \<Rightarrow> ('x World, Order res) state" where
  "Cancel d ident orderID =
     tryE (FindByID d (id_TenantID ident) orderID) (\<lambda>o'.
       if id_UserID ident \<noteq> '''' \<and> ord_BuyerUserID o' \<noteq> id_UserID ident
       then fail (Sentinel ErrOrderNotFound)
       else cancel d o' (id_TraceID ident))"

definition CancelExpired :: "'x Deps \<Rightarrow> Order \<Rightarrow> ('x World, unit res) state" where
  "CancelExpired d o' = do {
     r \<leftarrow> cancel d o' ''timeout-worker'';
     (case r of
        Inr _ \<Rightarrow> ok ()
      | Inl err \<Rightarrow> if errors_Is err ErrAlreadyPaid \<or> errors_Is err ErrStatusNotAllowed
                    then ok () else fail err) }"

section \<open>Definitions: the timeout worker\<close>

definition timeout_batch :: int where "timeout_batch = 200"

primrec timeout_loop :: "'x Deps \<Rightarrow> int \<Rightarrow> Order list \<Rightarrow> ('x World, int) state" where
  "timeout_loop d n [] = State_Monad.return n"
| "timeout_loop d n (o' # os) = do {
     r \<leftarrow> CancelExpired d o';
     timeout_loop d (case r of Inl e \<Rightarrow> n | Inr _ \<Rightarrow> n + 1) os }"

definition TimeoutTick :: "'x Deps \<Rightarrow> ('x World, int res) state" where
  "TimeoutTick d = do {
     now \<leftarrow> ext_op (dp_clock d);
     seed \<leftarrow> ext_op (dp_range d);
     os \<leftarrow> repo_get (repo_ListExpiredPending seed now timeout_batch);
     n \<leftarrow> timeout_loop d 0 os;
     ok n }"

section \<open>Lemmas: what cancellation keeps\<close>

lemma legit_cancel_cmd: "legit_cmd r (cancel_cmd o' tr now i)"
  by (rule legit_plain) (simp_all add: cancel_cmd_def)

context repo_contract
begin

lemma keeps_cancel_release: "P r \<Longrightarrow> wp (cancel_release d u) (\<lambda>_. P) r"
  unfolding cancel_release_def release_or_ticket_def by (intro wp_intros keeps_repo)

lemma keeps_cancel: "P r \<Longrightarrow> wp (cancel d o' tr) (\<lambda>_. P) r"
  unfolding cancel_def
  by (intro wp_intros keeps_repo legit_cancel_cmd keeps_cancel_release [THEN wp_mono])

lemma keeps_Cancel: "P r \<Longrightarrow> wp (Cancel d ident i) (\<lambda>_. P) r"
  unfolding Cancel_def by (intro wp_intros conjI allI impI keeps_cancel)

lemma keeps_CancelExpired: "P r \<Longrightarrow> wp (CancelExpired d o') (\<lambda>_. P) r"
  unfolding CancelExpired_def by (intro wp_intros keeps_cancel [THEN wp_mono])

lemma keeps_timeout_loop: "P r \<Longrightarrow> wp (timeout_loop d n os) (\<lambda>_. P) r"
proof (induction os arbitrary: n r)
  case (Cons o' os)
  then show ?case
    unfolding timeout_loop.simps by (intro wp_bind keeps_CancelExpired [THEN wp_mono])
qed (simp add: wp_return)

lemma keeps_TimeoutTick: "P r \<Longrightarrow> wp (TimeoutTick d) (\<lambda>_. P) r"
  unfolding TimeoutTick_def by (intro wp_intros keeps_timeout_loop [THEN wp_mono])

end

section \<open>Lemmas: which releases fail\<close>

text \<open>
  The releases of a cancelled order as a list: each call on the external systems, with the ticket that
  notes its failure. \<open>failures\<close> makes the calls, and gives the tickets of those that fail: it
  says on the external state alone what the cancellation has to note.
\<close>

type_synonym 'x release = "('x, unit res) state \<times> CompensationTicket"

definition releases :: "'x Deps \<Rightarrow> Order \<Rightarrow> 'x release list" where
  "releases d u =
     (if HasOfferReservation u
      then [(oc_Release (dp_offer d) (ord_TenantID u) (pr_ReservationID (ord_Promotion u)) (ord_OrderID u)
               (''order:'' @ ord_OrderID u @ '':release''),
             CompensationTicket_of ''offer_release'' (ord_TenantID u) (pr_ReservationID (ord_Promotion u)) (ord_OrderID u))]
      else []) @
     (if HasLedgerFreeze u
      then [(lc_Release (dp_ledger d) (lr_FreezeID (ord_Ledger u)) (''order:release:'' @ ord_OrderID u),
             CompensationTicket_of ''ledger_release'' (ord_TenantID u) (lr_FreezeID (ord_Ledger u)) (ord_OrderID u))]
      else []) @
     (case dp_fulfill d (ord_Scene u) of
        None \<Rightarrow> []
      | Some adapter \<Rightarrow> [(fa_Release adapter u,
          CompensationTicket_of ''fulfill_release'' (ord_TenantID u) (ord_OrderID u) (ord_Scene u))])"

text \<open>The time of day is read for each ticket.\<close>

primrec failures :: "'x Deps \<Rightarrow> 'x release list \<Rightarrow> 'x \<Rightarrow> CompensationTicket list" where
  "failures d [] x = []"
| "failures d (p # ps) x =
     (case run_state (fst p) x of
        (Inr _, x1) \<Rightarrow> failures d ps x1
      | (Inl e, x1) \<Rightarrow> snd p # failures d ps (snd (run_state (dp_time_Now d) x1)))"

text \<open>The ticket of a failure as it is stored.\<close>

definition noted_as :: "CompensationTicket \<Rightarrow> CompensationTicket \<Rightarrow> bool" where
  "noted_as t t' \<longleftrightarrow> ticket_open t' \<and> tk_Kind t' = tk_Kind t \<and> tk_TenantID t' = tk_TenantID t \<and>
     tk_Ref t' = tk_Ref t \<and> tk_Payload t' = tk_Payload t"

primrec release_all :: "'x Deps \<Rightarrow> 'x release list \<Rightarrow> ('x World, unit) state" where
  "release_all d [] = State_Monad.return ()"
| "release_all d (p # ps) = do { _ \<leftarrow> release_or_ticket d (fst p) (snd p); release_all d ps }"

lemma release_all_append: "release_all d (ps @ qs) = State_Monad.bind (release_all d ps) (\<lambda>_. release_all d qs)"
  by (induction ps) simp_all

lemma cancel_release_plan:
  "cancel_release d u = State_Monad.bind (release_all d (releases d u)) (\<lambda>_.
     case dp_pay d of
       None \<Rightarrow> State_Monad.return ()
     | Some pay \<Rightarrow>
         if py_PaymentIntentID (ord_Payment u) = '''' then State_Monad.return ()
         else ignore (ext_op (pa_CloseIntent pay (py_PaymentIntentID (ord_Payment u)))))"
  unfolding cancel_release_def releases_def release_all_append
  by (cases "dp_fulfill d (ord_Scene u)") simp_all

lemma ticket_noted:
  "tk_Status t \<in> {'''', ''pending''} \<Longrightarrow>
   \<exists>t'. tickets (snd (repo_InsertCompensation tnow t r)) = tickets r @ [t'] \<and> noted_as t t'"
  by (auto simp: repo_InsertCompensation_def Let_def noted_as_def ticket_open_def)

lemma release_all_tickets:
  assumes "\<forall>p \<in> set ps. tk_Status (snd p) \<in> {'''', ''pending''}"
    and "run_state (release_all d ps) w = (u, w')"
  shows "\<exists>ts. tickets (w_repo w') = tickets (w_repo w) @ ts \<and> list_all2 noted_as (failures d ps (w_ext w)) ts"
  using assms
proof (induction ps arbitrary: w)
  case (Cons p ps)
  obtain res x1 where m: "run_state (fst p) (w_ext w) = (res, x1)" by (cases "run_state (fst p) (w_ext w)")
  show ?case
  proof (cases res)
    case (Inr a)
    then have "run_state (release_all d ps) (w\<lparr>w_ext := x1\<rparr>) = (u, w')"
      using Cons.prems(2) m by (simp add: release_or_ticket_def ext_op_def)
    from Cons.IH [OF _ this] Cons.prems(1) show ?thesis by (simp add: m Inr)
  next
    case (Inl e)
    obtain tnow x2 where t: "run_state (dp_time_Now d) x1 = (tnow, x2)" by (cases "run_state (dp_time_Now d) x1")
    let ?r = "snd (repo_InsertCompensation tnow (snd p) (w_repo w))"
    have "run_state (release_all d ps) (w\<lparr>w_ext := x2, w_repo := ?r\<rparr>) = (u, w')"
      using Cons.prems(2) m t Inl
      by (simp add: release_or_ticket_def ext_op_def ignore_def InsertCompensation_def repo_op_def split: prod.splits)
    then obtain ts where ts: "tickets (w_repo w') = tickets ?r @ ts" "list_all2 noted_as (failures d ps x2) ts"
      using Cons.IH Cons.prems(1) by fastforce
    obtain t' where "tickets ?r = tickets (w_repo w) @ [t']" "noted_as (snd p) t'"
      using Cons.prems(1) ticket_noted [of "snd p" tnow "w_repo w"] by auto
    with ts show ?thesis by (intro exI [of _ "t' # ts"]) (simp add: m t Inl)
  qed
qed simp

lemma releases_tickets: "\<forall>p \<in> set (releases d u). tk_Status (snd p) \<in> {'''', ''pending''}"
  by (auto simp: releases_def CompensationTicket_of_def split: option.splits)

lemma cancel_release_tickets:
  assumes "run_state (cancel_release d u) w = (v, w')"
  shows "\<exists>ts. tickets (w_repo w') = tickets (w_repo w) @ ts \<and>
    list_all2 noted_as (failures d (releases d u) (w_ext w)) ts"
proof -
  obtain w1 where all: "run_state (release_all d (releases d u)) w = ((), w1)"
    by (cases "run_state (release_all d (releases d u)) w") simp
  have "w_repo w' = w_repo w1"
    using assms by (auto simp: cancel_release_plan all ignore_def ext_op_def split: option.splits if_splits prod.splits)
  with release_all_tickets [OF releases_tickets all] show ?thesis by simp
qed

section \<open>Lemmas: the outcome of a cancellation\<close>

text \<open>
  \<open>cancelled_from o' s\<close>: the order \<open>s\<close> is \<open>o'\<close> after its cancellation, one version later; but for the
  times nothing else has changed. \<open>cancelled_in\<close>: this order is stored, its cancellation is
  announced, only open tickets were added, and everything else is as it was.
\<close>

definition cancelled_from :: "Order \<Rightarrow> Order \<Rightarrow> bool" where
  "cancelled_from o' s \<longleftrightarrow> ord_Status s = StatusCancelled \<and> ord_Version s = ord_Version o' + 1 \<and>
     ord_Amounts s = ord_Amounts o' \<and> ord_Promotion s = ord_Promotion o' \<and> body_part s = body_part o'"

abbreviation key_of :: "Order \<Rightarrow> string" where
  "key_of o' \<equiv> order_key (ord_TenantID o') (ord_OrderID o')"

definition cancelled_in :: "(Event \<Rightarrow> bytes) \<Rightarrow> Order \<Rightarrow> OrderRepo \<Rightarrow> Order \<Rightarrow> OrderRepo \<Rightarrow> bool" where
  "cancelled_in m o' r s r' \<longleftrightarrow> repo_wf r' \<and> only_at (key_of o') r r' \<and> stored r' s \<and> cancelled_from o' s \<and>
     (\<exists>ev. events r' = events r @ [outbox_row m ev] \<and> ev_EventType ev = EventCancelled) \<and>
     (\<exists>ts. tickets r' = tickets r @ ts \<and> (\<forall>t \<in> set ts. ticket_open t))"

lemma cancelled_in_ticket:
  "cancelled_in m o' r s r' \<Longrightarrow>
     cancelled_in m o' r s (snd (repo_InsertCompensation tnow (CompensationTicket_of k t rf p) r'))"
  by (auto simp: cancelled_in_def repo_InsertCompensation_def CompensationTicket_of_def Let_def
      ticket_open_def only_at_def lookup_order_def orders_only [of "r'\<lparr>seq := n, tickets := ts\<rparr>" r' for n ts])

lemma cancel_release_in:
  "cancelled_in m o' r s r1 \<Longrightarrow> wp (cancel_release d u) (\<lambda>_. cancelled_in m o' r s) r1"
  unfolding cancel_release_def release_or_ticket_def
  by (intro wp_intros cancelled_in_ticket)

text \<open>The step itself is always accepted.\<close>

lemma cancel_step:
  assumes "repo_wf r" "stored r o'" "ord_Status o' = StatusPendingPay"
  shows "\<exists>u. fst (repo_Transition m tnow (cancel_cmd o' tr now eid) r) = Inr u \<and>
    cancelled_in m o' r u (snd (repo_Transition m tnow (cancel_cmd o' tr now eid) r))"
proof -
  let ?cmd = "cancel_cmd o' tr now eid"
  let ?u = "apply_cmd tnow ?cmd (moved ?cmd o')" and ?r1 = "snd (repo_Transition m tnow ?cmd r)"
  obtain ev where f: "tc_TenantID ?cmd = ord_TenantID o'" "tc_OrderID ?cmd = ord_OrderID o'"
    "tc_From ?cmd = [StatusPendingPay]" "tc_To ?cmd = StatusCancelled"
    "tc_Version ?cmd = ord_Version o'" "tc_PaidAmount ?cmd = None" "tc_RefundedAdd ?cmd = 0"
    "tc_RedemptionID ?cmd = ''''" "tc_PaymentIntentID ?cmd = ''''" "tc_Event ?cmd = Some ev"
    "ev_EventType ev = EventCancelled"
    by (simp add: cancel_cmd_def NewEvent_def)
  have acc: "accepts r ?cmd o'"
    using assms(2,3) f by (simp add: accepts_def stored_def CanTransition_defs)
  have "repo_wf ?r1" by (rule wf.keeps_Transition [OF assms(1) legit_cancel_cmd])
  moreover have "stored ?r1 ?u" using Transition_effect(1) [OF acc, of m tnow] f by (simp add: stored_def)
  moreover have "cancelled_from o' ?u"
    using f by (simp add: cancelled_from_def body_part_apply_cmd apply_cmd_Amounts_same moved_Amounts moved_Version)
  moreover have "only_at (key_of o') r ?r1" using only_at_Transition [of ?cmd r m tnow] f by simp
  ultimately show ?thesis
    using Transition_accepts(1,3) [OF acc, of m tnow] Transition_effect(2) [OF acc, of m tnow] f
    by (auto simp: cancelled_in_def)
qed

lemma cancel_outcome:
  assumes "repo_wf r" "stored r o'" "ord_Status o' = StatusPendingPay"
  shows "wp (cancel d o' tr) (\<lambda>res r'. \<exists>u. res = Inr u \<and> cancelled_in (dp_marshal_Event d) o' r u r') r"
  unfolding cancel_def
  apply (simp only: assms(3) simp_thms if_False)
  apply (intro wp_bind wp_ext_op wp_Transition)
  subgoal for now eid tnow
    using cancel_step [OF assms, of "dp_marshal_Event d" tnow tr now eid]
    by (elim exE conjE) (simp only: sum.case, intro wp_intros cancel_release_in [THEN wp_mono], auto)
  done

text \<open>What a cancellation reads outside before its releases: the clock, an event id and the time of day.\<close>

definition cancel_prefix :: "'x Deps \<Rightarrow> 'x \<Rightarrow> 'x" where
  "cancel_prefix d x = snd (run_state (do {
     _ \<leftarrow> dp_clock d; _ \<leftarrow> ig_EventID (dp_ids d); dp_time_Now d }) x)"

lemma cancel_tickets:
  assumes "repo_wf (w_repo w)" "stored (w_repo w) o'" "ord_Status o' = StatusPendingPay"
    and run: "run_state (cancel d o' tr) w = (res, w')"
  shows "\<exists>u ts. res = Inr u \<and> tickets (w_repo w') = tickets (w_repo w) @ ts \<and>
    list_all2 noted_as (failures d (releases d u) (cancel_prefix d (w_ext w))) ts"
proof -
  obtain now x1 where 1: "run_state (dp_clock d) (w_ext w) = (now, x1)" by (cases "run_state (dp_clock d) (w_ext w)")
  obtain eid x2 where 2: "run_state (ig_EventID (dp_ids d)) x1 = (eid, x2)" by (cases "run_state (ig_EventID (dp_ids d)) x1")
  obtain tnow x3 where 3: "run_state (dp_time_Now d) x2 = (tnow, x3)" by (cases "run_state (dp_time_Now d) x2")
  let ?step = "repo_Transition (dp_marshal_Event d) tnow (cancel_cmd o' tr now eid) (w_repo w)"
  obtain u where u: "fst ?step = Inr u" "cancelled_in (dp_marshal_Event d) o' (w_repo w) u (snd ?step)"
    using cancel_step [OF assms(1-3)] by blast
  obtain v w2 where rel: "run_state (cancel_release d u) (w\<lparr>w_ext := x3, w_repo := snd ?step\<rparr>) = (v, w2)"
    by (cases "run_state (cancel_release d u) (w\<lparr>w_ext := x3, w_repo := snd ?step\<rparr>)")
  have fin: "res = Inr u" "w' = w2"
    using run rel u(1) assms(3)
    by (auto simp: cancel_def ext_op_def 1 2 3 Transition_def repo_op_def split: prod.splits)
  have "tickets (snd ?step) = tickets (w_repo w)"
    using Transition_accepts(3) Transition_rejects
    by (metis snd_conv)
  then show ?thesis
    using cancel_release_tickets [OF rel] fin by (simp add: cancel_prefix_def 1 2 3)
qed

section \<open>Lemmas: the timeout worker\<close>

definition expired :: "time \<Rightarrow> Order \<Rightarrow> bool" where
  "expired now o' \<longleftrightarrow> ord_Status o' = StatusPendingPay \<and> ord_ExpireAt o' \<noteq> 0 \<and> ord_ExpireAt o' < now"

lemma CancelExpired_outcome:
  assumes "repo_wf r" "stored r o'" "ord_Status o' = StatusPendingPay"
  shows "wp (CancelExpired d o') (\<lambda>res r'. (\<exists>u. cancelled_in (dp_marshal_Event d) o' r u r') \<and> res = Inr ()) r"
  unfolding CancelExpired_def
  by (rule wp_bind, rule wp_mono [OF cancel_outcome [OF assms]]) (auto intro!: wp_ok)

text \<open>All orders of the batch are cancelled, and everything else is as it was.\<close>

definition all_cancelled :: "Order list \<Rightarrow> OrderRepo \<Rightarrow> OrderRepo \<Rightarrow> bool" where
  "all_cancelled os r r' \<longleftrightarrow> repo_wf r' \<and> idem r' = idem r \<and> refunds r' = refunds r \<and>
     length (events r') = length (events r) + length os \<and>
     (\<forall>o' \<in> set os. \<exists>s. stored r' s \<and> cancelled_from o' s) \<and>
     (\<forall>x. key_of x \<notin> key_of ` set os \<longrightarrow> stored r' x = stored r x)"

lemma cancelled_key_of: "cancelled_from o' s \<Longrightarrow> key_of s = key_of o'"
  using frozen_part_key [OF body_frozen, of s o'] by (simp add: cancelled_from_def)

lemma cancelled_in_other:
  "cancelled_in m o' r u r1 \<Longrightarrow> key_of x \<noteq> key_of o' \<Longrightarrow> stored r1 x = stored r x"
  by (rule only_at_stored) (simp_all add: cancelled_in_def)

lemma all_cancelled_Cons:
  assumes one: "cancelled_in m o' r u r1" and all: "all_cancelled os r1 r'" and "key_of o' \<notin> key_of ` set os"
  shows "all_cancelled (o' # os) r r'"
proof -
  from one have u: "stored r1 u" "cancelled_from o' u" by (simp_all add: cancelled_in_def)
  then have "stored r' u"
    using all assms(3) cancelled_key_of [OF u(2)] by (simp add: all_cancelled_def)
  moreover have "idem r1 = idem r" "refunds r1 = refunds r" "length (events r1) = Suc (length (events r))"
    using one by (auto simp: cancelled_in_def only_at_def)
  ultimately show ?thesis
    using u all cancelled_in_other [OF one] by (auto simp: all_cancelled_def)
qed

lemma timeout_loop_outcome:
  assumes "repo_wf r" "\<forall>o' \<in> set os. stored r o' \<and> ord_Status o' = StatusPendingPay"
    "distinct (map key_of os)"
  shows "wp (timeout_loop d n os) (\<lambda>m r'. m = n + int (length os) \<and> all_cancelled os r r') r"
  using assms
proof (induction os arbitrary: n r)
  case Nil
  then show ?case by (auto simp: all_cancelled_def intro: wp_return)
next
  case (Cons o' os)
  show ?case
    unfolding timeout_loop.simps
  proof (rule wp_bind, rule wp_mono [OF CancelExpired_outcome], goal_cases)
    case (4 res r1)
    then obtain u where u: "cancelled_in (dp_marshal_Event d) o' r u r1" by blast
    have "\<forall>x \<in> set os. stored r1 x \<and> ord_Status x = StatusPendingPay"
    proof
      fix x assume "x \<in> set os"
      then have "key_of x \<in> key_of ` set os" by (rule imageI)
      moreover have "key_of o' \<notin> key_of ` set os" using Cons.prems(3) by simp
      ultimately have "key_of x \<noteq> key_of o'" by metis
      with \<open>x \<in> set os\<close> Cons.prems(2) show "stored r1 x \<and> ord_Status x = StatusPendingPay"
        using cancelled_in_other [OF u] by simp
    qed
    moreover have "repo_wf r1" using u by (simp add: cancelled_in_def)
    ultimately have "wp (timeout_loop d (n + 1) os)
        (\<lambda>m r'. m = n + 1 + int (length os) \<and> all_cancelled os r1 r') r1"
      using Cons.prems(3) by (intro Cons.IH) simp_all
    then show ?case
      unfolding conjunct2 [OF 4] sum.case
      using all_cancelled_Cons [OF u] Cons.prems(3) by (elim wp_mono) simp
  qed (use Cons.prems in auto)
qed

lemma ListExpiredPending_spec:
  assumes "repo_wf r" "os = repo_ListExpiredPending seed now timeout_batch r"
  shows "\<forall>o' \<in> set os. stored r o' \<and> expired now o'"
    and "distinct (map key_of os)"
    and "length os = min 200 (length (filter (expired now) (map snd (orders r))))"
proof -
  have os: "os = take 200 (filter (expired now) (permute seed (map snd (orders r))))"
    by (simp add: assms(2) repo_ListExpiredPending_def timeout_batch_def collect_upto_all
        expired_def [abs_def])
  show "\<forall>o' \<in> set os. stored r o' \<and> expired now o'"
    using assms(1) by (auto simp: os stored_iff dest: in_set_takeD)
  have "mset (filter (expired now) (permute seed (map snd (orders r)))) =
      mset (filter (expired now) (map snd (orders r)))"
    by (simp add: mset_filter)
  then show "length os = min 200 (length (filter (expired now) (map snd (orders r))))"
    by (metis os length_take min.commute size_mset)
  have "map key_of (map snd (orders r)) = map fst (orders r)"
    using assms(1) by (auto simp: repo_wf_def)
  then have "distinct (map key_of (map snd (orders r)))"
    using assms(1) by (simp add: repo_wf_def del: map_map)
  then have "distinct (map key_of (permute seed (map snd (orders r))))"
    by (metis mset_permute mset_map mset_eq_imp_distinct_iff)
  then show "distinct (map key_of os)"
    by (simp add: os distinct_map_filter take_map [symmetric])
qed

lemma wpD_ext: "wp m Q (w_repo w) \<Longrightarrow> run_state m (w\<lparr>w_ext := x\<rparr>) = (a, w') \<Longrightarrow> Q a (w_repo w')"
  using wpD [where v = w_repo and w = "w\<lparr>w_ext := x\<rparr>"] by simp

lemma TimeoutTick_outcome:
  assumes "repo_wf (w_repo w)" "run_state (dp_clock d) (w_ext w) = (now, x)" "run_state (TimeoutTick d) w = (res, w')"
  shows "\<exists>os. res = Inr (int (length os)) \<and> all_cancelled os (w_repo w) (w_repo w') \<and> distinct (map key_of os) \<and>
    (\<forall>o' \<in> set os. stored (w_repo w) o' \<and> expired now o') \<and>
    length os = min 200 (length (filter (expired now) (map snd (orders (w_repo w)))))"
proof -
  obtain seed x1 where seed: "run_state (dp_range d) x = (seed, x1)" by (cases "run_state (dp_range d) x")
  let ?os = "repo_ListExpiredPending seed now timeout_batch (w_repo w)"
  note os = ListExpiredPending_spec [OF assms(1) HOL.refl, of seed now]
  obtain n w1 where loop: "run_state (timeout_loop d 0 ?os) (w\<lparr>w_ext := x1\<rparr>) = (n, w1)"
    by (cases "run_state (timeout_loop d 0 ?os) (w\<lparr>w_ext := x1\<rparr>)")
  have fin: "res = Inr n" "w' = w1"
    using assms(2,3) seed loop by (auto simp: TimeoutTick_def ext_op_def repo_get_def ok_def split: prod.splits)
  have out: "wp (timeout_loop d 0 ?os) (\<lambda>m r'. m = 0 + int (length ?os) \<and> all_cancelled ?os (w_repo w) r') (w_repo w)"
    using os assms(1) by (intro timeout_loop_outcome) (auto simp: expired_def)
  from wpD_ext [OF out loop] have "n = int (length ?os)" "all_cancelled ?os (w_repo w) (w_repo w1)" by simp_all
  with os fin show ?thesis by (intro exI [of _ ?os]) simp
qed

end
