(* ===== verification/Close_Renew.thy ===== *)
theory Close_Renew
  imports Refund_Service
begin

text \<open>
  Closing a paid order (\<open>src/internal/application/close.go\<close>) and renewing the offer reservation of
  an order that waits for payment (\<open>src/internal/application/renew.go\<close>).
\<close>

section \<open>Definitions: close\<close>

text \<open>The discount is reversed when it was redeemed, and its reservation released otherwise.\<close>

definition close_offer :: "'x Deps \<Rightarrow> Order \<Rightarrow> ('x World, unit res) state" where
  "close_offer d o' =
     (if pr_RedemptionID (ord_Promotion o') \<noteq> '''' \<and> 0 <s amt_Discount (ord_Amounts o')
      then ext_op (oc_Reverse (dp_offer d) (ord_TenantID o') (pr_RedemptionID (ord_Promotion o'))
             (''close:'' @ ord_OrderID o') 0 (''order:'' @ ord_OrderID o' @ '':close-reverse''))
      else if HasOfferReservation o' \<and> pr_RedemptionID (ord_Promotion o') = ''''
      then ext_op (oc_Release (dp_offer d) (ord_TenantID o') (pr_ReservationID (ord_Promotion o'))
             (ord_OrderID o') (''order:'' @ ord_OrderID o' @ '':close-release''))
      else ok ())"

definition close_ledger :: "'x Deps \<Rightarrow> Order \<Rightarrow> ('x World, unit res) state" where
  "close_ledger d o' =
     (let remain = RefundableAmount o' in
      if 0 <s remain \<and> 0 <s amt_LedgerPay (ord_Amounts o')
      then (let (ledgerAmt, channelAmt) = splitRefund o' remain in
            if 0 <s ledgerAmt
            then (let asset = (if lr_AssetCode (ord_Ledger o') = ''''
                        then amt_Currency (ord_Amounts o') else lr_AssetCode (ord_Ledger o'))
                  in ext_op (lc_Credit (dp_ledger d) (ord_TenantID o') (ord_BuyerUserID o') asset
                       ledgerAmt (''order:close:'' @ ord_OrderID o')
                       (''order:capture:'' @ ord_OrderID o')))
            else ok ())
      else ok ())"

definition close_cmd :: "Order \<Rightarrow> string \<Rightarrow> time \<Rightarrow> string \<Rightarrow> TransitionCmd" where
  "close_cmd o' traceID now eventID =
     (TransitionCmd_of (ord_TenantID o') (ord_OrderID o')
        [StatusPaid, StatusFulfilling, StatusCompleted] StatusClosed (ord_Version o'))
       \<lparr>tc_Event := Some (NewEvent eventID EventClosed (ord_TenantID o') traceID now
          (OrderEventData o'))\<rparr>"

definition Close :: "'x Deps \<Rightarrow> Identity \<Rightarrow> string \<Rightarrow> ('x World, Order res) state" where
  "Close d ident orderID =
     tryE (FindByID d (id_TenantID ident) orderID) (\<lambda>o'.
       if id_UserID ident \<noteq> '''' \<and> ord_BuyerUserID o' \<noteq> id_UserID ident
       then fail (Sentinel ErrOrderNotFound)
       else if ord_Status o' = StatusClosed then ok o'
       else (case dp_scenes d (ord_Scene o') of
           None \<Rightarrow> fail (Wrapped ErrSceneNotFound (ord_Scene o'))
         | Some scene \<Rightarrow>
             if \<not> sc_AllowCloseAfterPaid scene
             then fail (Wrapped ErrStatusNotAllowed
                    (''scene '' @ ord_Scene o' @ '' cannot close after paid''))
             else if ord_Status o' \<notin> {StatusPaid, StatusFulfilling, StatusCompleted}
             then fail (Sentinel ErrStatusNotAllowed)
             else tryE (close_offer d o') (\<lambda>_.
                  tryE (close_ledger d o') (\<lambda>_.
                  tryE (case dp_fulfill d (ord_Scene o') of
                          None \<Rightarrow> ok ()
                        | Some adapter \<Rightarrow> ext_op (fa_Release adapter o')) (\<lambda>_. do {
                    now \<leftarrow> ext_op (dp_clock d);
                    eventID \<leftarrow> ext_op (ig_EventID (dp_ids d));
                    Transition d (close_cmd o' (id_TraceID ident) now eventID) })))))"

section \<open>Definitions: renew\<close>

definition renewOne :: "'x Deps \<Rightarrow> Order \<Rightarrow> ('x World, unit res) state" where
  "renewOne d o' =
     (if ord_Status o' \<noteq> StatusPendingPay then fail (Sentinel ErrStatusNotAllowed)
      else if pr_ReservationID (ord_Promotion o') = '''' then ok ()
      else if MaxReservationRenew \<le> ord_RenewCount o'
      then fail (Wrapped ErrStatusNotAllowed ''renew limit'')
      else (let n = ord_RenewCount o' + 1 in
        tryE (ext_op (oc_Renew (dp_offer d) (ord_TenantID o') (pr_ReservationID (ord_Promotion o'))
                (ord_OrderID o') (''order:'' @ ord_OrderID o' @ '':renew:'' @ show_int n)))
          (\<lambda>_. repo_op (repo_BumpRenew (ord_TenantID o') (ord_OrderID o') (ord_RenewCount o')))))"

definition Renew :: "'x Deps \<Rightarrow> Identity \<Rightarrow> string \<Rightarrow> ('x World, Order res) state" where
  "Renew d ident orderID =
     tryE (FindByID d (id_TenantID ident) orderID) (\<lambda>o'.
       if id_UserID ident \<noteq> '''' \<and> ord_BuyerUserID o' \<noteq> id_UserID ident
       then fail (Sentinel ErrOrderNotFound)
       else tryE (renewOne d o') (\<lambda>_. FindByID d (ord_TenantID o') (ord_OrderID o')))"

primrec renew_loop :: "'x Deps \<Rightarrow> int \<Rightarrow> Order list \<Rightarrow> ('x World, int) state" where
  "renew_loop d n [] = State_Monad.return n"
| "renew_loop d n (o' # os) = do {
     r \<leftarrow> renewOne d o';
     renew_loop d (case r of Inl e \<Rightarrow> n | Inr _ \<Rightarrow> n + 1) os }"

definition RenewTick :: "'x Deps \<Rightarrow> ('x World, int res) state" where
  "RenewTick d = do {
     now \<leftarrow> ext_op (dp_clock d);
     seed \<leftarrow> ext_op (dp_range d);
     os \<leftarrow> repo_get (repo_ListPendingPayForRenew seed now (5 * time_Minute) MaxReservationRenew 100);
     n \<leftarrow> renew_loop d 0 os;
     ok n }"

section \<open>Lemmas\<close>

lemma legit_close_cmd: "legit_cmd r (close_cmd o' tr now i)"
  by (rule legit_plain) (simp_all add: close_cmd_def)

lemma wp_close_offer [wp_intros]: "(\<And>res. Q res r) \<Longrightarrow> wp (close_offer d o') Q r"
  unfolding close_offer_def by (intro wp_intros)

lemma wp_close_ledger [wp_intros]: "(\<And>res. Q res r) \<Longrightarrow> wp (close_ledger d o') Q r"
  unfolding close_ledger_def Let_def by (intro wp_intros)

context repo_contract
begin

lemma keeps_Close: "P r \<Longrightarrow> wp (Close d ident i) (\<lambda>_. P) r"
  unfolding Close_def by (intro wp_intros conjI allI impI keeps_repo legit_close_cmd)

lemma keeps_renewOne: "P r \<Longrightarrow> wp (renewOne d o') (\<lambda>_. P) r"
  unfolding renewOne_def Let_def by (intro wp_intros conjI allI impI keeps_repo) simp_all

lemma keeps_Renew: "P r \<Longrightarrow> wp (Renew d ident i) (\<lambda>_. P) r"
  unfolding Renew_def by (intro wp_intros conjI allI impI keeps_renewOne [THEN wp_mono])

lemma keeps_renew_loop: "P r \<Longrightarrow> wp (renew_loop d n os) (\<lambda>_. P) r"
proof (induction os arbitrary: n r)
  case (Cons o' os)
  then show ?case
    unfolding renew_loop.simps by (intro wp_bind keeps_renewOne [THEN wp_mono])
qed (simp add: wp_return)

lemma keeps_RenewTick: "P r \<Longrightarrow> wp (RenewTick d) (\<lambda>_. P) r"
  unfolding RenewTick_def by (intro wp_intros keeps_renew_loop [THEN wp_mono])

end

end
