(* ===== verification/Compensation.thy ===== *)
theory Compensation
  imports Payment_Service Go_Strings
begin

text \<open>
  The compensation worker (\<open>src/internal/application/compensate.go\<close>), which retries what a ticket
  stands for and backs off exponentially, and the reconciliation with OfferHub
  (\<open>src/internal/application/recon.go\<close>), which compares reservations with order statuses and may
  open tickets or fill in a missing redemption.
\<close>

section \<open>Definitions: the compensation worker\<close>

definition maxCompensationAttempts :: int where "maxCompensationAttempts = 20"

definition backoff :: "int \<Rightarrow> duration" where
  "backoff attempts0 =
     (let attempts = (if attempts0 < 1 then 1 else attempts0);
          sec = (if attempts < 7 then 2 ^ nat (attempts - 1) else 60)
      in sec * time_Second)"

definition handle :: "'x Deps \<Rightarrow> CompensationTicket \<Rightarrow> ('x World, unit res) state" where
  "handle d t =
     (if tk_Kind t = ''after_paid'' then RetryAfterPaid d (tk_TenantID t) (tk_Ref t)
      else if tk_Kind t = ''offer_release''
      then ext_op (oc_Release (dp_offer d) (tk_TenantID t) (tk_Ref t) (tk_Payload t)
             (''order:'' @ tk_Payload t @ '':release''))
      else if tk_Kind t = ''ledger_release''
      then ext_op (lc_Release (dp_ledger d) (tk_Ref t) (''order:release:'' @ tk_Payload t))
      else if tk_Kind t = ''fulfill_release''
      then tryE (FindByID d (tk_TenantID t) (tk_Ref t)) (\<lambda>o'.
             case dp_fulfill d (ord_Scene o') of
               None \<Rightarrow> ok ()
             | Some adapter \<Rightarrow> ext_op (fa_Release adapter o'))
      else if tk_Kind t = ''offer_reverse''
      then ext_op (oc_Reverse (dp_offer d) (tk_TenantID t) (tk_Payload t) (tk_Ref t) 0
             (''order:'' @ tk_Ref t @ '':reverse''))
      else ok ())"

primrec compensate_loop :: "'x Deps \<Rightarrow> int \<Rightarrow> CompensationTicket list \<Rightarrow> ('x World, int) state" where
  "compensate_loop d n [] = State_Monad.return n"
| "compensate_loop d n (t # ts) = do {
     r \<leftarrow> handle d t;
     (case r of
        Inl err \<Rightarrow>
          if maxCompensationAttempts \<le> tk_Attempts t
          then do {
            _ \<leftarrow> ignore (repo_op (repo_UpdateCompensation (tk_ID t) ''failed'' (error_text err) None));
            compensate_loop d n ts }
          else do {
            now \<leftarrow> ext_op (dp_clock d);
            _ \<leftarrow> ignore (repo_op (repo_UpdateCompensation (tk_ID t) ''pending'' (error_text err)
                   (Some (now + backoff (tk_Attempts t)))));
            compensate_loop d n ts }
      | Inr _ \<Rightarrow> do {
          _ \<leftarrow> ignore (repo_op (repo_UpdateCompensation (tk_ID t) ''done'' '''' None));
          compensate_loop d (n + 1) ts }) }"

definition CompensateTick :: "'x Deps \<Rightarrow> ('x World, int res) state" where
  "CompensateTick d = do {
     now \<leftarrow> ext_op (dp_clock d);
     ts \<leftarrow> repo_op (repo_ClaimCompensations now 50);
     n \<leftarrow> compensate_loop d 0 ts;
     ok n }"

definition RetryTicket :: "'x Deps \<Rightarrow> int64 \<Rightarrow> ('x World, unit res) state" where
  "RetryTicket d i =
     tryE (repo_get (repo_FindCompensation i)) (\<lambda>t. do {
       r \<leftarrow> handle d t;
       (case r of
          Inl err \<Rightarrow> do {
            now \<leftarrow> ext_op (dp_clock d);
            _ \<leftarrow> ignore (repo_op (repo_UpdateCompensation (tk_ID t) ''pending'' (error_text err)
                   (Some (now + backoff (tk_Attempts t + 1)))));
            fail err }
        | Inr _ \<Rightarrow> repo_op (repo_UpdateCompensation (tk_ID t) ''done'' '''' None)) })"

definition ListTickets ::
  "'x Deps \<Rightarrow> string \<Rightarrow> int \<Rightarrow> ('x World, CompensationTicket list res) state" where
  "ListTickets d status limit = do {
     ts \<leftarrow> repo_get (repo_ListCompensations status
       (if limit \<le> 0 \<or> 200 < limit then 50 else limit));
     ok ts }"

section \<open>Definitions: reconciliation\<close>

record ReconDiff =
  rn_OrderID :: string
  rn_TenantID :: string
  rn_Scene :: string
  rn_OrderStatus :: string
  rn_Kind :: string
  rn_ReservationID :: string
  rn_ReservationStatus :: string
  rn_RedemptionID :: string
  rn_FreezeID :: string
  rn_LedgerPay :: int64
  rn_TicketCreated :: bool
  rn_Message :: string

text \<open>A composite literal with the fields every diff has, its kind and its message.\<close>

definition diff_of :: "Order \<Rightarrow> string \<Rightarrow> string \<Rightarrow> ReconDiff" where
  "diff_of o' kind msg = \<lparr>rn_OrderID = ord_OrderID o', rn_TenantID = ord_TenantID o',
     rn_Scene = ord_Scene o', rn_OrderStatus = Status_String (ord_Status o'), rn_Kind = kind,
     rn_ReservationID = '''', rn_ReservationStatus = '''', rn_RedemptionID = '''',
     rn_FreezeID = '''', rn_LedgerPay = 0, rn_TicketCreated = False, rn_Message = msg\<rparr>"

definition paidLike :: "Status \<Rightarrow> bool" where
  "paidLike st \<longleftrightarrow> st \<in> {StatusPaid, StatusFulfilling, StatusCompleted, StatusCompensating,
     StatusRefunding, StatusRefunded, StatusPartialRefunded}"

definition ensureTicket ::
  "'x Deps \<Rightarrow> string \<Rightarrow> string \<Rightarrow> string \<Rightarrow> string \<Rightarrow> ('x World, bool) state" where
  "ensureTicket d kind tenantID ref payload = do {
     op \<leftarrow> repo_get (repo_HasOpenCompensation kind tenantID ref);
     (if op then State_Monad.return False
      else do {
        r \<leftarrow> InsertCompensation d (CompensationTicket_of kind tenantID ref payload);
        State_Monad.return (case r of Inl e \<Rightarrow> False | Inr _ \<Rightarrow> True) }) }"

definition recon_ticket ::
  "'x Deps \<Rightarrow> bool \<Rightarrow> ReconDiff \<Rightarrow> string \<Rightarrow> string \<Rightarrow> string \<Rightarrow> ('x World, ReconDiff list) state" where
  "recon_ticket d app diff kind ref payload =
     (if \<not> app then State_Monad.return [diff]
      else do {
        b \<leftarrow> ensureTicket d kind (rn_TenantID diff) ref payload;
        State_Monad.return [diff\<lparr>rn_TicketCreated := b\<rparr>] })"

definition recon_backfill :: "'x Deps \<Rightarrow> bool \<Rightarrow> Order \<Rightarrow> ReconDiff \<Rightarrow> ('x World, ReconDiff list) state" where
  "recon_backfill d app o' diff =
     (if \<not> app then State_Monad.return [diff]
      else do {
        r \<leftarrow> ext_op (oc_Commit (dp_offer d) (ord_TenantID o') (pr_ReservationID (ord_Promotion o'))
          (ord_OrderID o') (''order:'' @ ord_OrderID o' @ '':commit''));
        (case r of
           Inr rid \<Rightarrow>
             if rid \<noteq> ''''
             then do {
               _ \<leftarrow> ignore (repo_op (repo_UpdateRedemption (ord_TenantID o') (ord_OrderID o') rid));
               State_Monad.return [diff\<lparr>rn_RedemptionID := rid,
                 rn_Message := utf8 ''e5b7b2e59b9ee5a1ab'' @ '' redemption_id''\<rparr>] }
             else State_Monad.return [diff]
         | Inl e \<Rightarrow> do {
             b \<leftarrow> ensureTicket d ''after_paid'' (ord_TenantID o') (ord_OrderID o')
               (pr_ReservationID (ord_Promotion o'));
             State_Monad.return [diff\<lparr>rn_Message := error_text e, rn_TicketCreated := b\<rparr>] }) })"

text \<open>The messages of the diffs, which are in Chinese.\<close>

definition reservation_missing_msg :: string where
  "reservation_missing_msg = utf8 ''e8aea2e58d95e69c89'' @ '' reservation_id'' @ utf8 ''efbc8c'' @
     ''OfferHub '' @ utf8 ''e69fa5e697a0e6ada4e58da0e794a8''"

definition commit_missing_msg :: string where
  "commit_missing_msg = utf8 ''e5b7b2e4bb98e8aea2e58d95e4bc98e683a0e58da0e794a8e4bb8de4b8ba'' @
     '' ACTIVE'' @ utf8 ''efbc8ce5ba94'' @ '' commit''"

definition release_missing_msg :: string where
  "release_missing_msg = utf8 ''e5b7b2e58f96e6b688'' @ ''/'' @
     utf8 ''e585b3e997ade8aea2e58d95e4bc98e683a0e58da0e794a8e4bb8de4b8ba'' @
     '' ACTIVE'' @ utf8 ''efbc8ce5ba94'' @ '' release''"

definition redemption_missing_msg :: string where
  "redemption_missing_msg = utf8 ''e58da0e794a8e5b7b2'' @ '' COMMITTED '' @
     utf8 ''e4bd86e8aea2e58d95e7bcbae5b091'' @ '' redemption_id''"

definition freeze_missing_msg :: string where
  "freeze_missing_msg = utf8 ''e5b7b2e4bb98e8aea2e58d95e8b4a6e69cace98791e9a29d'' @ ''>0 '' @
     utf8 ''e4bd86e7bcbae5b091'' @ '' freeze_id''"

definition checkOffer :: "'x Deps \<Rightarrow> Order \<Rightarrow> bool \<Rightarrow> ('x World, ReconDiff list) state" where
  "checkOffer d o' app = do {
     let rid = pr_ReservationID (ord_Promotion o');
     r \<leftarrow> ext_op (oc_GetReservation (dp_offer d) (ord_TenantID o') rid);
     (case r of
        Inl err \<Rightarrow>
          if errors_Is err ErrOrderNotFound
          then State_Monad.return
            [(diff_of o' ''offer_reservation_missing'' reservation_missing_msg)\<lparr>rn_ReservationID := rid\<rparr>]
          else State_Monad.return
            [(diff_of o' ''offer_lookup_error'' (error_text err))\<lparr>rn_ReservationID := rid\<rparr>]
      | Inr rsv \<Rightarrow>
          (let diff = (\<lambda>kind msg. (diff_of o' kind msg)\<lparr>rn_ReservationID := rid,
                         rn_ReservationStatus := rs_Status rsv\<rparr>) in
           if paidLike (ord_Status o') \<and> rs_Status rsv = OfferReservationActive
           then recon_ticket d app (diff ''offer_commit_missing'' commit_missing_msg) ''after_paid'' (ord_OrderID o') rid
           else if (ord_Status o' = StatusCancelled \<or> ord_Status o' = StatusClosed)
                \<and> rs_Status rsv = OfferReservationActive
           then recon_ticket d app (diff ''offer_release_missing'' release_missing_msg) ''offer_release'' rid
             (ord_OrderID o')
           else if rs_Status rsv = OfferReservationCommitted
                \<and> pr_RedemptionID (ord_Promotion o') = ''''
           then recon_backfill d app o' (diff ''offer_redemption_missing'' redemption_missing_msg)
           else State_Monad.return [])) }"

primrec recon_loop ::
  "'x Deps \<Rightarrow> bool \<Rightarrow> int \<times> ReconDiff list \<Rightarrow> Order list \<Rightarrow> ('x World, int \<times> ReconDiff list) state" where
  "recon_loop d app acc [] = State_Monad.return acc"
| "recon_loop d app acc (o' # os) = do {
     ds \<leftarrow> (if HasOfferReservation o' then checkOffer d o' app else State_Monad.return []);
     let ds' = (if 0 <s amt_LedgerPay (ord_Amounts o') \<and> lr_FreezeID (ord_Ledger o') = ''''
                   \<and> paidLike (ord_Status o')
                then [(diff_of o' ''ledger_freeze_missing'' freeze_missing_msg)
                        \<lparr>rn_LedgerPay := amt_LedgerPay (ord_Amounts o')\<rparr>]
                else []);
     recon_loop d app (fst acc + 1, snd acc @ ds @ ds') os }"

definition ReconRun :: "'x Deps \<Rightarrow> string \<Rightarrow> bool \<Rightarrow> ('x World, (int \<times> ReconDiff list) res) state" where
  "ReconRun d tenantID app = do {
     seed \<leftarrow> ext_op (dp_range d);
     os \<leftarrow> repo_get (repo_ListForReconcile seed tenantID 200);
     out \<leftarrow> recon_loop d app (0, []) os;
     ok out }"

section \<open>Lemmas\<close>

lemma backoff_eq:
  "backoff a = (if a \<le> 1 then 1 else if a < 7 then 2 ^ nat (a - 1) else 60) * time_Second"
  by (auto simp: backoff_def Let_def)

lemma backoff_mono: "a \<le> b \<Longrightarrow> backoff a \<le> backoff b"
proof -
  assume "a \<le> b"
  have pow: "(2 :: int) ^ nat (a - 1) \<le> 60" if "a < 7"
  proof -
    have "nat (a - 1) \<le> 5" using that by simp
    from power_increasing [OF this, of "2 :: int"] show ?thesis by simp
  qed
  have "(2 :: int) ^ nat (a - 1) \<le> 2 ^ nat (b - 1)"
    using \<open>a \<le> b\<close> by (intro power_increasing) auto
  then show ?thesis
    using \<open>a \<le> b\<close> pow
    by (auto simp: backoff_eq time_Second_def intro!: mult_right_mono)
qed

lemma wp_ListTickets [wp_intros]: "(\<And>ts. Q (Inr ts) r) \<Longrightarrow> wp (ListTickets d st lim) Q r"
  unfolding ListTickets_def by (intro wp_intros)

lemma lookup_keyed: "order_key t i = order_key t' i' \<Longrightarrow> lookup_order r t i = lookup_order r t' i'"
  by (simp add: lookup_order_def)

context repo_contract
begin

lemma keeps_handle: "P r \<Longrightarrow> wp (handle d t) (\<lambda>_. P) r"
  unfolding handle_def by (intro wp_intros conjI allI impI keeps_RetryAfterPaid)

lemma keeps_compensate_loop: "P r \<Longrightarrow> wp (compensate_loop d n ts) (\<lambda>_. P) r"
proof (induction ts arbitrary: n r)
  case (Cons t ts)
  show ?case
    unfolding compensate_loop.simps
    by (intro wp_intros keeps_handle [THEN wp_mono] Cons keeps_bookkeeping)
qed (simp add: wp_return)

lemma keeps_CompensateTick: "P r \<Longrightarrow> wp (CompensateTick d) (\<lambda>_. P) r"
  unfolding CompensateTick_def
  by (intro wp_intros keeps_compensate_loop [THEN wp_mono] keeps_bookkeeping)

lemma keeps_RetryTicket: "P r \<Longrightarrow> wp (RetryTicket d i) (\<lambda>_. P) r"
  unfolding RetryTicket_def
  by (intro wp_intros conjI allI impI keeps_handle [THEN wp_mono] keeps_bookkeeping)

lemma keeps_ensureTicket: "P r \<Longrightarrow> wp (ensureTicket d k t rf p) (\<lambda>_. P) r"
  unfolding ensureTicket_def by (intro wp_intros keeps_bookkeeping)

text \<open>
  The loop of the reconciliation works on copies: that the stored orders still hold the reservations of
  the copies is part of what it keeps.
\<close>

lemma keeps_checkOffer:
  assumes "P r" "\<forall>x \<in> set os. held r x" "o' \<in> set os" "HasOfferReservation o'"
  shows "wp (checkOffer d o' app) (\<lambda>_ r'. P r' \<and> (\<forall>x \<in> set os. held r' x)) r"
proof -
  have here: "HasOfferReservation s" if "lookup_order r (ord_TenantID o') (ord_OrderID o') = Some s" for s
    using assms(2-4) that by blast
  have same: "lookup_order (snd (repo_InsertCompensation tnow tk r)) = lookup_order r" for tnow tk
    by (intro ext orders_only(3)) simp
  have ticket: "wp (ensureTicket d k t rf p) (\<lambda>_ r'. P r' \<and> (\<forall>x \<in> set os. held r' x)) r" for k t rf p
    unfolding ensureTicket_def
    by (intro wp_intros conjI keeps_bookkeeping assms(1)) (unfold same, (rule assms(2))+)
  have noted: "P (snd (repo_UpdateRedemption (ord_TenantID o') (ord_OrderID o') rid r)) \<and>
      (\<forall>x \<in> set os. held (snd (repo_UpdateRedemption (ord_TenantID o') (ord_OrderID o') rid r)) x)" if "rid \<noteq> ''''" for rid
  proof
    show "P (snd (repo_UpdateRedemption (ord_TenantID o') (ord_OrderID o') rid r))"
      by (rule keeps_UpdateRedemption [OF assms(1) that here])
    have "lookup_order (snd (repo_UpdateRedemption (ord_TenantID o') (ord_OrderID o') rid r)) t i = Some s \<Longrightarrow>
        \<exists>s0. lookup_order r t i = Some s0 \<and> HasOfferReservation s = HasOfferReservation s0" for t i s
      using lookup_keyed [of t i "ord_TenantID o'" "ord_OrderID o'" r]
      by (auto simp: repo_UpdateRedemption_def lookup_put_order HasOfferReservation_def split: option.splits if_splits)
    then show "\<forall>x \<in> set os. held (snd (repo_UpdateRedemption (ord_TenantID o') (ord_OrderID o') rid r)) x"
      using assms(2) by metis
  qed
  have same: "P r \<and> (\<forall>x \<in> set os. held r x)" using assms(1,2) by blast
  show ?thesis
    unfolding checkOffer_def Let_def recon_ticket_def recon_backfill_def
    by (intro wp_intros ticket [THEN wp_mono] noted same)
qed

lemma keeps_recon_loop:
  "P r \<Longrightarrow> \<forall>x \<in> set os. held r x \<Longrightarrow> wp (recon_loop d app acc os) (\<lambda>_. P) r"
proof (induction os arbitrary: acc r)
  case (Cons o' os)
  have rest: "wp (recon_loop d app acc os) (\<lambda>_. P) r'" if "P r' \<and> (\<forall>x \<in> set (o' # os). held r' x)" for acc r'
    using that by (intro Cons.IH) simp_all
  show ?case
    unfolding recon_loop.simps
    by (intro wp_intros keeps_checkOffer [where os = "o' # os", THEN wp_mono] rest) (use Cons.prems in \<open>blast | simp\<close>)+
qed (simp add: wp_return)

lemma listed_held:
  assumes "P r" "o' \<in> set (repo_ListForReconcile seed t n r)"
  shows "held r o'"
proof -
  have "stored r o'"
    using P_wf [OF assms(1)] assms(2)
    by (cases "n \<le> 0") (auto simp: repo_ListForReconcile_def Let_def stored_iff collect_upto_all dest!: in_set_takeD)
  then show ?thesis by (simp add: stored_def)
qed

lemma keeps_ReconRun: "P r \<Longrightarrow> wp (ReconRun d t app) (\<lambda>_. P) r"
  unfolding ReconRun_def
  by (intro wp_intros keeps_recon_loop [THEN wp_mono] ballI) (blast dest: listed_held)+

end

text \<open>An open ticket is never opened twice, and a created one is open.\<close>

lemma ensureTicket_outcome:
  "wp (ensureTicket d kind t rf p) (\<lambda>b r'.
     repo_HasOpenCompensation kind t rf r' \<and> (b \<longleftrightarrow> \<not> repo_HasOpenCompensation kind t rf r) \<and>
     (\<not> b \<longrightarrow> r' = r) \<and> (b \<longrightarrow> length (tickets r') = length (tickets r) + 1)) r"
  unfolding ensureTicket_def
  by (intro wp_intros)
    (auto simp: repo_HasOpenCompensation_def repo_InsertCompensation_def CompensationTicket_of_def
      Let_def ticket_open_def)

section \<open>Properties\<close>

text \<open>
  C36: reconciliation opens a ticket only when none is open for the same kind, tenant and reference,
  says so truthfully, and leaves an open one behind in every case.
\<close>

theorem ticket_opened_once:
  "wp (ensureTicket d kind t rf p) (\<lambda>b r'.
     repo_HasOpenCompensation kind t rf r' \<and> (b \<longleftrightarrow> \<not> repo_HasOpenCompensation kind t rf r) \<and>
     (if b then length (tickets r') = length (tickets r) + 1 else r' = r)) r"
  by (rule wp_mono [OF ensureTicket_outcome]) auto

text \<open>
  The retry delay lies between one second and one minute, never shrinks with the number of
  attempts, and doubles while it is below the cap.
\<close>

theorem backoff_bounded_and_monotone:
  assumes "a \<le> b"
  shows "time_Second \<le> backoff a \<and> backoff a \<le> backoff b \<and> backoff b \<le> 60 * time_Second \<and>
    (1 \<le> a \<and> a < 6 \<longrightarrow> backoff (a + 1) = 2 * backoff a)"
proof -
  have "backoff 0 \<le> backoff (max 0 a)" by (rule backoff_mono) simp
  moreover have "backoff b \<le> backoff (max b 7)" by (rule backoff_mono) simp
  moreover have "backoff (a + 1) = 2 * backoff a" if "1 \<le> a" "a < 6"
  proof -
    have "nat a = Suc (nat (a - 1))" using that by simp
    then show ?thesis using that by (auto simp: backoff_eq)
  qed
  moreover have "backoff (max 0 a) = backoff a" by (simp add: backoff_eq max_def)
  ultimately show ?thesis using backoff_mono [OF assms] by (auto simp: backoff_eq max_def split: if_splits)
qed

theorem backoff_bounded_and_monotone_witness:
  "backoff 3 = 4 * time_Second \<and> backoff 3 \<le> backoff 20 \<and> backoff 20 \<le> 60 * time_Second"
  using backoff_bounded_and_monotone [of 3 20] by (simp add: backoff_eq)

end
