(* ===== verification/Outbox_Worker.thy ===== *)
theory Outbox_Worker
  imports Repo_Invariants
begin

text \<open>
  The outbox worker of \<open>src/internal/application/payment_refund.go\<close>. The worker reads the events through the slice the
  repository hands out (\<open>outbox_view\<close>), element by element while it marks events as published. With
  at most 200 events the slice is a copy; with more it shares the array that
  \<open>MarkEventPublished\<close> compacts, and the loop reads shifted elements.
\<close>

section \<open>Definitions\<close>

text \<open>One round of the loop; the result says whether the event was published and marked.\<close>

definition publish_row :: "'x Deps \<Rightarrow> OutboxRow \<Rightarrow> ('x World, bool) state" where
  "publish_row d row =
     (case dp_unmarshal_Event d (ob_Payload row) of
        Inl e \<Rightarrow> State_Monad.return False
      | Inr ev \<Rightarrow> do {
          p \<leftarrow> (case dp_publisher d of
              None \<Rightarrow> ok ()
            | Some pub \<Rightarrow> ext_op (ep_Publish pub ev));
          (case p of
             Inl e \<Rightarrow> State_Monad.return False
           | Inr _ \<Rightarrow> do {
               m \<leftarrow> repo_op (repo_MarkEventPublished (ob_EventID row));
               State_Monad.return (case m of Inl e \<Rightarrow> False | Inr _ \<Rightarrow> True) }) })"

text \<open>The loop over the indices \<open>i\<close>, \<open>i + 1\<close>, \<dots> of the slice, \<open>k\<close> of them.\<close>

primrec outbox_loop :: "'x Deps \<Rightarrow> outbox_view \<Rightarrow> int \<Rightarrow> nat \<Rightarrow> nat \<Rightarrow> ('x World, int) state" where
  "outbox_loop d v n i 0 = State_Monad.return n"
| "outbox_loop d v n i (Suc k) = do {
     row \<leftarrow> repo_get (view_nth v i);
     b \<leftarrow> publish_row d row;
     outbox_loop d v (if b then n + 1 else n) (Suc i) k }"

definition OutboxTick :: "'x Deps \<Rightarrow> ('x World, int res) state" where
  "OutboxTick d = do {
     v \<leftarrow> repo_get (repo_ListUnpublishedEvents 200);
     n \<leftarrow> outbox_loop d v 0 0 (view_length v);
     ok n }"

section \<open>Lemmas\<close>

context repo_contract
begin

lemma keeps_publish_row: "P r \<Longrightarrow> wp (publish_row d row) (\<lambda>_. P) r"
  unfolding publish_row_def by (intro wp_intros keeps_bookkeeping)

lemma keeps_outbox_loop: "P r \<Longrightarrow> wp (outbox_loop d v n i k) (\<lambda>_. P) r"
proof (induction k arbitrary: n i r)
  case (Suc k)
  show ?case
    unfolding outbox_loop.simps by (intro wp_intros keeps_publish_row [THEN wp_mono] Suc)
qed (simp add: wp_return)

lemma keeps_OutboxTick: "P r \<Longrightarrow> wp (OutboxTick d) (\<lambda>_. P) r"
  unfolding OutboxTick_def by (intro wp_intros keeps_outbox_loop [THEN wp_mono])

end

section \<open>Lemmas: a tick over a copied slice\<close>

text \<open>A publisher that accepts every event; \<^term>\<open>log\<close> is what it does with it.\<close>

definition accepting :: "(Event \<Rightarrow> 'x \<Rightarrow> 'x) \<Rightarrow> 'x EventPublisher" where
  "accepting log = \<lparr>ep_Publish = (\<lambda>ev. State (\<lambda>x. (Inr (), log ev x)))\<rparr>"

definition marked :: "string \<Rightarrow> OrderRepo \<Rightarrow> OrderRepo" where
  "marked i r = snd (repo_MarkEventPublished i r)"

lemma events_marked: "events (marked i r) = filter (\<lambda>e. ob_EventID e \<noteq> i) (events r)"
  by (simp add: marked_def repo_MarkEventPublished_def Let_def)

lemma array_marked:
  "events (marked i r) @ ev_stale (marked i r) =
     filter (\<lambda>e. ob_EventID e \<noteq> i) (events r) @
       drop (length (filter (\<lambda>e. ob_EventID e \<noteq> i) (events r))) (events r @ ev_stale r)"
  by (simp add: marked_def repo_MarkEventPublished_def Let_def)

lemma publish_row_accepting:
  assumes "dp_publisher d = Some (accepting log)" "dp_unmarshal_Event d (ob_Payload row) = Inr ev"
  shows "run_state (publish_row d row) w =
    (True, \<lparr>w_repo = marked (ob_EventID row) (w_repo w), w_ext = log ev (w_ext w)\<rparr>)"
proof -
  obtain r x where "w = \<lparr>w_repo = r, w_ext = x\<rparr>" by (cases w)
  then show ?thesis
    using assms by (simp add: publish_row_def accepting_def ext_op_def repo_op_def marked_def
        repo_MarkEventPublished_def Let_def)
qed

lemma outbox_loop_copied:
  assumes "dp_publisher d = Some (accepting log)"
    "map (\<lambda>row. dp_unmarshal_Event d (ob_Payload row)) (drop i rows) = map Inr evs"
    "k = length rows - i" "ob_EventID ` set (events (w_repo w)) \<subseteq> ob_EventID ` set (drop i rows)"
    "run_state (outbox_loop d (Copied rows) n i k) w = (m, w')"
  shows "m = n + int (length evs) \<and> events (w_repo w') = [] \<and> w_ext w' = fold log evs (w_ext w)"
  using assms
proof (induction k arbitrary: i n w evs)
  case 0
  then show ?case by auto
next
  case (Suc k)
  then have i: "i < length rows" by simp
  then have dr: "drop i rows = rows ! i # drop (Suc i) rows" by (rule Cons_nth_drop_Suc [symmetric])
  with Suc.prems(2) obtain ev es where ev: "evs = ev # es"
    "dp_unmarshal_Event d (ob_Payload (rows ! i)) = Inr ev"
    "map (\<lambda>row. dp_unmarshal_Event d (ob_Payload row)) (drop (Suc i) rows) = map Inr es"
    by (cases evs) auto
  let ?w = "\<lparr>w_repo = marked (ob_EventID (rows ! i)) (w_repo w), w_ext = log ev (w_ext w)\<rparr>"
  have "run_state (outbox_loop d (Copied rows) (n + 1) (Suc i) k) ?w = (m, w')"
    using Suc.prems(5) publish_row_accepting [OF Suc.prems(1) ev(2), of w]
    by (simp add: repo_get_def)
  moreover have "ob_EventID ` set (events (w_repo ?w)) \<subseteq> ob_EventID ` set (drop (Suc i) rows)"
    using Suc.prems(4) by (auto simp: events_marked dr)
  moreover have "k = length rows - Suc i" using Suc.prems(3) i by simp
  ultimately have "m = n + 1 + int (length es) \<and> events (w_repo w') = [] \<and>
      w_ext w' = fold log es (w_ext ?w)"
    by (intro Suc.IH [OF Suc.prems(1) ev(3)])
  then show ?case by (simp add: ev(1))
qed

lemma OutboxTick_copied:
  assumes "dp_publisher d = Some (accepting log)" "length (events (w_repo w)) \<le> 200"
    "map (\<lambda>row. dp_unmarshal_Event d (ob_Payload row)) (events (w_repo w)) = map Inr evs"
    "run_state (OutboxTick d) w = (res, w')"
  shows "res = Inr (int (length evs)) \<and> events (w_repo w') = [] \<and> w_ext w' = fold log evs (w_ext w)"
proof -
  let ?rows = "events (w_repo w)"
  obtain m w1 where l: "run_state (outbox_loop d (Copied ?rows) 0 0 (length ?rows)) w = (m, w1)"
    by (cases "run_state (outbox_loop d (Copied ?rows) 0 0 (length ?rows)) w")
  have "m = 0 + int (length evs) \<and> events (w_repo w1) = [] \<and> w_ext w1 = fold log evs (w_ext w)"
    using assms(1,3) by (intro outbox_loop_copied [OF _ _ _ _ l]) simp_all
  moreover have "res = Inr m \<and> w' = w1"
    using assms(2,4) l by (simp add: OutboxTick_def repo_get_def repo_ListUnpublishedEvents_def)
  ultimately show ?thesis by simp
qed

section \<open>Lemmas: a tick over a shared slice\<close>

text \<open>
  The oldest event that is left sits in the first cell and in no other: reading from the second
  cell on never meets it.
\<close>

definition parked :: "OutboxRow \<Rightarrow> OrderRepo \<Rightarrow> bool" where
  "parked e r \<longleftrightarrow> events r \<noteq> [] \<and> hd (events r) = e \<and>
     (\<forall>x \<in> set (tl (events r @ ev_stale r)). ob_EventID x \<noteq> ob_EventID e)"

lemma parked_marked:
  assumes "parked e r" "i \<noteq> ob_EventID e"
  shows "parked e (marked i r)"
proof -
  obtain es where es: "events r = e # es" using assms(1) by (cases "events r") (auto simp: parked_def)
  let ?f = "filter (\<lambda>x. ob_EventID x \<noteq> i)"
  have f: "?f (events r) = e # ?f es" using assms(2) by (simp add: es)
  have arr: "events (marked i r) @ ev_stale (marked i r) =
      e # ?f es @ drop (length (?f es)) (es @ ev_stale r)"
    unfolding array_marked f by (simp add: es)
  have "set (?f es @ drop (length (?f es)) (es @ ev_stale r)) \<subseteq> set (es @ ev_stale r)"
    using set_drop_subset [of "length (?f es)" "es @ ev_stale r"] by auto
  then have "\<forall>x \<in> set (tl (events (marked i r) @ ev_stale (marked i r))). ob_EventID x \<noteq> ob_EventID e"
    using assms(1) unfolding arr by (auto simp: parked_def es)
  moreover have "events (marked i r) = e # ?f es" by (simp add: events_marked f)
  ultimately show ?thesis by (simp add: parked_def)
qed

lemma array_length_marked: "length (events (marked i r) @ ev_stale (marked i r)) = length (events r @ ev_stale r)"
  unfolding array_marked by (simp add: le_trans [OF length_filter_le])

lemma publish_row_repo:
  "run_state (publish_row d row) w = (b, w') \<Longrightarrow>
     w_repo w' = w_repo w \<or> w_repo w' = marked (ob_EventID row) (w_repo w)"
  by (auto simp: publish_row_def ext_op_def repo_op_def marked_def split: sum.splits option.splits
      prod.splits)

lemma outbox_loop_parked:
  assumes "parked e (w_repo w)" "0 < i" "i + k \<le> length (events (w_repo w) @ ev_stale (w_repo w))"
    "run_state (outbox_loop d (Shared s) n i k) w = (m, w')"
  shows "parked e (w_repo w')"
  using assms
proof (induction k arbitrary: i n w)
  case (Suc k)
  let ?a = "events (w_repo w) @ ev_stale (w_repo w)"
  have ne: "ob_EventID (?a ! i) \<noteq> ob_EventID e"
  proof -
    have "?a ! i = tl ?a ! (i - 1)" "i - 1 < length (tl ?a)"
      using Suc.prems(2,3) by (simp_all add: nth_tl)
    then show ?thesis using Suc.prems(1) by (metis nth_mem parked_def)
  qed
  obtain b w1 where p: "run_state (publish_row d (?a ! i)) w = (b, w1)"
    by (cases "run_state (publish_row d (?a ! i)) w")
  have "parked e (w_repo w1) \<and> length (events (w_repo w1) @ ev_stale (w_repo w1)) = length ?a"
    using publish_row_repo [OF p] parked_marked [OF Suc.prems(1) ne] Suc.prems(1)
      array_length_marked by auto
  with Suc.IH [of w1 "Suc i"] Suc.prems(3,4) p show ?case by (simp add: repo_get_def)
qed simp

lemma OutboxTick_shared:
  assumes "dp_publisher d = Some (accepting log)" "200 < length (events (w_repo w))"
    "distinct (map ob_EventID (events (w_repo w)))"
    "\<forall>x \<in> set (ev_stale (w_repo w)). ob_EventID x \<noteq> ob_EventID (events (w_repo w) ! 1)"
    "dp_unmarshal_Event d (ob_Payload (events (w_repo w) ! 0)) = Inr ev"
    "run_state (OutboxTick d) w = (res, w')"
  shows "events (w_repo w) ! 1 \<in> set (events (w_repo w'))"
proof -
  obtain e0 e1 es where es: "events (w_repo w) = e0 # e1 # es"
    using assms(2) by (cases "events (w_repo w)" rule: remdups_adj.cases) auto
  let ?r = "marked (ob_EventID e0) (w_repo w)"
  let ?w = "\<lparr>w_repo = ?r, w_ext = log ev (w_ext w)\<rparr>"
  have f: "filter (\<lambda>e. ob_EventID e \<noteq> ob_EventID e0) (events (w_repo w)) = e1 # es"
    using assms(3) by (auto simp: es filter_id_conv image_iff)
  have arr: "events ?r @ ev_stale ?r = (e1 # es) @ drop (length es) (e1 # es) @ ev_stale (w_repo w)"
    unfolding array_marked f using drop_append [of "length es" "e1 # es" "ev_stale (w_repo w)"]
    by (simp add: es)
  have sub: "set (drop (length es) (e1 # es)) \<subseteq> set es"
    using assms(2) set_drop_subset by (cases es) (auto simp: es dest: in_set_dropD)
  have "parked e1 ?r"
    using assms(3,4) subsetD [OF sub] unfolding parked_def arr
    by (auto simp: events_marked f es image_iff) (metis)
  obtain m w1 where l: "run_state (outbox_loop d (Shared 200) 1 1 199) ?w = (m, w1)"
    by (cases "run_state (outbox_loop d (Shared 200) 1 1 199) ?w")
  have "parked e1 (w_repo w1)"
    by (rule outbox_loop_parked [OF _ _ _ l]) (use \<open>parked e1 ?r\<close> assms(2) in \<open>simp_all add: arr es\<close>)
  moreover have "w' = w1"
  proof -
    have step: "run_state (outbox_loop d (Shared 200) 0 0 (Suc k)) w =
        run_state (outbox_loop d (Shared 200) 1 1 k) ?w" for k
      using publish_row_accepting [OF assms(1,5), of w] by (simp add: repo_get_def es)
    have "run_state (outbox_loop d (Shared 200) 0 0 200) w = (m, w1)"
      using step [of 199] l by simp
    then show ?thesis
      using assms(2,6) by (simp add: OutboxTick_def repo_get_def repo_ListUnpublishedEvents_def)
  qed
  ultimately show ?thesis by (auto simp: parked_def es intro: hd_in_set)
qed

end
