(* ===== verification/Ledger_Mock.thy ===== *)
theory Ledger_Mock
  imports Ports
begin

text \<open>
  The in-process LedgerHub of \<open>src/internal/infra/ledgerclient/client.go\<close> (\<open>Mock\<close>), which the
  system runs against when it is configured without a LedgerHub. Each method holds the mutex, so it
  is one function on the state.

  The locale \<open>ledger_laws\<close> states what a client of a ledger relies on: a freeze moves money from the
  account to a new hold, a release moves it back, a capture takes it, and an operation on a hold
  that is not open moves nothing. What follows for a client (freezing and releasing restores the
  account, a hold is settled at most once) is proved inside it, and the mock is an instance.
\<close>

section \<open>Definitions\<close>

record freeze =
  fz_user :: string
  fz_asset :: string
  fz_amount :: int64
  fz_open :: bool

text \<open>\<open>m.seq\<close> is an \<open>int\<close> that only grows from 0, one per freeze; it is a natural number here.\<close>

record LedgerMock =
  lm_seq :: nat
  lm_balance :: "string \<rightharpoonup> int64"
  lm_freezes :: "string \<rightharpoonup> freeze"
  lm_defaultB :: int64

definition ledger_NewMock :: LedgerMock where
  "ledger_NewMock = \<lparr>lm_seq = 0, lm_balance = Map.empty, lm_freezes = Map.empty, lm_defaultB = 100000\<rparr>"

definition ledger_key :: "string \<Rightarrow> string \<Rightarrow> string \<Rightarrow> string" where
  "ledger_key tenant user asset = tenant @ ''|'' @ user @ ''|'' @ asset"

definition lm_GetBalance :: "string \<Rightarrow> string \<Rightarrow> string \<Rightarrow> LedgerMock \<Rightarrow> int64 res \<times> LedgerMock" where
  "lm_GetBalance tenantID userID assetCode m =
     (let k = ledger_key tenantID userID assetCode in
      case lm_balance m k of
        Some v \<Rightarrow> (Inr v, m)
      | None \<Rightarrow> (Inr (lm_defaultB m), m\<lparr>lm_balance := (lm_balance m)(k \<mapsto> lm_defaultB m)\<rparr>))"

definition freeze_id :: "nat \<Rightarrow> string" where
  "freeze_id n = ''fz_'' @ show_nat n"

definition lm_Freeze :: "FreezeRequest \<Rightarrow> LedgerMock \<Rightarrow> string res \<times> LedgerMock" where
  "lm_Freeze req m =
     (let k = ledger_key (fr_TenantID req) (fr_UserID req) (fr_AssetCode req);
          bal = (case lm_balance m k of Some b \<Rightarrow> b | None \<Rightarrow> lm_defaultB m);
          m1 = (case lm_balance m k of Some b \<Rightarrow> m | None \<Rightarrow> m\<lparr>lm_balance := (lm_balance m)(k \<mapsto> bal)\<rparr>)
      in if bal <s fr_Amount req then (Inl (Sentinel ErrLedgerFreeze), m1)
         else let i = freeze_id (lm_seq m1 + 1)
              in (Inr i, m1\<lparr>lm_balance := (lm_balance m1)(k \<mapsto> bal - fr_Amount req),
                   lm_seq := lm_seq m1 + 1,
                   lm_freezes := (lm_freezes m1)(i \<mapsto> \<lparr>fz_user = k, fz_asset = fr_AssetCode req,
                     fz_amount = fr_Amount req, fz_open = True\<rparr>)\<rparr>))"

definition lm_Capture :: "string \<Rightarrow> string \<Rightarrow> LedgerMock \<Rightarrow> unit res \<times> LedgerMock" where
  "lm_Capture freezeID bizNo m =
     (case lm_freezes m freezeID of
        None \<Rightarrow> (Inl (Sentinel ErrLedgerFreeze), m)
      | Some fz \<Rightarrow> (Inr (), m\<lparr>lm_freezes := (lm_freezes m)(freezeID \<mapsto> fz\<lparr>fz_open := False\<rparr>)\<rparr>))"

text \<open>\<open>m.balance[k] += x\<close> reads 0 where the map has no entry.\<close>

definition balance_add :: "string \<Rightarrow> int64 \<Rightarrow> LedgerMock \<Rightarrow> LedgerMock" where
  "balance_add k x m =
     m\<lparr>lm_balance := (lm_balance m)(k \<mapsto> (case lm_balance m k of Some b \<Rightarrow> b | None \<Rightarrow> 0) + x)\<rparr>"

definition lm_Release :: "string \<Rightarrow> string \<Rightarrow> LedgerMock \<Rightarrow> unit res \<times> LedgerMock" where
  "lm_Release freezeID bizNo m =
     (case lm_freezes m freezeID of
        None \<Rightarrow> (Inr (), m)
      | Some fz \<Rightarrow>
          if fz_open fz
          then (let m1 = balance_add (fz_user fz) (fz_amount fz) m
                in (Inr (), m1\<lparr>lm_freezes := (lm_freezes m1)(freezeID \<mapsto> fz\<lparr>fz_open := False\<rparr>)\<rparr>))
          else (Inr (), m))"

definition lm_Credit ::
  "string \<Rightarrow> string \<Rightarrow> string \<Rightarrow> int64 \<Rightarrow> string \<Rightarrow> string \<Rightarrow> LedgerMock \<Rightarrow> unit res \<times> LedgerMock" where
  "lm_Credit tenantID userID assetCode amount bizNo relatedBizNo m =
     (Inr (), balance_add (ledger_key tenantID userID assetCode) amount m)"

section \<open>What a client relies on\<close>

text \<open>
  \<open>avail\<close> is the balance \<open>GetBalance\<close> would report for an account, \<open>hold\<close> the account and the
  amount of a freeze that is open, and \<open>good\<close> the invariant of the ledger.
\<close>

locale ledger_laws =
  fixes good :: "'l \<Rightarrow> bool"
    and avail :: "'l \<Rightarrow> string \<Rightarrow> int64"
    and hold :: "'l \<Rightarrow> string \<Rightarrow> (string \<times> int64) option"
    and Freeze :: "FreezeRequest \<Rightarrow> 'l \<Rightarrow> string res \<times> 'l"
    and Capture Release :: "string \<Rightarrow> string \<Rightarrow> 'l \<Rightarrow> unit res \<times> 'l"
  assumes freeze_ok: "good l \<Longrightarrow> Freeze req l = (Inr i, l') \<Longrightarrow>
      good l' \<and> hold l i = None \<and>
      (\<exists>k. k = ledger_key (fr_TenantID req) (fr_UserID req) (fr_AssetCode req) \<and>
        fr_Amount req \<le>s avail l k \<and>
        hold l' = (hold l)(i \<mapsto> (k, fr_Amount req)) \<and>
        avail l' = (avail l)(k := avail l k - fr_Amount req))"
    and freeze_err: "good l \<Longrightarrow> Freeze req l = (Inl e, l') \<Longrightarrow>
      good l' \<and> hold l' = hold l \<and> avail l' = avail l"
    and release_open: "good l \<Longrightarrow> hold l i = Some (k, a) \<Longrightarrow>
      \<exists>l'. Release i b l = (Inr (), l') \<and> good l' \<and> hold l' = (hold l)(i := None) \<and>
        avail l' = (avail l)(k := avail l k + a)"
    and release_shut: "good l \<Longrightarrow> hold l i = None \<Longrightarrow>
      \<exists>l'. Release i b l = (Inr (), l') \<and> good l' \<and> hold l' = hold l \<and> avail l' = avail l"
    and capture: "good l \<Longrightarrow> Capture i b l = (r, l') \<Longrightarrow>
      good l' \<and> hold l' = (hold l)(i := None) \<and> avail l' = avail l"
begin

text \<open>Undoing a freeze restores the ledger as its clients see it.\<close>

lemma freeze_release:
  assumes "good l" "Freeze req l = (Inr i, l1)" "Release i b l1 = (r, l2)"
  shows "r = Inr ()" "hold l2 = hold l" "avail l2 = avail l" "good l2"
proof -
  let ?k = "ledger_key (fr_TenantID req) (fr_UserID req) (fr_AssetCode req)"
  have f: "good l1" "hold l i = None" "hold l1 = (hold l)(i \<mapsto> (?k, fr_Amount req))"
    "avail l1 = (avail l)(?k := avail l ?k - fr_Amount req)"
    using freeze_ok [OF assms(1,2)] by auto
  then have "hold l1 i = Some (?k, fr_Amount req)" by simp
  with release_open [OF f(1) this, of b] assms(3) show "r = Inr ()" "good l2"
    "hold l2 = hold l" "avail l2 = avail l"
    using f by (auto simp: fun_eq_iff)
qed

text \<open>A captured hold is gone: releasing it afterwards gives nothing back.\<close>

lemma capture_release:
  assumes "good l" "Capture i b l = (r, l1)" "Release i b' l1 = (r', l2)"
  shows "hold l2 = hold l1" "avail l2 = avail l"
proof -
  have "good l1" "hold l1 i = None" "avail l1 = avail l" using capture [OF assms(1,2)] by auto
  with release_shut [of l1 i b'] assms(3) show "hold l2 = hold l1" "avail l2 = avail l" by auto
qed

text \<open>Releasing twice is releasing once.\<close>

lemma release_release:
  assumes "good l" "Release i b l = (r, l1)" "Release i b' l1 = (r', l2)"
  shows "hold l2 = hold l1" "avail l2 = avail l1"
proof -
  have "good l1 \<and> hold l1 i = None"
  proof (cases "hold l i")
    case None
    with release_shut [OF assms(1) None, of b] assms(2) show ?thesis by auto
  next
    case (Some p)
    obtain k a where "p = (k, a)" by (cases p)
    with release_open [OF assms(1), of i k a b] Some assms(2) show ?thesis by auto
  qed
  with release_shut [of l1 i b'] assms(3) show "hold l2 = hold l1" "avail l2 = avail l1" by auto
qed

end

section \<open>The mock is such a ledger\<close>

text \<open>
  Freeze ids are numbered by \<open>m.seq\<close>, so the next one is new; an account with a freeze has an entry,
  since \<open>Release\<close> would otherwise start it from 0 instead of the default balance.
\<close>

definition lm_good :: "LedgerMock \<Rightarrow> bool" where
  "lm_good m \<longleftrightarrow> (\<forall>n > lm_seq m. lm_freezes m (freeze_id n) = None) \<and>
     (\<forall>i fz. lm_freezes m i = Some fz \<longrightarrow> lm_balance m (fz_user fz) \<noteq> None)"

definition lm_avail :: "LedgerMock \<Rightarrow> string \<Rightarrow> int64" where
  "lm_avail m k = (case lm_balance m k of Some b \<Rightarrow> b | None \<Rightarrow> lm_defaultB m)"

definition lm_hold :: "LedgerMock \<Rightarrow> string \<Rightarrow> (string \<times> int64) option" where
  "lm_hold m i = (case lm_freezes m i of
     Some fz \<Rightarrow> if fz_open fz then Some (fz_user fz, fz_amount fz) else None
   | None \<Rightarrow> None)"

lemma freeze_id_inject [simp]: "freeze_id m = freeze_id n \<longleftrightarrow> m = n"
  by (simp add: freeze_id_def)

lemma lm_good_New: "lm_good ledger_NewMock"
  by (simp add: lm_good_def ledger_NewMock_def)

lemma GetBalance_avail:
  "lm_GetBalance t u a m = (r, m') \<Longrightarrow> r = Inr (lm_avail m (ledger_key t u a)) \<and>
     lm_avail m' = lm_avail m \<and> lm_hold m' = lm_hold m"
  by (auto simp: lm_GetBalance_def Let_def lm_avail_def lm_hold_def fun_eq_iff
      split: option.splits if_splits)

lemma GetBalance_good: "lm_good m \<Longrightarrow> lm_good (snd (lm_GetBalance t u a m))"
  by (auto simp: lm_GetBalance_def Let_def lm_good_def split: option.splits)

lemma balance_add_avail:
  "lm_balance m k \<noteq> None \<Longrightarrow> lm_avail (balance_add k x m) = (lm_avail m)(k := lm_avail m k + x)"
  by (auto simp: balance_add_def lm_avail_def fun_eq_iff split: option.split)

interpretation mock_ledger: ledger_laws lm_good lm_avail lm_hold lm_Freeze lm_Capture lm_Release
proof
  fix l req i l' assume g: "lm_good l" and f: "lm_Freeze req l = (Inr i, l')"
  let ?k = "ledger_key (fr_TenantID req) (fr_UserID req) (fr_AssetCode req)"
  have i: "i = freeze_id (lm_seq l + 1)" and n: "\<not> lm_avail l ?k <s fr_Amount req"
    and l': "lm_seq l' = lm_seq l + 1" "lm_defaultB l' = lm_defaultB l"
      "lm_balance l' = (lm_balance l)(?k \<mapsto> lm_avail l ?k - fr_Amount req)"
      "lm_freezes l' = (lm_freezes l)(i \<mapsto> \<lparr>fz_user = ?k, fz_asset = fr_AssetCode req,
         fz_amount = fr_Amount req, fz_open = True\<rparr>)"
    using f by (auto simp: lm_Freeze_def Let_def lm_avail_def fun_upd_twist
        split: option.splits if_splits)
  have none: "lm_freezes l i = None" using g i by (simp add: lm_good_def)
  have "lm_good l'" using g i by (auto simp: lm_good_def l')
  moreover have "lm_hold l' = (lm_hold l)(i \<mapsto> (?k, fr_Amount req))" "lm_hold l i = None"
    using none by (auto simp: lm_hold_def l')
  moreover have "lm_avail l' = (lm_avail l)(?k := lm_avail l ?k - fr_Amount req)"
    by (auto simp: lm_avail_def l' fun_eq_iff split: option.split)
  ultimately show "lm_good l' \<and> lm_hold l i = None \<and>
      (\<exists>k. k = ?k \<and> fr_Amount req \<le>s lm_avail l k \<and>
        lm_hold l' = (lm_hold l)(i \<mapsto> (k, fr_Amount req)) \<and>
        lm_avail l' = (lm_avail l)(k := lm_avail l k - fr_Amount req))"
    using n by (auto simp: int64_simps)
next
  fix l req e l' assume "lm_good l" "lm_Freeze req l = (Inl e, l')"
  then show "lm_good l' \<and> lm_hold l' = lm_hold l \<and> lm_avail l' = lm_avail l"
    by (auto simp: lm_Freeze_def Let_def lm_good_def lm_hold_def lm_avail_def fun_eq_iff
        split: option.splits if_splits)
next
  fix l i k a b assume "lm_good l" "lm_hold l i = Some (k, a)"
  then show "\<exists>l'. lm_Release i b l = (Inr (), l') \<and> lm_good l' \<and> lm_hold l' = (lm_hold l)(i := None) \<and>
      lm_avail l' = (lm_avail l)(k := lm_avail l k + a)"
    by (fastforce simp: lm_Release_def Let_def lm_good_def lm_hold_def lm_avail_def balance_add_def
        fun_eq_iff split: option.splits if_splits)
next
  fix l i b assume "lm_good l" "lm_hold l i = None"
  then show "\<exists>l'. lm_Release i b l = (Inr (), l') \<and> lm_good l' \<and> lm_hold l' = lm_hold l \<and>
      lm_avail l' = lm_avail l"
    by (auto simp: lm_Release_def lm_hold_def split: option.splits if_splits)
next
  fix l i b r l' assume "lm_good l" "lm_Capture i b l = (r, l')"
  then show "lm_good l' \<and> lm_hold l' = (lm_hold l)(i := None) \<and> lm_avail l' = lm_avail l"
    by (auto simp: lm_Capture_def lm_good_def lm_hold_def lm_avail_def fun_eq_iff
        split: option.splits if_splits)
qed

section \<open>Properties\<close>

text \<open>
  A freeze takes exactly the requested amount off the account, never more than is there, and
  holds it under a new id; releasing it puts the account and the holds back as they were. This is
  what the checkout relies on when it rolls back.
\<close>

theorem freeze_then_release_restores:
  assumes "lm_good l" "lm_Freeze req l = (Inr i, l1)" "lm_Release i b l1 = (r, l2)"
  shows "lm_avail l1 = (lm_avail l)(ledger_key (fr_TenantID req) (fr_UserID req) (fr_AssetCode req) :=
      lm_avail l (ledger_key (fr_TenantID req) (fr_UserID req) (fr_AssetCode req)) - fr_Amount req) \<and>
    fr_Amount req \<le>s lm_avail l (ledger_key (fr_TenantID req) (fr_UserID req) (fr_AssetCode req)) \<and>
    lm_hold l i = None \<and> r = Inr () \<and> lm_hold l2 = lm_hold l \<and> lm_avail l2 = lm_avail l \<and> lm_good l2"
  using mock_ledger.freeze_ok [OF assms(1,2)] mock_ledger.freeze_release [OF assms] by auto

definition sample_freeze :: "int64 \<Rightarrow> FreezeRequest" where
  "sample_freeze a = \<lparr>fr_TenantID = ''t1'', fr_UserID = ''u1'', fr_OrderID = ''o1'', fr_AssetCode = ''CNY'',
     fr_Amount = a, fr_BizNo = ''order:freeze:o1''\<rparr>"

lemma sample_freeze_ok:
  "lm_Freeze (sample_freeze 30) ledger_NewMock =
     (Inr (freeze_id 1), snd (lm_Freeze (sample_freeze 30) ledger_NewMock))"
  by (simp add: lm_Freeze_def sample_freeze_def ledger_NewMock_def Let_def word_sless_alt)

theorem freeze_then_release_restores_witness:
  "lm_avail (snd (lm_Release (freeze_id 1) ''b'' (snd (lm_Freeze (sample_freeze 30) ledger_NewMock))))
     (ledger_key ''t1'' ''u1'' ''CNY'') = 100000"
  using freeze_then_release_restores [OF lm_good_New sample_freeze_ok surjective_pairing, of "''b''"]
  by (simp add: lm_avail_def ledger_NewMock_def)

text \<open>
  A hold is settled once. After a capture the money is gone: the account is not credited by the
  capture nor by a release that follows it.
\<close>

theorem captured_hold_is_gone:
  assumes "lm_good l" "lm_Capture i b l = (r, l1)" "lm_Release i b' l1 = (r', l2)"
  shows "lm_hold l1 = (lm_hold l)(i := None) \<and> lm_hold l2 = lm_hold l1 \<and>
    lm_avail l1 = lm_avail l \<and> lm_avail l2 = lm_avail l"
  using mock_ledger.capture [OF assms(1,2)] mock_ledger.capture_release [OF assms] by simp

theorem captured_hold_is_gone_witness:
  "lm_avail (snd (lm_Release (freeze_id 1) ''b'' (snd (lm_Capture (freeze_id 1) ''b''
     (snd (lm_Freeze (sample_freeze 30) ledger_NewMock)))))) (ledger_key ''t1'' ''u1'' ''CNY'') = 99970"
proof -
  let ?l = "snd (lm_Freeze (sample_freeze 30) ledger_NewMock)"
  have "lm_good ?l" using mock_ledger.freeze_ok [OF lm_good_New sample_freeze_ok] by simp
  from captured_hold_is_gone [OF this surjective_pairing surjective_pairing, of "freeze_id 1" "''b''" "''b''"]
  show ?thesis
    by (simp add: lm_avail_def ledger_NewMock_def lm_Freeze_def sample_freeze_def Let_def word_sless_alt)
qed

end
