(* ===== verification/Offer_Mock.thy ===== *)
theory Offer_Mock
  imports Ports
begin

text \<open>
  The in-process OfferHub of \<open>src/internal/infra/offerclient/client.go\<close> (\<open>Mock\<close>), and \<open>mapQuote\<close>, which
  turns the wire format of the real OfferHub into a quote. \<open>time.Now()\<close> is the argument \<^term>\<open>now\<close>.
  A map of pointers is a map of values: no pointer into \<open>resv\<close> leaves the mock, and nobody writes
  through the ones into \<open>quotes\<close> and \<open>redeem\<close> that do.

  The lemmas show the life of a reservation (a released one cannot be committed, committing is
  idempotent), that a redemption is never reversed by more than its discount, and that a quote's
  allocations add up to its discount.
\<close>

section \<open>The mock\<close>

record mockResv =
  mr_quoteID :: string
  mr_orderID :: string
  mr_status :: string
  mr_expires :: time
  mr_redemptionID :: string

record OfferMock =
  om_seq :: nat
  om_quotes :: "string \<rightharpoonup> QuoteResult"
  om_resv :: "string \<rightharpoonup> mockResv"
  om_redeem :: "string \<rightharpoonup> RedemptionResult"
  om_renews :: "string \<Rightarrow> int"

definition offer_NewMock :: OfferMock where
  "offer_NewMock = \<lparr>om_seq = 0, om_quotes = Map.empty, om_resv = Map.empty, om_redeem = Map.empty,
     om_renews = (\<lambda>_. 0)\<rparr>"

fun quote_original :: "OrderLine list \<Rightarrow> int64 \<Rightarrow> int64" where
  "quote_original [] original = original"
| "quote_original (it # items) original =
     quote_original items (original + ln_UnitPrice it * ln_Quantity it)"

text \<open>The last line of the request takes what is left of the discount.\<close>

fun quote_allocs :: "int64 \<Rightarrow> int64 \<Rightarrow> OrderLine list \<Rightarrow> int64 \<Rightarrow> Allocation list" where
  "quote_allocs original discount [] used = []"
| "quote_allocs original discount [it] used =
     [\<lparr>al_LineID = ln_LineID it, al_DiscountAmount = discount - used\<rparr>]"
| "quote_allocs original discount (it # it2 # items) used =
     (let lineOrig = ln_UnitPrice it * ln_Quantity it in
      if 0 <s original
      then (let dd = go_div (lineOrig * discount) original
            in \<lparr>al_LineID = ln_LineID it, al_DiscountAmount = dd\<rparr> #
               quote_allocs original discount (it2 # items) (used + dd))
      else \<lparr>al_LineID = ln_LineID it, al_DiscountAmount = 0\<rparr> #
           quote_allocs original discount (it2 # items) used)"

definition om_Quote :: "time \<Rightarrow> QuoteRequest \<Rightarrow> OfferMock \<Rightarrow> QuoteResult res \<times> OfferMock" where
  "om_Quote now req m =
     (let original = quote_original (qr_Items req) 0;
          discount = (if qr_CouponIDs req \<noteq> [] then go_div original 10 else 0);
          i = ''quote_'' @ show_nat (om_seq m + 1);
          allocs = quote_allocs original discount (qr_Items req) 0;
          res = \<lparr>q_QuoteID = i, q_Currency = qr_Currency req, q_OriginalAmount = original,
                 q_DiscountAmount = discount, q_PayableAmount = original - discount,
                 q_Allocations = allocs,
                 q_Promotions = (case qr_CouponIDs req of [] \<Rightarrow> []
                   | c # cs \<Rightarrow> [\<lparr>pd_SourceType = ''coupon'', pd_SourceID = c,
                       pd_DiscountAmount = discount, pd_Allocations = allocs,
                       pd_RuleSnapshotVersion = ''''\<rparr>]),
                 q_ExpiresAt = now + 5 * time_Minute, q_ContextHash = ''''\<rparr>
      in (Inr res, m\<lparr>om_seq := om_seq m + 1, om_quotes := (om_quotes m)(i \<mapsto> res)\<rparr>))"

definition om_Reserve ::
  "time \<Rightarrow> string \<Rightarrow> string \<Rightarrow> string \<Rightarrow> string \<Rightarrow> OfferMock \<Rightarrow> ReservationResult res \<times> OfferMock" where
  "om_Reserve now tenantID quoteID orderID idemKey m =
     (case om_quotes m quoteID of
        None \<Rightarrow> (Inl (Sentinel ErrOfferReserve), m)
      | Some q \<Rightarrow>
          (let rid = ''rsv_'' @ orderID; ex = now + 15 * time_Minute
           in (Inr \<lparr>rs_ReservationID = rid, rs_QuoteID = quoteID, rs_ExpiresAt = ex,
                     rs_Status = OfferReservationActive\<rparr>,
               m\<lparr>om_resv := (om_resv m)(rid \<mapsto> \<lparr>mr_quoteID = quoteID, mr_orderID = orderID,
                   mr_status = OfferReservationActive, mr_expires = ex, mr_redemptionID = ''''\<rparr>)\<rparr>)))"

definition om_Commit ::
  "string \<Rightarrow> string \<Rightarrow> string \<Rightarrow> string \<Rightarrow> OfferMock \<Rightarrow> string res \<times> OfferMock" where
  "om_Commit tenantID reservationID orderID idemKey m =
     (case om_resv m reservationID of
        None \<Rightarrow> (Inl (Sentinel ErrOfferReserve), m)
      | Some rsv \<Rightarrow>
          if mr_status rsv = OfferReservationReleased then (Inl (Sentinel ErrOfferReserve), m)
          else if mr_redemptionID rsv \<noteq> '''' then (Inr (mr_redemptionID rsv), m)
          else (let rid = ''rd_'' @ reservationID;
                    discount = (case om_quotes m (mr_quoteID rsv) of
                      None \<Rightarrow> 0 | Some q \<Rightarrow> q_DiscountAmount q)
                in (Inr rid, m\<lparr>
                     om_resv := (om_resv m)(reservationID \<mapsto>
                       rsv\<lparr>mr_status := OfferReservationCommitted, mr_redemptionID := rid\<rparr>),
                     om_redeem := (om_redeem m)(rid \<mapsto> \<lparr>rd_RedemptionID = rid,
                       rd_ReservationID = reservationID, rd_DiscountAmount = discount,
                       rd_ReversedAmount = 0\<rparr>)\<rparr>)))"

definition om_Release ::
  "string \<Rightarrow> string \<Rightarrow> string \<Rightarrow> string \<Rightarrow> OfferMock \<Rightarrow> unit res \<times> OfferMock" where
  "om_Release tenantID reservationID orderID idemKey m =
     (case om_resv m reservationID of
        None \<Rightarrow> (Inr (), m)
      | Some rsv \<Rightarrow> (Inr (), m\<lparr>om_resv := (om_resv m)(reservationID \<mapsto>
          rsv\<lparr>mr_status := OfferReservationReleased\<rparr>)\<rparr>))"

definition om_Renew ::
  "time \<Rightarrow> string \<Rightarrow> string \<Rightarrow> string \<Rightarrow> string \<Rightarrow> OfferMock \<Rightarrow> unit res \<times> OfferMock" where
  "om_Renew now tenantID reservationID orderID idemKey m =
     (case om_resv m reservationID of
        None \<Rightarrow> (Inl (Sentinel ErrOfferReserve), m)
      | Some rsv \<Rightarrow>
          if mr_status rsv \<noteq> OfferReservationActive then (Inl (Sentinel ErrOfferReserve), m)
          else (Inr (), m\<lparr>om_renews := (om_renews m)(reservationID := om_renews m reservationID + 1),
                 om_resv := (om_resv m)(reservationID \<mapsto> rsv\<lparr>mr_expires := now + 15 * time_Minute\<rparr>)\<rparr>))"

definition om_Reverse ::
  "string \<Rightarrow> string \<Rightarrow> string \<Rightarrow> int64 \<Rightarrow> string \<Rightarrow> OfferMock \<Rightarrow> unit res \<times> OfferMock" where
  "om_Reverse tenantID redemptionID refundID amount idemKey m =
     (case om_redeem m redemptionID of
        None \<Rightarrow> (Inl (Sentinel ErrOrderNotFound), m)
      | Some rd \<Rightarrow>
          (let remain = rd_DiscountAmount rd - rd_ReversedAmount rd;
               amount1 = (if amount \<le>s 0 then remain else amount)
           in if amount1 = 0 then (Inr (), m)
              else if amount1 <s 0 \<or> remain <s amount1 then (Inl (Sentinel ErrInvalidArgument), m)
              else (Inr (), m\<lparr>om_redeem := (om_redeem m)(redemptionID \<mapsto>
                     rd\<lparr>rd_ReversedAmount := rd_ReversedAmount rd + amount1\<rparr>)\<rparr>)))"

definition om_GetReservation :: "string \<Rightarrow> string \<Rightarrow> OfferMock \<Rightarrow> ReservationResult res" where
  "om_GetReservation tenantID reservationID m =
     (case om_resv m reservationID of
        None \<Rightarrow> Inl (Sentinel ErrOrderNotFound)
      | Some rsv \<Rightarrow> Inr \<lparr>rs_ReservationID = reservationID, rs_QuoteID = mr_quoteID rsv,
          rs_ExpiresAt = mr_expires rsv, rs_Status = mr_status rsv\<rparr>)"

definition om_GetRedemption :: "string \<Rightarrow> string \<Rightarrow> OfferMock \<Rightarrow> RedemptionResult res" where
  "om_GetRedemption tenantID redemptionID m =
     (case om_redeem m redemptionID of
        None \<Rightarrow> Inl (Sentinel ErrOrderNotFound)
      | Some rd \<Rightarrow> Inr rd)"

definition om_RenewCount :: "string \<Rightarrow> OfferMock \<Rightarrow> int" where
  "om_RenewCount reservationID m = om_renews m reservationID"

definition om_ForceStatus :: "string \<Rightarrow> string \<Rightarrow> OfferMock \<Rightarrow> OfferMock" where
  "om_ForceStatus reservationID status m =
     (case om_resv m reservationID of
        None \<Rightarrow> m
      | Some rsv \<Rightarrow> m\<lparr>om_resv := (om_resv m)(reservationID \<mapsto> rsv\<lparr>mr_status := status\<rparr>)\<rparr>)"

section \<open>Quotes of the real OfferHub\<close>

record application_wire =
  aw_SourceType :: string
  aw_SourceID :: string
  aw_DiscountAmount :: int64
  aw_Allocations :: "Allocation list"

record quoteWire =
  qw_QuoteID :: string
  qw_Currency :: string
  qw_OriginalAmount :: int64
  qw_DiscountAmount :: int64
  qw_PayableAmount :: int64
  qw_ExpiresAt :: time
  qw_ContextHash :: string
  qw_Applications :: "application_wire list"

definition promo_of :: "application_wire \<Rightarrow> PromotionDetail" where
  "promo_of app = \<lparr>pd_SourceType = aw_SourceType app, pd_SourceID = aw_SourceID app,
     pd_DiscountAmount = aw_DiscountAmount app, pd_Allocations = aw_Allocations app,
     pd_RuleSnapshotVersion = ''''\<rparr>"

definition add_line :: "Allocation \<Rightarrow> (string \<times> int64) list \<Rightarrow> (string \<times> int64) list" where
  "add_line a byLine = AList.update (al_LineID a)
     ((case map_of byLine (al_LineID a) of None \<Rightarrow> 0 | Some v \<Rightarrow> v) + al_DiscountAmount a) byLine"

text \<open>The order of the allocations is the one in which Go visits the map; \<^term>\<open>order\<close> stands for it.\<close>

definition mapQuote ::
  "((string \<times> int64) list \<Rightarrow> (string \<times> int64) list) \<Rightarrow> quoteWire \<Rightarrow> QuoteResult" where
  "mapQuote order wire =
     (let byLine = fold add_line (concat (map aw_Allocations (qw_Applications wire))) []
      in \<lparr>q_QuoteID = qw_QuoteID wire, q_Currency = qw_Currency wire,
          q_OriginalAmount = qw_OriginalAmount wire, q_DiscountAmount = qw_DiscountAmount wire,
          q_PayableAmount = qw_PayableAmount wire,
          q_Allocations = map (\<lambda>(l, amt). \<lparr>al_LineID = l, al_DiscountAmount = amt\<rparr>) (order byLine),
          q_Promotions = map promo_of (qw_Applications wire),
          q_ExpiresAt = qw_ExpiresAt wire, q_ContextHash = qw_ContextHash wire\<rparr>)"

section \<open>Lemmas: the life of a reservation\<close>

lemmas om_defs = om_Reserve_def om_Commit_def om_Release_def om_Renew_def om_Reverse_def Let_def

text \<open>Committing twice gives the same redemption and changes nothing the second time.\<close>

lemma Commit_again:
  assumes "om_Commit t i oid k m = (Inr rid, m')" "i \<noteq> ''''"
  shows "om_Commit t' i oid' k' m' = (Inr rid, m')"
  using assms
  by (auto simp: om_defs OfferReservationCommitted_def OfferReservationReleased_def
      split: option.splits if_splits)

lemma Release_then_Commit:
  assumes "om_Release t i oid k m = (r, m')"
  shows "om_Commit t' i oid' k' m' = (Inl (Sentinel ErrOfferReserve), m')"
    and "om_Renew now t' i oid' k' m' = (Inl (Sentinel ErrOfferReserve), m')"
  using assms
  by (auto simp: om_defs OfferReservationReleased_def OfferReservationActive_def split: option.splits)

lemma Reserve_then_Commit:
  assumes "om_Reserve now t q oid k m = (Inr rs, m1)"
  obtains m2 where "om_Commit t (rs_ReservationID rs) oid' k' m1 = (Inr (''rd_rsv_'' @ oid), m2)"
    "om_GetRedemption t (''rd_rsv_'' @ oid) m2 = Inr \<lparr>rd_RedemptionID = ''rd_rsv_'' @ oid,
       rd_ReservationID = rs_ReservationID rs,
       rd_DiscountAmount = q_DiscountAmount (the (om_quotes m q)), rd_ReversedAmount = 0\<rparr>"
  using assms
  by (auto simp: om_defs om_GetRedemption_def OfferReservationReleased_def OfferReservationActive_def
      split: option.splits)

section \<open>Lemmas: reversals\<close>

definition redemption_ok :: "RedemptionResult \<Rightarrow> bool" where
  "redemption_ok rd \<longleftrightarrow>
     0 \<le> sint (rd_ReversedAmount rd) \<and> sint (rd_ReversedAmount rd) \<le> sint (rd_DiscountAmount rd)"

definition om_redeem_ok :: "OfferMock \<Rightarrow> bool" where
  "om_redeem_ok m \<longleftrightarrow> (\<forall>i rd. om_redeem m i = Some rd \<longrightarrow> redemption_ok rd)"

lemma redemption_reverse:
  assumes "redemption_ok rd"
  shows "redemption_ok (rd\<lparr>rd_ReversedAmount := rd_DiscountAmount rd\<rparr>)"
    and "0 \<le> sint x \<Longrightarrow> sint x \<le> sint (rd_DiscountAmount rd - rd_ReversedAmount rd) \<Longrightarrow>
      redemption_ok (rd\<lparr>rd_ReversedAmount := rd_ReversedAmount rd + x\<rparr>)"
proof -
  have b: "0 \<le> sint (rd_ReversedAmount rd)" "sint (rd_ReversedAmount rd) \<le> sint (rd_DiscountAmount rd)"
    using assms by (auto simp: redemption_ok_def)
  then show "redemption_ok (rd\<lparr>rd_ReversedAmount := rd_DiscountAmount rd\<rparr>)"
    by (simp add: redemption_ok_def)
  assume x: "0 \<le> sint x" "sint x \<le> sint (rd_DiscountAmount rd - rd_ReversedAmount rd)"
  have "sint (rd_DiscountAmount rd - rd_ReversedAmount rd) =
      sint (rd_DiscountAmount rd) - sint (rd_ReversedAmount rd)"
    using b in64_sint [of "rd_DiscountAmount rd"] by (intro sint_diff64) (auto simp: in64_def)
  moreover from this have "sint (rd_ReversedAmount rd + x) = sint (rd_ReversedAmount rd) + sint x"
    using x b in64_sint [of "rd_DiscountAmount rd"] by (intro sint_add64) (auto simp: in64_def)
  ultimately show "redemption_ok (rd\<lparr>rd_ReversedAmount := rd_ReversedAmount rd + x\<rparr>)"
    using x b by (simp add: redemption_ok_def)
qed

lemma Reverse_redeem_ok:
  assumes "om_redeem_ok m" "om_Reverse t i rf amount k m = (r, m')"
  shows "om_redeem_ok m'"
proof (cases "om_redeem m i")
  case None
  with assms show ?thesis by (simp add: om_Reverse_def)
next
  case (Some rd)
  then have "redemption_ok rd" using assms(1) by (simp add: om_redeem_ok_def)
  with assms Some redemption_reverse [OF this] show ?thesis
    by (auto simp: om_Reverse_def Let_def om_redeem_ok_def int64_simps split: if_splits)
qed

lemma Commit_redeem_ok:
  assumes "om_redeem_ok m" "\<forall>i q. om_quotes m i = Some q \<longrightarrow> 0 \<le> sint (q_DiscountAmount q)"
    "om_Commit t i oid k m = (r, m')"
  shows "om_redeem_ok m'"
  using assms
  by (auto simp: om_Commit_def Let_def om_redeem_ok_def redemption_ok_def
      split: option.splits if_splits)

section \<open>Lemmas: quotes\<close>

text \<open>Whatever the rounding, the allocations of a request with at least one line sum to the discount.\<close>

lemma quote_allocs_sum:
  "items \<noteq> [] \<Longrightarrow> sum_list (map al_DiscountAmount (quote_allocs original discount items used)) =
     discount - used"
proof (induction original discount items used rule: quote_allocs.induct)
  case (3 original discount it it2 items used)
  then show ?case by (simp add: Let_def)
qed simp_all

lemma quote_allocs_lines:
  "map al_LineID (quote_allocs original discount items used) = map ln_LineID items"
  by (induction original discount items used rule: quote_allocs.induct) (simp_all add: Let_def)

section \<open>Properties\<close>

text \<open>
  Committing a reservation is idempotent (a retry gets the same redemption and changes nothing),
  and a reservation that was released can be neither committed nor renewed.
\<close>

theorem commit_once_release_final:
  assumes "om_Commit t i oid k m = (Inr rid, m1)" "i \<noteq> ''''" "om_Release t i oid k m1 = (r, m2)"
  shows "om_Commit t' i oid' k' m1 = (Inr rid, m1) \<and>
    om_Commit t' i oid' k' m2 = (Inl (Sentinel ErrOfferReserve), m2) \<and>
    om_Renew now t' i oid' k' m2 = (Inl (Sentinel ErrOfferReserve), m2)"
  using Commit_again [OF assms(1,2)] Release_then_Commit [OF assms(3)] by blast

definition sample_offers :: OfferMock where
  "sample_offers = offer_NewMock\<lparr>om_resv := [''rsv_o1'' \<mapsto> \<lparr>mr_quoteID = ''quote_1'', mr_orderID = ''o1'',
     mr_status = OfferReservationActive, mr_expires = 0, mr_redemptionID = ''''\<rparr>],
     om_redeem := [''rd_1'' \<mapsto> \<lparr>rd_RedemptionID = ''rd_1'', rd_ReservationID = ''rsv_1'',
       rd_DiscountAmount = 20, rd_ReversedAmount = 5\<rparr>]\<rparr>"

theorem commit_once_release_final_witness:
  "fst (om_Commit ''t1'' ''rsv_o1'' ''o1'' ''k2'' (snd (om_Release ''t1'' ''rsv_o1'' ''o1'' ''k''
     (snd (om_Commit ''t1'' ''rsv_o1'' ''o1'' ''k'' sample_offers))))) = Inl (Sentinel ErrOfferReserve)"
proof -
  have "om_Commit ''t1'' ''rsv_o1'' ''o1'' ''k'' sample_offers =
      (Inr ''rd_rsv_o1'', snd (om_Commit ''t1'' ''rsv_o1'' ''o1'' ''k'' sample_offers))"
    by (simp add: om_Commit_def sample_offers_def Let_def OfferReservationActive_def
        OfferReservationReleased_def)
  from commit_once_release_final [OF this _ surjective_pairing, of "''t1''" "''o1''" "''k2''"]
  show ?thesis by simp
qed

text \<open>
  No sequence of reversals takes back more of a redemption than its discount: if it held
  before, it holds after any reversal, whatever amount is asked for.
\<close>

theorem reversal_within_discount:
  assumes "om_redeem_ok m" "om_Reverse t i rf amount k m = (r, m')"
  shows "om_redeem_ok m'"
  by (rule Reverse_redeem_ok [OF assms])

theorem reversal_within_discount_witness:
  "om_redeem_ok (snd (om_Reverse ''t1'' ''rd_1'' ''rf'' 15 ''k'' sample_offers))"
  by (rule reversal_within_discount [OF _ surjective_pairing])
    (simp add: om_redeem_ok_def redemption_ok_def sample_offers_def)

text \<open>
  The allocations of a quote name the lines of the request in order and add up to the discount
  it grants, whatever the rounding.
\<close>

theorem quote_allocates_its_discount:
  assumes "om_Quote now req m = (Inr q, m')" "qr_Items req \<noteq> []"
  shows "map al_LineID (q_Allocations q) = map ln_LineID (qr_Items req) \<and>
    (\<Sum>a\<leftarrow>q_Allocations q. al_DiscountAmount a) = q_DiscountAmount q \<and>
    q_PayableAmount q = q_OriginalAmount q - q_DiscountAmount q"
  using assms quote_allocs_sum [of "qr_Items req"] quote_allocs_lines
  by (auto simp: om_Quote_def Let_def)

definition sample_quote_request :: QuoteRequest where
  "sample_quote_request = \<lparr>qr_TenantID = ''t1'', qr_UserID = ''u1'', qr_OrderID = ''o1'', qr_Scene = ''course'',
     qr_Channel = ''app'', qr_Currency = ''CNY'', qr_CouponIDs = [''c''], qr_AutoBest = False,
     qr_Items = [\<lparr>ln_LineID = ''a'', ln_ObjectType = ''sku'', ln_ObjectID = ''x'', ln_Quantity = 3,
       ln_UnitPrice = 33, ln_OriginalAmount = 0, ln_DiscountAmount = 0, ln_PayableAmount = 0,
       ln_Attributes = None, ln_Snapshot = None\<rparr>],
     qr_Attributes = None, qr_Context = None\<rparr>"

theorem quote_allocates_its_discount_witness:
  "\<exists>q. fst (om_Quote 0 sample_quote_request offer_NewMock) = Inr q \<and>
     (\<Sum>a\<leftarrow>q_Allocations q. al_DiscountAmount a) = q_DiscountAmount q \<and> q_DiscountAmount q = 9"
proof -
  have "\<exists>q. fst (om_Quote 0 sample_quote_request offer_NewMock) = Inr q \<and> q_DiscountAmount q = 9"
    by (simp add: om_Quote_def sample_quote_request_def Let_def go_div_def signed_divide_int_def)
  then obtain q where q: "fst (om_Quote 0 sample_quote_request offer_NewMock) = Inr q"
    "q_DiscountAmount q = 9" by blast
  then have "om_Quote 0 sample_quote_request offer_NewMock =
      (Inr q, snd (om_Quote 0 sample_quote_request offer_NewMock))" by (simp add: prod_eq_iff)
  from quote_allocates_its_discount [OF this] q show ?thesis by (simp add: sample_quote_request_def)
qed

end
