(* ===== verification/Adapters.thy ===== *)
theory Adapters
  imports Ports
begin

text \<open>
  The adapters the process brings along: the payment mock (\<open>src/internal/infra/payment/mock.go\<close>), the
  fulfilment registry (\<open>src/internal/infra/fulfillment/registry.go\<close>), the in-memory quote cache and
  lock (\<open>src/internal/infra/cache/preview.go\<close> with a nil Redis client; for Redis see \<open>Redis_Cache\<close>) and the choice of publishers
  (\<open>src/internal/infra/outbox/publisher.go\<close>). Readings of \<open>time.Now()\<close> are arguments.

  The locale \<open>expiring_lock\<close> states what the checkout relies on in a lock with a time to live, and
  proves that no second holder gets in before the lock expires or is given back; the in-memory
  lock is an instance. The lemmas on the cache say that a snapshot comes back until it expires.
\<close>

section \<open>The payment mock\<close>

record PaymentMock =
  pm_seq :: nat
  pm_intents :: "string \<rightharpoonup> PaymentIntent"

definition payment_NewMock :: PaymentMock where
  "payment_NewMock = \<lparr>pm_seq = 0, pm_intents = Map.empty\<rparr>"

definition pm_CreateIntent :: "time \<Rightarrow> Order \<Rightarrow> PaymentMock \<Rightarrow> PaymentIntent option res \<times> PaymentMock" where
  "pm_CreateIntent now o' m =
     (let i = ''pi_mock_'' @ show_nat (pm_seq m + 1);
          it = \<lparr>pi_IntentID = i, pi_Channel = ''mock'', pi_Amount = amt_ChannelPay (ord_Amounts o'),
                pi_Currency = amt_Currency (ord_Amounts o'), pi_PayURL = ''mock://pay/'' @ i,
                pi_ExpiresAt = now + 15 * time_Minute\<rparr>
      in (Inr (Some it), m\<lparr>pm_seq := pm_seq m + 1, pm_intents := (pm_intents m)(i \<mapsto> it)\<rparr>))"

definition pm_CloseIntent :: "string \<Rightarrow> PaymentMock \<Rightarrow> unit res \<times> PaymentMock" where
  "pm_CloseIntent intentID m = (Inr (), m\<lparr>pm_intents := (pm_intents m)(intentID := None)\<rparr>)"

definition pm_Refund :: "Refund \<Rightarrow> PaymentMock \<Rightarrow> unit res \<times> PaymentMock" where
  "pm_Refund rf m = (Inr (), m)"

section \<open>The fulfilment registry\<close>

text \<open>
  The three in-memory adapters are shared between the scenes of their kind, so their state is a
  function of the kind. A nil \<open>held\<close> map reads and deletes like an empty one.
\<close>

datatype adapter = Noop | InMemory string

record Registry =
  rg_byScene :: "string \<rightharpoonup> adapter"
  rg_def :: adapter

type_synonym held = "string \<Rightarrow> string \<rightharpoonup> string"

definition adapter_of :: "SceneConfig \<Rightarrow> adapter" where
  "adapter_of sc =
     (if sc_Fulfillment sc = FulfillmentShipping then InMemory ''shipping''
      else if sc_Fulfillment sc = FulfillmentVirtualGrant then InMemory ''virtual''
      else if sc_Fulfillment sc = FulfillmentEntitlement then InMemory ''entitlement''
      else Noop)"

definition NewRegistry :: "(string \<rightharpoonup> SceneConfig) \<Rightarrow> Registry" where
  "NewRegistry scenes =
     \<lparr>rg_byScene = (\<lambda>name. map_option adapter_of (scenes name)), rg_def = Noop\<rparr>"

definition ForScene :: "Registry \<Rightarrow> string \<Rightarrow> adapter" where
  "ForScene r scene = (case rg_byScene r scene of Some a \<Rightarrow> a | None \<Rightarrow> rg_def r)"

fun adapter_Reserve :: "adapter \<Rightarrow> Order \<Rightarrow> held \<Rightarrow> unit res \<times> held" where
  "adapter_Reserve Noop o' h = (Inr (), h)"
| "adapter_Reserve (InMemory kind) o' h =
     (Inr (), h(kind := (h kind)(ord_OrderID o' \<mapsto> ''reserved:'' @ kind)))"

fun adapter_Commit :: "adapter \<Rightarrow> Order \<Rightarrow> held \<Rightarrow> unit res \<times> held" where
  "adapter_Commit Noop o' h = (Inr (), h)"
| "adapter_Commit (InMemory kind) o' h =
     (Inr (), h(kind := (h kind)(ord_OrderID o' \<mapsto> ''committed:'' @ kind)))"

fun adapter_Release :: "adapter \<Rightarrow> Order \<Rightarrow> held \<Rightarrow> unit res \<times> held" where
  "adapter_Release Noop o' h = (Inr (), h)"
| "adapter_Release (InMemory kind) o' h = (Inr (), h(kind := (h kind)(ord_OrderID o' := None)))"

section \<open>The quote cache\<close>

record memItem =
  mi_raw :: bytes
  mi_exp :: time

type_synonym memPreview = "string \<rightharpoonup> memItem"

definition quoteKey :: "string \<Rightarrow> string \<Rightarrow> string" where
  "quoteKey tenantID quoteID = ''oh:quote:'' @ tenantID @ '':'' @ quoteID"

definition memPreview_put :: "time \<Rightarrow> string \<Rightarrow> bytes \<Rightarrow> duration \<Rightarrow> memPreview \<Rightarrow> memPreview" where
  "memPreview_put now k raw ttl m = m(k \<mapsto> \<lparr>mi_raw = raw, mi_exp = now + ttl\<rparr>)"

definition memPreview_get :: "time \<Rightarrow> string \<Rightarrow> memPreview \<Rightarrow> bytes option \<times> memPreview" where
  "memPreview_get now k m =
     (case m k of
        None \<Rightarrow> (None, m(k := None))
      | Some it \<Rightarrow> if mi_exp it < now then (None, m(k := None)) else (Some (mi_raw it), m))"

definition errMiss :: error where "errMiss = Opaque ''preview not found''"

text \<open>\<^term>\<open>marshal\<close> and \<^term>\<open>unmarshal\<close> are the JSON codec of a snapshot.\<close>

definition PreviewStore_Put ::
  "(PreviewSnapshot \<Rightarrow> bytes res) \<Rightarrow> time \<Rightarrow> string \<Rightarrow> string \<Rightarrow> string \<Rightarrow> PreviewSnapshot \<Rightarrow> duration
     \<Rightarrow> memPreview \<Rightarrow> unit res \<times> memPreview" where
  "PreviewStore_Put marshal now tenantID userID quoteID snap ttl m =
     (let ttl1 = (if ttl \<le> 0 then 5 * time_Minute else ttl) in
      case marshal snap of
        Inl err \<Rightarrow> (Inl err, m)
      | Inr body \<Rightarrow> (Inr (), memPreview_put now (quoteKey tenantID quoteID) body ttl1 m))"

definition PreviewStore_GetByQuote ::
  "(bytes \<Rightarrow> PreviewSnapshot res) \<Rightarrow> time \<Rightarrow> string \<Rightarrow> string \<Rightarrow> memPreview
     \<Rightarrow> PreviewSnapshot res \<times> memPreview" where
  "PreviewStore_GetByQuote unmarshal now tenantID quoteID m =
     (case memPreview_get now (quoteKey tenantID quoteID) m of
        (None, m') \<Rightarrow> (Inl errMiss, m')
      | (Some raw, m') \<Rightarrow> (unmarshal raw, m'))"

section \<open>The lock\<close>

type_synonym memLock = "string \<rightharpoonup> time"

text \<open>The clock is read once for the comparison, if the key is there, and once for the expiry.\<close>

definition memLock_try :: "time \<Rightarrow> time \<Rightarrow> string \<Rightarrow> duration \<Rightarrow> memLock \<Rightarrow> bool \<times> memLock" where
  "memLock_try now1 now2 k ttl m =
     (case m k of
        Some ex \<Rightarrow> if now1 < ex then (False, m) else (True, m(k \<mapsto> now2 + ttl))
      | None \<Rightarrow> (True, m(k \<mapsto> now2 + ttl)))"

definition memLock_del :: "string \<Rightarrow> memLock \<Rightarrow> memLock" where
  "memLock_del k m = m(k := None)"

definition lock_key :: "string \<Rightarrow> string" where "lock_key key = ''oh:lock:'' @ key"

section \<open>The publishers\<close>

text \<open>
  \<^term>\<open>post\<close> is the HTTP client: it sends an event to a URL and returns an error or the status code.
\<close>

definition LogPublisher :: "'x EventPublisher" where
  "LogPublisher = \<lparr>ep_Publish = (\<lambda>ev. ok ())\<rparr>"

definition HTTPPublisher :: "(string \<Rightarrow> Event \<Rightarrow> ('x, int res) state) \<Rightarrow> string \<Rightarrow> 'x EventPublisher" where
  "HTTPPublisher post url = \<lparr>ep_Publish = (\<lambda>ev.
     if url = '''' then ok ()
     else tryE (post url ev) (\<lambda>code.
       if 300 \<le> code then fail (Opaque (''webhook http '' @ show_int code)) else ok ()))\<rparr>"

text \<open>\<open>Fanout.Publish\<close>: every publisher is called; the first error is the result.\<close>

primrec fanout_loop :: "error option \<Rightarrow> 'x EventPublisher option list \<Rightarrow> Event \<Rightarrow> ('x, unit res) state" where
  "fanout_loop first [] ev = (case first of None \<Rightarrow> ok () | Some e \<Rightarrow> fail e)"
| "fanout_loop first (p # ps) ev =
     (case p of
        None \<Rightarrow> fanout_loop first ps ev
      | Some pub \<Rightarrow> do {
          r \<leftarrow> ep_Publish pub ev;
          fanout_loop (case r of Inr _ \<Rightarrow> first
            | Inl e \<Rightarrow> (case first of None \<Rightarrow> Some e | Some f \<Rightarrow> Some f)) ps ev })"

definition Fanout :: "'x EventPublisher option list \<Rightarrow> 'x EventPublisher" where
  "Fanout pubs = \<lparr>ep_Publish = fanout_loop None pubs\<rparr>"

definition NewPublisher ::
  "(string \<Rightarrow> Event \<Rightarrow> ('x, int res) state) \<Rightarrow> string \<Rightarrow> bool \<Rightarrow> 'x EventPublisher" where
  "NewPublisher post webhookURL logOutbox =
     (let pubs = (if webhookURL \<noteq> '''' then [HTTPPublisher post webhookURL] else []);
          pubs1 = (if logOutbox \<or> length pubs = 0 then pubs @ [LogPublisher] else pubs)
      in case pubs1 of [p] \<Rightarrow> p | _ \<Rightarrow> Fanout (map Some pubs1))"

section \<open>A lock with a time to live\<close>

datatype lock_op = Try time time string duration | Del string

fun lock_step :: "(time \<Rightarrow> time \<Rightarrow> string \<Rightarrow> duration \<Rightarrow> 'l \<Rightarrow> bool \<times> 'l) \<Rightarrow> (string \<Rightarrow> 'l \<Rightarrow> 'l)
     \<Rightarrow> lock_op \<Rightarrow> 'l \<Rightarrow> 'l" where
  "lock_step tr dl (Try t1 t2 k ttl) l = snd (tr t1 t2 k ttl l)"
| "lock_step tr dl (Del k) l = dl k l"

text \<open>An operation that neither gives back the lock nor tries it after its expiry.\<close>

fun before_expiry :: "string \<Rightarrow> time \<Rightarrow> lock_op \<Rightarrow> bool" where
  "before_expiry k ex (Try t1 t2 k' ttl) \<longleftrightarrow> k' \<noteq> k \<or> t1 < ex"
| "before_expiry k ex (Del k') \<longleftrightarrow> k' \<noteq> k"

locale expiring_lock =
  fixes try_lock :: "time \<Rightarrow> time \<Rightarrow> string \<Rightarrow> duration \<Rightarrow> 'l \<Rightarrow> bool \<times> 'l"
    and del_lock :: "string \<Rightarrow> 'l \<Rightarrow> 'l"
    and expiry :: "'l \<Rightarrow> string \<Rightarrow> time option"
  assumes try_gets: "try_lock t1 t2 k ttl l = (True, l') \<Longrightarrow> expiry l' = (expiry l)(k \<mapsto> t2 + ttl)"
    and try_refused: "expiry l k = Some ex \<Longrightarrow> t1 < ex \<Longrightarrow> try_lock t1 t2 k ttl l = (False, l)"
    and try_free: "(\<And>ex. expiry l k = Some ex \<Longrightarrow> ex \<le> t1) \<Longrightarrow> fst (try_lock t1 t2 k ttl l)"
    and try_loses: "try_lock t1 t2 k ttl l = (False, l') \<Longrightarrow> expiry l' = expiry l"
    and del: "expiry (del_lock k l) = (expiry l)(k := None)"
begin

lemma step_keeps_expiry:
  assumes "expiry l k = Some ex" "before_expiry k ex a"
  shows "expiry (lock_step try_lock del_lock a l) k = Some ex"
proof (cases a)
  case (Try t1 t2 k' ttl)
  obtain b l' where "try_lock t1 t2 k' ttl l = (b, l')" by fastforce
  with Try assms try_refused [of l k ex t1 t2 ttl] try_gets [of t1 t2 k' ttl l l']
    try_loses [of t1 t2 k' ttl l l'] show ?thesis by (cases b) auto
next
  case (Del k')
  with assms show ?thesis by (simp add: del)
qed

text \<open>Nobody else gets the lock before it expires, whatever happens to other keys meanwhile.\<close>

lemma no_second_holder:
  assumes "try_lock t1 t2 k ttl l = (True, l1)" "\<forall>a \<in> set as. before_expiry k (t2 + ttl) a"
    "t < t2 + ttl"
  shows "\<not> fst (try_lock t t' k ttl' (fold (lock_step try_lock del_lock) as l1))"
proof -
  have "expiry l1 k = Some (t2 + ttl)" using try_gets [OF assms(1)] by simp
  with assms(2) have "expiry (fold (lock_step try_lock del_lock) as l1) k = Some (t2 + ttl)"
    by (induction as arbitrary: l1) (simp_all add: step_keeps_expiry)
  with assms(3) show ?thesis by (simp add: try_refused)
qed

lemma free_after_del: "fst (try_lock t t' k ttl (del_lock k l))"
  by (rule try_free) (simp add: del)

end

lemma memLock_expiring: "expiring_lock memLock_try memLock_del (\<lambda>l. l)"
  by unfold_locales (auto simp: memLock_try_def memLock_del_def split: option.splits if_splits)

interpretation mem_lock: expiring_lock memLock_try memLock_del "\<lambda>l. l"
  by (rule memLock_expiring)

section \<open>Lemmas: the cache\<close>

lemma cache_hit:
  assumes "PreviewStore_Put marshal t0 ten u q snap ttl m = (Inr (), m1)" "marshal snap = Inr raw"
    "t \<le> t0 + (if ttl \<le> 0 then 5 * time_Minute else ttl)"
  shows "PreviewStore_GetByQuote unmarshal t ten q m1 = (unmarshal raw, m1)"
  using assms by (auto simp: PreviewStore_Put_def PreviewStore_GetByQuote_def memPreview_put_def
      memPreview_get_def split: if_splits)

lemma cache_expired:
  assumes "PreviewStore_Put marshal t0 ten u q snap ttl m = (Inr (), m1)"
    "t0 + (if ttl \<le> 0 then 5 * time_Minute else ttl) < t"
  shows "fst (PreviewStore_GetByQuote unmarshal t ten q m1) = Inl errMiss"
  using assms by (auto simp: PreviewStore_Put_def PreviewStore_GetByQuote_def memPreview_put_def
      memPreview_get_def split: sum.splits)

section \<open>Properties\<close>

text \<open>
  C39: the in-memory lock excludes a second holder. From the moment one caller gets the lock until
  its time to live is over, no sequence of other callers' operations that does not give this lock
  back lets another caller in.
\<close>

theorem lock_is_exclusive:
  assumes "memLock_try t1 t2 k ttl l = (True, l1)"
    "\<forall>a \<in> set as. before_expiry k (t2 + ttl) a" "t < t2 + ttl"
  shows "\<not> fst (memLock_try t t' k ttl' (fold (lock_step memLock_try memLock_del) as l1))"
  by (rule mem_lock.no_second_holder [OF assms])

theorem lock_is_exclusive_witness:
  "\<not> fst (memLock_try 29 29 ''k'' 30 (fold (lock_step memLock_try memLock_del)
     [Try 5 5 ''k'' 30, Try 6 6 ''j'' 30, Del ''j''] [''k'' \<mapsto> 31]))"
  using lock_is_exclusive [of 1 1 "''k''" 30 Map.empty "[''k'' \<mapsto> 31]"
      "[Try 5 5 ''k'' 30, Try 6 6 ''j'' 30, Del ''j'']" 29 29 30]
  by (simp add: memLock_try_def)

text \<open>
  C40: a preview that was cached comes back under its quote id, as the codec gives it back, up to its
  time to live (five minutes if none is left), and is a miss afterwards.
\<close>

theorem cached_preview_until_expiry:
  assumes "PreviewStore_Put marshal t0 ten u q snap ttl m = (Inr (), m1)" "marshal snap = Inr raw"
  shows "PreviewStore_GetByQuote unmarshal t ten q m1 =
    (if t \<le> t0 + (if ttl \<le> 0 then 5 * time_Minute else ttl) then (unmarshal raw, m1)
     else (Inl errMiss, m1(quoteKey ten q := None)))"
  using assms by (auto simp: PreviewStore_Put_def PreviewStore_GetByQuote_def memPreview_put_def
      memPreview_get_def split: if_splits)

definition sample_snapshot :: PreviewSnapshot where
  "sample_snapshot = \<lparr>ps_QuoteID = ''q1'', ps_ContextHash = '''', ps_Scene = ''course'',
     ps_Channel = ''app'', ps_Currency = ''CNY'', ps_CouponIDs = [], ps_Items = [], ps_Allocations = [],
     ps_Promotions = [], ps_OriginalAmount = 7, ps_DiscountAmount = 0, ps_PayableAmount = 7,
     ps_LedgerPay = 0, ps_AssetCode = '''', ps_ChannelPay = 7, ps_Ext = None, ps_ExpiresAt = 0,
     ps_SubjectAttrs = None\<rparr>"

theorem cached_preview_until_expiry_witness:
  "fst (PreviewStore_GetByQuote (\<lambda>_. Inr sample_snapshot) 20 ''t1'' ''q1''
     (snd (PreviewStore_Put (\<lambda>s. Inr (ps_QuoteID s)) 10 ''t1'' ''u1'' ''q1'' sample_snapshot 15 Map.empty)))
   = Inr sample_snapshot"
proof -
  have "PreviewStore_Put (\<lambda>s. Inr (ps_QuoteID s)) 10 ''t1'' ''u1'' ''q1'' sample_snapshot 15 Map.empty =
      (Inr (), snd (PreviewStore_Put (\<lambda>s. Inr (ps_QuoteID s)) 10 ''t1'' ''u1'' ''q1'' sample_snapshot 15
        Map.empty))"
    by (simp add: PreviewStore_Put_def)
  from cached_preview_until_expiry [OF this, of _ "\<lambda>_. Inr sample_snapshot" 20] show ?thesis by simp
qed

end
