(* ===== verification/Snowflake_Ids.thy ===== *)
theory Snowflake_Ids
  imports Hub_Prelude
begin

unbundle bit_operations_syntax

text \<open>
  The id generator (\<open>src/internal/infra/idgen/snowflake.go\<close>). The system clock is the sequence of
  its readings in milliseconds; the state carries the index of the next reading. The loop that
  waits for the clock to pass \<open>lastMs\<close> need not end, so it is a partial function. The locale
  \<open>id_source\<close> states what a strictly increasing source gives (no id twice), and the generator is an
  instance of it; \<open>compose_id_level\<close> gives the number an id is in terms of time, machine and sequence.
\<close>

section \<open>Definitions\<close>

definition epoch :: int64 where "epoch = 1704067200000"

definition machineBits :: nat where "machineBits = 10"

definition seqBits :: nat where "seqBits = 12"

definition machineMask :: int64 where "machineMask = 1023"

definition seqMask :: int64 where "seqMask = 4095"

record Snowflake =
  sf_machineID :: int64
  sf_lastMs :: int64
  sf_seq :: int64

text \<open>The environment variable is given as the parsed number, \<open>None\<close> when it is absent or no number.\<close>

definition NewSnowflake :: "int64 option \<Rightarrow> Snowflake" where
  "NewSnowflake env =
     (let mid = (case env of None \<Rightarrow> 1 | Some n \<Rightarrow> n)
      in \<lparr>sf_machineID = mid AND machineMask, sf_lastMs = 0, sf_seq = 0\<rparr>)"

partial_function (option) wait_ms ::
  "(nat \<Rightarrow> int64) \<Rightarrow> int64 \<Rightarrow> int64 \<Rightarrow> nat \<Rightarrow> (int64 \<times> nat) option" where
  "wait_ms clk lastMs now i =
     (if now \<le>s lastMs then wait_ms clk lastMs (clk i) (Suc i) else Some (now, i))"

definition compose_id :: "int64 \<Rightarrow> int64 \<Rightarrow> int64 \<Rightarrow> int64" where
  "compose_id now machineID sq =
     (push_bit (machineBits + seqBits) (now - epoch) OR push_bit seqBits machineID) OR sq"

definition next_id :: "(nat \<Rightarrow> int64) \<Rightarrow> Snowflake \<times> nat \<Rightarrow> (int64 \<times> Snowflake \<times> nat) option" where
  "next_id clk st =
     (case st of (s, i) \<Rightarrow>
        (let now = (if clk i <s sf_lastMs s then sf_lastMs s else clk i) in
         if now = sf_lastMs s
         then (let sq = (sf_seq s + 1) AND seqMask in
               if sq = 0
               then (case wait_ms clk (sf_lastMs s) now (Suc i) of
                   None \<Rightarrow> None
                 | Some (now', j) \<Rightarrow>
                     Some (compose_id now' (sf_machineID s) sq,
                       s\<lparr>sf_seq := sq, sf_lastMs := now'\<rparr>, j))
               else Some (compose_id now (sf_machineID s) sq, s\<lparr>sf_seq := sq\<rparr>, Suc i))
         else Some (compose_id now (sf_machineID s) 0,
                s\<lparr>sf_seq := 0, sf_lastMs := now\<rparr>, Suc i)))"

definition prefixed_id :: "string \<Rightarrow> int64 \<Rightarrow> string" where
  "prefixed_id prefix i = prefix @ show_int (sint i)"

section \<open>A strictly increasing source of ids\<close>

primrec run_ids :: "('s \<Rightarrow> ('v \<times> 's) option) \<Rightarrow> nat \<Rightarrow> 's \<Rightarrow> ('v list \<times> 's) option" where
  "run_ids gen 0 s = Some ([], s)"
| "run_ids gen (Suc n) s =
     (case gen s of
        None \<Rightarrow> None
      | Some (v, s') \<Rightarrow> map_option (map_prod (Cons v) id) (run_ids gen n s'))"

locale id_source =
  fixes gen :: "'s \<Rightarrow> ('v \<times> 's) option"
    and valid :: "'s \<Rightarrow> bool"
    and above :: "'s \<Rightarrow> 'v \<Rightarrow> bool"
    and below :: "'v \<Rightarrow> 'v \<Rightarrow> bool"
  assumes gen_valid: "valid s \<Longrightarrow> gen s = Some (v, s') \<Longrightarrow> valid s'"
    and gen_above: "valid s \<Longrightarrow> gen s = Some (v, s') \<Longrightarrow> above s v"
    and gen_mono: "valid s \<Longrightarrow> gen s = Some (v, s') \<Longrightarrow> above s' w \<Longrightarrow> above s w \<and> below v w"
    and below_irrefl: "\<not> below v v"
begin

lemma run_above:
  "valid s \<Longrightarrow> run_ids gen n s = Some (vs, s') \<Longrightarrow> v \<in> set vs \<Longrightarrow> above s v"
proof (induction n arbitrary: s vs)
  case (Suc n)
  then obtain u s1 us where g: "gen s = Some (u, s1)" "run_ids gen n s1 = Some (us, s')" "vs = u # us"
    by (auto split: option.splits)
  with Suc gen_valid show ?case
    using gen_above gen_mono by (metis set_ConsD)
qed simp

lemma run_sorted:
  "valid s \<Longrightarrow> run_ids gen n s = Some (vs, s') \<Longrightarrow> sorted_wrt below vs"
proof (induction n arbitrary: s vs)
  case (Suc n)
  then obtain u s1 us where g: "gen s = Some (u, s1)" "run_ids gen n s1 = Some (us, s')" "vs = u # us"
    by (auto split: option.splits)
  have "\<forall>w \<in> set us. below u w"
    using run_above [OF gen_valid [OF Suc.prems(1) g(1)] g(2)] gen_mono [OF Suc.prems(1) g(1)] by blast
  with Suc.IH [OF gen_valid [OF Suc.prems(1) g(1)] g(2)] g(3) show ?case by simp
qed simp

lemma run_distinct:
  assumes "valid s" "run_ids gen n s = Some (vs, s')"
  shows "distinct vs"
  using run_sorted [OF assms]
proof (induction vs)
  case (Cons v vs)
  then show ?case using below_irrefl by auto
qed simp

end

section \<open>Lemmas: the layout of an id\<close>

lemma uint_nonneg64:
  assumes "0 \<le> sint (m :: int64)"
  shows "uint m = sint m"
proof -
  have "uint m = uint (word_of_int (sint m) :: int64)" by simp
  also have "\<dots> = sint m mod 2 ^ 64" by (simp only: uint_word_of_int len_num1 len_bit0 flip: take_bit_eq_mod) simp
  also have "\<dots> = sint m" using assms in64_sint [of m] by (simp add: in64_def)
  finally show ?thesis .
qed

lemma bit_small:
  assumes "0 \<le> sint (m :: int64)" "sint m < 2 ^ n" "bit m k"
  shows "k < n"
proof -
  have "bit (uint m) k"
    using assms(3) bit_imp_le_length [OF assms(3)] by (simp add: bit_uint_iff)
  then have "bit (take_bit n (sint m)) k"
    using assms(1,2) by (simp add: take_bit_int_eq_self uint_nonneg64)
  then show ?thesis by (simp add: bit_take_bit_iff)
qed

definition id_level :: "int64 \<Rightarrow> int64 \<Rightarrow> int64 \<Rightarrow> int" where
  "id_level now machineID sq = (sint now - sint epoch) * 2 ^ 22 + sint machineID * 2 ^ 12 + sint sq"

definition small :: "nat \<Rightarrow> int64 \<Rightarrow> bool" where
  "small n w \<longleftrightarrow> 0 \<le> sint w \<and> sint w < 2 ^ n"

definition ms_ok :: "int64 \<Rightarrow> bool" where
  "ms_ok now \<longleftrightarrow> sint epoch \<le> sint now \<and> sint now - sint epoch < 2 ^ 41"

lemma compose_id_level:
  assumes "ms_ok now" "small 10 mid" "small 12 sq"
  shows "sint (compose_id now mid sq) = id_level now mid sq"
proof -
  let ?a = "now - epoch"
  have a: "sint ?a = sint now - sint epoch"
    using assms(1) by (intro sint_diff64) (auto simp: ms_ok_def in64_def)
  have sm: "0 \<le> sint ?a" "sint ?a < 2 ^ 41" "0 \<le> sint mid" "sint mid < 2 ^ 10" "0 \<le> sint sq"
    "sint sq < 2 ^ 12"
    using assms by (auto simp: a ms_ok_def small_def)
  have "push_bit 22 ?a OR push_bit 12 mid = push_bit 22 ?a + push_bit 12 mid"
    by (rule disjunctive_add [symmetric])
      (use bit_small [OF sm(3,4)] in \<open>fastforce simp: bit_push_bit_iff\<close>)
  moreover have "\<not> bit (push_bit 22 ?a OR push_bit 12 mid) n \<or> \<not> bit sq n" for n
    using bit_small [OF sm(5,6), of n] by (auto simp: bit_or_iff bit_push_bit_iff)
  ultimately have c: "compose_id now mid sq = push_bit 22 ?a + push_bit 12 mid + sq"
    by (simp add: compose_id_def machineBits_def seqBits_def disjunctive_add)
  have p: "sint (push_bit 22 ?a) = sint ?a * 2 ^ 22" "sint (push_bit 12 mid) = sint mid * 2 ^ 12"
    using sm sint_mult64 [of ?a "2 ^ 22"] sint_mult64 [of mid "2 ^ 12"]
    by (simp_all add: push_bit_eq_mult in64_def)
  have "sint (push_bit 22 ?a + push_bit 12 mid) = sint ?a * 2 ^ 22 + sint mid * 2 ^ 12"
    using sm by (subst sint_add64) (simp_all add: p in64_def)
  then show ?thesis
    using sm unfolding c by (subst sint_add64) (simp_all add: id_level_def a in64_def)
qed

section \<open>Lemmas: the generator is strictly increasing\<close>

lemma wait_ms_Some:
  "wait_ms clk lastMs now i = Some y \<Longrightarrow>
     lastMs <s fst y \<and> (fst y = now \<or> fst y \<in> range clk)"
proof (erule wait_ms.raw_induct
    [where P = "\<lambda>clk lastMs now i y. lastMs <s fst y \<and> (fst y = now \<or> fst y \<in> range clk)", rotated])
  fix w clk lastMs now i y
  assume IH: "\<And>clk lastMs now i y. w clk lastMs now i = Some y \<Longrightarrow>
      lastMs <s fst y \<and> (fst y = now \<or> fst y \<in> range clk)"
    and y: "(if now \<le>s lastMs then w clk lastMs (clk i) (Suc i) else Some (now, i)) = Some y"
  show "lastMs <s fst y \<and> (fst y = now \<or> fst y \<in> range clk)"
  proof (cases "now \<le>s lastMs")
    case True
    with y IH [of clk lastMs "clk i" "Suc i" y] show ?thesis by auto
  next
    case False
    with y show ?thesis by (auto simp: int64_simps)
  qed
qed

text \<open>The wait ends as soon as some reading passes the last one.\<close>

lemma wait_ms_ends:
  assumes "lastMs <s clk k" "i \<le> k"
  shows "\<exists>y. wait_ms clk lastMs now i = Some y"
  using assms(2)
proof (induction "k - i" arbitrary: i now)
  case 0
  then show ?case
    using assms(1) by (auto simp: wait_ms.simps [of clk lastMs] int64_simps)
next
  case (Suc n)
  then show ?case
    by (cases "now \<le>s lastMs") (auto simp: wait_ms.simps [of clk lastMs now i])
qed

definition snow_valid :: "(nat \<Rightarrow> int64) \<Rightarrow> Snowflake \<times> nat \<Rightarrow> bool" where
  "snow_valid clk st \<longleftrightarrow> (\<forall>j. ms_ok (clk j)) \<and> small 10 (sf_machineID (fst st)) \<and>
     small 12 (sf_seq (fst st)) \<and> (sf_lastMs (fst st) = 0 \<or> ms_ok (sf_lastMs (fst st)))"

definition snow_level :: "Snowflake \<times> nat \<Rightarrow> int" where
  "snow_level st = id_level (sf_lastMs (fst st)) (sf_machineID (fst st)) (sf_seq (fst st))"

lemma seq_wrap:
  assumes "small 12 sq"
  shows "(sq + 1) AND seqMask = (if sint sq = 4095 then 0 else sq + 1)"
    and "small 12 ((sq + 1) AND seqMask)" "sint sq \<noteq> 4095 \<Longrightarrow> sint (sq + 1) = sint sq + 1"
proof -
  have s1: "sint (sq + 1) = sint sq + 1"
    using assms by (subst sint_add64) (auto simp: small_def in64_def)
  have u: "uint (sq + 1) = sint sq + 1"
    using assms s1 uint_nonneg64 [of "sq + 1"] by (auto simp: small_def)
  have "seqMask = mask 12" by (simp add: seqMask_def mask_eq_exp_minus_1)
  then have t: "(sq + 1) AND seqMask = take_bit 12 (sq + 1)" by (simp only: take_bit_eq_mask)
  have "uint (take_bit 12 (sq + 1)) = take_bit 12 (uint (sq + 1))" by (rule unsigned_take_bit_eq)
  then have m: "uint ((sq + 1) AND seqMask) = (sint sq + 1) mod 2 ^ 12"
    unfolding t u by (simp only: take_bit_eq_mod [where ?'a = int])
  show "sint (sq + 1) = sint sq + 1" by (rule s1)
  show eq: "(sq + 1) AND seqMask = (if sint sq = 4095 then 0 else sq + 1)"
    using assms m u by (auto simp: word_uint_eq_iff small_def)
  show "small 12 ((sq + 1) AND seqMask)"
    using assms s1 unfolding eq by (auto simp: small_def)
qed

lemma next_id_step:
  assumes "snow_valid clk st" "next_id clk st = Some (v, st')"
  shows "snow_valid clk st'" "sint v = snow_level st'" "snow_level st < snow_level st'"
proof -
  obtain s i where st: "st = (s, i)" by (cases st)
  let ?now = "if clk i <s sf_lastMs s then sf_lastMs s else clk i"
  have v: "\<And>j. ms_ok (clk j)" "small 10 (sf_machineID s)" "small 12 (sf_seq s)"
    "sf_lastMs s = 0 \<or> ms_ok (sf_lastMs s)"
    using assms(1) by (auto simp: snow_valid_def st)
  have m: "0 \<le> sint (sf_machineID s)" "sint (sf_machineID s) < 2 ^ 10" "0 \<le> sint (sf_seq s)"
    "sint (sf_seq s) < 2 ^ 12"
    using v(2,3) by (auto simp: small_def)
  have later: "snow_level st < id_level n (sf_machineID s) 0"
    if "sint (sf_lastMs s) < sint n" for n
    using that m by (simp add: snow_level_def st id_level_def)
  have now: "ms_ok ?now" "sint (sf_lastMs s) \<le> sint ?now"
    using v(1) [of i] v(4) by (auto simp: int64_simps ms_ok_def epoch_def)
  consider (same) "?now = sf_lastMs s" "(sf_seq s + 1) AND seqMask \<noteq> 0"
    | (wrap) n j where "?now = sf_lastMs s" "(sf_seq s + 1) AND seqMask = 0"
        "wait_ms clk (sf_lastMs s) ?now (Suc i) = Some (n, j)"
    | (new) "?now \<noteq> sf_lastMs s"
    using assms(2) by (auto simp: next_id_def st Let_def split: option.splits if_splits)
  then have "snow_valid clk st' \<and> sint v = snow_level st' \<and> snow_level st < snow_level st'"
  proof cases
    case same
    then have sq: "(sf_seq s + 1) AND seqMask = sf_seq s + 1" "sint (sf_seq s + 1) = sint (sf_seq s) + 1"
      "small 12 (sf_seq s + 1)"
      using seq_wrap [OF v(3)] by (auto split: if_splits)
    with same assms(2) v now(1) show ?thesis
      by (auto simp: next_id_def st Let_def snow_valid_def snow_level_def id_level_def
          compose_id_level split: if_splits)
  next
    case wrap
    with wait_ms_Some [OF wrap(3)] v(1) now(1) have n: "sint (sf_lastMs s) < sint n" "ms_ok n"
      by (auto simp: int64_simps)
    with wrap assms(2) v(1,2) later [OF n(1)] compose_id_level [OF n(2) v(2), of 0] show ?thesis
      by (auto simp: next_id_def st Let_def snow_valid_def snow_level_def small_def)
  next
    case new
    then have "sint (sf_lastMs s) < sint ?now" using now(2) by (auto simp: word_eq_sint)
    with new assms(2) v(1,2) now(1) later compose_id_level [OF now(1) v(2), of 0] show ?thesis
      by (auto simp: next_id_def st Let_def snow_valid_def snow_level_def small_def)
  qed
  then show "snow_valid clk st'" "sint v = snow_level st'" "snow_level st < snow_level st'" by auto
qed

interpretation snow: id_source "next_id clk" "snow_valid clk" "\<lambda>st v. snow_level st < sint v"
  "\<lambda>v w. sint v < sint w" for clk
  by unfold_locales (use next_id_step in fastforce)+

text \<open>The generator returns an id whenever the clock passes its last reading at some later time.\<close>

lemma next_id_returns:
  assumes "snd st < k" "sf_lastMs (fst st) <s clk k"
  shows "\<exists>y. next_id clk st = Some y"
proof -
  obtain s i where st: "st = (s, i)" by (cases st)
  have "\<exists>y. wait_ms clk (sf_lastMs s) (sf_lastMs s) (Suc i) = Some y"
    using assms by (intro wait_ms_ends [of _ _ k]) (auto simp: st)
  then show ?thesis by (auto simp: next_id_def st Let_def split: option.split)
qed

section \<open>Properties\<close>

text \<open>
  C37: ids are unique. However many ids are drawn, and whatever the clock does (it may stand still
  or go back, as long as it stays within 41 bits of milliseconds after the epoch), each id is larger
  than all ids before it, so none is given twice.
\<close>

theorem ids_strictly_increase:
  assumes "snow_valid clk st" "run_ids (next_id clk) n st = Some (vs, st')"
  shows "sorted_wrt (\<lambda>v w. sint v < sint w) vs \<and> distinct vs"
  using snow.run_sorted [OF assms] snow.run_distinct [OF assms] by simp

theorem ids_strictly_increase_witness:
  "\<exists>v w. fst (the (run_ids (next_id (\<lambda>_. epoch + 5)) 2 (NewSnowflake None, 0))) = [v, w] \<and> sint v < sint w"
proof -
  let ?clk = "\<lambda>_ :: nat. epoch + 5" and ?st = "(NewSnowflake None, 0 :: nat)"
  have e: "sint epoch = 1704067200000" "sint (epoch + 5) = 1704067200005" by (simp_all add: epoch_def)
  have v: "snow_valid ?clk ?st"
    by (simp add: snow_valid_def NewSnowflake_def small_def ms_ok_def e machineMask_def)
  have "\<exists>v w st'. run_ids (next_id ?clk) 2 ?st = Some ([v, w], st')"
    by (simp add: numeral_2_eq_2 next_id_def NewSnowflake_def Let_def epoch_def machineMask_def
        seqMask_def)
  then obtain v w st' where r: "run_ids (next_id ?clk) 2 ?st = Some ([v, w], st')" by blast
  from ids_strictly_increase [OF v r] r show ?thesis by auto
qed

text \<open>
  C38: drawing an id ends. The generator waits when it has used up the sequence numbers of a
  millisecond, and it returns as soon as some later reading of the clock passes the last one.
\<close>

theorem next_id_terminates:
  assumes "snd st < k" "sf_lastMs (fst st) <s clk k"
  shows "\<exists>y. next_id clk st = Some y"
  using assms by (rule next_id_returns)

theorem next_id_terminates_witness:
  "\<exists>y. next_id (\<lambda>i. if i < 7 then epoch else epoch + 1)
     (\<lparr>sf_machineID = 1, sf_lastMs = epoch, sf_seq = 4095\<rparr>, 3) = Some y"
  by (rule next_id_terminates [where k = 9]) (simp_all add: epoch_def word_sless_alt)

text \<open>
  The layout of an id. With 41 bits of time, 10 of machine and 12 of sequence number the fields
  do not overlap and no bit is lost.
\<close>

theorem id_layout:
  assumes "0 \<le> sint now - sint epoch" "sint now - sint epoch < 2 ^ 41"
    "0 \<le> sint mid" "sint mid < 2 ^ 10" "0 \<le> sint sq" "sint sq < 2 ^ 12"
  shows "sint (compose_id now mid sq) = (sint now - sint epoch) * 2 ^ 22 + sint mid * 2 ^ 12 + sint sq"
  using compose_id_level [of now mid sq] assms by (simp add: ms_ok_def small_def id_level_def)

theorem id_layout_witness: "sint (compose_id (epoch + 1) 3 5) = 2 ^ 22 + 3 * 2 ^ 12 + 5"
  using id_layout [of "epoch + 1" 3 5] by (simp add: epoch_def)

end
