(* ===== verification/Mock_System.thy ===== *)
theory Mock_System
  imports Ledger_Mock Offer_Mock Adapters Snowflake_Ids Service_World
begin

text \<open>
  The system as \<open>src/internal/boot/app.go\<close> wires it with \<open>MockDeps\<close>, no Redis and no Postgres: the
  services run against the in-memory repository, the mocks, the in-memory cache and lock, and the
  snowflake generator. \<open>Mocks\<close> is the state of all of these; the system clock is the sequence
  \<^term>\<open>clk\<close> of its readings, and the state carries how many have been taken. A reading that Go's
  short-circuit operators would skip is taken and dropped.

  The library codecs (JSON, SHA-256) stay parameters.
\<close>

section \<open>State\<close>

record Mocks =
  mk_ledger :: LedgerMock
  mk_offer :: OfferMock
  mk_pay :: PaymentMock
  mk_held :: held
  mk_cache :: memPreview
  mk_lock :: memLock
  mk_ids :: Snowflake
  mk_tick :: nat

definition Build_mocks :: "int64 option \<Rightarrow> Mocks" where
  "Build_mocks env = \<lparr>mk_ledger = ledger_NewMock, mk_offer = offer_NewMock,
     mk_pay = payment_NewMock, mk_held = (\<lambda>_. Map.empty), mk_cache = Map.empty,
     mk_lock = Map.empty, mk_ids = NewSnowflake env, mk_tick = 0\<rparr>"

text \<open>Parts of the state as seen by the component that owns them.\<close>

definition on_ledger :: "(LedgerMock \<Rightarrow> 'a \<times> LedgerMock) \<Rightarrow> (Mocks, 'a) state" where
  "on_ledger f = State (\<lambda>s. case f (mk_ledger s) of (a, l) \<Rightarrow> (a, s\<lparr>mk_ledger := l\<rparr>))"

definition on_offer :: "(OfferMock \<Rightarrow> 'a \<times> OfferMock) \<Rightarrow> (Mocks, 'a) state" where
  "on_offer f = State (\<lambda>s. case f (mk_offer s) of (a, l) \<Rightarrow> (a, s\<lparr>mk_offer := l\<rparr>))"

definition on_pay :: "(PaymentMock \<Rightarrow> 'a \<times> PaymentMock) \<Rightarrow> (Mocks, 'a) state" where
  "on_pay f = State (\<lambda>s. case f (mk_pay s) of (a, l) \<Rightarrow> (a, s\<lparr>mk_pay := l\<rparr>))"

definition on_held :: "(held \<Rightarrow> 'a \<times> held) \<Rightarrow> (Mocks, 'a) state" where
  "on_held f = State (\<lambda>s. case f (mk_held s) of (a, l) \<Rightarrow> (a, s\<lparr>mk_held := l\<rparr>))"

definition on_cache :: "(memPreview \<Rightarrow> 'a \<times> memPreview) \<Rightarrow> (Mocks, 'a) state" where
  "on_cache f = State (\<lambda>s. case f (mk_cache s) of (a, l) \<Rightarrow> (a, s\<lparr>mk_cache := l\<rparr>))"

definition on_lock :: "(memLock \<Rightarrow> 'a \<times> memLock) \<Rightarrow> (Mocks, 'a) state" where
  "on_lock f = State (\<lambda>s. case f (mk_lock s) of (a, l) \<Rightarrow> (a, s\<lparr>mk_lock := l\<rparr>))"

section \<open>Clock and ids\<close>

definition mock_now :: "(nat \<Rightarrow> time) \<Rightarrow> (Mocks, time) state" where
  "mock_now clk = State (\<lambda>s. (clk (mk_tick s), s\<lparr>mk_tick := Suc (mk_tick s)\<rparr>))"

text \<open>\<open>UnixMilli\<close>: the Unix epoch is 62135596800 seconds after Go's zero instant.\<close>

definition unix_milli :: "time \<Rightarrow> int64" where
  "unix_milli t = word_of_int (t div 1000000 - 62135596800000)"

text \<open>
  \<open>next\<close> under the system clock. Where its wait does not end there is no value; with a clock that
  advances it always does (\<open>next_id_returns\<close>).
\<close>

definition mock_id :: "(nat \<Rightarrow> time) \<Rightarrow> string \<Rightarrow> (Mocks, string) state" where
  "mock_id clk prefix = State (\<lambda>s.
     case the (next_id (\<lambda>i. unix_milli (clk i)) (mk_ids s, mk_tick s)) of
       (v, sf, i) \<Rightarrow> (prefixed_id prefix v, s\<lparr>mk_ids := sf, mk_tick := i\<rparr>))"

section \<open>The interfaces\<close>

definition mock_offer :: "(nat \<Rightarrow> time) \<Rightarrow> Mocks OfferClient" where
  "mock_offer clk = \<lparr>
     oc_Quote = (\<lambda>req. do { now \<leftarrow> mock_now clk; on_offer (om_Quote now req) }),
     oc_Reserve = (\<lambda>t q oid k. do { now \<leftarrow> mock_now clk; on_offer (om_Reserve now t q oid k) }),
     oc_Commit = (\<lambda>t i oid k. on_offer (om_Commit t i oid k)),
     oc_Release = (\<lambda>t i oid k. on_offer (om_Release t i oid k)),
     oc_Renew = (\<lambda>t i oid k. do { now \<leftarrow> mock_now clk; on_offer (om_Renew now t i oid k) }),
     oc_Reverse = (\<lambda>t i rf a k. on_offer (om_Reverse t i rf a k)),
     oc_GetReservation = (\<lambda>t i. on_offer (\<lambda>m. (om_GetReservation t i m, m))),
     oc_GetRedemption = (\<lambda>t i. on_offer (\<lambda>m. (om_GetRedemption t i m, m)))\<rparr>"

definition mock_ledger_client :: "Mocks LedgerClient" where
  "mock_ledger_client = \<lparr>
     lc_GetBalance = (\<lambda>t u a. on_ledger (lm_GetBalance t u a)),
     lc_Freeze = (\<lambda>req. on_ledger (lm_Freeze req)),
     lc_Capture = (\<lambda>i b. on_ledger (lm_Capture i b)),
     lc_Release = (\<lambda>i b. on_ledger (lm_Release i b)),
     lc_Credit = (\<lambda>t u a x b rb. on_ledger (lm_Credit t u a x b rb))\<rparr>"

definition mock_pay :: "(nat \<Rightarrow> time) \<Rightarrow> Mocks PaymentAdapter" where
  "mock_pay clk = \<lparr>
     pa_CreateIntent = (\<lambda>o'. do { now \<leftarrow> mock_now clk; on_pay (pm_CreateIntent now o') }),
     pa_CloseIntent = (\<lambda>i. on_pay (pm_CloseIntent i)),
     pa_Refund = (\<lambda>rf. on_pay (pm_Refund rf))\<rparr>"

definition mock_fulfill :: "adapter \<Rightarrow> Mocks FulfillmentAdapter" where
  "mock_fulfill a = \<lparr>
     fa_Reserve = (\<lambda>o'. on_held (adapter_Reserve a o')),
     fa_Commit = (\<lambda>o'. on_held (adapter_Commit a o')),
     fa_Release = (\<lambda>o'. on_held (adapter_Release a o'))\<rparr>"

definition mock_cache ::
  "(nat \<Rightarrow> time) \<Rightarrow> (PreviewSnapshot \<Rightarrow> bytes res) \<Rightarrow> (bytes \<Rightarrow> PreviewSnapshot res) \<Rightarrow> Mocks PreviewCache" where
  "mock_cache clk marshal unmarshal = \<lparr>
     pc_Put = (\<lambda>t u q snap ttl. do {
       now \<leftarrow> mock_now clk; on_cache (PreviewStore_Put marshal now t u q snap ttl) }),
     pc_GetByQuote = (\<lambda>t q. do {
       now \<leftarrow> mock_now clk; on_cache (PreviewStore_GetByQuote unmarshal now t q) })\<rparr>"

definition mock_ids :: "(nat \<Rightarrow> time) \<Rightarrow> Mocks IDGenerator" where
  "mock_ids clk = \<lparr>ig_OrderID = mock_id clk ''ord_'', ig_EventID = mock_id clk ''evt_'',
     ig_RefundID = mock_id clk ''rfd_'', ig_IntentID = mock_id clk ''pi_''\<rparr>"

definition mock_locker :: "(nat \<Rightarrow> time) \<Rightarrow> Mocks Locker" where
  "mock_locker clk = \<lparr>lk_TryLock = (\<lambda>key ttl. do {
     now1 \<leftarrow> mock_now clk; now2 \<leftarrow> mock_now clk;
     got \<leftarrow> on_lock (memLock_try now1 now2 (lock_key key) ttl);
     ok (if got then Some (on_lock (\<lambda>m. ((), memLock_del (lock_key key) m))) else None) })\<rparr>"

text \<open>\<^term>\<open>visit\<close> is the order the runtime visits maps in; \<^term>\<open>pub\<close> the publisher.\<close>

definition mock_deps ::
  "(nat \<Rightarrow> time) \<Rightarrow> nat list \<Rightarrow> Mocks EventPublisher \<Rightarrow> digest
     \<Rightarrow> (PreviewSnapshot \<Rightarrow> bytes res) \<Rightarrow> (bytes \<Rightarrow> PreviewSnapshot res)
     \<Rightarrow> (CheckoutResult \<Rightarrow> bytes) \<Rightarrow> (bytes \<Rightarrow> error option \<times> CheckoutResult)
     \<Rightarrow> (Event \<Rightarrow> bytes) \<Rightarrow> (bytes \<Rightarrow> Event res) \<Rightarrow> Mocks Deps" where
  "mock_deps clk visit pub digest mSnap uSnap mRes uRes mEv uEv = \<lparr>
     dp_scenes = DefaultScenes, dp_offer = mock_offer clk, dp_ledger = mock_ledger_client,
     dp_pay = Some (mock_pay clk),
     dp_fulfill = (\<lambda>scene. Some (mock_fulfill (ForScene (NewRegistry DefaultScenes) scene))),
     dp_cache = Some (mock_cache clk mSnap uSnap), dp_ids = mock_ids clk,
     dp_clock = mock_now clk, dp_lock = Some (mock_locker clk), dp_publisher = Some pub,
     dp_time_Now = mock_now clk, dp_range = State_Monad.return visit, dp_digest = digest,
     dp_marshal_Result = mRes, dp_unmarshal_Result = uRes,
     dp_marshal_Event = mEv, dp_unmarshal_Event = uEv\<rparr>"

end
