(* ===== verification/System_Runs.thy ===== *)
theory System_Runs
  imports Checkout_Service Payment_Service Refund_Service Cancel_Service Close_Renew Compensation
    Outbox_Worker Mock_System
begin

text \<open>
  The system as a whole: every entry point of the application layer is a \<open>call\<close>, \<open>exec\<close> runs one, and
  \<open>reachable\<close> are the states that sequences of calls lead to from an empty repository, with
  arbitrary changes of the external systems in between. A predicate that satisfies the contract of
  the repository (\<open>repo_contract_insert\<close>) holds in all of them; the interpretations of
  \<open>Repo_Invariants\<close> turn this into the invariants of the running system.

  Calls are executed one after the other. The workers of \<open>src/cmd/worker/main.go\<close> are calls too: a
  tick is one call.
\<close>

section \<open>Definitions\<close>

datatype call =
    CPreview Identity PreviewCmd
  | CCheckout Identity CheckoutCmd
  | CRecreateIntent Identity string
  | CConfirmLedger Identity string
  | CPaymentCallback PaymentCallback
  | CComplete string string
  | CRetryPaid string string
  | CRefund Identity string RefundCmd
  | CCancel Identity string
  | CClose Identity string
  | CRenew Identity string
  | CTimeoutTick
  | CRenewTick
  | CCompensateTick
  | CRetryTicket int64
  | CReconRun string bool
  | COutboxTick

fun exec :: "'x Deps \<Rightarrow> call \<Rightarrow> ('x World, unit) state" where
  "exec d (CPreview ident cmd) = ignore (Preview d ident cmd)"
| "exec d (CCheckout ident cmd) = ignore (Checkout d ident cmd)"
| "exec d (CRecreateIntent ident i) = ignore (RecreateIntent d ident i)"
| "exec d (CConfirmLedger ident i) = ignore (ConfirmLedger d ident i)"
| "exec d (CPaymentCallback cb) = ignore (OnPaymentCallback d cb)"
| "exec d (CComplete t i) = ignore (Complete d t i)"
| "exec d (CRetryPaid t i) = ignore (RetryAfterPaid d t i)"
| "exec d (CRefund ident i cmd) = ignore (RefundOrder d ident i cmd)"
| "exec d (CCancel ident i) = ignore (Cancel d ident i)"
| "exec d (CClose ident i) = ignore (Close d ident i)"
| "exec d (CRenew ident i) = ignore (Renew d ident i)"
| "exec d CTimeoutTick = ignore (TimeoutTick d)"
| "exec d CRenewTick = ignore (RenewTick d)"
| "exec d CCompensateTick = ignore (CompensateTick d)"
| "exec d (CRetryTicket i) = ignore (RetryTicket d i)"
| "exec d (CReconRun t app) = ignore (ReconRun d t app)"
| "exec d COutboxTick = ignore (OutboxTick d)"

fun is_checkout :: "call \<Rightarrow> bool" where
  "is_checkout (CCheckout ident cmd) = True"
| "is_checkout _ = False"

primrec exec_all :: "'x Deps \<Rightarrow> call list \<Rightarrow> ('x World, unit) state" where
  "exec_all d [] = State_Monad.return ()"
| "exec_all d (c # cs) = do { _ \<leftarrow> exec d c; exec_all d cs }"

inductive reachable :: "'x Deps \<Rightarrow> 'x World \<Rightarrow> bool" for d where
  start: "reachable d \<lparr>w_repo = NewOrderRepo, w_ext = x\<rparr>"
| call: "reachable d w \<Longrightarrow> run_state (exec d c) w = (u, w') \<Longrightarrow> reachable d w'"
| outside: "reachable d w \<Longrightarrow> reachable d (w\<lparr>w_ext := x\<rparr>)"

inductive_cases reachableE: "reachable d w"

section \<open>Lemmas\<close>

lemma wp_Preview: "Q_any r \<Longrightarrow> wp (Preview d ident cmd) (\<lambda>_. Q_any) r"
  unfolding Preview_def preview_finish_def preview_balance_def Let_def
  by (intro wp_intros conjI allI impI)

context repo_contract
begin

lemma keeps_exec_other: "P r \<Longrightarrow> \<not> is_checkout c \<Longrightarrow> wp (exec d c) (\<lambda>_. P) r"
  by (cases c; simp; intro wp_ignore wp_Preview keeps_RecreateIntent keeps_ConfirmLedger
      keeps_OnPaymentCallback keeps_Complete keeps_RetryAfterPaid keeps_RefundOrder keeps_Cancel keeps_Close keeps_Renew
      keeps_TimeoutTick keeps_RenewTick keeps_CompensateTick keeps_RetryTicket keeps_ReconRun
      keeps_OutboxTick)

lemma keeps_exec_all:
  "P r \<Longrightarrow> \<forall>c \<in> set cs. \<not> is_checkout c \<Longrightarrow> wp (exec_all d cs) (\<lambda>_. P) r"
proof (induction cs arbitrary: r)
  case (Cons c cs)
  then show ?case
    unfolding exec_all.simps by (intro wp_bind keeps_exec_other [THEN wp_mono]) simp_all
qed (simp add: wp_return)

end

context repo_contract_insert
begin

lemma keeps_exec: "P r \<Longrightarrow> wp (exec d c) (\<lambda>_. P) r"
  using keeps_exec_other [of r c d] by (cases c) (auto intro: wp_ignore keeps_Checkout)

lemma reachable_keeps:
  assumes "reachable d w" "P NewOrderRepo"
  shows "P (w_repo w)"
  using assms(1)
proof (induction rule: reachable.induct)
  case (call w c u w')
  then show ?case using wpD [OF keeps_exec] by metis
qed (simp_all add: assms(2))

end

lemma NewOrderRepo_ok: "repo_ok NewOrderRepo" "renew_ok NewOrderRepo" "repo_wf NewOrderRepo"
  by (simp_all add: repo_ok_def renew_ok_def repo_wf_def NewOrderRepo_def stored_def lookup_order_def)

lemma reachable_exec_all:
  "reachable d w \<Longrightarrow> run_state (exec_all d cs) w = (u, w') \<Longrightarrow> reachable d w'"
proof (induction cs arbitrary: w)
  case (Cons c cs)
  obtain v w1 where "run_state (exec d c) w = (v, w1)" by (cases "run_state (exec d c) w")
  with Cons show ?case by (auto intro: reachable.call)
qed simp

end
