(* ===== verification/Sample_System.thy ===== *)
theory Sample_System
  imports System_Runs
begin

text \<open>
  A concrete system: the deployment of \<open>Mock_System\<close> with a clock that advances a second per reading
  and constant codecs, a customer and a request. The theorems with hypotheses are applied to it.

  \<open>run_simps\<close> executes a service with the simplifier. The congruence rule \<open>run_state_cong\<close> keeps the
  simplifier out of the program that is still to run, so that every step is computed once, on the
  state it meets; \<open>data_simps\<close> are the pure functions a checkout goes through.
\<close>

named_theorems run_simps \<open>execution of state transformers\<close>

named_theorems data_simps \<open>pure functions, unfolded during execution\<close>

section \<open>Execution by rewriting\<close>

lemma run_state_cong: "s = s' \<Longrightarrow> run_state m s = run_state m s'"
  by simp

lemma run_bind [run_simps]:
  "run_state (State_Monad.bind m f) s = (case run_state m s of (a, s') \<Rightarrow> run_state (f a) s')"
  by (cases m) (simp add: State_Monad.bind_def split: prod.split)

lemma run_branch [run_simps]:
  "run_state (if b then m else n) s = (if b then run_state m s else run_state n s)"
  "run_state (case x of None \<Rightarrow> m | Some a \<Rightarrow> g a) s =
     (case x of None \<Rightarrow> run_state m s | Some a \<Rightarrow> run_state (g a) s)"
  "run_state (case y of Inl e \<Rightarrow> h e | Inr a \<Rightarrow> k a) s =
     (case y of Inl e \<Rightarrow> run_state (h e) s | Inr a \<Rightarrow> run_state (k a) s)"
  "run_state (case p of (a, b) \<Rightarrow> q a b) s = (case p of (a, b) \<Rightarrow> run_state (q a b) s)"
  by (simp_all split: option.split sum.split prod.split)

lemma run_Let [run_simps]: "run_state (let a = e in f a) s = (let a = e in run_state (f a) s)"
  by simp

lemma run_world [run_simps]:
  "run_state (ext_op m) w = (case run_state m (w_ext w) of (a, x) \<Rightarrow> (a, w\<lparr>w_ext := x\<rparr>))"
  "run_state (repo_op f) w = (case f (w_repo w) of (a, r) \<Rightarrow> (a, w\<lparr>w_repo := r\<rparr>))"
  "run_state (repo_get g) w = (g (w_repo w), w)"
  "run_state (ignore n) w = (case run_state n w of (a, w') \<Rightarrow> ((), w'))"
  by (simp_all add: ext_op_def repo_op_def repo_get_def ignore_def split: prod.split)

lemma run_State [run_simps]: "run_state (State f) s = f s"
  by simp

lemma run_parts [run_simps]:
  "run_state (on_ledger f) s = (case f (mk_ledger s) of (a, l) \<Rightarrow> (a, s\<lparr>mk_ledger := l\<rparr>))"
  "run_state (on_offer g) s = (case g (mk_offer s) of (a, l) \<Rightarrow> (a, s\<lparr>mk_offer := l\<rparr>))"
  "run_state (on_pay h) s = (case h (mk_pay s) of (a, l) \<Rightarrow> (a, s\<lparr>mk_pay := l\<rparr>))"
  "run_state (on_held p) s = (case p (mk_held s) of (a, l) \<Rightarrow> (a, s\<lparr>mk_held := l\<rparr>))"
  "run_state (on_cache c) s = (case c (mk_cache s) of (a, l) \<Rightarrow> (a, s\<lparr>mk_cache := l\<rparr>))"
  "run_state (on_lock k) s = (case k (mk_lock s) of (a, l) \<Rightarrow> (a, s\<lparr>mk_lock := l\<rparr>))"
  by (simp_all add: on_ledger_def on_offer_def on_pay_def on_held_def on_cache_def on_lock_def)

text \<open>A defined program is unfolded when it is run.\<close>

lemmas run_unfold = arg_cong [where f = "\<lambda>m. run_state m s" for s]

lemmas [run_simps] = run_unfold [OF Checkout_def] run_unfold [OF with_lock_def]
  run_unfold [OF checkout_locked_def] run_unfold [OF resolveSnapshot_def]
  run_unfold [OF resolve_items_def] run_unfold [OF checkE_def] run_unfold [OF checkout_price_def]
  run_unfold [OF quote_still_good_def] run_unfold [OF checkout_reserve_def]
  run_unfold [OF checkout_freeze_def] run_unfold [OF checkout_inventory_def]
  run_unfold [OF checkout_insert_def] run_unfold [OF checkout_pay_def]
  run_unfold [OF InsertCheckout_def] run_unfold [OF mock_now_def] run_unfold [OF mock_id_def]

lemmas [data_simps] = checkout_defaults_def checkout_hash_def CheckoutHash_def repo_FindIdempotency_def
  repo_FindByClientOrderID_def NewOrderRepo_def idemKey_def clientKey_def request_resolved_def
  DefaultScenes_def checkout_lock_key_def lock_key_def memLock_try_def Build_mocks_def
  validateLines_def SumOriginal_def LineOriginal_def Mul_def Add_def Sub_def go_div_def
  word_sless_alt word_sle_eq signed_divide_int_def checkout_quote_request_def om_Quote_def
  offer_NewMock_def time_Minute_def time_Second_def show_nat.simps next_id_def unix_milli_def
  NewSnowflake_def compose_id_def epoch_def machineBits_def seqBits_def machineMask_def seqMask_def
  prefixed_id_def show_int_def AllocateDiscount_def set_discount_def checkout_ledger_def
  BuildAmounts_def Validate_def LedgerFreezeCapture_def LedgerOptional_def LedgerNone_def
  NeedsOffer_def OfferNone_def OfferRequiredOrSkip_def OfferOptional_def om_Reserve_def
  OfferReservationActive_def NeedsLedger_def ledger_NewMock_def lm_Freeze_def ledger_key_def
  freeze_id_def NeedsInventory_def InventoryReserveOnCreate_def checkout_order_def ForScene_def
  NewRegistry_def adapter_of_def FulfillmentShipping_def checkout_persist_def
  repo_InsertCheckout_def InsertCheckout_idem_def put_order_def order_key_def append_event_def
  outbox_row_def checkout_result_def NewEvent_def EventCreated_def NeedsChannelPay_def
  pm_CreateIntent_def payment_NewMock_def repo_UpdatePaymentIntent_def lookup_order_def
  repo_UpdateIdempotencyResponse_def memLock_del_def ResolvePayMethod_def PayMethodMix_def

section \<open>A deployment\<close>

definition sample_clk :: "nat \<Rightarrow> time" where
  "sample_clk i = (63900000000 + int i) * 1000000000"

definition sample_result :: CheckoutResult where
  "sample_result = \<lparr>cr_OrderID = ''ord_253067538726916096'', cr_Status = ''PENDING_PAY'',
     cr_ReservationID = ''rsv_ord_253067538726916096'', cr_FreezeID = ''fz_1'',
     cr_PaymentIntent = Some \<lparr>pi_IntentID = ''pi_mock_1'', pi_Channel = ''mock'', pi_Amount = 150,
       pi_Currency = ''CNY'', pi_PayURL = ''mock://pay/pi_mock_1'',
       pi_ExpiresAt = 63900000907000000000\<rparr>,
     cr_PayableAmount = 180, cr_Currency = ''CNY'', cr_ExpireAt = 63900000902000000000\<rparr>"

definition sample_event :: Event where
  "sample_event = NewEvent ''evt_1'' EventCreated ''t1'' '''' 0 None"

definition sample_deps :: "Mocks Deps" where
  "sample_deps = mock_deps sample_clk [] LogPublisher (\<lambda>_. ''h'') (\<lambda>_. Inr ''s'') (\<lambda>_. Inl errMiss)
     (\<lambda>_. ''r'') (\<lambda>_. (None, sample_result)) (\<lambda>ev. ev_EventType ev) (\<lambda>_. Inr sample_event)"

definition sample_world :: "Mocks World" where
  "sample_world = \<lparr>w_repo = NewOrderRepo, w_ext = Build_mocks None\<rparr>"

definition sample_ident :: Identity where
  "sample_ident = \<lparr>id_UserID = ''u1'', id_TenantID = ''t1'', id_Attributes = None, id_TraceID = ''tr''\<rparr>"

text \<open>Two lines of 100 with a coupon, 30 of the 180 that are left paid from the ledger.\<close>

definition sample_checkout :: CheckoutCmd where
  "sample_checkout = \<lparr>co_ClientOrderID = ''c1'', co_Scene = ''mall_checkout'', co_Channel = '''',
     co_QuoteID = '''', co_CouponIDs = [''k''],
     co_Items = [sample_line ''a'' 2 50, sample_line ''b'' 1 100], co_PayMethod = '''',
     co_LedgerPay = Some \<lparr>lp_AssetCode = ''CNY'', lp_Amount = 30\<rparr>, co_Ext = None,
     co_IdempotencyKey = '''', co_TraceID = ''tr''\<rparr>"

lemmas [data_simps] = sample_world_def sample_ident_def sample_checkout_def sample_line_def sample_clk_def

lemma sample_deps_fields [data_simps]:
  "dp_scenes sample_deps = DefaultScenes" "dp_pay sample_deps = Some (mock_pay sample_clk)"
  "dp_fulfill sample_deps sc = Some (mock_fulfill (ForScene (NewRegistry DefaultScenes) sc))"
  "dp_cache sample_deps = Some (mock_cache sample_clk (\<lambda>_. Inr ''s'') (\<lambda>_. Inl errMiss))"
  "dp_lock sample_deps = Some (mock_locker sample_clk)" "dp_digest sample_deps = (\<lambda>_. ''h'')"
  "dp_marshal_Result sample_deps = (\<lambda>_. ''r'')"
  "dp_unmarshal_Result sample_deps = (\<lambda>_. (None, sample_result))"
  "dp_marshal_Event sample_deps = (\<lambda>ev. ev_EventType ev)"
  "dp_unmarshal_Event sample_deps = (\<lambda>_. Inr sample_event)"
  by (simp_all add: sample_deps_def mock_deps_def)

lemma sample_deps_runs [run_simps]:
  "run_state (dp_clock sample_deps) s = run_state (mock_now sample_clk) s"
  "run_state (ig_OrderID (dp_ids sample_deps)) s = run_state (mock_id sample_clk ''ord_'') s"
  "run_state (ig_EventID (dp_ids sample_deps)) s = run_state (mock_id sample_clk ''evt_'') s"
  "run_state (oc_Quote (dp_offer sample_deps) req) s =
     run_state (do { now \<leftarrow> mock_now sample_clk; on_offer (om_Quote now req) }) s"
  "run_state (oc_Reserve (dp_offer sample_deps) t q oid k) s =
     run_state (do { now \<leftarrow> mock_now sample_clk; on_offer (om_Reserve now t q oid k) }) s"
  "run_state (lc_Freeze (dp_ledger sample_deps) fr) s = run_state (on_ledger (lm_Freeze fr)) s"
  "run_state (pa_CreateIntent (mock_pay clk) o') s =
     run_state (do { now \<leftarrow> mock_now clk; on_pay (pm_CreateIntent now o') }) s"
  "run_state (fa_Reserve (mock_fulfill a) o') s = run_state (on_held (adapter_Reserve a o')) s"
  "run_state (lk_TryLock (mock_locker clk) key ttl) s = run_state (do {
     now1 \<leftarrow> mock_now clk; now2 \<leftarrow> mock_now clk;
     got \<leftarrow> on_lock (memLock_try now1 now2 (lock_key key) ttl);
     ok (if got then Some (on_lock (\<lambda>m. ((), memLock_del (lock_key key) m))) else None) }) s"
  by (simp_all add: sample_deps_def mock_deps_def mock_ids_def mock_offer_def
      mock_ledger_client_def mock_pay_def mock_fulfill_def mock_locker_def)

text \<open>The checkout goes through: 200, less 20, of which 30 from the ledger and 150 by channel.\<close>

definition sample_after :: "Mocks World" where
  "sample_after = snd (run_state (Checkout sample_deps sample_ident sample_checkout) sample_world)"

lemma sample_ids:
  "prefixed_id ''ord_'' 253067538726916096 = ''ord_253067538726916096''"
  "prefixed_id ''evt_'' 253067551309828096 = ''evt_253067551309828096''"
  by (simp_all add: prefixed_id_def show_int_def show_nat.simps)

lemma sample_executed:
  "\<exists>w. run_state (Checkout sample_deps sample_ident sample_checkout) sample_world = (Inr sample_result, w) \<and>
     orders (w_repo w) = [(''t1|ord_253067538726916096'', sample_order)]"
  by (simp add: sample_ids run_simps data_simps Let_def sample_result_def sample_order_def
      del: prefixed_id_def cong: run_state_cong)

lemma sample_run:
  "fst (run_state (Checkout sample_deps sample_ident sample_checkout) sample_world) = Inr sample_result"
  "orders (w_repo (snd (run_state (Checkout sample_deps sample_ident sample_checkout) sample_world))) =
     [(''t1|ord_253067538726916096'', sample_order)]"
  using sample_executed by auto

end
