(* ===== verification/Pg_Properties.thy ===== *)
theory Pg_Properties
  imports Pg_Lists Sample_System
begin

text \<open>
  The properties of the Postgres repository, each with an instance on the database of lists of
  \<open>Pg_Laws\<close>, and the agreement of the two repositories on transitions.
\<close>

section \<open>The two repositories\<close>

lemma spec_transition_local:
  assumes "m k = m' k'"
  shows "fst (spec_transition k cmd m) = fst (spec_transition k' cmd m')"
    "snd (spec_transition k cmd m) k = snd (spec_transition k' cmd m') k'"
  using assms by (simp_all add: spec_transition_def split: option.split prod.split)

lemma agreement:
  assumes res: "transition_result cmd t res t'" and mem: "repo_Transition marshal tnow cmd r = (res_m, r')"
    and same: "abs_repo r (order_key (tc_TenantID cmd) (tc_OrderID cmd)) = abs_tables t (tc_TenantID cmd, tc_OrderID cmd)"
  shows "case res of
      Inr o' \<Rightarrow> (\<exists>u. res_m = Inr u) \<and> abs_tables t' (tc_TenantID cmd, tc_OrderID cmd) = Some (abs_of o') \<and>
        abs_repo r' (order_key (tc_TenantID cmd) (tc_OrderID cmd)) = Some (abs_of o')
    | Inl e \<Rightarrow> t' = t \<and> (db_fault e \<or> e = Sentinel ErrVersionConflict \<and> (\<exists>e'. res_m = Inl e'))"
proof -
  let ?k = "order_key (tc_TenantID cmd) (tc_OrderID cmd)" and ?k' = "(tc_TenantID cmd, tc_OrderID cmd)"
  have m: "((\<exists>u. res_m = Inr u), abs_repo r') = spec_transition ?k cmd (abs_repo r)"
    using Transition_refines [of marshal tnow cmd r] mem by simp
  have f: "(\<exists>u. res_m = Inr u) \<longleftrightarrow> fst (spec_transition ?k' cmd (abs_tables t))"
    using spec_transition_local(1) [of "abs_repo r" ?k "abs_tables t" ?k' cmd] same arg_cong [OF m, of fst] by simp
  have s: "abs_repo r' ?k = snd (spec_transition ?k' cmd (abs_tables t)) ?k'"
    using spec_transition_local(2) [of "abs_repo r" ?k "abs_tables t" ?k' cmd] same arg_cong [OF m, of snd] by simp
  show ?thesis
  proof (cases res)
    case (Inl e)
    then show ?thesis using res f by (cases res_m) (auto simp: transition_result_def Let_def)
  next
    case (Inr o')
    have "spec_transition ?k' cmd (abs_tables t) = (True, abs_tables t')"
      "abs_tables t' ?k' = Some (abs_of o')"
      using res Inr by (simp_all add: transition_result_def Let_def)
    then show ?thesis using Inr f s by simp
  qed
qed

section \<open>Properties\<close>

text \<open>
  C17: the two repositories agree. Where the in-memory repository and the tables hold the same
  status, version and amounts for an order, a transition whose expected statuses the life cycle
  allows succeeds in the tables only if it succeeds in memory, and both then hold the same again.
  If the tables refuse it with a version conflict, memory refuses it too; any other failure is
  the database's own, and no failure changes a row.
\<close>

theorem repositories_agree:
  assumes "relational_db db cur rnd" "rows_ok (t_orders (cur d))" "steps_allowed cmd"
    and "abs_repo r (order_key (tc_TenantID cmd) (tc_OrderID cmd)) =
      abs_tables (cur d) (tc_TenantID cmd, tc_OrderID cmd)"
    and "run_state (pg_Transition db cmd) d = (res, d')" "repo_Transition marshal tnow cmd r = (res_m, r')"
  shows "case res of
      Inr o' \<Rightarrow> (\<exists>u. res_m = Inr u) \<and>
        abs_tables (cur d') (tc_TenantID cmd, tc_OrderID cmd) = Some (abs_of o') \<and>
        abs_repo r' (order_key (tc_TenantID cmd) (tc_OrderID cmd)) = Some (abs_of o')
    | Inl e \<Rightarrow> cur d' = cur d \<and>
        (db_fault e \<or> e = Sentinel ErrVersionConflict \<and> (\<exists>e'. res_m = Inl e'))"
  by (rule agreement [OF wpD [OF relational_db.Transition_outcome [OF assms(1-3)] assms(5)] assms(6,4)])

text \<open>Tables with one order, and an encoding that knows the empty maps only.\<close>

definition sample_js :: JsonCodec where
  "sample_js = \<lparr>js_any = (\<lambda>_. ''null''), js_un_any = (\<lambda>_. None), js_str = (\<lambda>_. ''null''),
     js_un_str = (\<lambda>_. None), js_allocs = (\<lambda>_. ''[]''), js_refund_lines = (\<lambda>_. ''[]''),
     js_event = (\<lambda>ev. ev_EventType ev)\<rparr>"

definition sample_db :: "Tables DB" where
  "sample_db = table_db sample_js (\<lambda>_. ''2025'') (\<lambda>_. Some 63900000002000000000) 5"

definition sample_tables :: "string list \<Rightarrow> Tables" where
  "sample_tables ids = no_rows\<lparr>t_orders :=
     map (\<lambda>i. orderToPO sample_js (sample_order\<lparr>ord_OrderID := i, ord_ClientOrderID := i\<rparr>)) ids\<rparr>"

lemma sample_db_relational: "relational_db sample_db (\<lambda>t. t) (\<lambda>x. x)"
  unfolding sample_db_def by (rule tables.relational_db_axioms)

lemma sample_rows_ok: "distinct ids \<Longrightarrow> rows_ok (t_orders (sample_tables ids))"
  by (auto simp: rows_ok_def sample_tables_def orderToPO_def comp_def)

theorem repositories_agree_witness:
  "case fst (run_state (pg_Transition sample_db (sample_cmd StatusPaid))
     (sample_tables [''ord_253067538726916096''])) of
      Inl e \<Rightarrow> db_fault e \<or> e = Sentinel ErrVersionConflict
    | Inr o' \<Rightarrow> abs_repo (snd (repo_Transition (\<lambda>_. '''') 0 (sample_cmd StatusPaid) sample_repo))
        ''t1|ord_253067538726916096'' = Some (abs_of o')"
proof -
  have "steps_allowed (sample_cmd StatusPaid)"
    by (simp add: steps_allowed_def sample_cmd_def TransitionCmd_of_def lifecycle_iff CanTransition_defs)
  moreover have "abs_repo sample_repo (order_key (tc_TenantID (sample_cmd StatusPaid)) (tc_OrderID (sample_cmd StatusPaid))) =
      abs_tables (sample_tables [''ord_253067538726916096''])
        (tc_TenantID (sample_cmd StatusPaid), tc_OrderID (sample_cmd StatusPaid))"
    by (simp add: abs_repo_def sample_repo_def abs_tables_def sample_tables_def sample_cmd_def
        TransitionCmd_of_def order_key_def row_at_def orderToPO_def abs_of_def abs_row_def sample_order_def no_rows_def
        Status_of_def ParseStatus_def all_statuses_def)
  ultimately show ?thesis
    using repositories_agree [OF sample_db_relational sample_rows_ok _ _ surjective_pairing surjective_pairing,
      of "[''ord_253067538726916096'']" "sample_cmd StatusPaid" sample_repo]
    by (auto simp: sample_cmd_def TransitionCmd_of_def order_key_def split: sum.splits)
qed

text \<open>
  C21: a checkout that was inserted reads back. \<open>InsertCheckout\<close> either leaves the database as it was
  or adds the order with its lines, idempotency record and event; the order is then found
  under its id, with the same lines and fields, its times in the precision of the database, and
  without the promotion details and ledger legs. Only the database can make the lookup fail.
\<close>

theorem inserted_order_reads_back:
  assumes "relational_db db cur rnd" "cp_Order rec = Some o'" "lines_owned t" "codec_keeps (db_js db) o'"
    and "lr_BizNo (ord_Ledger o') = ''order:freeze:'' @ ord_OrderID o'"
    and "ord_CreatedAt o' \<noteq> 0" "ord_UpdatedAt o' \<noteq> 0"
  shows "vc cur (pg_InsertCheckout db rec) (\<lambda>res t'. case res of
      Inl e \<Rightarrow> t' = t
    | Inr _ \<Rightarrow> inserted db rnd rec o' t t' \<and>
        vc cur (pg_FindByID db (ord_TenantID o') (ord_OrderID o')) (\<lambda>found t''. t'' = t' \<and>
          (case found of Inl e \<Rightarrow> db_fault e | Inr o'' \<Rightarrow> reads_back rnd o' o'')) t') t"
  by (rule wp_mono [OF relational_db.InsertCheckout_outcome [OF assms(1)]])
    (use assms(2) in \<open>auto intro: relational_db.FindByID_reads_back [OF assms(1) _ assms(3-7)] split: sum.splits\<close>)

definition sample_persist :: CheckoutPersist where
  "sample_persist = \<lparr>cp_Order = Some sample_order, cp_Idempotency = None, cp_Event = sample_event\<rparr>"

lemma sample_order_keys:
  "ord_TenantID sample_order = ''t1''" "ord_OrderID sample_order = ''ord_253067538726916096''"
  "lr_BizNo (ord_Ledger sample_order) = ''order:freeze:ord_253067538726916096''"
  "ord_CreatedAt sample_order \<noteq> 0" "ord_UpdatedAt sample_order \<noteq> 0"
  by (simp_all add: sample_order_def)

lemma sample_persist_cp: "cp_Order sample_persist = Some sample_order"
  by (simp add: sample_persist_def)

theorem inserted_order_reads_back_witness:
  "vc (\<lambda>t. t) (pg_InsertCheckout sample_db sample_persist) (\<lambda>res t'. case res of
      Inl e \<Rightarrow> t' = no_rows
    | Inr _ \<Rightarrow> inserted sample_db (\<lambda>x. x) sample_persist sample_order no_rows t' \<and>
        vc (\<lambda>t. t) (pg_FindByID sample_db ''t1'' ''ord_253067538726916096'') (\<lambda>found t''. t'' = t' \<and>
          (case found of Inl e \<Rightarrow> db_fault e | Inr o'' \<Rightarrow> reads_back (\<lambda>x. x) sample_order o'')) t') no_rows"
proof -
  have "lines_owned no_rows" by (simp add: lines_owned_def no_rows_def)
  moreover have "codec_keeps (db_js sample_db) sample_order"
    by (simp add: codec_keeps_def sample_db_def table_db_def sample_js_def sample_order_def sample_line_def)
  ultimately show ?thesis
    using inserted_order_reads_back [OF sample_db_relational, of sample_persist sample_order no_rows,
        unfolded sample_order_keys(1,2)]
    by (simp add: sample_order_keys(3-5) sample_persist_cp)
qed

text \<open>
  C22: pages lose nothing. Whoever follows the cursors of a buyer's list to the end, with any page size,
  gets every matching order exactly once, newest first, or an error of the database.
\<close>

theorem pages_cover_listing:
  assumes "relational_db db cur rnd" "rows_ok (t_orders t)" "cursors_ok db (t_orders t)" "1 \<le> limit"
    and "length (listing db (buyer_rows ten buyer status scene) t) < fuel"
  shows "vc cur (read_pages fuel (\<lambda>c. pg_ListByBuyer db ten buyer status scene c limit) '''')
    (\<lambda>res t'. t' = t \<and> (case res of Inl e \<Rightarrow> db_fault e
       | Inr os \<Rightarrow> os = bare_orders db (listing db (buyer_rows ten buyer status scene) t))) t"
  using relational_db.read_pages_listing [OF assms(1-4) refl, of 0 ten buyer status scene fuel, unfolded drop_0] assms(5)
  by (simp add: cursor_at_def)

theorem pages_cover_listing_witness:
  "vc (\<lambda>t. t) (read_pages 4 (\<lambda>c. pg_ListByBuyer sample_db ''t1'' ''u1'' None '''' c 2) '''')
    (\<lambda>res t'. case res of Inl e \<Rightarrow> db_fault e
       | Inr os \<Rightarrow> map ord_OrderID os = [''c'', ''b'', ''a'']) (sample_tables [''b'', ''a'', ''c''])"
proof -
  have l: "map po_OrderID (listing sample_db (buyer_rows ''t1'' ''u1'' None '''') (sample_tables [''b'', ''a'', ''c''])) =
      [''c'', ''b'', ''a'']"
    by (simp add: listing_def sample_tables_def sample_db_def table_db_def buyer_rows_def orderToPO_def
        sample_order_def no_rows_def sort_by_def newest_def newer_def row_pos_def)
  have "cursors_ok sample_db (t_orders (sample_tables [''b'', ''a'', ''c'']))"
    by (simp add: cursors_ok_def sample_tables_def sample_db_def table_db_def orderToPO_def sample_order_def)
  from pages_cover_listing [OF sample_db_relational sample_rows_ok this, of 2 "''t1''" "''u1''" None "''''" 4]
  show ?thesis
    using arg_cong [OF l, of length] l
    by (auto elim!: wp_mono simp: bare_orders_def poToOrder_def comp_def split: sum.splits)
qed

text \<open>
  C23: a ticket is claimed once. Of two claims that the database commits one after the other, by whatever
  workers, no ticket is in both.
\<close>

theorem ticket_claimed_once:
  assumes "relational_db db cur rnd" "tickets_ok t"
  shows "vc cur (do { a \<leftarrow> db_tx_comps db (claim_tx db now limit);
      b \<leftarrow> db_tx_comps db (claim_tx db now' limit'); State_Monad.return (a, b) })
    (\<lambda>(a, b) t'. \<forall>xs ys. a = Inr xs \<longrightarrow> b = Inr ys \<longrightarrow> kp_ID ` set xs \<inter> kp_ID ` set ys = {}) t"
  by (rule relational_db.claimed_once [OF assms])

text \<open>Three tickets wait, one of them for later; two workers claim one ticket each.\<close>

definition sample_ticket :: "int64 \<Rightarrow> time option \<Rightarrow> CompensationPO" where
  "sample_ticket i retry = \<lparr>kp_ID = i, kp_Kind = ''ledger_unfreeze'', kp_TenantID = ''t1'', kp_Ref = ''f1'', kp_Payload = '''',
     kp_Status = ''pending'', kp_Attempts = 0, kp_LastError = '''', kp_NextRetry = retry, kp_CreatedAt = 3, kp_DoneAt = None\<rparr>"

definition ticket_tables :: Tables where
  "ticket_tables = no_rows\<lparr>t_comps := [sample_ticket 2 None, sample_ticket 1 (Some 4), sample_ticket 3 (Some 900)]\<rparr>"

lemma sample_claims:
  "fst (run_state (do { a \<leftarrow> db_tx_comps sample_db (claim_tx sample_db 7 1);
      b \<leftarrow> db_tx_comps sample_db (claim_tx sample_db 7 1); State_Monad.return (a, b) }) ticket_tables) =
    (Inr [(sample_ticket 1 (Some 4))\<lparr>kp_Attempts := 1\<rparr>], Inr [(sample_ticket 2 None)\<lparr>kp_Attempts := 1\<rparr>])"
  by (simp add: claim_tx_def sample_db_def table_db_def list_table_def plain_tx_def ticket_tables_def no_rows_def
      sample_ticket_def retry_due_def sort_by_def by_key_def limited_def)

theorem ticket_claimed_once_witness:
  "\<exists>xs ys. fst (run_state (do { a \<leftarrow> db_tx_comps sample_db (claim_tx sample_db 7 1);
      b \<leftarrow> db_tx_comps sample_db (claim_tx sample_db 7 1); State_Monad.return (a, b) }) ticket_tables) = (Inr xs, Inr ys) \<and>
    map kp_ID xs = [1] \<and> map kp_ID ys = [2] \<and> kp_ID ` set xs \<inter> kp_ID ` set ys = {}"
proof -
  have "tickets_ok ticket_tables" by (simp add: tickets_ok_def ticket_tables_def no_rows_def sample_ticket_def)
  from wpD [OF ticket_claimed_once [OF sample_db_relational this, of 7 1 7 1] surjective_pairing]
  show ?thesis unfolding sample_claims by (simp add: sample_ticket_def)
qed

end
