(* ===== verification/Pg_History.thy ===== *)
theory Pg_History
  imports Pg_Simulation Pg_Properties
begin

text \<open>
  The in-memory repository simulates the Postgres repository. Every write that Postgres commits has a counterpart in
  memory that keeps the two related, and a write that fails leaves the tables alone
  (\<open>write_follows\<close>), so a run of Postgres, whatever faults it had, is a run in memory, and what holds of
  all runs in memory holds of the tables.
\<close>

section \<open>One write\<close>

text \<open>What the in-memory repository does where Postgres reported \<open>done\<close> and left \<open>t'\<close>.\<close>

definition follows :: "(Event \<Rightarrow> bytes) \<Rightarrow> time \<Rightarrow> repo_write \<Rightarrow> OrderRepo \<Rightarrow> bool \<Rightarrow> Tables \<Rightarrow> bool" where
  "follows marshal tnow op r done t' \<longleftrightarrow>
     (done \<and> decided op r \<longrightarrow> fst (mem_write marshal tnow op r)) \<and>
     related (if done then snd (mem_write marshal tnow op r) else r) t' \<and>
     repo_evolves r (if done then snd (mem_write marshal tnow op r) else r)"

lemma related_wf: "related r t \<Longrightarrow> repo_wf r"
  by (simp add: related_def orders_related_def)

lemma follows_fault: "related r t \<Longrightarrow> follows marshal tnow op r False t"
  by (simp add: follows_def related_wf repo_evolves_refl)

text \<open>An update of an order that is found.\<close>

lemma repo_evolves_found:
  assumes "repo_wf r" "lookup_order r ten i = Some o'" "order_evolves o' o''" "orders r' = orders (put_order ten i o'' r)"
  shows "repo_evolves r r'"
proof -
  have k: "order_key (ord_TenantID o') (ord_OrderID o') = order_key ten i"
    using assms(1,2) by (auto simp: repo_wf_def lookup_order_def dest!: map_of_SomeD)
  have "put_order ten i o'' r = put_own o' o'' r" by (simp add: put_order_def k)
  moreover have "stored r o'" using assms(2) k by (simp add: stored_def lookup_order_def)
  ultimately have "repo_evolves r (put_order ten i o'' r)"
    using repo_evolves_put [OF repo_evolves_refl [OF assms(1)] _ assms(3)] by simp
  then show ?thesis using orders_only(1,2) [OF assms(4)] by (simp add: repo_evolves_def)
qed

lemma repo_evolves_cong: "orders r' = orders r \<Longrightarrow> repo_wf r \<Longrightarrow> repo_evolves r r'"
  using repo_evolves_refl [of r] orders_only(1,2) [of r' r] by (simp add: repo_evolves_def)

lemma vc_succeeds: "vc v m (\<lambda>res t'. Q (is_ok res) t') t \<Longrightarrow> vc v (succeeds m) Q t"
  unfolding succeeds_def by (rule wp_bind) (erule wp_mono, rule wp_return)

lemma pending_append [simp]: "pending (xs @ ys) = pending xs @ pending ys"
  by (simp add: pending_def)

lemma pending_written: "outbox_row_same (eventToPO js ev) row \<Longrightarrow> pending [row] = [ev_EventID ev]"
  by (simp add: pending_def outbox_row_same_def eventToPO_def)

lemma repo_evolves_new:
  assumes "repo_wf r" "lookup_order r (ord_TenantID o') (ord_OrderID o') = None"
  shows "repo_evolves r (put_own o' o' r)"
proof -
  have "stored (put_own o' o' r) a" if "stored r a" for a
    using that assms(2) unfolding stored_put_order by (auto simp: stored_def lookup_order_def)
  then show ?thesis
    using assms(1) by (auto simp: repo_evolves_def order_evolves_def put_order_wf intro: evolves.stay)
qed

text \<open>The condition of a transition, on the row and on the order.\<close>

definition step_due :: "TransitionCmd \<Rightarrow> Order \<Rightarrow> bool" where
  "step_due cmd o' \<longleftrightarrow> ord_Version o' = tc_Version cmd \<and> ord_Status o' \<in> set (tc_From cmd) \<and>
     CanTransition (ord_Status o') (tc_To cmd)"

lemma accepts_iff:
  "tc_From cmd \<noteq> [] \<Longrightarrow>
     accepts r cmd o' \<longleftrightarrow> lookup_order r (tc_TenantID cmd) (tc_OrderID cmd) = Some o' \<and> step_due cmd o'"
  by (auto simp: accepts_def step_due_def)

lemma transition_where_row:
  "transition_where cmd po \<longleftrightarrow> row_at (tc_TenantID cmd) (tc_OrderID cmd) po \<and>
     po_Version po = tc_Version cmd \<and> (tc_From cmd \<noteq> [] \<longrightarrow> po_Status po \<in> set (map Status_String (tc_From cmd)))"
  by (auto simp: transition_where_def row_at_def)

lemma step_due_row:
  assumes "steps_allowed cmd" "same_order o' po"
  shows "(po_Version po = tc_Version cmd \<and>
     (tc_From cmd \<noteq> [] \<longrightarrow> po_Status po \<in> set (map Status_String (tc_From cmd)))) \<longleftrightarrow> step_due cmd o'"
  using assms by (auto simp: same_order_def step_due_def steps_allowed_def image_iff lifecycle_iff)

lemma client_of_transition_row [simp]: "client_of (transition_row now cmd po) = client_of po"
  unfolding client_of_def transition_row_def Let_def by (simp split: option.split)

lemma transition_follows:
  assumes rel: "related r t" and ok: "bare (tc_TenantID cmd)" "steps_allowed cmd"
    and rows: "list_all2 (stepped db rnd now cmd) (t_orders t) (t_orders t')"
    and hit: "filter (transition_where cmd) (t_orders t) \<noteq> []"
    and rest: "t_idem t' = t_idem t"
      "pending (t_outbox t') = pending (t_outbox t) @ (case tc_Event cmd of None \<Rightarrow> [] | Some ev \<Rightarrow> [ev_EventID ev])"
  shows "follows marshal tnow (WTransition cmd) r True t'"
proof -
  let ?c = "\<lambda>po. po_Version po = tc_Version cmd \<and>
     (tc_From cmd \<noteq> [] \<longrightarrow> po_Status po \<in> set (map Status_String (tc_From cmd)))"
  let ?r' = "snd (repo_Transition marshal tnow cmd r)"
  have ords: "orders_related r (t_orders t)" using rel by (simp add: related_def)
  have from_ne: "tc_From cmd \<noteq> []" using ok(2) by (simp add: steps_allowed_def)
  have "\<exists>o'. lookup_order r (tc_TenantID cmd) (tc_OrderID cmd) = Some o' \<and> step_due cmd o'"
    using condition_met [of r "t_orders t" "tc_TenantID cmd" "transition_where cmd" "tc_OrderID cmd" ?c "step_due cmd",
        OF ords ok(1) transition_where_row step_due_row [OF ok(2)]] hit by (auto simp: filter_empty_conv)
  then obtain o' where o': "lookup_order r (tc_TenantID cmd) (tc_OrderID cmd) = Some o'" "step_due cmd o'" by blast
  then have acc: "accepts r cmd o'" by (simp add: accepts_iff from_ne)
  have keep: "clientIx ?r' = clientIx r" "idem ?r' = idem r"
    using acc by (auto simp: accepts_def repo_Transition_def Let_def put_order_def append_event_def split: option.split)
  have "orders_related ?r' (t_orders t')"
  proof (rule conditional_update [OF ords ok(1) _ transition_where_row step_due_row [OF ok(2)]])
    show "list_all2 (\<lambda>x y. if transition_where cmd x then order_row_same (db_js db) rnd (transition_row now cmd x) y
        else y = x) (t_orders t) (t_orders t')"
      using rows by (simp only: stepped_def [abs_def])
  qed (use o' acc Transition_accepts(2) [OF acc] keep(1) in \<open>auto simp: same_order_transition\<close>)
  moreover have "idem_related ?r' (t_idem t')" using rel rest(1) keep(2) by (simp add: related_def idem_related_def)
  moreover have "map ob_EventID (events ?r') = pending (t_outbox t')"
    using rel rest(2) Transition_effect(2) [OF acc] by (simp add: related_def outbox_row_def split: option.split)
  ultimately show ?thesis
    using Transition_accepts(1) [OF acc] repo_evolves_found [OF related_wf [OF rel] o'(1) _ Transition_accepts(2) [OF acc]]
      o'(2) by (simp add: follows_def related_def order_evolves_def frozen_part_apply_cmd evolves_step step_due_def)
qed

context relational_db
begin

lemma transition_tx_rows:
  "vc cur (transition_tx db cmd) (on_ok (\<lambda>_ t'. \<exists>now. list_all2 (stepped db rnd now cmd) (t_orders t) (t_orders t') \<and>
      filter (transition_where cmd) (t_orders t) \<noteq> [] \<and> t_idem t' = t_idem t \<and>
      pending (t_outbox t') = pending (t_outbox t) @ (case tc_Event cmd of None \<Rightarrow> [] | Some ev \<Rightarrow> [ev_EventID ev]))) t"
  unfolding transition_tx_def
  by (intro wp_intros vc_db vc_order_lines conjI allI impI)
    (auto simp: stepped_def [symmetric] pending_written)

lemma Transition_follows:
  assumes "related r t" "keys_bare (WTransition cmd)"
  shows "vc cur (pg_write db (WTransition cmd)) (follows marshal tnow (WTransition cmd) r) t"
  unfolding pg_write.simps pg_Transition_def
  by (rule vc_succeeds, rule vc_tx [OF tx_order wp_mono [OF transition_tx_rows]])
    (use assms in \<open>auto simp: on_ok_def intro: transition_follows follows_fault split: sum.splits\<close>)

end

text \<open>The other updates of an order.\<close>

lemma update_follows:
  assumes rel: "related r t" and ten: "bare ten"
    and rows: "list_all2 (\<lambda>x y. if p x then order_row_same js rnd (f x) y else y = x) (t_orders t) rows'"
    and p: "\<And>x. p x \<longleftrightarrow> row_at ten i x \<and> c x" and cond: "\<And>o' x. same_order o' x \<Longrightarrow> c x \<longleftrightarrow> g o'"
    and keys: "\<And>x. po_OrderID (f x) = po_OrderID x" "\<And>x. client_of (f x) = client_of x"
    and upd: "\<And>o' x. same_order o' x \<Longrightarrow> same_order (n o') (f x)"
    and mem: "\<And>o'. lookup_order r ten i = Some o' \<Longrightarrow> g o' \<Longrightarrow>
        mem_write marshal tnow op r = (True, put_order ten i (n o') r)"
      "\<nexists>o'. lookup_order r ten i = Some o' \<and> g o' \<Longrightarrow> mem_write marshal tnow op r = (False, r)"
    and hit: "decided op r \<Longrightarrow> filter p (t_orders t) \<noteq> [] \<or> (\<exists>o'. lookup_order r ten i = Some o' \<and> g o')"
    and evo: "\<And>o'. order_evolves o' (n o')"
  shows "follows marshal tnow op r True (t\<lparr>t_orders := rows'\<rparr>)"
proof -
  let ?r' = "snd (mem_write marshal tnow op r)"
  have ords: "orders_related r (t_orders t)" using rel by (simp add: related_def)
  have met: "(\<exists>x \<in> set (t_orders t). p x) \<longleftrightarrow> (\<exists>o'. lookup_order r ten i = Some o' \<and> g o')"
    by (rule condition_met [OF ords ten p cond])
  have r': "?r' = r \<or> (\<exists>o'. ?r' = put_order ten i o' r)"
    using mem by (cases "\<exists>o'. lookup_order r ten i = Some o' \<and> g o'") auto
  then have keep: "clientIx ?r' = clientIx r" "idem ?r' = idem r" "events ?r' = events r"
    by (auto simp: put_order_def)
  have "orders_related ?r' rows'"
  proof (rule conditional_update [OF ords ten rows p cond keys upd])
    show "orders ?r' = orders (put_order ten i (n o') r) \<and> clientIx ?r' = clientIx r"
      if "lookup_order r ten i = Some o'" "g o'" for o'
      using mem(1) [OF that] keep(1) by simp
    show "?r' = r" if "\<nexists>o'. lookup_order r ten i = Some o' \<and> g o'"
      using mem(2) [OF that] by simp
  qed
  moreover have "fst (mem_write marshal tnow op r)" if "decided op r"
    using hit [OF that] met mem(1) by (auto simp: filter_empty_conv)
  moreover have "repo_evolves r ?r'"
  proof (cases "\<exists>o'. lookup_order r ten i = Some o' \<and> g o'")
    case True
    then obtain o' where "lookup_order r ten i = Some o'" "g o'" by blast
    then show ?thesis using mem(1) by (intro repo_evolves_found [OF related_wf [OF rel] _ evo]) auto
  qed (use mem(2) in \<open>simp add: repo_evolves_refl related_wf [OF rel]\<close>)
  ultimately show ?thesis
    using rel keep(2,3) by (simp add: follows_def related_def idem_related_def)
qed

lemma intent_rows:
  assumes "related r t" "bare ten" "list_all2 (\<lambda>x y. if po_TenantID x = ten \<and> po_OrderID x = i
      then order_row_same js rnd (x\<lparr>po_PaymentIntentID := it, po_PaymentChannel := ch, po_UpdatedAt := now\<rparr>) y
      else y = x) (t_orders t) rows'"
  shows "follows marshal tnow (WIntent ten i it ch) r True (t\<lparr>t_orders := rows'\<rparr>)"
  by (rule update_follows [OF assms(1-3), where c = "\<lambda>_. True" and g = "\<lambda>_. True" and i = i and
      n = "\<lambda>o'. o'\<lparr>ord_Payment := \<lparr>py_PaymentIntentID = it, py_Channel = ch\<rparr>\<rparr>"])
    (auto simp: row_at_def client_of_def same_order_def order_evolves_def frozen_part_def repo_UpdatePaymentIntent_def
      intro: evolves.stay split: option.split)

lemma redemption_rows:
  assumes "related r t" "bare ten" "list_all2 (\<lambda>x y. if po_TenantID x = ten \<and> po_OrderID x = i
      then order_row_same js rnd (x\<lparr>po_RedemptionID := rid, po_UpdatedAt := now\<rparr>) y
      else y = x) (t_orders t) rows'"
  shows "follows marshal tnow (WRedemption ten i rid) r True (t\<lparr>t_orders := rows'\<rparr>)"
  by (rule update_follows [OF assms(1-3), where c = "\<lambda>_. True" and g = "\<lambda>_. True" and i = i and
      n = "\<lambda>o'. o'\<lparr>ord_Promotion := (ord_Promotion o')\<lparr>pr_RedemptionID := rid\<rparr>\<rparr>"])
    (auto simp: row_at_def client_of_def same_order_def order_evolves_def frozen_part_def repo_UpdateRedemption_def
      intro: evolves.stay split: option.split)

lemma renew_rows:
  assumes "related r t" "bare ten" "list_all2 (\<lambda>x y. if po_TenantID x = ten \<and> po_OrderID x = i \<and>
        po_Status x = Status_String StatusPendingPay \<and> po_RenewCount x = n
      then order_row_same js rnd (x\<lparr>po_RenewCount := po_RenewCount x + 1, po_UpdatedAt := now\<rparr>) y
      else y = x) (t_orders t) rows'"
    and "filter (\<lambda>x. po_TenantID x = ten \<and> po_OrderID x = i \<and>
        po_Status x = Status_String StatusPendingPay \<and> po_RenewCount x = n) (t_orders t) \<noteq> []"
  shows "follows marshal tnow (WRenew ten i n) r True (t\<lparr>t_orders := rows'\<rparr>)"
  by (rule update_follows [OF assms(1-3), where i = i and
      c = "\<lambda>x. po_Status x = Status_String StatusPendingPay \<and> po_RenewCount x = n" and
      g = "\<lambda>o'. ord_Status o' = StatusPendingPay \<and> ord_RenewCount o' = n" and
      n = "\<lambda>o'. o'\<lparr>ord_RenewCount := ord_RenewCount o' + 1\<rparr>"])
    (use assms(4) in \<open>auto simp: row_at_def client_of_def same_order_def order_evolves_def frozen_part_def repo_BumpRenew_def
      simp del: Status_String.simps intro: evolves.stay split: option.split\<close>)

lemma missed_rows:
  assumes "related r t" "list_all2 (\<lambda>x y. if p x then S x y else y = x) (t_orders t) rows'" "filter p (t_orders t) = []"
  shows "follows marshal tnow op r False (t\<lparr>t_orders := rows'\<rparr>)"
proof -
  have "rows' = t_orders t" using assms(3) by (intro list_all2_same [OF assms(2)]) (simp add: filter_empty_conv)
  then show ?thesis using follows_fault [OF assms(1)] by simp
qed

text \<open>Bookkeeping: the response of an idempotent call and the publication of an event.\<close>

lemma response_rows:
  assumes "related r t" "list_all2 (\<lambda>x y. if ip_TenantID x = ten \<and> ip_Actor x = a \<and> ip_IdemKey x = k
      then idem_row_same (x\<lparr>ip_Response := b\<rparr>) y else y = x) (t_idem t) rows'"
  shows "follows marshal tnow (WResponse ten a k b) r True (t\<lparr>t_idem := rows'\<rparr>)"
proof -
  let ?r' = "snd (repo_UpdateIdempotencyResponse ten a k b r)"
  have "map idem_of rows' = map idem_of (t_idem t)"
    using assms(2) by (induction rule: list_all2_induct) (auto simp: idem_of_def idem_row_same_def split: if_splits)
  then have "idem_of ` set rows' = idem_of ` set (t_idem t)" by (metis list.set_map)
  moreover have "idem ?r' key \<noteq> None \<longleftrightarrow> idem r key \<noteq> None" for key
    by (auto simp: repo_UpdateIdempotencyResponse_def Let_def split: option.split)
  moreover have "orders ?r' = orders r \<and> clientIx ?r' = clientIx r \<and> events ?r' = events r"
    "is_ok (fst (repo_UpdateIdempotencyResponse ten a k b r))"
    by (auto simp: repo_UpdateIdempotencyResponse_def Let_def split: option.split)
  moreover have "repo_evolves r ?r'" by (rule repo_evolves_cong [OF _ related_wf [OF assms(1)]]) simp
  ultimately show ?thesis
    using assms(1) by (simp add: follows_def related_def idem_related_def orders_related_cong [of ?r' r] del: not_None_eq)
qed

lemma published_rows:
  assumes "related r t" "list_all2 (\<lambda>x y. if ox_EventID x = i
      then outbox_row_same (x\<lparr>ox_PublishedAt := Some now, ox_Attempts := ox_Attempts x + 1\<rparr>) y else y = x)
      (t_outbox t) rows'"
  shows "follows marshal tnow (WPublished i) r True (t\<lparr>t_outbox := rows'\<rparr>)"
proof -
  let ?r' = "snd (repo_MarkEventPublished i r)"
  have "pending rows' = filter (\<lambda>e. e \<noteq> i) (pending (t_outbox t))"
    using assms(2) by (induction rule: list_all2_induct) (auto simp: pending_def outbox_row_same_def split: if_splits)
  moreover have "map ob_EventID (events ?r') = filter (\<lambda>e. e \<noteq> i) (map ob_EventID (events r))"
    by (simp add: repo_MarkEventPublished_def Let_def filter_map comp_def)
  moreover have "orders ?r' = orders r \<and> clientIx ?r' = clientIx r \<and> idem ?r' = idem r"
    "is_ok (fst (repo_MarkEventPublished i r))"
    by (simp_all add: repo_MarkEventPublished_def Let_def)
  moreover have "repo_evolves r ?r'" by (rule repo_evolves_cong [OF _ related_wf [OF assms(1)]]) simp
  ultimately show ?thesis
    using assms(1) by (simp add: follows_def related_def idem_related_def orders_related_cong [of ?r' r])
qed

text \<open>A checkout.\<close>

lemma find_snoc: "find p (xs @ [x]) = (case find p xs of None \<Rightarrow> if p x then Some x else None | Some y \<Rightarrow> Some y)"
  by (induction xs) auto

lemma inserted_orders:
  assumes rel: "orders_related r rows" and ten: "bare (ord_TenantID o')" "bare (ord_BuyerUserID o')"
    and po: "order_row_same js rnd (orderToPO js o') po" and new: "\<forall>q \<in> set rows. \<not> order_clash q po"
    and r': "orders r' = orders (put_order (ord_TenantID o') (ord_OrderID o') o' r)"
      "clientIx r' = (clientIx r)(clientKey (ord_TenantID o') (ord_BuyerUserID o') (ord_ClientOrderID o') \<mapsto> ord_OrderID o')"
  shows "orders_related r' (rows @ [po])"
proof -
  have so: "same_order o' po" by (rule same_order_written [OF po])
  have key: "row_at a i po \<longleftrightarrow> a = ord_TenantID o' \<and> i = ord_OrderID o'" for a i
    using so by (auto simp: row_at_def same_order_def)
  have cl: "client_of po = (ord_TenantID o', ord_BuyerUserID o', ord_ClientOrderID o')"
    using so by (simp add: client_of_def same_order_def)
  have fresh: "find (row_at (ord_TenantID o') (ord_OrderID o')) rows = None"
    using new so by (auto simp: find_None_iff row_at_def order_clash_def same_order_def)
  have "rows_ok (rows @ [po])"
    using rel new so by (auto simp: orders_related_def rows_ok_def order_clash_def same_order_def)
  moreover have "repo_wf r'"
    using rel put_order_wf [of r o'] by (simp add: orders_related_def orders_only(1) [OF r'(1)])
  moreover have "rel_option same_order (lookup_order r' a i) (find (row_at a i) (rows @ [po]))" if a: "bare a" for a i
  proof (cases "a = ord_TenantID o' \<and> i = ord_OrderID o'")
    case True
    then show ?thesis using fresh so by (simp add: orders_only(3) [OF r'(1)] lookup_put_order find_snoc key)
  next
    case False
    then have "lookup_order r' a i = lookup_order r a i"
      using a ten(1) by (auto simp: orders_only(3) [OF r'(1)] lookup_put_order)
    moreover have "find (row_at a i) (rows @ [po]) = find (row_at a i) rows"
      using False by (auto simp: find_snoc key split: option.split)
    ultimately show ?thesis using rel a by (simp add: orders_related_def)
  qed
  moreover have newc: "client_of po \<notin> client_of ` set rows"
    using new so by (auto simp: client_of_def order_clash_def same_order_def)
  moreover have "clientIx r' (clientKey a b c) = map_option po_OrderID (find (client_at a b c) (rows @ [po]))"
    if "bare a" "bare b" for a b c
  proof (cases "client_of po = (a, b, c)")
    case True
    then have "find (client_at a b c) rows = None" using newc by (auto simp: find_None_iff client_at_def image_iff)
    then show ?thesis using True cl so by (simp add: r'(2) find_snoc client_at_def same_order_def)
  next
    case False
    then have "find (client_at a b c) (rows @ [po]) = find (client_at a b c) rows"
      by (simp add: find_snoc client_at_def split: option.split)
    then show ?thesis using False rel ten that by (auto simp: r'(2) cl orders_related_def)
  qed
  ultimately show ?thesis
    using rel ten by (simp add: orders_related_def cl)
qed

lemma insert_idem:
  assumes rel: "idem_related r rows" and keys: "bare (ir_TenantID ir)" "bare (ir_Actor ir)"
    and row: "idem_row_same (idemToPO ir) row" and new: "\<forall>q \<in> set rows. \<not> idem_clash q row"
  shows "idem r (idemKey (ir_TenantID ir) (ir_Actor ir) (ir_Key ir)) = None"
    and "idem r' = (idem r)(idemKey (ir_TenantID ir) (ir_Actor ir) (ir_Key ir) \<mapsto> ir) \<Longrightarrow> idem_related r' (rows @ [row])"
proof -
  have of_row: "idem_of row = (ir_TenantID ir, ir_Actor ir, ir_Key ir)"
    using row by (simp add: idem_of_def idem_row_same_def idemToPO_def)
  then have "idem_of row \<notin> idem_of ` set rows" using new by (auto simp: idem_clash_def idem_of_def)
  then show "idem r (idemKey (ir_TenantID ir) (ir_Actor ir) (ir_Key ir)) = None"
    using rel keys unfolding idem_related_def of_row by blast
  show "idem_related r' (rows @ [row])"
    if "idem r' = (idem r)(idemKey (ir_TenantID ir) (ir_Actor ir) (ir_Key ir) \<mapsto> ir)"
    using rel keys by (simp add: idem_related_def that of_row) (auto)
qed

lemma insert_follows:
  assumes rel: "related r t" and keys: "keys_bare (WInsert rec)" and o': "cp_Order rec = Some o'"
    and ins: "inserted db rnd rec o' t t'"
  shows "follows marshal tnow (WInsert rec) r True t'"
proof -
  let ?ck = "clientKey (ord_TenantID o') (ord_BuyerUserID o') (ord_ClientOrderID o')"
  let ?row = "outbox_row marshal (cp_Event rec)"
  have ten: "bare (ord_TenantID o')" "bare (ord_BuyerUserID o')" using keys o' by simp_all
  have parts: "orders_related r (t_orders t)" "idem_related r (t_idem t)"
    "map ob_EventID (events r) = pending (t_outbox t)"
    using rel by (simp_all add: related_def)
  obtain po where po: "t_orders t' = t_orders t @ [po]" "order_row_same (db_js db) rnd (orderToPO (db_js db) o') po"
      "\<forall>q \<in> set (t_orders t). \<not> order_clash q po"
    and out: "pending (t_outbox t') = pending (t_outbox t) @ [ev_EventID (cp_Event rec)]"
    using ins by (auto simp: inserted_def pending_def)
  have "clientIx r ?ck = None"
    using parts(1) po(3) same_order_written [OF po(2)] ten
    by (auto simp: orders_related_def find_None_iff client_at_def client_of_def order_clash_def same_order_def)
  moreover obtain r1 where r1: "InsertCheckout_idem (cp_Idempotency rec) r = Inr r1" "orders r1 = orders r"
    "clientIx r1 = clientIx r" "events r1 = events r" "idem_related r1 (t_idem t')"
  proof (cases "cp_Idempotency rec")
    case None
    then show ?thesis using that [of r] parts(2) ins by (simp add: inserted_def InsertCheckout_idem_def)
  next
    case (Some ir)
    then obtain row where row: "t_idem t' = t_idem t @ [row]" "idem_row_same (idemToPO ir) row"
      "\<forall>q \<in> set (t_idem t). \<not> idem_clash q row"
      using ins by (auto simp: inserted_def)
    have b: "bare (ir_TenantID ir)" "bare (ir_Actor ir)" using keys Some by simp_all
    show ?thesis
      using insert_idem [OF parts(2) b row(2,3)] Some row(1)
      by (intro that [of "r\<lparr>idem := (idem r)(idemKey (ir_TenantID ir) (ir_Actor ir) (ir_Key ir) \<mapsto> ir)\<rparr>"])
        (simp_all add: InsertCheckout_idem_def Let_def)
  qed
  ultimately have ret: "repo_InsertCheckout marshal rec r = (Inr (), append_event ?row
      (put_order (ord_TenantID o') (ord_OrderID o') o' r1\<lparr>clientIx := (clientIx r)(?ck \<mapsto> ord_OrderID o')\<rparr>))"
    (is "_ = (_, ?r')") by (simp add: repo_InsertCheckout_def o' Let_def put_order_def)
  have "orders_related ?r' (t_orders t')"
    unfolding po(1) by (rule inserted_orders [OF parts(1) ten po(2,3)])
      (simp_all add: append_event_def put_order_def r1)
  moreover have "idem_related ?r' (t_idem t')"
    using r1(5) by (simp add: idem_related_def append_event_def put_order_def)
  moreover have "map ob_EventID (events ?r') = pending (t_outbox t')"
    using parts(3) out r1(4) by (simp add: append_event_def put_order_def outbox_row_def)
  moreover have "repo_evolves r ?r'"
  proof -
    have fresh: "find (row_at (ord_TenantID o') (ord_OrderID o')) (t_orders t) = None"
      using po(3) same_order_written [OF po(2)] by (auto simp: find_None_iff row_at_def order_clash_def same_order_def)
    then have "lookup_order r (ord_TenantID o') (ord_OrderID o') = None"
      using parts(1) ten(1) by (metis orders_related_def option_rel_Some1 not_Some_eq option.distinct(1))
    from repo_evolves_new [OF related_wf [OF rel] this] show ?thesis
      using orders_only(1,2) [of ?r' "put_own o' o' r"] by (simp add: repo_evolves_def append_event_def put_order_def r1(2))
  qed
  ultimately show ?thesis by (simp add: follows_def ret related_def)
qed

context relational_db
begin

lemma order_writes_follow:
  assumes "related r t" "bare ten"
  shows "vc cur (pg_write db (WIntent ten i it ch)) (follows marshal tnow (WIntent ten i it ch) r) t"
    and "vc cur (pg_write db (WRedemption ten i rid)) (follows marshal tnow (WRedemption ten i rid) r) t"
    and "vc cur (pg_write db (WRenew ten i n)) (follows marshal tnow (WRenew ten i n) r) t"
  unfolding pg_write.simps pg_UpdatePaymentIntent_def pg_UpdateRedemption_def pg_BumpRenew_def error_of_def
  by (intro vc_succeeds wp_intros vc_now vc_orders(5) conjI allI impI;
      auto simp: assms follows_fault simp del: Status_String.simps
        intro: intent_rows [OF assms] redemption_rows [OF assms] renew_rows [OF assms] missed_rows [OF assms(1)])+

lemma bookkeeping_writes_follow:
  assumes "related r t"
  shows "vc cur (pg_write db (WResponse ten a k b)) (follows marshal tnow (WResponse ten a k b) r) t"
    and "vc cur (pg_write db (WPublished j)) (follows marshal tnow (WPublished j) r) t"
  unfolding pg_write.simps pg_UpdateIdempotencyResponse_def pg_MarkEventPublished_def error_of_def
  by (intro vc_succeeds wp_intros vc_db conjI allI impI;
      auto simp: assms follows_fault intro: response_rows [OF assms] published_rows [OF assms])+

lemma Insert_follows:
  assumes "related r t" "keys_bare (WInsert rec)"
  shows "vc cur (pg_write db (WInsert rec)) (follows marshal tnow (WInsert rec) r) t"
  unfolding pg_write.simps
  by (rule vc_succeeds, rule wp_mono [OF InsertCheckout_outcome])
    (use assms in \<open>auto intro: insert_follows follows_fault split: sum.splits\<close>)

lemma write_follows:
  assumes "related r t" "keys_bare op"
  shows "vc cur (pg_write db op) (follows marshal tnow op r) t"
proof (cases op)
  case (WInsert rec)
  then show ?thesis using Insert_follows [OF assms(1)] assms(2) by blast
next
  case (WTransition cmd)
  then show ?thesis using Transition_follows [OF assms(1)] assms(2) by blast
qed (use assms in \<open>auto simp only: keys_bare.simps intro: order_writes_follow bookkeeping_writes_follow\<close>)

lemma repo_evolves_trans: "repo_evolves r r1 \<Longrightarrow> repo_evolves r1 r2 \<Longrightarrow> repo_evolves r r2"
  unfolding repo_evolves_def by (meson order_evolves_trans)

lemma writes_follow:
  "related r t \<Longrightarrow> \<forall>op \<in> set ops. keys_bare op \<Longrightarrow>
     vc cur (pg_writes db ops) (\<lambda>done t'. \<exists>r'. mem_writes marshal tnow done r = (True, r') \<and> related r' t' \<and>
       repo_evolves r r') t"
proof (induction ops arbitrary: r t)
  case (Cons op ops)
  have keys: "keys_bare op" "\<forall>op \<in> set ops. keys_bare op" using Cons.prems(2) by simp_all
  have rest: "vc cur (State_Monad.bind (pg_writes db ops) (\<lambda>rest. State_Monad.return (if ok then op # rest else rest)))
      (\<lambda>done t'. \<exists>r'. mem_writes marshal tnow done r = (True, r') \<and> related r' t' \<and> repo_evolves r r') t1"
    if step: "follows marshal tnow op r ok t1" for ok t1
  proof -
    let ?r1 = "if ok then snd (mem_write marshal tnow op r) else r"
    have "related ?r1 t1" and evo: "repo_evolves r ?r1" using step by (simp_all add: follows_def)
    from Cons.IH [OF this(1) keys(2)] show ?thesis
      by (rule wp_bind [OF wp_mono])
        (use step repo_evolves_trans [OF evo] in \<open>auto intro!: wp_return simp: follows_def Let_def split: prod.split if_splits\<close>)
  qed
  show ?case
    unfolding pg_writes.simps by (rule wp_bind, rule wp_mono [OF write_follows [OF Cons.prems(1) keys(1)] rest])
qed (auto intro!: wp_return repo_evolves_refl related_wf)

end

text \<open>What stays of a row, and how its status moves, read off the repository in memory.\<close>

definition row_evolves :: "OrderPO \<Rightarrow> OrderPO \<Rightarrow> bool" where
  "row_evolves po po' \<longleftrightarrow> po_OrderID po' = po_OrderID po \<and> client_of po' = client_of po \<and>
     po_Scene po' = po_Scene po \<and> po_Channel po' = po_Channel po \<and> po_PayMethod po' = po_PayMethod po \<and>
     po_Currency po' = po_Currency po \<and> po_OriginalAmount po' = po_OriginalAmount po \<and>
     po_PayableAmount po' = po_PayableAmount po \<and> po_DiscountAmount po' = po_DiscountAmount po \<and>
     po_LedgerPayAmount po' = po_LedgerPayAmount po \<and> po_ChannelPayAmount po' = po_ChannelPayAmount po \<and>
     evolves (Status_of (po_Status po)) (Status_of (po_Status po'))"

lemma frozen_part_reads:
  "ord_OrderID (frozen_part o') = ord_OrderID o'" "ord_TenantID (frozen_part o') = ord_TenantID o'"
  "ord_BuyerUserID (frozen_part o') = ord_BuyerUserID o'" "ord_ClientOrderID (frozen_part o') = ord_ClientOrderID o'"
  "ord_Scene (frozen_part o') = ord_Scene o'" "ord_Channel (frozen_part o') = ord_Channel o'"
  "ord_PayMethod (frozen_part o') = ord_PayMethod o'"
  "amt_Currency (ord_Amounts (frozen_part o')) = amt_Currency (ord_Amounts o')"
  "amt_Original (ord_Amounts (frozen_part o')) = amt_Original (ord_Amounts o')"
  "amt_Payable (ord_Amounts (frozen_part o')) = amt_Payable (ord_Amounts o')"
  "amt_Discount (ord_Amounts (frozen_part o')) = amt_Discount (ord_Amounts o')"
  "amt_LedgerPay (ord_Amounts (frozen_part o')) = amt_LedgerPay (ord_Amounts o')"
  "amt_ChannelPay (ord_Amounts (frozen_part o')) = amt_ChannelPay (ord_Amounts o')"
  by (simp_all add: frozen_part_def)

lemma frozen_part_fields:
  assumes "frozen_part o'' = frozen_part o'"
  shows "ord_OrderID o'' = ord_OrderID o'" "ord_TenantID o'' = ord_TenantID o'" "ord_BuyerUserID o'' = ord_BuyerUserID o'"
    "ord_ClientOrderID o'' = ord_ClientOrderID o'" "ord_Scene o'' = ord_Scene o'" "ord_Channel o'' = ord_Channel o'"
    "ord_PayMethod o'' = ord_PayMethod o'" "amt_Currency (ord_Amounts o'') = amt_Currency (ord_Amounts o')"
    "amt_Original (ord_Amounts o'') = amt_Original (ord_Amounts o')" "amt_Payable (ord_Amounts o'') = amt_Payable (ord_Amounts o')"
    "amt_Discount (ord_Amounts o'') = amt_Discount (ord_Amounts o')"
    "amt_LedgerPay (ord_Amounts o'') = amt_LedgerPay (ord_Amounts o')"
    "amt_ChannelPay (ord_Amounts o'') = amt_ChannelPay (ord_Amounts o')"
  using assms by (metis frozen_part_reads)+

lemma rows_evolve:
  assumes rel: "related r t" "related r' t'" and evo: "repo_evolves r r'" and po: "po \<in> set (t_orders t)"
  shows "\<exists>po' \<in> set (t_orders t'). row_evolves po po'"
proof -
  have ords: "orders_related r (t_orders t)" "orders_related r' (t_orders t')" using rel by (simp_all add: related_def)
  obtain o' where o': "lookup_order r (po_TenantID po) (po_OrderID po) = Some o'" "same_order o' po"
    using related_order [OF ords(1) po] by (auto simp: row_at_def)
  have ten: "bare (po_TenantID po)" using ords(1) po by (fastforce simp: orders_related_def client_of_def)
  have "stored r o'" using o' by (simp add: stored_def same_order_def)
  then obtain o'' where o'': "stored r' o''" "order_evolves o' o''" using evo by (auto simp: repo_evolves_def)
  then have "lookup_order r' (po_TenantID po) (po_OrderID po) = Some o''"
    using order_evolves_key [OF o''(2)] o'(2) by (simp add: stored_def same_order_def)
  from related_row [OF ords(2) ten this] obtain po' where po': "po' \<in> set (t_orders t')" "same_order o'' po'" by blast
  have "frozen_part o'' = frozen_part o'" "evolves (ord_Status o') (ord_Status o'')"
    using o''(2) by (simp_all add: order_evolves_def)
  then have "row_evolves po po'"
    using o'(2) po'(2) frozen_part_fields [of o'' o'] by (simp add: row_evolves_def same_order_def client_of_def)
  then show ?thesis using po'(1) by blast
qed

section \<open>Lookups\<close>

text \<open>Two orders that agree in what the relation is about.\<close>

definition alike :: "Order \<Rightarrow> Order \<Rightarrow> bool" where
  "alike o' o'' \<longleftrightarrow> ord_OrderID o'' = ord_OrderID o' \<and> ord_TenantID o'' = ord_TenantID o' \<and>
     ord_Scene o'' = ord_Scene o' \<and> ord_Channel o'' = ord_Channel o' \<and> ord_BuyerUserID o'' = ord_BuyerUserID o' \<and>
     ord_ClientOrderID o'' = ord_ClientOrderID o' \<and> ord_Status o'' = ord_Status o' \<and>
     ord_Version o'' = ord_Version o' \<and> ord_Amounts o'' = ord_Amounts o' \<and> ord_Promotion o'' = ord_Promotion o' \<and>
     lr_FreezeID (ord_Ledger o'') = lr_FreezeID (ord_Ledger o') \<and>
     lr_AssetCode (ord_Ledger o'') = lr_AssetCode (ord_Ledger o') \<and> ord_PayMethod o'' = ord_PayMethod o' \<and>
     ord_Payment o'' = ord_Payment o' \<and> ord_RenewCount o'' = ord_RenewCount o'"

definition answers_alike :: "Order option res \<Rightarrow> Order res \<Rightarrow> bool" where
  "answers_alike mem res \<longleftrightarrow>
     (case res of
        Inr o'' \<Rightarrow> \<exists>o'. mem = Inr (Some o') \<and> alike o' o''
      | Inl e \<Rightarrow> db_fault e \<or> e = Sentinel ErrOrderNotFound \<and> mem = Inl e)"

lemma same_order_alike: "same_order o' po \<Longrightarrow> alike o' (poToOrder js po lines)"
  unfolding same_order_def alike_def poToOrder_def by (elim conjE) simp

text \<open>
  The relation leaves no room for a tenant with a bar: the order would also be found under the part before
  the bar, and its row would have to hold both tenants.
\<close>

lemma stored_row:
  assumes rel: "orders_related r rows" and o': "stored r o'"
  obtains po where "po \<in> set rows" "same_order o' po"
proof (cases "bare (ord_TenantID o')")
  case True
  then show ?thesis using related_row [OF rel True] o' that unfolding stored_def by blast
next
  case False
  then obtain a rest where a: "ord_TenantID o' = a @ CHR ''|'' # rest" "bare a"
    unfolding bare_def by (metis split_list_first)
  have "order_key (ord_TenantID o') (ord_OrderID o') = order_key a (rest @ ''|'' @ ord_OrderID o')"
    by (simp add: order_key_def a(1))
  then have "lookup_order r a (rest @ ''|'' @ ord_OrderID o') = Some o'"
    using o' by (simp add: stored_def lookup_order_def)
  from related_row [OF rel a(2) this] show ?thesis using that by blast
qed

lemma FindByID_no_row:
  assumes rel: "orders_related r rows"
    and none: "\<forall>po \<in> set rows. \<not> (po_OrderID po = i \<and> (ten = '''' \<or> po_TenantID po = ten))"
  shows "repo_FindByID seed ten i r = Inl (Sentinel ErrOrderNotFound)"
proof (cases "repo_FindByID seed ten i r")
  case (Inl e)
  then show ?thesis by (simp add: repo_FindByID_def split: option.splits)
next
  case (Inr o')
  then have o': "stored r o'" "ord_OrderID o' = i" "ten = '''' \<or> ord_TenantID o' = ten"
    using FindByID_stored [of r seed ten i o'] rel by (auto simp: orders_related_def)
  obtain po where "po \<in> set rows" "same_order o' po" using stored_row [OF rel o'(1)] by blast
  then show ?thesis using none o'(2,3) by (auto simp: same_order_def)
qed

lemma FindByID_row:
  assumes rel: "orders_related r rows" and po: "po \<in> set rows" "po_OrderID po = i" "ten = '''' \<or> po_TenantID po = ten"
  shows "\<exists>o'. repo_FindByID seed ten i r = Inr o' \<and> same_order o' po"
proof -
  obtain o1 where o1: "lookup_order r (po_TenantID po) i = Some o1" "same_order o1 po"
    using related_order [OF rel po(1), of "po_TenantID po" i] po(2) by (auto simp: row_at_def)
  have wf: "repo_wf r" using rel by (simp add: orders_related_def)
  have "stored r o1" using o1 po(2) by (simp add: stored_def same_order_def)
  then have "o1 \<in> snd ` set (orders r)" using stored_iff [OF wf] by simp
  moreover have "ord_OrderID o1 = i \<and> (ten = '''' \<or> ord_TenantID o1 = ten)" using o1(2) po(2,3) by (simp add: same_order_def)
  ultimately obtain o2 where o2: "repo_FindByID seed ten i r = Inr o2"
    by (cases "repo_FindByID seed ten i r") (auto simp: repo_FindByID_def find_None_iff split: option.splits)
  then have s: "stored r o2" "ord_OrderID o2 = i" using FindByID_stored [OF wf] by blast+
  obtain po2 where po2: "po2 \<in> set rows" "same_order o2 po2" using stored_row [OF rel s(1)] by blast
  have "po2 = po"
    using rel po2 po(1,2) s(2) by (auto simp: orders_related_def rows_ok_def same_order_def distinct_map inj_on_def)
  then show ?thesis using o2 po2(2) by blast
qed

context relational_db
begin

lemma FindByID_alike:
  assumes "related r t"
  shows "vc cur (pg_FindByID db ten i) (\<lambda>res t'. t' = t \<and>
    answers_alike (map_sum id Some (repo_FindByID seed ten i r)) res) t"
proof -
  have ords: "orders_related r (t_orders t)" using assms(1) by (simp add: related_def)
  have none: "repo_FindByID seed '''' i r = Inl (Sentinel ErrOrderNotFound)" if "\<forall>po \<in> set (t_orders t). po_OrderID po \<noteq> i"
    using that by (auto intro: FindByID_no_row [OF ords])
  have none_in: "repo_FindByID seed ten i r = Inl (Sentinel ErrOrderNotFound)"
    if "ten \<noteq> ''''" "\<forall>po \<in> set (t_orders t). po_TenantID po = ten \<longrightarrow> po_OrderID po \<noteq> i"
    using that by (auto intro: FindByID_no_row [OF ords])
  note found = FindByID_row [OF ords, of _ i ten seed]
  show ?thesis
    unfolding pg_FindByID_def
    by (intro wp_intros vc_db vc_order_lines conjI allI impI)
      (auto simp: answers_alike_def not_found_def none none_in dest!: found intro: same_order_alike)
qed

lemma FindByClientOrderID_alike:
  assumes "related r t" "bare ten" "bare buyer"
  shows "vc cur (pg_FindByClientOrderID db ten buyer c) (\<lambda>res t'. t' = t \<and>
    answers_alike (repo_FindByClientOrderID ten buyer c r) res) t"
proof -
  have ords: "orders_related r (t_orders t)" using assms(1) by (simp add: related_def)
  have ix: "clientIx r (clientKey ten buyer c) = map_option po_OrderID (find (client_at ten buyer c) (t_orders t))"
    using ords assms(2,3) by (simp add: orders_related_def)
  have none: "repo_FindByClientOrderID ten buyer c r = Inl (Sentinel ErrOrderNotFound)"
    if "\<forall>po \<in> set (t_orders t). \<not> (po_TenantID po = ten \<and> po_BuyerUserID po = buyer \<and> po_ClientOrderID po = c)"
  proof -
    have "find (client_at ten buyer c) (t_orders t) = None"
      using that by (auto simp: find_None_iff client_at_def client_of_def)
    then show ?thesis by (simp add: repo_FindByClientOrderID_def ix)
  qed
  have found: "\<exists>o'. repo_FindByClientOrderID ten buyer c r = Inr (Some o') \<and> same_order o' po"
    if po: "po \<in> set (t_orders t)" "po_TenantID po = ten" "po_BuyerUserID po = buyer" "po_ClientOrderID po = c" for po
  proof -
    have "inj_on client_of (set (t_orders t))" using ords by (simp add: orders_related_def distinct_map)
    then have "find (client_at ten buyer c) (t_orders t) = Some po"
      using po by (intro find_unique) (auto simp: client_at_def client_of_def inj_on_def)
    moreover obtain o' where "lookup_order r ten (po_OrderID po) = Some o'" "same_order o' po"
      using related_order [OF ords po(1), of ten "po_OrderID po"] po(2) by (auto simp: row_at_def)
    ultimately show ?thesis by (simp add: repo_FindByClientOrderID_def ix)
  qed
  show ?thesis
    unfolding pg_FindByClientOrderID_def
    by (intro wp_intros vc_db vc_order_lines conjI allI impI)
      (auto simp: answers_alike_def not_found_def none dest!: found intro: same_order_alike)
qed

end

section \<open>Commands of the services\<close>

text \<open>
  Every command that a service sends to a repository asks for a step of the life cycle from each of the statuses it
  expects; a refund is begun only from one of the four statuses that can be refunded.
\<close>

lemma services_ask_for_steps:
  "steps_allowed (cancel_cmd o' trace now ev)" "steps_allowed (onPaid_cmd o' paid trace now ev)"
  "steps_allowed (afterPaid_cmd o' (NextAfterPaid auto) now ev)" "steps_allowed (Complete_cmd o' now ev)"
  "steps_allowed (TransitionCmd_of ten i [StatusPaid] StatusCompensating v)" "steps_allowed (close_cmd o' trace now ev)"
  "steps_allowed (refunded_cmd o' (refund_next o' amount) amount event)"
  "ord_Status o' \<in> {StatusPaid, StatusFulfilling, StatusCompleted, StatusPartialRefunded} \<Longrightarrow> steps_allowed (refunding_cmd o')"
  by (auto simp: steps_allowed_def cancel_cmd_def onPaid_cmd_def afterPaid_cmd_def Let_def Complete_cmd_def close_cmd_def
      refunded_cmd_def refunding_cmd_def refund_next_def NextAfterPaid_def lifecycle_iff CanTransition_defs)

section \<open>Properties\<close>

text \<open>
  C18: a history of Postgres is a history in memory. Both repositories hold the same orders, keys and
  waiting events. Any writes are then sent to Postgres in which no tenant and no user has a bar (in memory keys are
  joined by bars) and the transitions ask for steps of the life cycle, as all commands of the services do
  (\<open>services_ask_for_steps\<close>; Postgres does not look at the life cycle). Whichever of them the database
  fails, those it committed are accepted by the in-memory repository in the same order, and both
  repositories hold the same again: statuses, versions, amounts, promotion and payment references, renewal counts,
  client order ids, idempotency keys and the queue of events. The one exception: Postgres reports success when the payment or
  redemption reference of an order that is not stored is to be set; memory refuses that, and neither changes anything.
\<close>

theorem committed_history_in_memory:
  assumes "relational_db db cur rnd" "related r (cur d)" "\<forall>op \<in> set ops. keys_bare op"
    and "run_state (pg_writes db ops) d = (committed, d')"
  shows "\<exists>r'. mem_writes marshal tnow committed r = (True, r') \<and> related r' (cur d')"
  using wpD [OF relational_db.writes_follow [OF assms(1-3)] assms(4)] by blast

lemma related_empty: "related NewOrderRepo no_rows"
  by (simp add: related_def orders_related_def idem_related_def NewOrderRepo_def no_rows_def rows_ok_def
      repo_wf_def lookup_order_def pending_def)

definition sample_writes :: "repo_write list" where
  "sample_writes = [WInsert sample_persist, WInsert sample_persist, WTransition (sample_cmd StatusPaid),
     WRenew ''t1'' ''ord_253067538726916096'' 0]"

lemma sample_writes_bare: "\<forall>op \<in> set sample_writes. keys_bare op"
  by (simp add: sample_writes_def sample_persist_def sample_order_def bare_def sample_cmd_def
      TransitionCmd_of_def steps_allowed_def lifecycle_iff CanTransition_defs)

text \<open>A checkout, the same checkout again, its payment and a renewal that comes too late.\<close>

lemma sample_inserted:
  "\<exists>ls ps gs. run_state (pg_InsertCheckout sample_db sample_persist) no_rows = (Inr (), no_rows\<lparr>
     t_orders := [orderToPO sample_js sample_order], t_lines := ls, t_promotions := ps, t_legs := gs,
     t_outbox := [eventToPO sample_js sample_event]\<rparr>)"
proof -
  obtain p l where "ord_Promotions sample_order = [p]" "ord_LedgerLegs sample_order = [l]"
    by (simp add: sample_order_def)
  then show ?thesis
    by (simp add: pg_InsertCheckout_def insert_rows_def sample_persist_def sample_db_def table_db_def
      list_table_def plain_tx_def no_rows_def Let_def map_err_def no_clash_def)
qed

lemma sample_refused:
  assumes "t_orders t = [po]" "po_OrderID po = ord_OrderID sample_order"
  shows "\<exists>e. run_state (pg_InsertCheckout sample_db sample_persist) t = (Inl e, t)"
  using assms
  by (simp add: pg_InsertCheckout_def insert_rows_def sample_persist_def sample_db_def table_db_def
      list_table_def plain_tx_def map_err_def order_clash_def orderToPO_def)

lemma sample_paid_row:
  assumes "t_orders t = [orderToPO sample_js sample_order]"
  shows "\<exists>o'. run_state (pg_Transition sample_db (sample_cmd StatusPaid)) t =
    (Inr o', t\<lparr>t_orders := [transition_row 5 (sample_cmd StatusPaid) (orderToPO sample_js sample_order)]\<rparr>)"
proof -
  have "transition_where (sample_cmd StatusPaid) (orderToPO sample_js sample_order)"
    by (simp add: transition_where_def sample_cmd_def orderToPO_def sample_order_def)
  moreover have "tc_Event (sample_cmd StatusPaid) = None" by (simp add: sample_cmd_def TransitionCmd_of_def)
  moreover have "row_at ''t1'' ''ord_253067538726916096'' (orderToPO sample_js sample_order)"
    by (simp add: row_at_def orderToPO_def sample_order_def)
  ultimately show ?thesis using assms
    by (simp add: pg_Transition_def transition_tx_def sample_db_def table_db_def list_table_def plain_tx_def
      order_lines_def row_at_def sample_cmd_def)
qed

lemma sample_not_renewed:
  assumes "t_orders t = [po]" "po_Status po = ''PAID''"
  shows "\<exists>e. run_state (pg_BumpRenew sample_db ten i n) t = (Inl e, t)"
  using assms by (simp add: pg_BumpRenew_def sample_db_def table_db_def list_table_def)

definition sample_history :: "repo_write list" where
  "sample_history = [WInsert sample_persist, WTransition (sample_cmd StatusPaid)]"

lemma sample_committed: "fst (run_state (pg_writes sample_db sample_writes) no_rows) = sample_history"
proof -
  obtain ls ps gs where i: "run_state (pg_InsertCheckout sample_db sample_persist) no_rows = (Inr (), no_rows\<lparr>
     t_orders := [orderToPO sample_js sample_order], t_lines := ls, t_promotions := ps, t_legs := gs,
     t_outbox := [eventToPO sample_js sample_event]\<rparr>)" (is "_ = (_, ?t)") using sample_inserted by blast
  obtain e where r: "run_state (pg_InsertCheckout sample_db sample_persist) ?t = (Inl e, ?t)"
    using sample_refused [of ?t "orderToPO sample_js sample_order"] by (auto simp: orderToPO_def)
  obtain o' where p: "run_state (pg_Transition sample_db (sample_cmd StatusPaid)) ?t =
    (Inr o', ?t\<lparr>t_orders := [transition_row 5 (sample_cmd StatusPaid) (orderToPO sample_js sample_order)]\<rparr>)" (is "_ = (_, ?t1)")
    using sample_paid_row [of ?t] by auto
  obtain e' where n: "run_state (pg_BumpRenew sample_db ''t1'' ''ord_253067538726916096'' 0) ?t1 = (Inl e', ?t1)"
    using sample_not_renewed [of ?t1] by (fastforce simp: sample_cmd_def)
  show ?thesis
    unfolding sample_writes_def sample_history_def using n by (simp add: succeeds_def i r p)
qed

lemma sample_first:
  "t_orders (snd (run_state (pg_writes sample_db [WInsert sample_persist]) no_rows)) = [orderToPO sample_js sample_order]"
  using sample_inserted by (auto simp: succeeds_def)

theorem committed_history_in_memory_witness:
  "\<exists>r'. mem_writes (\<lambda>_. '''') 0 [WInsert sample_persist, WTransition (sample_cmd StatusPaid)] NewOrderRepo = (True, r') \<and>
     related r' (snd (run_state (pg_writes sample_db sample_writes) no_rows))"
  by (rule committed_history_in_memory [OF sample_db_relational related_empty sample_writes_bare])
    (simp add: prod_eq_iff sample_committed [unfolded sample_history_def])

text \<open>
  C20: lookups agree. While both repositories hold the same orders, finding an order by its id, within any tenant or
  across tenants (the empty one), gives in Postgres an order with the same status, version, amounts, references and keys
  as in memory, and no order exactly when memory has none; only the database's own errors come on top. The same holds of
  finding it by the buyer's own id, for a tenant and a buyer without a bar: in memory these are joined by bars into
  one key, so with a bar in them the key of one buyer can be that of another, and the repositories do disagree. A lookup
  changes nothing.
\<close>

theorem lookups_agree:
  assumes "relational_db db cur rnd" "related r (cur d)" "run_state (pg_FindByID db ten i) d = (found, d1)"
    and "bare tenant" "bare buyer" "run_state (pg_FindByClientOrderID db tenant buyer c) d = (known, d2)"
  shows "cur d1 = cur d \<and> answers_alike (map_sum id Some (repo_FindByID seed ten i r)) found \<and>
    cur d2 = cur d \<and> answers_alike (repo_FindByClientOrderID tenant buyer c r) known"
  using wpD [OF relational_db.FindByID_alike [OF assms(1,2), where seed = seed] assms(3)]
    wpD [OF relational_db.FindByClientOrderID_alike [OF assms(1,2,4,5)] assms(6)] by blast

theorem lookups_agree_witness:
  "\<exists>r'. mem_writes (\<lambda>_. '''') 0 sample_history NewOrderRepo = (True, r') \<and>
     answers_alike (map_sum id Some (repo_FindByID [] '''' ''ord_253067538726916096'' r'))
       (fst (run_state (pg_FindByID sample_db '''' ''ord_253067538726916096'')
         (snd (run_state (pg_writes sample_db sample_writes) no_rows)))) \<and>
     answers_alike (repo_FindByClientOrderID ''t1'' ''u1'' ''c1'' r')
       (fst (run_state (pg_FindByClientOrderID sample_db ''t1'' ''u1'' ''c1'')
         (snd (run_state (pg_writes sample_db sample_writes) no_rows))))"
proof -
  obtain r' where r': "mem_writes (\<lambda>_. '''') 0 sample_history NewOrderRepo = (True, r')"
    "related r' (snd (run_state (pg_writes sample_db sample_writes) no_rows))"
    using wpD [OF relational_db.writes_follow [OF sample_db_relational related_empty sample_writes_bare] surjective_pairing]
    unfolding sample_committed by blast
  have "bare ''t1''" "bare ''u1''" by (simp_all add: bare_def)
  from lookups_agree [OF sample_db_relational r'(2) surjective_pairing this surjective_pairing] r'(1)
  show ?thesis by blast
qed

text \<open>
  C19: orders in Postgres only move forward, as long as they are moved by the services. Any writes are sent to tables
  that agree with a well-formed repository; tenants and users have no bar, and every transition among the writes asks for
  a step of the life cycle from each status it expects, as all commands of the services do (\<open>services_ask_for_steps\<close>).
  The update itself compares the version and the expected statuses only, so this is what carries the life cycle over to the
  tables. Then each order that is stored before is stored after, under the same keys, of the same scene, channel and pay method,
  with the same currency and the same original, payable, discount, ledger and channel amounts, and in
  a status that the life cycle reaches from its former one.
\<close>

theorem tables_follow_lifecycle:
  assumes "relational_db db cur rnd" "related r (cur d)" "\<forall>op \<in> set ops. keys_bare op"
    and "run_state (pg_writes db ops) d = (committed, d')" "po \<in> set (t_orders (cur d))"
  shows "\<exists>po' \<in> set (t_orders (cur d')). row_evolves po po'"
proof -
  obtain r' where "related r' (cur d')" "repo_evolves r r'"
    using wpD [OF relational_db.writes_follow [OF assms(1-3)] assms(4)] by blast
  then show ?thesis using rows_evolve assms(2,5) by blast
qed

theorem tables_follow_lifecycle_witness:
  "\<exists>po' \<in> set (t_orders (snd (run_state (pg_writes sample_db (tl sample_writes))
     (snd (run_state (pg_writes sample_db [WInsert sample_persist]) no_rows))))).
   row_evolves (orderToPO sample_js sample_order) po'"
proof -
  have bare: "\<forall>op \<in> set [WInsert sample_persist]. keys_bare op" "\<forall>op \<in> set (tl sample_writes). keys_bare op"
    using sample_writes_bare by (simp_all add: sample_writes_def)
  obtain r1 where "related r1 (snd (run_state (pg_writes sample_db [WInsert sample_persist]) no_rows))"
    using wpD [OF relational_db.writes_follow [OF sample_db_relational related_empty bare(1)] surjective_pairing] by blast
  from tables_follow_lifecycle [OF sample_db_relational this bare(2) surjective_pairing]
  show ?thesis unfolding sample_first by (simp del: pg_writes.simps)
qed

end
