(* ===== verification/Repositories.thy ===== *)
theory Repositories
  imports Pg_History
begin

text \<open>
  The interface \<open>OrderRepository\<close> of \<open>src/internal/application/port/port.go\<close> and its two implementations as
  values of it. The locale \<open>versioned_orders\<close> is the contract of its \<open>Transition\<close>: a
  compare-and-swap on the abstract store of \<open>Order_Store\<close>, and no change where it fails. What follows from
  the contract is proved once: the versions of an order are used up one after the other, and what
  becomes of it is the effect of the commands that succeeded on it. Both implementations meet the contract. The
  one in memory also meets \<open>guarded_orders\<close>: it looks at the life cycle, so the status follows it.
\<close>

section \<open>The interface\<close>

record 's OrderRepository =
  or_InsertCheckout :: "CheckoutPersist \<Rightarrow> ('s, unit res) state"
  or_FindByID :: "string \<Rightarrow> string \<Rightarrow> ('s, Order res) state"
  or_FindByClientOrderID :: "string \<Rightarrow> string \<Rightarrow> string \<Rightarrow> ('s, Order option res) state"
  or_FindIdempotency :: "string \<Rightarrow> string \<Rightarrow> string \<Rightarrow> ('s, IdempotencyRecord option res) state"
  or_Transition :: "TransitionCmd \<Rightarrow> ('s, Order res) state"
  or_UpdatePaymentIntent :: "string \<Rightarrow> string \<Rightarrow> string \<Rightarrow> string \<Rightarrow> ('s, unit res) state"
  or_UpdateRedemption :: "string \<Rightarrow> string \<Rightarrow> string \<Rightarrow> ('s, unit res) state"
  or_ListExpiredPending :: "time \<Rightarrow> int \<Rightarrow> ('s, Order list res) state"
  or_ListPendingPayForRenew :: "time \<Rightarrow> duration \<Rightarrow> int \<Rightarrow> int \<Rightarrow> ('s, Order list res) state"
  or_BumpRenew :: "string \<Rightarrow> string \<Rightarrow> int \<Rightarrow> ('s, unit res) state"
  or_ListByBuyer :: "string \<Rightarrow> string \<Rightarrow> Status option \<Rightarrow> string \<Rightarrow> string \<Rightarrow> int \<Rightarrow> ('s, (Order list \<times> string) res) state"
  or_UpdateIdempotencyResponse :: "string \<Rightarrow> string \<Rightarrow> string \<Rightarrow> bytes \<Rightarrow> ('s, unit res) state"
  or_InsertRefund :: "Order \<Rightarrow> Refund \<Rightarrow> Event \<Rightarrow> ('s, unit res) state"
  or_InsertCompensation :: "CompensationTicket \<Rightarrow> ('s, unit res) state"
  or_ClaimCompensations :: "time \<Rightarrow> int \<Rightarrow> ('s, CompensationTicket list res) state"
  or_UpdateCompensation :: "int64 \<Rightarrow> string \<Rightarrow> string \<Rightarrow> time option \<Rightarrow> ('s, unit res) state"
  or_ListCompensations :: "string \<Rightarrow> int \<Rightarrow> ('s, CompensationTicket list res) state"
  or_FindCompensation :: "int64 \<Rightarrow> ('s, CompensationTicket res) state"
  or_AdminList :: "AdminListFilter \<Rightarrow> ('s, (Order list \<times> string) res) state"
  or_CountOrdersByStatus :: "string \<Rightarrow> ('s, (string \<rightharpoonup> int64) res) state"
  or_CountCompensationsByStatus :: "('s, (string \<rightharpoonup> int64) res) state"
  or_CountUnpublishedEvents :: "('s, int64 res) state"
  or_ListUnpublishedEvents :: "int \<Rightarrow> ('s, outbox_view res) state"
  or_MarkEventPublished :: "string \<Rightarrow> ('s, unit res) state"
  or_ListForReconcile :: "string \<Rightarrow> int \<Rightarrow> ('s, Order list res) state"
  or_HasOpenCompensation :: "string \<Rightarrow> string \<Rightarrow> string \<Rightarrow> ('s, bool res) state"

text \<open>
  The in-memory repository as the services call it: the iteration order and the time of day come from
  the runtime. A view of the outbox is the one value that is not self-contained.
\<close>

definition ranging :: "'x Deps \<Rightarrow> (nat list \<Rightarrow> OrderRepo \<Rightarrow> 'a) \<Rightarrow> ('x World, 'a res) state" where
  "ranging d f = do { seed \<leftarrow> ext_op (dp_range d); a \<leftarrow> repo_get (f seed); ok a }"

definition reading :: "(OrderRepo \<Rightarrow> 'a) \<Rightarrow> ('x World, 'a res) state" where
  "reading f = do { a \<leftarrow> repo_get f; ok a }"

definition memory_repository :: "'x Deps \<Rightarrow> 'x World OrderRepository" where
  "memory_repository d = \<lparr>
     or_InsertCheckout = InsertCheckout d,
     or_FindByID = FindByID d,
     or_FindByClientOrderID = (\<lambda>t b c. repo_get (repo_FindByClientOrderID t b c)),
     or_FindIdempotency = (\<lambda>t a k. reading (repo_FindIdempotency t a k)),
     or_Transition = Transition d,
     or_UpdatePaymentIntent = (\<lambda>t i it ch. repo_op (repo_UpdatePaymentIntent t i it ch)),
     or_UpdateRedemption = (\<lambda>t i rid. repo_op (repo_UpdateRedemption t i rid)),
     or_ListExpiredPending = (\<lambda>now limit. ranging d (\<lambda>seed. repo_ListExpiredPending seed now limit)),
     or_ListPendingPayForRenew = (\<lambda>now window maxRenew limit.
       ranging d (\<lambda>seed. repo_ListPendingPayForRenew seed now window maxRenew limit)),
     or_BumpRenew = (\<lambda>t i n. repo_op (repo_BumpRenew t i n)),
     or_ListByBuyer = (\<lambda>t b st sc cur limit. ranging d (\<lambda>seed. repo_ListByBuyer seed t b st sc cur limit)),
     or_UpdateIdempotencyResponse = (\<lambda>t a k resp. repo_op (repo_UpdateIdempotencyResponse t a k resp)),
     or_InsertRefund = (\<lambda>_ refund _. repo_op (repo_InsertRefund refund)),
     or_InsertCompensation = InsertCompensation d,
     or_ClaimCompensations = (\<lambda>now limit. do { ts \<leftarrow> repo_op (repo_ClaimCompensations now limit); ok ts }),
     or_UpdateCompensation = (\<lambda>i st le nr. repo_op (repo_UpdateCompensation i st le nr)),
     or_ListCompensations = (\<lambda>st limit. reading (repo_ListCompensations st limit)),
     or_FindCompensation = (\<lambda>i. repo_get (repo_FindCompensation i)),
     or_AdminList = (\<lambda>f. ranging d (\<lambda>seed. repo_AdminList seed f)),
     or_CountOrdersByStatus = (\<lambda>t. ranging d (\<lambda>seed. repo_CountOrdersByStatus seed t)),
     or_CountCompensationsByStatus = reading repo_CountCompensationsByStatus,
     or_CountUnpublishedEvents = reading repo_CountUnpublishedEvents,
     or_ListUnpublishedEvents = (\<lambda>limit. reading (repo_ListUnpublishedEvents limit)),
     or_MarkEventPublished = (\<lambda>i. repo_op (repo_MarkEventPublished i)),
     or_ListForReconcile = (\<lambda>t limit. ranging d (\<lambda>seed. repo_ListForReconcile seed t limit)),
     or_HasOpenCompensation = (\<lambda>k t ref. reading (repo_HasOpenCompensation k t ref))\<rparr>"

text \<open>Postgres hands out values: what it returns for the outbox is a copy, and never a nil order.\<close>

definition postgres_repository :: "'d DB \<Rightarrow> 'd OrderRepository" where
  "postgres_repository db = \<lparr>
     or_InsertCheckout = pg_InsertCheckout db,
     or_FindByID = pg_FindByID db,
     or_FindByClientOrderID = (\<lambda>t b c. tryE (pg_FindByClientOrderID db t b c) (\<lambda>o'. ok (Some o'))),
     or_FindIdempotency = pg_FindIdempotency db,
     or_Transition = pg_Transition db,
     or_UpdatePaymentIntent = pg_UpdatePaymentIntent db,
     or_UpdateRedemption = pg_UpdateRedemption db,
     or_ListExpiredPending = pg_ListExpiredPending db,
     or_ListPendingPayForRenew = pg_ListPendingPayForRenew db,
     or_BumpRenew = pg_BumpRenew db,
     or_ListByBuyer = pg_ListByBuyer db,
     or_UpdateIdempotencyResponse = pg_UpdateIdempotencyResponse db,
     or_InsertRefund = (\<lambda>_ refund _. pg_InsertRefund db refund),
     or_InsertCompensation = pg_InsertCompensation db,
     or_ClaimCompensations = pg_ClaimCompensations db,
     or_UpdateCompensation = pg_UpdateCompensation db,
     or_ListCompensations = pg_ListCompensations db,
     or_FindCompensation = pg_FindCompensation db,
     or_AdminList = pg_AdminList db,
     or_CountOrdersByStatus = pg_CountOrdersByStatus db,
     or_CountCompensationsByStatus = pg_CountCompensationsByStatus db,
     or_CountUnpublishedEvents = pg_CountUnpublishedEvents db,
     or_ListUnpublishedEvents = (\<lambda>limit. tryE (pg_ListUnpublishedEvents db limit) (\<lambda>rows. ok (Copied rows))),
     or_MarkEventPublished = pg_MarkEventPublished db,
     or_ListForReconcile = pg_ListForReconcile db,
     or_HasOpenCompensation = pg_HasOpenCompensation db\<rparr>"

section \<open>Sequences of transitions\<close>

primrec run_transitions :: "(TransitionCmd \<Rightarrow> ('s, Order res) state) \<Rightarrow> TransitionCmd list \<Rightarrow> ('s, Order res list) state" where
  "run_transitions transition [] = State_Monad.return []"
| "run_transitions transition (cmd # cmds) = do {
     res \<leftarrow> transition cmd;
     rest \<leftarrow> run_transitions transition cmds;
     State_Monad.return (res # rest) }"

text \<open>The commands to one order that succeeded.\<close>

fun successes :: "(string \<Rightarrow> string \<Rightarrow> 'k) \<Rightarrow> 'k \<Rightarrow> TransitionCmd list \<Rightarrow> Order res list \<Rightarrow> TransitionCmd list" where
  "successes key k (cmd # cmds) (res # rest) =
     (if key (tc_TenantID cmd) (tc_OrderID cmd) = k \<and> is_ok res then cmd # successes key k cmds rest
      else successes key k cmds rest)"
| "successes key k _ _ = []"

lemma length_successes: "length (successes key k cmds results) \<le> length cmds"
  by (induction key k cmds results rule: successes.induct) auto

text \<open>\<open>n\<close> versions from \<open>v\<close> on.\<close>

primrec count_from :: "int64 \<Rightarrow> nat \<Rightarrow> int64 list" where
  "count_from v 0 = []"
| "count_from v (Suc n) = v # count_from (v + 1) n"

lemma nth_count_from: "i < n \<Longrightarrow> count_from v n ! i = v + of_nat i"
  by (induction n arbitrary: v i) (auto simp: nth_Cons split: nat.split)

lemma length_count_from [simp]: "length (count_from v n) = n"
  by (induction n arbitrary: v) simp_all

lemma distinct_count_from: "n \<le> 2 ^ 64 \<Longrightarrow> distinct (count_from v n)"
  by (auto simp: distinct_conv_nth nth_count_from word_of_nat_eq_iff take_bit_nat_eq_self)

abbreviation version_of :: "abs_order \<Rightarrow> int64" where
  "version_of e \<equiv> fst (snd e)"

lemma version_effect [simp]: "version_of (effect cmd e) = version_of e + 1"
  by (cases e) simp

lemma status_effect [simp]: "fst (effect cmd e) = tc_To cmd"
  by (cases e) simp

lemma due_version: "due cmd e \<Longrightarrow> version_of e = tc_Version cmd"
  by (cases e) simp

lemma due_allowed: "due cmd e \<Longrightarrow> steps_allowed cmd \<Longrightarrow> evolves (fst e) (tc_To cmd)"
  by (cases e) (auto simp: steps_allowed_def lifecycle_iff intro!: evolves_step)

lemma spec_update_at:
  assumes "(True, m') = spec_update k' cmd m" "m k = Some e"
  shows "if k' = k then due cmd e \<and> m' k = Some (effect cmd e) else m' k = Some e"
  using assms by (auto simp: spec_update_def split: if_splits option.splits)

text \<open>
  The contract: a transition that succeeds is an update of the store, due by the version and the
  expected statuses, and one that fails leaves the store alone.
\<close>

locale versioned_orders =
  fixes transition :: "TransitionCmd \<Rightarrow> ('s, Order res) state" and inv :: "'s \<Rightarrow> bool"
    and store :: "'s \<Rightarrow> 'k \<rightharpoonup> abs_order" and key :: "string \<Rightarrow> string \<Rightarrow> 'k"
  assumes step: "inv s \<Longrightarrow> run_state (transition cmd) s = (res, s') \<Longrightarrow>
      inv s' \<and> (if is_ok res
        then (True, store s') = spec_update (key (tc_TenantID cmd) (tc_OrderID cmd)) cmd (store s)
        else store s' = store s)"
begin

lemma step_at:
  assumes "inv s" "run_state (transition cmd) s = (res, s')" "store s k = Some e"
  shows "if key (tc_TenantID cmd) (tc_OrderID cmd) = k \<and> is_ok res
    then due cmd e \<and> store s' k = Some (effect cmd e) else store s' k = Some e"
proof (cases "is_ok res")
  case True
  then show ?thesis
    using spec_update_at [of "store s'" "key (tc_TenantID cmd) (tc_OrderID cmd)" cmd "store s" k e]
      step [OF assms(1,2)] assms(3) by simp
next
  case False
  then show ?thesis using step [OF assms(1,2)] assms(3) by simp
qed

lemma run_from:
  "inv s \<Longrightarrow> run_state (run_transitions transition cmds) s = (results, s') \<Longrightarrow> store s k = Some e \<Longrightarrow>
   map tc_Version (successes key k cmds results) =
     count_from (version_of e) (length (successes key k cmds results)) \<and>
   store s' k = Some (fold effect (successes key k cmds results) e) \<and>
   (list_all steps_allowed (successes key k cmds results) \<longrightarrow>
     evolves (fst e) (fst (fold effect (successes key k cmds results) e)))"
proof (induction cmds arbitrary: s results e)
  case Nil
  then show ?case by (auto intro: evolves.stay)
next
  case (Cons cmd cmds)
  obtain res s1 where run1: "run_state (transition cmd) s = (res, s1)" by (cases "run_state (transition cmd) s")
  obtain rest where run2: "run_state (run_transitions transition cmds) s1 = (rest, s')" and results: "results = res # rest"
    using Cons.prems(2) by (simp add: run1 split: prod.splits)
  have inv1: "inv s1" using step [OF Cons.prems(1) run1] by simp
  show ?case
  proof (cases "key (tc_TenantID cmd) (tc_OrderID cmd) = k \<and> is_ok res")
    case True
    then have "due cmd e" "store s1 k = Some (effect cmd e)"
      using step_at [OF Cons.prems(1) run1 Cons.prems(3)] by simp_all
    then show ?thesis
      using Cons.IH [OF inv1 run2] due_version due_allowed [of cmd e] True
      by (auto simp: results intro: evolves_trans)
  next
    case False
    then have "store s1 k = Some e" using step_at [OF Cons.prems(1) run1 Cons.prems(3)] by auto
    then show ?thesis using Cons.IH [OF inv1 run2] False by (auto simp: results)
  qed
qed

lemma each_version_once:
  assumes "inv s" "run_state (run_transitions transition cmds) s = (results, s')" "store s k = Some e"
    and "length cmds \<le> 2 ^ 64"
  shows "distinct (map tc_Version (successes key k cmds results))"
  using run_from [OF assms(1-3)] distinct_count_from [OF le_trans [OF length_successes assms(4)]] by metis

end

text \<open>An implementation that looks at the life cycle itself.\<close>

locale guarded_orders = versioned_orders +
  assumes guarded: "inv s \<Longrightarrow> run_state (transition cmd) s = (Inr u, s') \<Longrightarrow>
      store s (key (tc_TenantID cmd) (tc_OrderID cmd)) = Some e \<Longrightarrow> lifecycle (fst e) (tc_To cmd)"
begin

lemma run_evolves:
  "inv s \<Longrightarrow> run_state (run_transitions transition cmds) s = (results, s') \<Longrightarrow> store s k = Some e \<Longrightarrow>
   evolves (fst e) (fst (fold effect (successes key k cmds results) e))"
proof (induction cmds arbitrary: s results e)
  case Nil
  then show ?case by (auto intro: evolves.stay)
next
  case (Cons cmd cmds)
  obtain res s1 where run1: "run_state (transition cmd) s = (res, s1)" by (cases "run_state (transition cmd) s")
  obtain rest where run2: "run_state (run_transitions transition cmds) s1 = (rest, s')" and results: "results = res # rest"
    using Cons.prems(2) by (simp add: run1 split: prod.splits)
  have inv1: "inv s1" using step [OF Cons.prems(1) run1] by simp
  show ?case
  proof (cases "key (tc_TenantID cmd) (tc_OrderID cmd) = k \<and> is_ok res")
    case True
    then obtain u where u: "res = Inr u" by (cases res) simp_all
    have "lifecycle (fst e) (tc_To cmd)"
      using guarded [OF Cons.prems(1) run1 [unfolded u]] Cons.prems(3) True by simp
    then have first: "evolves (fst e) (tc_To cmd)" by (simp add: lifecycle_iff evolves_step)
    have "store s1 k = Some (effect cmd e)"
      using step_at [OF Cons.prems(1) run1 Cons.prems(3)] True by simp
    then have "evolves (tc_To cmd) (fst (fold effect (successes key k cmds rest) (effect cmd e)))"
      using Cons.IH [OF inv1 run2] by fastforce
    from evolves_trans [OF this first] True show ?thesis by (simp add: results)
  next
    case False
    then have "store s1 k = Some e" using step_at [OF Cons.prems(1) run1 Cons.prems(3)] by auto
    then show ?thesis using Cons.IH [OF inv1 run2] False by (auto simp: results)
  qed
qed

end

text \<open>
  Both implementations keep the contract; the one in memory looks at the life cycle, Postgres leaves it
  to the commands.
\<close>

lemma mem_transition_wp:
  "wp (Transition deps cmd) (\<lambda>res r. if is_ok res
     then (True, abs_repo r) = spec_transition (order_key (tc_TenantID cmd) (tc_OrderID cmd)) cmd (abs_repo r0)
     else abs_repo r = abs_repo r0) r0"
proof (rule wp_Transition)
  fix marshal tnow
  let ?k = "order_key (tc_TenantID cmd) (tc_OrderID cmd)" and ?x = "repo_Transition marshal tnow cmd r0"
  have "abs_repo (snd ?x) = abs_repo r0" if "fst ?x = Inl e" for e
    using Transition_refines [of marshal tnow cmd r0] that
    by (simp add: spec_transition_def split: option.splits prod.splits if_splits)
  then show "if is_ok (fst ?x) then (True, abs_repo (snd ?x)) = spec_transition ?k cmd (abs_repo r0)
      else abs_repo (snd ?x) = abs_repo r0"
    using Transition_refines [of marshal tnow cmd r0] by (cases "fst ?x") simp_all
qed

lemma spec_transition_guarded:
  assumes "(True, m') = spec_transition k cmd m"
  shows "(True, m') = spec_update k cmd m" "m k = Some e \<Longrightarrow> lifecycle (fst e) (tc_To cmd)"
  using assms by (auto simp: spec_transition_update split: if_splits)

interpretation mem_orders: guarded_orders "Transition deps" "\<lambda>_. True" "\<lambda>w. abs_repo (w_repo w)" order_key
  for deps :: "'x Deps"
proof unfold_locales
  fix w :: "'x World" and cmd res w'
  assume "run_state (Transition deps cmd) w = (res, w')"
  from wpD [OF mem_transition_wp this] show "True \<and> (if is_ok res
      then (True, abs_repo (w_repo w')) = spec_update (order_key (tc_TenantID cmd) (tc_OrderID cmd)) cmd (abs_repo (w_repo w))
      else abs_repo (w_repo w') = abs_repo (w_repo w))"
    using spec_transition_guarded(1) [of "abs_repo (w_repo w')"] by (cases "is_ok res") simp_all
next
  fix w :: "'x World" and cmd u w' e
  assume "run_state (Transition deps cmd) w = (Inr u, w')"
    and "abs_repo (w_repo w) (order_key (tc_TenantID cmd) (tc_OrderID cmd)) = Some e"
  from wpD [OF mem_transition_wp this(1)] this(2) show "lifecycle (fst e) (tc_To cmd)"
    by (auto dest: spec_transition_guarded(2))
qed

sublocale relational_db < pg_orders: versioned_orders "pg_Transition db" "\<lambda>d. rows_ok (t_orders (cur d))"
  "\<lambda>d. abs_tables (cur d)" Pair
proof unfold_locales
  fix d cmd res d'
  assume "rows_ok (t_orders (cur d))" "run_state (pg_Transition db cmd) d = (res, d')"
  from wpD [OF Transition_updates [OF this(1)] this(2)]
  show "rows_ok (t_orders (cur d')) \<and> (if is_ok res
      then (True, abs_tables (cur d')) = spec_update (tc_TenantID cmd, tc_OrderID cmd) cmd (abs_tables (cur d))
      else abs_tables (cur d') = abs_tables (cur d))"
    by (cases res) (auto simp: update_result_def)
qed

context relational_db
begin

lemmas pg_versions = pg_orders.run_from pg_orders.each_version_once

end

section \<open>The property\<close>

text \<open>
  C16: the versions of an order are used up one after the other. Send any sequence of transitions, to any
  orders and to any statuses, to the in-memory repository or to Postgres: those that succeed on one order were
  prepared against consecutive versions of it, starting with the stored one, so that of two commands for the same
  version at most one succeeds (as long as the 64-bit counter does not come round). In the end the status, the version
  and the paid and refunded amounts of the order are what these commands, one after the other, make of it: a command that
  fails and a command to another order do not move it. In memory its status has followed the life cycle; in Postgres,
  which does not look at the life cycle, it has if the commands that succeeded ask for steps of it.
\<close>

theorem versions_consumed_in_order:
  assumes "relational_db db cur rnd" "rows_ok (t_orders (cur d))"
    and "run_state (run_transitions (or_Transition (postgres_repository db)) cmds) d = (results, d')"
    and "abs_tables (cur d) (ten, i) = Some e" "used = successes Pair (ten, i) cmds results"
    and "run_state (run_transitions (or_Transition (memory_repository deps)) cmds2) w = (results2, w')"
    and "abs_repo (w_repo w) (order_key ten i) = Some e2" "used2 = successes order_key (order_key ten i) cmds2 results2"
    and "length cmds \<le> 2 ^ 64" "length cmds2 \<le> 2 ^ 64"
  shows "map tc_Version used = count_from (version_of e) (length used) \<and> distinct (map tc_Version used) \<and>
    abs_tables (cur d') (ten, i) = Some (fold effect used e) \<and>
    (list_all steps_allowed used \<longrightarrow> evolves (fst e) (fst (fold effect used e))) \<and>
    map tc_Version used2 = count_from (version_of e2) (length used2) \<and> distinct (map tc_Version used2) \<and>
    abs_repo (w_repo w') (order_key ten i) = Some (fold effect used2 e2) \<and>
    evolves (fst e2) (fst (fold effect used2 e2))"
proof -
  note runs = assms(3,6) [unfolded postgres_repository_def memory_repository_def OrderRepository.simps]
  note pg = assms(1,2) runs(1) assms(4) and mem = TrueI runs(2) assms(7)
  show ?thesis
    using relational_db.pg_versions(1) [OF pg] relational_db.pg_versions(2) [OF pg assms(9)]
      mem_orders.run_from [OF mem] mem_orders.each_version_once [OF mem assms(10)] mem_orders.run_evolves [OF mem]
    unfolding assms(5,8) by blast
qed

text \<open>A paid order is not cancelled by a command from before the payment.\<close>

definition sample_race :: "TransitionCmd list" where
  "sample_race = [sample_cmd StatusPaid, sample_cmd StatusCancelled]"

definition race_world :: "Mocks World" where
  "race_world = sample_world\<lparr>w_repo := sample_repo\<rparr>"

lemma race_results:
  "\<exists>o'. fst (run_state (run_transitions (or_Transition (memory_repository sample_deps)) sample_race) race_world) =
     [Inr o', Inl (Sentinel ErrVersionConflict)]"
proof -
  have acc: "accepts sample_repo (sample_cmd StatusPaid) sample_order"
    by (simp add: accepts_def sample_cmd_def TransitionCmd_of_def sample_repo_def sample_order_def NewOrderRepo_def
        lookup_order_def order_key_def CanTransition_defs)
  obtain tnow x where now: "run_state (dp_time_Now sample_deps) (w_ext race_world) = (tnow, x)"
    by (cases "run_state (dp_time_Now sample_deps) (w_ext race_world)")
  let ?r = "repo_Transition (dp_marshal_Event sample_deps) tnow (sample_cmd StatusPaid) sample_repo"
  from Transition_accepts(1) [OF acc] obtain o' where o': "fst ?r = Inr o'" by (metis)
  have one: "run_state (Transition sample_deps (sample_cmd StatusPaid)) race_world =
      (Inr o', race_world\<lparr>w_ext := x, w_repo := snd ?r\<rparr>)"
    using o' now by (cases ?r) (simp add: Transition_def ext_op_def repo_op_def race_world_def)
  have two: "run_state (Transition sample_deps (sample_cmd StatusCancelled)) (race_world\<lparr>w_ext := y, w_repo := snd ?r\<rparr>) =
      (Inl (Sentinel ErrVersionConflict), race_world\<lparr>w_ext := snd (run_state (dp_time_Now sample_deps) y), w_repo := snd ?r\<rparr>)" for y
    using Transition_version_used [OF o', of "sample_cmd StatusCancelled"]
    by (simp add: Transition_def ext_op_def repo_op_def sample_cmd_def split: prod.split)
  show ?thesis
    by (simp add: sample_race_def memory_repository_def one two)
qed

theorem versions_consumed_in_order_witness:
  "(let results = fst (run_state (run_transitions (or_Transition (postgres_repository sample_db)) sample_race)
          (sample_tables [''ord_253067538726916096'']));
        used = successes Pair (''t1'', ''ord_253067538726916096'') sample_race results
    in map tc_Version used = count_from 1 (length used) \<and>
      abs_tables (snd (run_state (run_transitions (or_Transition (postgres_repository sample_db)) sample_race)
          (sample_tables [''ord_253067538726916096'']))) (''t1'', ''ord_253067538726916096'') =
        Some (fold effect used (StatusPendingPay, 1, 0, 0))) \<and>
   (let results = fst (run_state (run_transitions (or_Transition (memory_repository sample_deps)) sample_race) race_world);
        used = successes order_key (order_key ''t1'' ''ord_253067538726916096'') sample_race results
    in used = [sample_cmd StatusPaid] \<and>
      abs_repo (w_repo (snd (run_state (run_transitions (or_Transition (memory_repository sample_deps)) sample_race) race_world)))
        (order_key ''t1'' ''ord_253067538726916096'') = Some (StatusPaid, 2, 0, 0))"
proof -
  obtain o' where race: "fst (run_state (run_transitions (or_Transition (memory_repository sample_deps)) sample_race) race_world) =
      [Inr o', Inl (Sentinel ErrVersionConflict)]" using race_results by blast
  have start: "abs_of sample_order = (StatusPendingPay, 1, 0, 0)" by (simp add: abs_of_def sample_order_def)
  have pg: "abs_tables (sample_tables [''ord_253067538726916096'']) (''t1'', ''ord_253067538726916096'') =
      Some (StatusPendingPay, 1, 0, 0)"
    by (simp add: abs_tables_def sample_tables_def row_at_def orderToPO_def abs_row_def sample_order_def
        no_rows_def Status_of_def ParseStatus_def all_statuses_def)
  have mem: "abs_repo (w_repo race_world) (order_key ''t1'' ''ord_253067538726916096'') = Some (StatusPendingPay, 1, 0, 0)"
    by (simp add: abs_repo_def race_world_def sample_repo_def order_key_def start)
  have short: "length sample_race \<le> 2 ^ 64" by (simp add: sample_race_def)
  have used: "successes order_key (order_key ''t1'' ''ord_253067538726916096'') sample_race
      [Inr o', Inl (Sentinel ErrVersionConflict)] = [sample_cmd StatusPaid]"
    by (simp add: sample_race_def sample_cmd_def)
  have paid: "fold effect [sample_cmd StatusPaid] (StatusPendingPay, 1, 0, 0) = (StatusPaid, 2, 0, 0)"
    by (simp add: sample_cmd_def TransitionCmd_of_def)
  note run = versions_consumed_in_order [OF sample_db_relational, OF sample_rows_ok, OF _ surjective_pairing pg refl
      surjective_pairing mem refl short short, of sample_deps]
  show ?thesis using run unfolding race used paid Let_def by simp
qed

end
