(* ===== verification/Seed_Service.thy ===== *)
theory Seed_Service
  imports Checkout_Service Payment_Service Refund_Service Cancel_Service Go_Strings
begin

text \<open>
  \<open>src/internal/application/seed.go\<close>: demonstration orders. Every case is driven through the
  services, as a client would: a checkout, and then a payment, a completion, a cancellation, a refund
  or a confirmation from the ledger. A case that fails is reported and the next one goes on. The
  notes, which are not ASCII, are written as the bytes of their encoding.
\<close>

section \<open>Definitions\<close>

record seedCase =
  se_user :: string
  se_tenant :: string
  se_scene :: string
  se_channel :: string
  se_note :: string
  se_coupons :: "string list"
  se_items :: "OrderLine list"
  se_ledger :: "LedgerPay option"
  se_after :: string

record seededOrder =
  so_OrderID :: string
  so_Scene :: string
  so_Status :: string
  so_Buyer :: string
  so_TenantID :: string
  so_Note :: string

record SeedResult =
  sd_Created :: int
  sd_Failed :: int
  sd_Orders :: "seededOrder list"
  sd_Errors :: "string list"

definition seed_line :: "string \<Rightarrow> string \<Rightarrow> string \<Rightarrow> int64 \<Rightarrow> int64 \<Rightarrow> OrderLine" where
  "seed_line line typ i qty price = \<lparr>ln_LineID = line, ln_ObjectType = typ, ln_ObjectID = i,
     ln_Quantity = qty, ln_UnitPrice = price, ln_OriginalAmount = 0, ln_DiscountAmount = 0,
     ln_PayableAmount = 0, ln_Attributes = None, ln_Snapshot = None\<rparr>"

definition mallSKU :: "string \<Rightarrow> int64 \<Rightarrow> int64 \<Rightarrow> OrderLine list" where
  "mallSKU i qty price =
     [seed_line ''line_1'' ''sku'' i qty price, seed_line ''line_2'' ''service'' ''delivery'' 1 6800]"

definition oneLine :: "string \<Rightarrow> string \<Rightarrow> string \<Rightarrow> int64 \<Rightarrow> int64 \<Rightarrow> OrderLine list" where
  "oneLine line typ i qty price = [seed_line line typ i qty price]"

text \<open>No case names a channel.\<close>

definition seed_case :: "string \<Rightarrow> string \<Rightarrow> string \<Rightarrow> string \<Rightarrow> string list \<Rightarrow> OrderLine list \<Rightarrow>
    LedgerPay option \<Rightarrow> string \<Rightarrow> seedCase" where
  "seed_case user tenant scene note coupons items ledger after = \<lparr>se_user = user, se_tenant = tenant,
     se_scene = scene, se_channel = '''', se_note = note, se_coupons = coupons, se_items = items,
     se_ledger = ledger, se_after = after\<rparr>"

definition seed_cases :: "seedCase list" where
  "seed_cases = [
     seed_case ''u_123'' ''tenant_001'' ''mall_checkout''
       (utf8 ''e59586e59f8ee5be85e694afe4bb982be588b8'') [''coupon_001'']
       (mallSKU ''sku_1001'' 2 10000) None ''pending'',
     seed_case ''u_123'' ''tenant_001'' ''mall_checkout''
       (utf8 ''e59586e59f8ee5be85e694afe4bb98e697a0e588b8'') []
       (mallSKU ''sku_1002'' 1 8900) None ''pending'',
     seed_case ''u_101'' ''tenant_001'' ''mall_checkout''
       (utf8 ''e59586e59f8ee5b1a5e7baa6e4b8ad'') [''coupon_001'']
       (mallSKU ''sku_2001'' 1 15900) None ''pay'',
     seed_case ''u_101'' ''tenant_001'' ''mall_checkout''
       (utf8 ''e59586e59f8ee5b7b2e5ae8ce68890'') []
       (mallSKU ''sku_2002'' 3 3200) None ''complete'',
     seed_case ''u_888'' ''tenant_001'' ''mall_checkout''
       (utf8 ''e59586e59f8ee5b7b2e58f96e6b688'') []
       (mallSKU ''sku_3001'' 1 12800) None ''cancel'',
     seed_case ''u_888'' ''tenant_001'' ''mall_checkout''
       (utf8 ''e59586e59f8ee585a8e9a29de98080'') [''coupon_001'']
       (mallSKU ''sku_3002'' 1 19900) None ''refund'',
     seed_case ''u_123'' ''tenant_001'' ''mall_checkout''
       (utf8 ''e59586e59f8ee983a8e58886e98080'') []
       (mallSKU ''sku_4001'' 2 9900) None ''partial_refund'',
     seed_case ''u_123'' ''tenant_001'' ''mall_checkout''
       (utf8 ''e6b7b7e59088e694afe4bb98e5b1a5e7baa6e4b8ad'') []
       (mallSKU ''sku_5001'' 1 26800) (Some \<lparr>lp_AssetCode = ''CNY'', lp_Amount = 8000\<rparr>) ''pay'',
     seed_case ''u_101'' ''tenant_001'' ''point_mall''
       (utf8 ''e7a7afe58886e59586e59f8ee5b7b2e5ae8ce68890'') []
       (oneLine ''l1'' ''sku_point'' ''point_sku_1'' 1 500) None ''confirm_ledger'',
     seed_case ''u_888'' ''tenant_001'' ''point_mall''
       (utf8 ''e7a7afe58886e59586e59f8ee5be85e7a1aee8aea4'') []
       (oneLine ''l1'' ''sku_point'' ''point_sku_2'' 2 200) None ''pending'',
     seed_case ''u_123'' ''tenant_001'' ''membership''
       (utf8 ''e4bc9ae59198e5b9b4e58da1e5b7b2e5ae8ce68890'') []
       (oneLine ''l1'' ''membership'' ''mem_year'' 1 19900) None ''pay'',
     seed_case ''u_101'' ''tenant_001'' ''course''
       (utf8 ''e8afbee7a88be5b7b2e5ae8ce68890'') []
       (oneLine ''l1'' ''course'' ''course_go'' 1 9900) None ''pay'',
     seed_case ''u_888'' ''tenant_001'' ''saas_subscription''
       (utf8 ''5361615320e8aea2e99885e5b7b2e5ae8ce68890'') []
       (oneLine ''l1'' ''plan'' ''plan_pro'' 1 29900) None ''pay'',
     seed_case ''u_201'' ''tenant_002'' ''mall_checkout''
       (utf8 ''e7a79fe688b7e4ba8ce5be85e694afe4bb98'') [''coupon_001'']
       (mallSKU ''sku_8001'' 1 5600) None ''pending'',
     seed_case ''u_201'' ''tenant_002'' ''mall_checkout''
       (utf8 ''e7a79fe688b7e4ba8ce5b7b2e5ae8ce68890'') []
       (mallSKU ''sku_8002'' 2 4500) None ''complete'',
     seed_case ''u_123'' ''tenant_001'' ''mall_checkout''
       (utf8 ''e5b08fe4bbb6e5be85e694afe4bb98'') []
       (mallSKU ''sku_9001'' 1 1990) None ''pending'',
     seed_case ''u_101'' ''tenant_001'' ''mall_checkout''
       (utf8 ''e9858de4bbb6e5be85e694afe4bb98'') []
       (mallSKU ''sku_9002'' 4 1200) None ''pending'',
     seed_case ''u_888'' ''tenant_001'' ''mall_checkout''
       (utf8 ''e695b0e7a081e5b1a5e7baa6e4b8ad'') []
       (mallSKU ''sku_9003'' 1 49900) None ''pay'',
     seed_case ''u_123'' ''tenant_001'' ''course''
       (utf8 ''e8afbee7a88be5be85e694afe4bb98'') []
       (oneLine ''l1'' ''course'' ''course_rust'' 1 12900) None ''pending'',
     seed_case ''u_101'' ''tenant_001'' ''membership''
       (utf8 ''e69c88e58da1e5b7b2e58f96e6b688'') []
       (oneLine ''l1'' ''membership'' ''mem_month'' 1 2900) None ''cancel'',
     seed_case ''u_888'' ''tenant_001'' ''saas_subscription''
       (utf8 ''e59fbae7a180e78988e5be85e694afe4bb98'') []
       (oneLine ''l1'' ''plan'' ''plan_basic'' 1 9900) None ''pending'',
     seed_case ''u_201'' ''tenant_002'' ''point_mall''
       (utf8 ''e7a79fe688b7e4ba8ce7a7afe58886e5b7b2e5ae8ce68890'') []
       (oneLine ''l1'' ''sku_point'' ''point_sku_9'' 1 120) None ''confirm_ledger'',
     seed_case ''u_123'' ''tenant_001'' ''mall_checkout''
       (utf8 ''e5b7b2e5ae8ce68890e5a4a7e58d95'') [''coupon_001'']
       (mallSKU ''sku_vip'' 1 89900) None ''complete'',
     seed_case ''u_101'' ''tenant_001'' ''mall_checkout''
       (utf8 ''e5b7b2e58f96e6b688e697a0e588b8'') []
       (mallSKU ''sku_out'' 1 3300) None ''cancel'']"

text \<open>The identity and the idempotency key of a case.\<close>

definition seed_ident :: "seedCase \<Rightarrow> Identity" where
  "seed_ident c = \<lparr>id_UserID = se_user c, id_TenantID = se_tenant c, id_Attributes = None,
     id_TraceID = ''seed''\<rparr>"

definition seed_key :: "int \<Rightarrow> nat \<Rightarrow> string" where
  "seed_key stamp i = ''seed_'' @ show_int stamp @ ''_'' @ pad2 i"

definition seed_checkout :: "int \<Rightarrow> nat \<Rightarrow> seedCase \<Rightarrow> CheckoutCmd" where
  "seed_checkout stamp i c = \<lparr>co_ClientOrderID = seed_key stamp i, co_Scene = se_scene c,
     co_Channel = ''app'', co_QuoteID = '''', co_CouponIDs = se_coupons c, co_Items = se_items c,
     co_PayMethod = '''', co_LedgerPay = se_ledger c, co_Ext = None,
     co_IdempotencyKey = seed_key stamp i, co_TraceID = ''seed''\<rparr>"

definition seed_pay :: "'x Deps \<Rightarrow> seedCase \<Rightarrow> string \<Rightarrow> ('x World, Order res) state" where
  "seed_pay d c orderID = OnPaymentCallback d \<lparr>cb_OrderID = orderID, cb_TenantID = se_tenant c,
     cb_PaymentIntentID = '''', cb_Success = True, cb_PaidAmount = 0, cb_Channel = '''',
     cb_TraceID = ''seed''\<rparr>"

definition status_of :: "Order \<Rightarrow> ('s, string res) state" where
  "status_of o' = ok (Status_String (ord_Status o'))"

text \<open>What follows the checkout; the result is the status that is reported.\<close>

definition seed_after :: "'x Deps \<Rightarrow> seedCase \<Rightarrow> CheckoutResult \<Rightarrow> ('x World, string res) state" where
  "seed_after d c created =
     (let i = cr_OrderID created; ident = seed_ident c in
      if se_after c = ''pay'' then tryE (seed_pay d c i) status_of
      else if se_after c = ''complete''
      then tryE (seed_pay d c i) (\<lambda>_. tryE (Complete d (se_tenant c) i) status_of)
      else if se_after c = ''cancel'' then tryE (Cancel d ident i) status_of
      else if se_after c = ''refund''
      then tryE (seed_pay d c i) (\<lambda>_. tryE (Complete d (se_tenant c) i) (\<lambda>_.
           tryE (RefundOrder d ident i \<lparr>rc_Amount = 0, rc_Reason = ''seed full refund'', rc_Lines = []\<rparr>)
             (\<lambda>_. ok (Status_String StatusRefunded))))
      else if se_after c = ''partial_refund''
      then tryE (seed_pay d c i) (\<lambda>_. tryE (Complete d (se_tenant c) i) (\<lambda>_.
           tryE (RefundOrder d ident i \<lparr>rc_Amount = 1000, rc_Reason = ''seed partial'', rc_Lines = []\<rparr>)
             (\<lambda>_. ok (Status_String StatusPartialRefunded))))
      else if se_after c = ''confirm_ledger'' then tryE (ConfirmLedger d ident i) status_of
      else ok (cr_Status created))"

definition runCase :: "'x Deps \<Rightarrow> int \<Rightarrow> nat \<Rightarrow> seedCase \<Rightarrow> ('x World, seededOrder res) state" where
  "runCase d stamp i c =
     tryE (Checkout d (seed_ident c) (seed_checkout stamp i c)) (\<lambda>created.
     tryE (seed_after d c created) (\<lambda>status.
     ok \<lparr>so_OrderID = cr_OrderID created, so_Scene = se_scene c, so_Status = status,
       so_Buyer = se_user c, so_TenantID = se_tenant c, so_Note = se_note c\<rparr>))"

definition seed_failed :: "seedCase \<Rightarrow> error \<Rightarrow> SeedResult \<Rightarrow> SeedResult" where
  "seed_failed c e out = out\<lparr>sd_Failed := sd_Failed out + 1,
     sd_Errors := sd_Errors out @ [se_note c @ '': '' @ error_text e]\<rparr>"

definition seed_created :: "seededOrder \<Rightarrow> SeedResult \<Rightarrow> SeedResult" where
  "seed_created so out = out\<lparr>sd_Created := sd_Created out + 1, sd_Orders := sd_Orders out @ [so]\<rparr>"

primrec seed_loop ::
  "'x Deps \<Rightarrow> int \<Rightarrow> nat \<Rightarrow> SeedResult \<Rightarrow> seedCase list \<Rightarrow> ('x World, SeedResult) state" where
  "seed_loop d stamp i out [] = State_Monad.return out"
| "seed_loop d stamp i out (c # cs) = do {
     res \<leftarrow> runCase d stamp i c;
     seed_loop d stamp (Suc i) (case res of
        Inl e \<Rightarrow> seed_failed c e out
      | Inr so \<Rightarrow> seed_created so out) cs }"

text \<open>\<open>UnixNano\<close>: the Unix epoch is 62135596800 seconds after Go's zero instant.\<close>

definition Seed :: "'x Deps \<Rightarrow> ('x World, SeedResult res) state" where
  "Seed d = do {
     now \<leftarrow> ext_op (dp_time_Now d);
     out \<leftarrow> seed_loop d (now - 62135596800000000000) 0
       \<lparr>sd_Created = 0, sd_Failed = 0, sd_Orders = [], sd_Errors = []\<rparr> seed_cases;
     ok out }"

section \<open>Lemmas\<close>

text \<open>Every case is accounted for, as created or as failed.\<close>

lemma seed_loop_counts:
  "run_state (seed_loop d stamp i out cs) w = (out', w') \<Longrightarrow>
   sd_Created out' + sd_Failed out' = sd_Created out + sd_Failed out + int (length cs) \<and>
   int (length (sd_Orders out')) - sd_Created out' = int (length (sd_Orders out)) - sd_Created out \<and>
   int (length (sd_Errors out')) - sd_Failed out' = int (length (sd_Errors out)) - sd_Failed out"
proof (induction cs arbitrary: i out w)
  case (Cons c cs)
  obtain res w1 where r: "run_state (runCase d stamp i c) w = (res, w1)" by (cases "run_state (runCase d stamp i c) w")
  with Cons.prems have "run_state (seed_loop d stamp (Suc i) (case res of Inl e \<Rightarrow> seed_failed c e out
      | Inr so \<Rightarrow> seed_created so out) cs) w1 = (out', w')" by (simp add: run_state_bind)
  from Cons.IH [OF this] show ?case
    by (simp add: seed_failed_def seed_created_def split: sum.splits)
qed simp

lemma Seed_counts:
  assumes "run_state (Seed d) w = (Inr out, w')"
  shows "sd_Created out + sd_Failed out = 24" "int (length (sd_Orders out)) = sd_Created out"
proof -
  obtain now w1 where n: "run_state (ext_op (dp_time_Now d)) w = (now, w1)"
    by (cases "run_state (ext_op (dp_time_Now d)) w")
  obtain o' w2 where l: "run_state (seed_loop d (now - 62135596800000000000) 0
      \<lparr>sd_Created = 0, sd_Failed = 0, sd_Orders = [], sd_Errors = []\<rparr> seed_cases) w1 = (o', w2)"
    by (cases "run_state (seed_loop d (now - 62135596800000000000) 0
      \<lparr>sd_Created = 0, sd_Failed = 0, sd_Orders = [], sd_Errors = []\<rparr> seed_cases) w1")
  have "out = o'" using assms n l by (simp add: Seed_def run_state_bind)
  then show "sd_Created out + sd_Failed out = 24" "int (length (sd_Orders out)) = sd_Created out"
    using seed_loop_counts [OF l] by (simp_all add: seed_cases_def)
qed

text \<open>The keys of the cases of one run are different, so no case replays another.\<close>

lemma seed_key_inject [simp]: "seed_key stamp i = seed_key stamp j \<longleftrightarrow> i = j"
  by (simp add: seed_key_def)

end
