(* ===== verification/Http_Messages.thy ===== *)
theory Http_Messages
  imports Checkout_Service Payment_Service Refund_Service Cancel_Service Close_Renew Compensation
    Seed_Service
begin

text \<open>
  The messages of the HTTP interface (\<open>src/internal/iface/http\<close>): the request bodies and the view of
  an order of \<open>dto.go\<close>, the envelope of \<open>response.go\<close>, and the answer to an error (\<open>writeAppError\<close> of
  \<open>middleware.go\<close>). A \<open>Context\<close> is what the program uses of gin's: the request, the path parameters
  and the request id that the middleware has stored. The value of an answer is kept
  before its encoding as JSON.

  The lemmas say which errors lead to which status, and that the view shows the amounts as they are.
\<close>

section \<open>Requests\<close>

record lineDTO =
  dl_LineID :: string
  dl_ObjectType :: string
  dl_ObjectID :: string
  dl_Quantity :: int64
  dl_UnitPrice :: int64
  dl_Attributes :: strmap
  dl_Snapshot :: anymap

record ledgerPayDTO =
  dp_AssetCode :: string
  dp_Amount :: int64

text \<open>A slice that is required must not be nil, but may be empty: \<open>None\<close> is the nil slice.\<close>

record previewReq =
  pq_Scene :: string
  pq_Channel :: string
  pq_CouponIDs :: "string list"
  pq_AutoBest :: bool
  pq_Items :: "lineDTO list option"
  pq_LedgerPay :: "ledgerPayDTO option"
  pq_Ext :: anymap

record checkoutReq =
  cq_ClientOrderID :: string
  cq_Scene :: string
  cq_Channel :: string
  cq_QuoteID :: string
  cq_CouponIDs :: "string list"
  cq_Items :: "lineDTO list"
  cq_PayMethod :: string
  cq_LedgerPay :: "ledgerPayDTO option"
  cq_Ext :: anymap

record lineRefundDTO =
  dr_LineID :: string
  dr_Amount :: int64

record refundReq =
  fq_Amount :: int64
  fq_Reason :: string
  fq_Lines :: "lineRefundDTO list"

record paymentCallbackReq =
  bq_OrderID :: string
  bq_TenantID :: string
  bq_PaymentIntentID :: string
  bq_Success :: bool
  bq_PaidAmount :: int64
  bq_Channel :: string

text \<open>\<open>rq_Header\<close> and \<open>rq_Query\<close> give the empty string for what the request does not have.\<close>

record Request =
  rq_Method :: string
  rq_Path :: string
  rq_Header :: "string \<Rightarrow> string"
  rq_Query :: "string \<Rightarrow> string"
  rq_Body :: "bytes res"

record Context =
  cx_Request :: Request
  cx_Param :: "string \<Rightarrow> string"
  cx_RequestID :: "string option"

definition requestID :: "Context \<Rightarrow> string" where
  "requestID c =
     (case cx_RequestID c of
        Some s \<Rightarrow> if s \<noteq> '''' then s else rq_Header (cx_Request c) ''X-Request-Id''
      | None \<Rightarrow> rq_Header (cx_Request c) ''X-Request-Id'')"

section \<open>Reading a request\<close>

text \<open>
  \<open>Codec\<close> holds what decoding the JSON of a body stream (the read body, or the error of reading it)
  gives for each type; for a refund, whose error the code drops, the value afterwards.
  \<open>ShouldBindJSON\<close> then checks the fields marked as required.
\<close>

record Codec =
  js_preview :: "bytes res \<Rightarrow> previewReq res"
  js_checkout :: "bytes res \<Rightarrow> checkoutReq res"
  js_refund :: "bytes res \<Rightarrow> refundReq"
  js_callback :: "bytes res \<Rightarrow> paymentCallbackReq res"

definition required :: "bool \<Rightarrow> 'a \<Rightarrow> 'a res" where
  "required present req = (if present then Inr req else Inl (Opaque ''required field missing''))"

definition bind_preview :: "Codec \<Rightarrow> Context \<Rightarrow> previewReq res" where
  "bind_preview js c =
     (case js_preview js (rq_Body (cx_Request c)) of
        Inl e \<Rightarrow> Inl e
      | Inr req \<Rightarrow> required (pq_Scene req \<noteq> '''' \<and> pq_Items req \<noteq> None) req)"

definition bind_checkout :: "Codec \<Rightarrow> Context \<Rightarrow> checkoutReq res" where
  "bind_checkout js c =
     (case js_checkout js (rq_Body (cx_Request c)) of
        Inl e \<Rightarrow> Inl e
      | Inr req \<Rightarrow> required (cq_ClientOrderID req \<noteq> '''' \<and> cq_Scene req \<noteq> '''') req)"

definition bind_callback :: "Codec \<Rightarrow> bytes \<Rightarrow> paymentCallbackReq res" where
  "bind_callback js body =
     (case js_callback js (Inr body) of
        Inl e \<Rightarrow> Inl e
      | Inr req \<Rightarrow> required (bq_OrderID req \<noteq> '''') req)"

definition toLine :: "lineDTO \<Rightarrow> OrderLine" where
  "toLine l = \<lparr>ln_LineID = dl_LineID l, ln_ObjectType = dl_ObjectType l, ln_ObjectID = dl_ObjectID l,
     ln_Quantity = dl_Quantity l, ln_UnitPrice = dl_UnitPrice l, ln_OriginalAmount = 0,
     ln_DiscountAmount = 0, ln_PayableAmount = 0, ln_Attributes = dl_Attributes l,
     ln_Snapshot = dl_Snapshot l\<rparr>"

definition toLines :: "lineDTO list \<Rightarrow> OrderLine list" where
  "toLines ls = map toLine ls"

definition toLedger :: "ledgerPayDTO option \<Rightarrow> LedgerPay option" where
  "toLedger p = (case p of None \<Rightarrow> None
     | Some q \<Rightarrow> Some \<lparr>lp_AssetCode = dp_AssetCode q, lp_Amount = dp_Amount q\<rparr>)"

definition toLineRefunds :: "refundReq \<Rightarrow> LineRefund list" where
  "toLineRefunds req = map (\<lambda>l. \<lparr>lf_LineID = dr_LineID l, lf_Amount = dr_Amount l\<rparr>) (fq_Lines req)"

definition refund_cmd_of :: "refundReq \<Rightarrow> RefundCmd" where
  "refund_cmd_of req = \<lparr>rc_Amount = fq_Amount req, rc_Reason = fq_Reason req, rc_Lines = toLineRefunds req\<rparr>"

section \<open>Answers\<close>

record orderView =
  ov_OrderID :: string
  ov_ClientOrderID :: string
  ov_TenantID :: string
  ov_BuyerUserID :: string
  ov_Scene :: string
  ov_Channel :: string
  ov_Status :: string
  ov_Version :: int64
  ov_Currency :: string
  ov_OriginalAmount :: int64
  ov_DiscountAmount :: int64
  ov_PayableAmount :: int64
  ov_LedgerPayAmount :: int64
  ov_ChannelPayAmount :: int64
  ov_PaidAmount :: int64
  ov_RefundedAmount :: int64
  ov_QuoteID :: string
  ov_ReservationID :: string
  ov_RedemptionID :: string
  ov_FreezeID :: string
  ov_AssetCode :: string
  ov_PayMethod :: string
  ov_PaymentIntentID :: string
  ov_ExpireAt :: "time option"
  ov_RenewCount :: int
  ov_Lines :: "lineDTO list"
  ov_Ext :: anymap
  ov_CreatedAt :: time
  ov_PaidAt :: "time option"
  ov_CancelledAt :: "time option"
  ov_CompletedAt :: "time option"

definition view_line :: "OrderLine \<Rightarrow> lineDTO" where
  "view_line l = \<lparr>dl_LineID = ln_LineID l, dl_ObjectType = ln_ObjectType l, dl_ObjectID = ln_ObjectID l,
     dl_Quantity = ln_Quantity l, dl_UnitPrice = ln_UnitPrice l, dl_Attributes = ln_Attributes l,
     dl_Snapshot = ln_Snapshot l\<rparr>"

definition viewOrder :: "Order \<Rightarrow> orderView" where
  "viewOrder o' = \<lparr>
     ov_OrderID = ord_OrderID o', ov_ClientOrderID = ord_ClientOrderID o',
     ov_TenantID = ord_TenantID o', ov_BuyerUserID = ord_BuyerUserID o', ov_Scene = ord_Scene o',
     ov_Channel = ord_Channel o', ov_Status = Status_String (ord_Status o'),
     ov_Version = ord_Version o', ov_Currency = amt_Currency (ord_Amounts o'),
     ov_OriginalAmount = amt_Original (ord_Amounts o'),
     ov_DiscountAmount = amt_Discount (ord_Amounts o'),
     ov_PayableAmount = amt_Payable (ord_Amounts o'),
     ov_LedgerPayAmount = amt_LedgerPay (ord_Amounts o'),
     ov_ChannelPayAmount = amt_ChannelPay (ord_Amounts o'),
     ov_PaidAmount = amt_Paid (ord_Amounts o'), ov_RefundedAmount = amt_Refunded (ord_Amounts o'),
     ov_QuoteID = pr_QuoteID (ord_Promotion o'), ov_ReservationID = pr_ReservationID (ord_Promotion o'),
     ov_RedemptionID = pr_RedemptionID (ord_Promotion o'), ov_FreezeID = lr_FreezeID (ord_Ledger o'),
     ov_AssetCode = lr_AssetCode (ord_Ledger o'), ov_PayMethod = ord_PayMethod o',
     ov_PaymentIntentID = py_PaymentIntentID (ord_Payment o'),
     ov_ExpireAt = (if ord_ExpireAt o' \<noteq> 0 then Some (ord_ExpireAt o') else None),
     ov_RenewCount = ord_RenewCount o', ov_Lines = map view_line (ord_Lines o'),
     ov_Ext = ord_Context o', ov_CreatedAt = ord_CreatedAt o', ov_PaidAt = ord_PaidAt o',
     ov_CancelledAt = ord_CancelledAt o', ov_CompletedAt = ord_CompletedAt o'\<rparr>"

text \<open>
  An event in the list of the administration. The fields of a payload that does not decode are
  missing, and so is the order id of an event without data.
\<close>

record outboxItem =
  oi_EventID :: string
  oi_Attempts :: int
  oi_Event :: "(string \<times> string \<times> time) option"
  oi_OrderID :: "json option"

text \<open>The \<open>data\<close> of an envelope.\<close>

datatype payload =
    NoData
  | PreviewData PreviewResult
  | CheckoutData CheckoutResult
  | OrderData orderView
  | OrdersData "orderView list" string
  | IntentData PaymentIntent
  | RefundData Refund
  | TicketsData "CompensationTicket list"
  | RetriedData int
  | StatsData AdminStatsResult
  | ReconData int "ReconDiff list"
  | OutboxData "outboxItem list"
  | SeedData SeedResult

record Envelope =
  en_Code :: int
  en_Message :: string
  en_RequestID :: string
  en_Data :: payload

text \<open>
  \<open>Probe\<close> is the answer of the health checks, \<open>NoRoute\<close> gin's answer to a path it does not know,
  \<open>Redirect\<close> its reference to the path with the other form of the last slash;
  \<open>rp_Header\<close> is the header \<open>X-Request-Id\<close>.
\<close>

datatype body = Json Envelope | Probe string "string option" | Html bytes | NoRoute | Redirect

record Response =
  rp_Status :: int
  rp_Body :: body
  rp_Header :: "string option"

definition answer :: "int \<Rightarrow> body \<Rightarrow> Response" where
  "answer status b = \<lparr>rp_Status = status, rp_Body = b, rp_Header = None\<rparr>"

definition Respond_OK :: "Context \<Rightarrow> payload \<Rightarrow> Response" where
  "Respond_OK c data = answer 200 (Json \<lparr>en_Code = 0, en_Message = ''ok'',
     en_RequestID = requestID c, en_Data = data\<rparr>)"

definition Respond_Fail :: "Context \<Rightarrow> int \<Rightarrow> int \<Rightarrow> string \<Rightarrow> Response" where
  "Respond_Fail c httpStatus code msg = answer httpStatus (Json \<lparr>en_Code = code,
     en_Message = msg, en_RequestID = requestID c, en_Data = NoData\<rparr>)"

definition writeAppError :: "Context \<Rightarrow> error \<Rightarrow> Response" where
  "writeAppError c err =
     (if errors_Is err ErrUnauthorized then Respond_Fail c 401 40100 ''unauthorized''
      else if errors_Is err ErrInvalidArgument \<or> errors_Is err ErrAmountInvariant \<or> errors_Is err ErrOverflow
      then Respond_Fail c 400 40001 (error_text err)
      else if errors_Is err ErrIdempotencyConflict then Respond_Fail c 409 40910 ''idempotency key conflict''
      else if errors_Is err ErrClientOrderConflict then Respond_Fail c 409 40920 ''client_order_id conflict''
      else if errors_Is err ErrQuoteStale then Respond_Fail c 422 42210 ''QUOTE_STALE''
      else if errors_Is err ErrOfferReserve then Respond_Fail c 422 42211 (error_text err)
      else if errors_Is err ErrLedgerFreeze then Respond_Fail c 422 42212 (error_text err)
      else if errors_Is err ErrInventoryReserve then Respond_Fail c 422 42213 (error_text err)
      else if errors_Is err ErrAlreadyPaid \<or> errors_Is err ErrStatusNotAllowed \<or> errors_Is err ErrVersionConflict
      then Respond_Fail c 409 40930 (error_text err)
      else if errors_Is err ErrOrderNotFound \<or> errors_Is err ErrSceneNotFound
      then Respond_Fail c 404 40401 (error_text err)
      else if errors_Is err ErrRefundExceedsPaid then Respond_Fail c 400 40001 (error_text err)
      else Respond_Fail c 500 50000 (error_text err))"

text \<open>The answer of \<open>Recover\<close> after a panic.\<close>

definition Recover :: "Context \<Rightarrow> Response" where
  "Recover c = Respond_Fail c 500 50000 ''internal error''"

section \<open>Lemmas\<close>

lemma toLine_view_line:
  "toLine (view_line l) = l\<lparr>ln_OriginalAmount := 0, ln_DiscountAmount := 0, ln_PayableAmount := 0\<rparr>"
  by (simp add: toLine_def view_line_def)

lemma rp_Status_simps [simp]:
  "rp_Status (Respond_OK c data) = 200" "rp_Status (Respond_Fail c s k m) = s" "rp_Status (Recover c) = 500"
  by (simp_all add: Respond_OK_def Respond_Fail_def Recover_def answer_def)

lemma writeAppError_wrapped:
  "rp_Status (writeAppError c (Wrapped s m)) = rp_Status (writeAppError c (Sentinel s))"
  by (simp add: writeAppError_def)

lemma writeAppError_never_ok: "rp_Status (writeAppError c err) \<in> {400, 401, 404, 409, 422, 500}"
  by (simp add: writeAppError_def)

lemma writeAppError_internal_iff:
  "rp_Status (writeAppError c err) = 500 \<longleftrightarrow> errors_Is err ErrNotImplemented \<or> (\<exists>m. err = Opaque m)"
proof (cases err)
  case (Sentinel s)
  then show ?thesis by (cases s) (simp_all add: writeAppError_def)
next
  case (Wrapped s m)
  then show ?thesis by (cases s) (simp_all add: writeAppError_def)
qed (simp add: writeAppError_def)

end
