(* ===== verification/Config.thy ===== *)
theory Config
  imports Go_Strings
begin

text \<open>
  \<open>src/internal/conf/config.go\<close>: the configuration is read from the environment, a function from
  variable names to values in which an unset variable is empty.

  The lemmas describe what an environment that sets nothing configures: the mocks, unsigned payment
  callbacks and a well-known administration token.
\<close>

section \<open>Definitions\<close>

record Config =
  cf_HTTPAddr :: string
  cf_PostgresDSN :: string
  cf_RedisAddr :: string
  cf_RedisPassword :: string
  cf_MockDeps :: bool
  cf_AutoMigrate :: bool
  cf_AuthHubURL :: string
  cf_OfferHubURL :: string
  cf_LedgerHubURL :: string
  cf_ServiceAPIKey :: string
  cf_PaymentCallbackSK :: string
  cf_LogOutbox :: bool
  cf_AdminToken :: string
  cf_EventWebhookURL :: string

type_synonym environment = "string \<Rightarrow> string"

definition env :: "environment \<Rightarrow> string \<Rightarrow> string \<Rightarrow> string" where
  "env os k def = (let v = TrimSpace (os k) in if v \<noteq> '''' then v else def)"

definition envBool :: "environment \<Rightarrow> string \<Rightarrow> bool \<Rightarrow> bool" where
  "envBool os k def =
     (let v = TrimSpace (os k) in
      if v = '''' then def
      else (case ParseBool v of None \<Rightarrow> def | Some b \<Rightarrow> b))"

definition conf_Load :: "environment \<Rightarrow> Config" where
  "conf_Load os = \<lparr>
     cf_HTTPAddr = env os ''HTTP_ADDR'' '':8080'',
     cf_PostgresDSN = env os ''POSTGRES_DSN'' (''host=127.0.0.1 user=order '' @
       ''password=order dbname=order_hub port=5432 sslmode=disable TimeZone=UTC''),
     cf_RedisAddr = env os ''REDIS_ADDR'' '''',
     cf_RedisPassword = env os ''REDIS_PASSWORD'' '''',
     cf_MockDeps = envBool os ''MOCK_DEPENDENCIES'' True,
     cf_AutoMigrate = envBool os ''AUTO_MIGRATE'' True,
     cf_AuthHubURL = env os ''AUTH_HUB_URL'' '''',
     cf_OfferHubURL = env os ''OFFER_HUB_URL'' '''',
     cf_LedgerHubURL = env os ''LEDGER_HUB_URL'' '''',
     cf_ServiceAPIKey = env os ''SERVICE_API_KEY'' '''',
     cf_PaymentCallbackSK = env os ''PAYMENT_CALLBACK_SECRET'' '''',
     cf_LogOutbox = envBool os ''LOG_OUTBOX'' True,
     cf_AdminToken = env os ''ADMIN_TOKEN'' ''dev-admin'',
     cf_EventWebhookURL = env os ''EVENT_WEBHOOK_URL'' ''''\<rparr>"

section \<open>Lemmas\<close>

lemma env_blank: "\<forall>c \<in> set (os k). space_char c \<Longrightarrow> env os k def = def"
  by (simp add: env_def TrimSpace_trimmed [THEN iffD2])

lemma env_ne: "def \<noteq> '''' \<Longrightarrow> env os k def \<noteq> ''''"
  by (simp add: env_def Let_def)

lemma envBool_unreadable: "ParseBool (TrimSpace (os k)) = None \<Longrightarrow> envBool os k def = def"
  by (simp add: envBool_def)

text \<open>Whatever the environment, there is an administration token: the interface is never locked.\<close>

lemma admin_token_ne: "cf_AdminToken (conf_Load os) \<noteq> ''''"
  by (simp add: conf_Load_def env_ne)

lemma conf_Load_default:
  "cf_MockDeps (conf_Load (\<lambda>_. ''''))" "cf_PaymentCallbackSK (conf_Load (\<lambda>_. '''')) = ''''"
  "cf_AdminToken (conf_Load (\<lambda>_. '''')) = ''dev-admin''"
  by (simp_all add: conf_Load_def env_def envBool_def TrimSpace_def)

end
