(* ===== verification/Http_Handlers.thy ===== *)
theory Http_Handlers
  imports Http_Messages Config
begin

text \<open>
  The handlers of the HTTP interface (\<open>src/internal/iface/http/handler.go\<close> and \<open>admin.go\<close>). A handler
  reads the request, calls one service (an administration handler looks the order up first) and
  turns the result into an answer. The identity that \<open>Auth\<close> stores for the client routes
  is an argument. A service that may be missing (a nil pointer) is a flag of \<open>Handlers\<close>.
\<close>

section \<open>The handlers' dependencies\<close>

text \<open>
  \<open>hd_hmac\<close> stands for the hexadecimal HMAC-SHA256 of a body, \<open>hd_js\<close> for the decoding of bodies, \<open>hd_html\<close>
  for the embedded page, \<open>hd_uuid\<close> for \<open>uuid.NewString()\<close>, \<open>hd_auth\<close> for the identity client,
  \<open>hd_match\<close> for gin's matching of a route with a path, which gives the path parameters, and \<open>hd_slash\<close>
  for its finding that a method has no handler for a path, but one for the path with a last slash dropped
  or added.
\<close>

record 'x Handlers =
  hd_RenewSvc :: bool
  hd_CloseSvc :: bool
  hd_Compensate :: bool
  hd_ReconSvc :: bool
  hd_SeedSvc :: bool
  hd_PaySecret :: string
  hd_AllowUnsignedPay :: bool
  hd_ReadyFn :: "('x, error option) state option"
  hd_AdminToken :: string
  hd_hmac :: "string \<Rightarrow> bytes \<Rightarrow> string"
  hd_js :: Codec
  hd_html :: bytes
  hd_uuid :: "('x, string) state"
  hd_auth :: "string \<Rightarrow> ('x, Identity res) state"
  hd_match :: "string \<Rightarrow> string \<Rightarrow> (string \<Rightarrow> string) option"
  hd_slash :: "string \<Rightarrow> string \<Rightarrow> bool"

type_synonym 'x handler = "Context \<Rightarrow> ('x World, Response) state"

text \<open>
  The end of a handler: the error or the value of the service becomes the answer. A panic of the
  service is caught by \<open>Recover\<close>.
\<close>

definition reply :: "Context \<Rightarrow> ('a \<Rightarrow> payload) \<Rightarrow> ('x World, 'a res) state \<Rightarrow> ('x World, Response) state" where
  "reply c view m = do {
     res \<leftarrow> m;
     State_Monad.return (case res of
        Inl e \<Rightarrow> if e = nil_panic then Recover c else writeAppError c e
      | Inr a \<Rightarrow> Respond_OK c (view a)) }"

definition reply_order :: "Context \<Rightarrow> ('x World, Order res) state \<Rightarrow> ('x World, Response) state" where
  "reply_order c m = reply c (\<lambda>o'. OrderData (viewOrder o')) m"

definition orders_data :: "Order list \<times> string \<Rightarrow> payload" where
  "orders_data page = OrdersData (map viewOrder (fst page)) (snd page)"

definition not_implemented :: "Context \<Rightarrow> ('x World, Response) state" where
  "not_implemented c = State_Monad.return (writeAppError c (Sentinel ErrNotImplemented))"

definition query :: "Context \<Rightarrow> string \<Rightarrow> string" where
  "query c k = rq_Query (cx_Request c) k"

definition header :: "Context \<Rightarrow> string \<Rightarrow> string" where
  "header c k = rq_Header (cx_Request c) k"

section \<open>handler.go\<close>

definition Handlers_Preview :: "'x Deps \<Rightarrow> 'x Handlers \<Rightarrow> Identity \<Rightarrow> 'x handler" where
  "Handlers_Preview d hs ident c =
     (case bind_preview (hd_js hs) c of
        Inl e \<Rightarrow> State_Monad.return (writeAppError c (Sentinel ErrInvalidArgument))
      | Inr req \<Rightarrow> reply c PreviewData (Preview d ident \<lparr>pv_Scene = pq_Scene req,
          pv_Channel = pq_Channel req, pv_CouponIDs = pq_CouponIDs req, pv_AutoBest = pq_AutoBest req,
          pv_Items = toLines (case pq_Items req of None \<Rightarrow> [] | Some ls \<Rightarrow> ls),
          pv_LedgerPay = toLedger (pq_LedgerPay req), pv_Ext = pq_Ext req\<rparr>))"

definition Handlers_Create :: "'x Deps \<Rightarrow> 'x Handlers \<Rightarrow> Identity \<Rightarrow> 'x handler" where
  "Handlers_Create d hs ident c =
     (case bind_checkout (hd_js hs) c of
        Inl e \<Rightarrow> State_Monad.return (writeAppError c (Sentinel ErrInvalidArgument))
      | Inr req \<Rightarrow> reply c CheckoutData (Checkout d ident \<lparr>co_ClientOrderID = cq_ClientOrderID req,
          co_Scene = cq_Scene req, co_Channel = cq_Channel req, co_QuoteID = cq_QuoteID req,
          co_CouponIDs = cq_CouponIDs req, co_Items = toLines (cq_Items req),
          co_PayMethod = cq_PayMethod req, co_LedgerPay = toLedger (cq_LedgerPay req),
          co_Ext = cq_Ext req, co_IdempotencyKey = header c ''Idempotency-Key'',
          co_TraceID = requestID c\<rparr>))"

definition Handlers_Get :: "'x Deps \<Rightarrow> Identity \<Rightarrow> 'x handler" where
  "Handlers_Get d ident c = reply_order c (Get d ident (cx_Param c ''order_id''))"

definition Handlers_List :: "'x Deps \<Rightarrow> Identity \<Rightarrow> 'x handler" where
  "Handlers_List d ident c =
     (let limit = Atoi (query c ''limit'') in
      reply c orders_data (List d ident (query c ''status'') (query c ''scene'') (query c ''cursor'') limit))"

definition Handlers_Cancel :: "'x Deps \<Rightarrow> Identity \<Rightarrow> 'x handler" where
  "Handlers_Cancel d ident c = reply_order c (Cancel d ident (cx_Param c ''order_id''))"

definition Handlers_PayIntent :: "'x Deps \<Rightarrow> Identity \<Rightarrow> 'x handler" where
  "Handlers_PayIntent d ident c = reply c IntentData (RecreateIntent d ident (cx_Param c ''order_id''))"

definition Handlers_ConfirmLedger :: "'x Deps \<Rightarrow> Identity \<Rightarrow> 'x handler" where
  "Handlers_ConfirmLedger d ident c = reply_order c (ConfirmLedger d ident (cx_Param c ''order_id''))"

definition Handlers_Complete :: "'x Deps \<Rightarrow> Identity \<Rightarrow> 'x handler" where
  "Handlers_Complete d ident c = reply_order c (Complete d (id_TenantID ident) (cx_Param c ''order_id''))"

definition Handlers_Refund :: "'x Deps \<Rightarrow> 'x Handlers \<Rightarrow> Identity \<Rightarrow> 'x handler" where
  "Handlers_Refund d hs ident c =
     reply c RefundData (RefundOrder d ident (cx_Param c ''order_id'')
       (refund_cmd_of (js_refund (hd_js hs) (rq_Body (cx_Request c)))))"

text \<open>\<open>hmac.Equal\<close> is equality; a signature may be given in upper case.\<close>

definition verifyPaymentSig :: "(string \<Rightarrow> bytes \<Rightarrow> string) \<Rightarrow> string \<Rightarrow> bytes \<Rightarrow> string \<Rightarrow> bool" where
  "verifyPaymentSig hmac secret payload sig \<longleftrightarrow>
     secret = '''' \<or> hmac secret payload = map lower_char sig"

definition payment_guard :: "'x Handlers \<Rightarrow> Context \<Rightarrow> bytes \<Rightarrow> Response option" where
  "payment_guard hs c payload =
     (if hd_PaySecret hs = ''''
      then (if \<not> hd_AllowUnsignedPay hs
            then Some (Respond_Fail c 401 40100 ''payment secret not configured'') else None)
      else if \<not> verifyPaymentSig (hd_hmac hs) (hd_PaySecret hs) payload (header c ''X-Payment-Signature'')
      then Some (Respond_Fail c 401 40100 ''invalid payment signature'')
      else None)"

definition Handlers_PaymentCallback :: "'x Deps \<Rightarrow> 'x Handlers \<Rightarrow> 'x handler" where
  "Handlers_PaymentCallback d hs c =
     (case rq_Body (cx_Request c) of
        Inl e \<Rightarrow> State_Monad.return (writeAppError c (Sentinel ErrInvalidArgument))
      | Inr payload \<Rightarrow> (case payment_guard hs c payload of
          Some resp \<Rightarrow> State_Monad.return resp
        | None \<Rightarrow> (case bind_callback (hd_js hs) payload of
            Inl e \<Rightarrow> State_Monad.return (writeAppError c (Sentinel ErrInvalidArgument))
          | Inr req \<Rightarrow> reply_order c (OnPaymentCallback d \<lparr>cb_OrderID = bq_OrderID req,
              cb_TenantID = bq_TenantID req, cb_PaymentIntentID = bq_PaymentIntentID req,
              cb_Success = bq_Success req, cb_PaidAmount = bq_PaidAmount req,
              cb_Channel = bq_Channel req, cb_TraceID = requestID c\<rparr>))))"

definition Handlers_Close :: "'x Deps \<Rightarrow> 'x Handlers \<Rightarrow> Identity \<Rightarrow> 'x handler" where
  "Handlers_Close d hs ident c =
     (if \<not> hd_CloseSvc hs then not_implemented c
      else reply_order c (Close d ident (cx_Param c ''order_id'')))"

definition Handlers_Renew :: "'x Deps \<Rightarrow> 'x Handlers \<Rightarrow> Identity \<Rightarrow> 'x handler" where
  "Handlers_Renew d hs ident c =
     (if \<not> hd_RenewSvc hs then not_implemented c
      else reply_order c (Renew d ident (cx_Param c ''order_id'')))"

definition Handlers_ListCompensations :: "'x Deps \<Rightarrow> 'x Handlers \<Rightarrow> 'x handler" where
  "Handlers_ListCompensations d hs c =
     (if \<not> hd_Compensate hs then State_Monad.return (Respond_OK c (TicketsData []))
      else reply c TicketsData (ListTickets d (query c ''status'') (Atoi (query c ''limit''))))"

definition Handlers_RetryCompensation :: "'x Deps \<Rightarrow> 'x Handlers \<Rightarrow> 'x handler" where
  "Handlers_RetryCompensation d hs c =
     (if \<not> hd_Compensate hs then not_implemented c
      else (case ParseInt (cx_Param c ''id'') of
          (i, Some e) \<Rightarrow> State_Monad.return (writeAppError c (Sentinel ErrInvalidArgument))
        | (i, None) \<Rightarrow> reply c (\<lambda>_. RetriedData i) (RetryTicket d (word_of_int i))))"

definition Handlers_Health :: "'x handler" where
  "Handlers_Health c = State_Monad.return (answer 200 (Probe ''ok'' None))"

definition Handlers_Ready :: "'x Handlers \<Rightarrow> 'x handler" where
  "Handlers_Ready hs c =
     (case hd_ReadyFn hs of
        None \<Rightarrow> State_Monad.return (answer 200 (Probe ''ok'' None))
      | Some f \<Rightarrow> do {
          err \<leftarrow> ext_op f;
          State_Monad.return (case err of
             Some e \<Rightarrow> answer 503 (Probe ''not_ready'' (Some (error_text e)))
           | None \<Rightarrow> answer 200 (Probe ''ok'' None)) })"

section \<open>admin.go\<close>

definition Handlers_AdminPage :: "'x Handlers \<Rightarrow> 'x handler" where
  "Handlers_AdminPage hs c = State_Monad.return (answer 200 (Html (hd_html hs)))"

definition adminOperator :: "Context \<Rightarrow> string \<Rightarrow> Identity" where
  "adminOperator c tenantID = \<lparr>id_UserID = '''', id_TenantID = tenantID, id_Attributes = None,
     id_TraceID = requestID c\<rparr>"

text \<open>The administration works on an order of any tenant: the order is looked up by its id alone.\<close>

definition on_order :: "'x Deps \<Rightarrow> Context \<Rightarrow> (Order \<Rightarrow> ('x World, 'a res) state) \<Rightarrow> ('x World, 'a res) state" where
  "on_order d c f = tryE (GetInternal d '''' (cx_Param c ''order_id'')) f"

definition as_operator ::
  "'x Deps \<Rightarrow> Context \<Rightarrow> (Identity \<Rightarrow> string \<Rightarrow> ('x World, 'a res) state) \<Rightarrow> ('x World, 'a res) state" where
  "as_operator d c f = on_order d c (\<lambda>o'. f (adminOperator c (ord_TenantID o')) (ord_OrderID o'))"

definition Handlers_AdminStats :: "'x Deps \<Rightarrow> 'x handler" where
  "Handlers_AdminStats d c = reply c StatsData (AdminStats d (query c ''tenant_id''))"

definition Handlers_AdminListOrders :: "'x Deps \<Rightarrow> 'x handler" where
  "Handlers_AdminListOrders d c =
     (if query c ''status'' \<noteq> '''' \<and> ParseStatus (query c ''status'') = None
      then State_Monad.return (writeAppError c (Sentinel ErrInvalidArgument))
      else reply c orders_data (AdminList d \<lparr>af_TenantID = query c ''tenant_id'',
        af_Status = query c ''status'', af_Scene = query c ''scene'', af_Query = query c ''q'',
        af_Cursor = query c ''cursor'', af_Limit = Atoi (query c ''limit'')\<rparr>))"

definition Handlers_AdminGetOrder :: "'x Deps \<Rightarrow> 'x handler" where
  "Handlers_AdminGetOrder d c =
     reply_order c (GetInternal d (query c ''tenant_id'') (cx_Param c ''order_id''))"

definition Handlers_AdminCancel :: "'x Deps \<Rightarrow> 'x handler" where
  "Handlers_AdminCancel d c = reply_order c (as_operator d c (Cancel d))"

definition Handlers_AdminComplete :: "'x Deps \<Rightarrow> 'x handler" where
  "Handlers_AdminComplete d c =
     reply_order c (on_order d c (\<lambda>o'. Complete d (ord_TenantID o') (ord_OrderID o')))"

definition Handlers_AdminConfirmLedger :: "'x Deps \<Rightarrow> 'x handler" where
  "Handlers_AdminConfirmLedger d c = reply_order c (as_operator d c (ConfirmLedger d))"

text \<open>Unlike the client's handler this one does not ask whether there is a renewal service.\<close>

definition Handlers_AdminRenew :: "'x Deps \<Rightarrow> 'x Handlers \<Rightarrow> 'x handler" where
  "Handlers_AdminRenew d hs c =
     reply_order c (as_operator d c (if hd_RenewSvc hs then Renew d else (\<lambda>_ _. fail nil_panic)))"

definition Handlers_AdminRetryPaid :: "'x Deps \<Rightarrow> 'x handler" where
  "Handlers_AdminRetryPaid d c =
     reply_order c (on_order d c (\<lambda>o'.
       tryE (RetryAfterPaid d (ord_TenantID o') (ord_OrderID o')) (\<lambda>_.
       GetInternal d (ord_TenantID o') (ord_OrderID o'))))"

definition Handlers_AdminRefund :: "'x Deps \<Rightarrow> 'x Handlers \<Rightarrow> 'x handler" where
  "Handlers_AdminRefund d hs c =
     reply c RefundData (as_operator d c (\<lambda>ident i. RefundOrder d ident i
       (refund_cmd_of (js_refund (hd_js hs) (rq_Body (cx_Request c))))))"

definition Handlers_AdminClose :: "'x Deps \<Rightarrow> 'x Handlers \<Rightarrow> 'x handler" where
  "Handlers_AdminClose d hs c =
     (if \<not> hd_CloseSvc hs then not_implemented c else reply_order c (as_operator d c (Close d)))"

definition Handlers_AdminReconcileOffer :: "'x Deps \<Rightarrow> 'x Handlers \<Rightarrow> 'x handler" where
  "Handlers_AdminReconcileOffer d hs c =
     (if \<not> hd_ReconSvc hs then not_implemented c
      else (let app = (rq_Method (cx_Request c) = ''POST'' \<or> query c ''apply'' = ''true'' \<or>
                       query c ''apply'' = ''1'')
            in reply c (\<lambda>(n, ds). ReconData n ds) (ReconRun d (query c ''tenant_id'') app)))"

definition outbox_item :: "'x Deps \<Rightarrow> OutboxRow \<Rightarrow> outboxItem" where
  "outbox_item d row =
     (case dp_unmarshal_Event d (ob_Payload row) of
        Inl e \<Rightarrow> \<lparr>oi_EventID = ob_EventID row, oi_Attempts = ob_Attempts row, oi_Event = None, oi_OrderID = None\<rparr>
      | Inr ev \<Rightarrow> \<lparr>oi_EventID = ob_EventID row, oi_Attempts = ob_Attempts row,
          oi_Event = Some (ev_EventType ev, ev_TenantID ev, ev_OccurredAt ev),
          oi_OrderID = (case ev_Data ev of None \<Rightarrow> None
            | Some m \<Rightarrow> Some (case map_of m ''order_id'' of None \<Rightarrow> JNull | Some v \<Rightarrow> v))\<rparr>)"

text \<open>The rows are read one after the other from the slice that was returned.\<close>

definition Handlers_AdminOutbox :: "'x Deps \<Rightarrow> 'x handler" where
  "Handlers_AdminOutbox d c =
     reply c OutboxData (tryE (ListOutbox d (Atoi (query c ''limit''))) (\<lambda>v. do {
       rows \<leftarrow> repo_get (\<lambda>r. map (\<lambda>i. view_nth v i r) [0..<view_length v]);
       ok (map (outbox_item d) rows) }))"

definition Handlers_AdminSeed :: "'x Deps \<Rightarrow> 'x Handlers \<Rightarrow> 'x handler" where
  "Handlers_AdminSeed d hs c =
     (if \<not> hd_SeedSvc hs then not_implemented c else reply c SeedData (Seed d))"

end
