(* ===== verification/Http_Router.thy ===== *)
theory Http_Router
  imports Http_Handlers System_Runs
begin

text \<open>
  The middleware (\<open>src/internal/iface/http/middleware.go\<close>, \<open>AdminAuth\<close> of \<open>admin.go\<close>) and the routes
  (\<open>router.go\<close>) of the HTTP interface. \<open>routes\<close> is the list that \<open>NewRouter\<close> registers, with the guard of the
  group each route is in; \<open>serve\<close> answers a request: unless gin redirects it, the request id is chosen, the first
  route that matches is taken, its guard is asked, and its handler runs.

  The predicate \<open>stays\<close> says that a program leads from reachable states of the system to reachable
  states. It is closed under the combinators of the monad, so that \<open>stays_serve\<close> follows handler
  by handler: the interface can do nothing to the orders but call the services.
\<close>

section \<open>Middleware\<close>

definition RequestID :: "'x Handlers \<Rightarrow> Request \<Rightarrow> ('x World, string) state" where
  "RequestID hs rq =
     (if rq_Header rq ''X-Request-Id'' \<noteq> '''' then State_Monad.return (rq_Header rq ''X-Request-Id'')
      else if rq_Header rq ''traceparent'' \<noteq> '''' then State_Monad.return (rq_Header rq ''traceparent'')
      else ext_op (hd_uuid hs))"

definition bearer_token :: "Request \<Rightarrow> string" where
  "bearer_token rq =
     (let token = TrimSpace (TrimPrefix (rq_Header rq ''Authorization'') ''Bearer '')
      in if token = '''' then rq_Header rq ''X-User-Id'' else token)"

text \<open>A tenant named in a header takes the place of the tenant the identity service has given.\<close>

definition Auth :: "'x Handlers \<Rightarrow> (Identity \<Rightarrow> 'x handler) \<Rightarrow> 'x handler" where
  "Auth hs next c = do {
     res \<leftarrow> ext_op (hd_auth hs (bearer_token (cx_Request c)));
     (case res of
        Inl e \<Rightarrow> State_Monad.return (writeAppError c (Sentinel ErrUnauthorized))
      | Inr ident \<Rightarrow>
          (let t = header c ''X-Tenant-Id'';
               ident1 = (if t \<noteq> '''' then ident\<lparr>id_TenantID := t\<rparr> else ident)
           in if id_TenantID ident1 = ''''
              then State_Monad.return (writeAppError c (Sentinel ErrUnauthorized))
              else next (ident1\<lparr>id_TraceID := requestID c\<rparr>) c)) }"

definition admin_allowed :: "string \<Rightarrow> Request \<Rightarrow> bool" where
  "admin_allowed token rq \<longleftrightarrow>
     (let got = (if rq_Header rq ''X-Admin-Token'' = '''' then rq_Query rq ''token''
                else rq_Header rq ''X-Admin-Token'')
      in token \<noteq> '''' \<and> got = token)"

definition AdminAuth :: "string \<Rightarrow> 'x handler \<Rightarrow> 'x handler" where
  "AdminAuth token next c =
     (if \<not> admin_allowed token (cx_Request c) then State_Monad.return (Respond_Fail c 401 40100 ''admin unauthorized'')
      else next c)"

section \<open>Routes\<close>

datatype 'x entry = Plain "'x handler" | Authed "Identity \<Rightarrow> 'x handler" | AdminOnly "'x handler"

type_synonym 'x route = "string \<times> string \<times> 'x entry"

definition public_routes :: "'x Handlers \<Rightarrow> 'x route list" where
  "public_routes hs = [
     (''GET'', ''/'', Plain (Handlers_AdminPage hs)),
     (''GET'', ''/healthz'', Plain Handlers_Health),
     (''GET'', ''/readyz'', Plain (Handlers_Ready hs)),
     (''GET'', ''/admin'', Plain (Handlers_AdminPage hs)),
     (''GET'', ''/admin/'', Plain (Handlers_AdminPage hs))]"

definition client_routes :: "'x Deps \<Rightarrow> 'x Handlers \<Rightarrow> 'x route list" where
  "client_routes d hs = [
     (''POST'', ''/api/v1/orders/preview'', Authed (Handlers_Preview d hs)),
     (''POST'', ''/api/v1/orders'', Authed (Handlers_Create d hs)),
     (''GET'', ''/api/v1/orders'', Authed (Handlers_List d)),
     (''GET'', ''/api/v1/orders/:order_id'', Authed (Handlers_Get d)),
     (''POST'', ''/api/v1/orders/:order_id/cancel'', Authed (Handlers_Cancel d)),
     (''POST'', ''/api/v1/orders/:order_id/pay-intent'', Authed (Handlers_PayIntent d)),
     (''POST'', ''/api/v1/orders/:order_id/confirm-ledger'', Authed (Handlers_ConfirmLedger d)),
     (''POST'', ''/api/v1/orders/:order_id/complete'', Authed (Handlers_Complete d)),
     (''POST'', ''/api/v1/orders/:order_id/refunds'', Authed (Handlers_Refund d hs)),
     (''POST'', ''/api/v1/orders/:order_id/renew'', Authed (Handlers_Renew d hs)),
     (''POST'', ''/api/v1/orders/:order_id/close'', Authed (Handlers_Close d hs))]"

definition internal_routes :: "'x Deps \<Rightarrow> 'x Handlers \<Rightarrow> 'x route list" where
  "internal_routes d hs = [
     (''POST'', ''/internal/v1/orders/callbacks/payment'', Plain (Handlers_PaymentCallback d hs)),
     (''GET'', ''/internal/v1/compensations'', Plain (Handlers_ListCompensations d hs)),
     (''POST'', ''/internal/v1/compensations/:id/retry'', Plain (Handlers_RetryCompensation d hs))]"

definition admin_routes :: "'x Deps \<Rightarrow> 'x Handlers \<Rightarrow> 'x route list" where
  "admin_routes d hs = [
     (''GET'', ''/admin/v1/stats'', AdminOnly (Handlers_AdminStats d)),
     (''GET'', ''/admin/v1/orders'', AdminOnly (Handlers_AdminListOrders d)),
     (''GET'', ''/admin/v1/orders/:order_id'', AdminOnly (Handlers_AdminGetOrder d)),
     (''POST'', ''/admin/v1/orders/:order_id/cancel'', AdminOnly (Handlers_AdminCancel d)),
     (''POST'', ''/admin/v1/orders/:order_id/complete'', AdminOnly (Handlers_AdminComplete d)),
     (''POST'', ''/admin/v1/orders/:order_id/confirm-ledger'', AdminOnly (Handlers_AdminConfirmLedger d)),
     (''POST'', ''/admin/v1/orders/:order_id/renew'', AdminOnly (Handlers_AdminRenew d hs)),
     (''POST'', ''/admin/v1/orders/:order_id/retry-paid'', AdminOnly (Handlers_AdminRetryPaid d)),
     (''POST'', ''/admin/v1/orders/:order_id/refunds'', AdminOnly (Handlers_AdminRefund d hs)),
     (''POST'', ''/admin/v1/orders/:order_id/close'', AdminOnly (Handlers_AdminClose d hs)),
     (''GET'', ''/admin/v1/compensations'', AdminOnly (Handlers_ListCompensations d hs)),
     (''POST'', ''/admin/v1/compensations/:id/retry'', AdminOnly (Handlers_RetryCompensation d hs)),
     (''GET'', ''/admin/v1/reconcile/offer'', AdminOnly (Handlers_AdminReconcileOffer d hs)),
     (''POST'', ''/admin/v1/reconcile/offer'', AdminOnly (Handlers_AdminReconcileOffer d hs)),
     (''GET'', ''/admin/v1/outbox'', AdminOnly (Handlers_AdminOutbox d)),
     (''POST'', ''/admin/v1/seed'', AdminOnly (Handlers_AdminSeed d hs))]"

definition routes :: "'x Deps \<Rightarrow> 'x Handlers \<Rightarrow> 'x route list" where
  "routes d hs = public_routes hs @ client_routes d hs @ internal_routes d hs @ admin_routes d hs"

fun find_route ::
  "(string \<Rightarrow> string \<Rightarrow> (string \<Rightarrow> string) option) \<Rightarrow> Request \<Rightarrow> 'x route list \<Rightarrow> ('x route \<times> (string \<Rightarrow> string)) option" where
  "find_route matches rq [] = None"
| "find_route matches rq ((verb, path, e) # rs) =
     (if rq_Method rq = verb
      then (case matches path (rq_Path rq) of
          Some params \<Rightarrow> Some ((verb, path, e), params)
        | None \<Rightarrow> find_route matches rq rs)
      else find_route matches rq rs)"

fun run_entry :: "'x Handlers \<Rightarrow> 'x entry \<Rightarrow> 'x handler" where
  "run_entry hs (Plain h) c = h c"
| "run_entry hs (Authed h) c = Auth hs h c"
| "run_entry hs (AdminOnly h) c = AdminAuth (hd_AdminToken hs) h c"

text \<open>
  The engine of \<open>gin.New()\<close> redirects to the path with the other form of the last slash
  (\<open>RedirectTrailingSlash\<close>) before any middleware runs, so without a request id. A path without a route
  goes through the middleware.
\<close>

definition redirected :: "'x Deps \<Rightarrow> 'x Handlers \<Rightarrow> Request \<Rightarrow> bool" where
  "redirected d hs rq \<longleftrightarrow>
     find_route (hd_match hs) rq (routes d hs) = None \<and> hd_slash hs (rq_Method rq) (rq_Path rq)"

definition dispatch :: "'x Deps \<Rightarrow> 'x Handlers \<Rightarrow> Request \<Rightarrow> string \<Rightarrow> ('x World, Response) state" where
  "dispatch d hs rq i =
     (case find_route (hd_match hs) rq (routes d hs) of
        None \<Rightarrow> State_Monad.return (answer 404 NoRoute)
      | Some ((verb, path, e), params) \<Rightarrow>
          run_entry hs e \<lparr>cx_Request = rq, cx_Param = params, cx_RequestID = Some i\<rparr>)"

definition serve :: "'x Deps \<Rightarrow> 'x Handlers \<Rightarrow> Request \<Rightarrow> ('x World, Response) state" where
  "serve d hs rq =
     (if redirected d hs rq
      then State_Monad.return (answer (if rq_Method rq = ''GET'' then 301 else 307) Redirect)
      else do {
        i \<leftarrow> RequestID hs rq;
        resp \<leftarrow> dispatch d hs rq i;
        State_Monad.return (resp\<lparr>rp_Header := Some i\<rparr>) })"

section \<open>Programs that stay within the reachable states\<close>

named_theorems stays_intros \<open>programs that lead from reachable states to reachable states\<close>

definition stays :: "'x Deps \<Rightarrow> ('x World, 'a) state \<Rightarrow> bool" where
  "stays d m \<longleftrightarrow> (\<forall>w. reachable d w \<longrightarrow> reachable d (snd (run_state m w)))"

lemma staysD: "stays d m \<Longrightarrow> reachable d w \<Longrightarrow> run_state m w = (a, w') \<Longrightarrow> reachable d w'"
  by (auto simp: stays_def dest: spec [of _ w])

lemma stays_return [stays_intros]: "stays d (State_Monad.return a)"
  by (simp add: stays_def)

lemma stays_bind [stays_intros]:
  "stays d m \<Longrightarrow> (\<And>a. stays d (f a)) \<Longrightarrow> stays d (State_Monad.bind m f)"
  by (auto simp: stays_def split: prod.split dest: spec)

lemma stays_ok [stays_intros]: "stays d (ok a)"
  by (simp add: ok_def stays_return)

lemma stays_fail [stays_intros]: "stays d (fail e)"
  by (simp add: fail_def stays_return)

lemma stays_tryE [stays_intros]: "stays d m \<Longrightarrow> (\<And>a. stays d (f a)) \<Longrightarrow> stays d (tryE m f)"
  unfolding tryE_def by (rule stays_bind) (simp_all add: stays_return split: sum.split)

lemma stays_ext_op [stays_intros]: "stays d (ext_op m)"
  by (auto simp: stays_def ext_op_def split: prod.split intro: reachable.outside)

lemma stays_repo_get [stays_intros]: "stays d (repo_get f)"
  by (simp add: stays_def repo_get_def)

lemma stays_reply [stays_intros]: "stays d m \<Longrightarrow> stays d (reply c view m)"
  by (simp add: reply_def stays_bind stays_return)

lemma stays_if [stays_intros]: "(b \<Longrightarrow> stays d m) \<Longrightarrow> (\<not> b \<Longrightarrow> stays d n) \<Longrightarrow> stays d (if b then m else n)"
  by simp

lemma stays_sum [stays_intros]:
  "(\<And>e. stays d (f e)) \<Longrightarrow> (\<And>a. stays d (g a)) \<Longrightarrow> stays d (case r of Inl e \<Rightarrow> f e | Inr a \<Rightarrow> g a)"
  by (cases r) simp_all

lemma stays_option [stays_intros]:
  "stays d n \<Longrightarrow> (\<And>a. stays d (f a)) \<Longrightarrow> stays d (case r of None \<Rightarrow> n | Some a \<Rightarrow> f a)"
  by (cases r) simp_all

lemma snd_run_ignore: "snd (run_state (ignore m) w) = snd (run_state m w)"
  by (simp add: ignore_def split: prod.split)

text \<open>A service that is a call of the system stays, by the definition of the reachable states.\<close>

lemma stays_call:
  assumes "exec d c = ignore m"
  shows "stays d m"
  unfolding stays_def
proof (intro allI impI)
  fix w
  assume "reachable d w"
  then have "reachable d (snd (run_state (ignore m) w))"
    by (rule reachable.call [where c = c and u = "()"]) (simp add: assms prod_eq_iff)
  then show "reachable d (snd (run_state m w))" by (simp add: snd_run_ignore)
qed

lemma stays_services [stays_intros]:
  "stays d (Preview d ident pc)" "stays d (Checkout d ident cc)" "stays d (RecreateIntent d ident i)"
  "stays d (ConfirmLedger d ident i)" "stays d (OnPaymentCallback d cb)" "stays d (Complete d t i)"
  "stays d (RetryAfterPaid d t i)" "stays d (RefundOrder d ident i rc)" "stays d (Cancel d ident i)"
  "stays d (Close d ident i)" "stays d (Renew d ident i)" "stays d (RetryTicket d n)"
  "stays d (ReconRun d t app)"
  by (rule stays_call, rule exec.simps)+

lemma stays_queries [stays_intros]:
  "stays d (Get d ident i)" "stays d (GetInternal d t i)" "stays d (List d ident st sc cu n)"
  "stays d (AdminList d f)" "stays d (AdminStats d t)" "stays d (ListOutbox d n)"
  "stays d (ListTickets d st n)"
  unfolding Get_def GetInternal_def FindByID_def List_def AdminList_def AdminStats_def ListOutbox_def
    ListTickets_def Let_def
  by (intro stays_intros)+

lemma stays_runCase [stays_intros]: "stays d (runCase d stamp i c)"
  unfolding runCase_def seed_after_def seed_pay_def status_of_def Let_def by (intro stays_intros)

lemma stays_seed_loop [stays_intros]: "stays d (seed_loop d stamp i out cs)"
  by (induction cs arbitrary: i out) (simp_all add: stays_intros)

lemma stays_Seed [stays_intros]: "stays d (Seed d)"
  unfolding Seed_def by (intro stays_intros)

lemma stays_prod [stays_intros]: "(\<And>a b. stays d (f a b)) \<Longrightarrow> stays d (case x of (a, b) \<Rightarrow> f a b)"
  by (cases x) simp

lemmas handler_defs = reply_order_def not_implemented_def on_order_def as_operator_def Let_def
  Handlers_Preview_def Handlers_Create_def Handlers_Get_def Handlers_List_def
  Handlers_Cancel_def Handlers_PayIntent_def Handlers_ConfirmLedger_def Handlers_Complete_def
  Handlers_Refund_def Handlers_PaymentCallback_def Handlers_Close_def Handlers_Renew_def
  Handlers_ListCompensations_def Handlers_RetryCompensation_def Handlers_Health_def
  Handlers_Ready_def Handlers_AdminPage_def
  Handlers_AdminStats_def Handlers_AdminListOrders_def Handlers_AdminGetOrder_def
  Handlers_AdminCancel_def Handlers_AdminComplete_def Handlers_AdminConfirmLedger_def
  Handlers_AdminRenew_def Handlers_AdminRetryPaid_def Handlers_AdminRefund_def Handlers_AdminClose_def
  Handlers_AdminReconcileOffer_def Handlers_AdminOutbox_def Handlers_AdminSeed_def

lemma stays_client_handlers [stays_intros]:
  "stays d (Handlers_Preview d hs ident c)" "stays d (Handlers_Create d hs ident c)"
  "stays d (Handlers_Get d ident c)" "stays d (Handlers_List d ident c)"
  "stays d (Handlers_Cancel d ident c)" "stays d (Handlers_PayIntent d ident c)"
  "stays d (Handlers_ConfirmLedger d ident c)" "stays d (Handlers_Complete d ident c)"
  "stays d (Handlers_Refund d hs ident c)" "stays d (Handlers_Close d hs ident c)"
  "stays d (Handlers_Renew d hs ident c)"
  unfolding handler_defs by (intro stays_intros)+

lemma stays_open_handlers [stays_intros]:
  "stays d (Handlers_PaymentCallback d hs c)" "stays d (Handlers_ListCompensations d hs c)"
  "stays d (Handlers_RetryCompensation d hs c)" "stays d (Handlers_Health c)"
  "stays d (Handlers_Ready hs c)" "stays d (Handlers_AdminPage hs c)"
  unfolding handler_defs by (intro stays_intros)+

lemma stays_admin_renew [stays_intros]: "stays d (Handlers_AdminRenew d hs c)"
  unfolding handler_defs by (cases "hd_RenewSvc hs"; simp; intro stays_intros)

lemma stays_admin_handlers [stays_intros]:
  "stays d (Handlers_AdminStats d c)" "stays d (Handlers_AdminListOrders d c)"
  "stays d (Handlers_AdminGetOrder d c)" "stays d (Handlers_AdminCancel d c)"
  "stays d (Handlers_AdminComplete d c)" "stays d (Handlers_AdminConfirmLedger d c)"
  "stays d (Handlers_AdminRetryPaid d c)" "stays d (Handlers_AdminRefund d hs c)"
  "stays d (Handlers_AdminClose d hs c)" "stays d (Handlers_AdminReconcileOffer d hs c)"
  "stays d (Handlers_AdminOutbox d c)" "stays d (Handlers_AdminSeed d hs c)"
  unfolding handler_defs by (intro stays_intros)+

fun entry_stays :: "'x Deps \<Rightarrow> 'x entry \<Rightarrow> bool" where
  "entry_stays d (Plain h) \<longleftrightarrow> (\<forall>c. stays d (h c))"
| "entry_stays d (Authed h) \<longleftrightarrow> (\<forall>ident c. stays d (h ident c))"
| "entry_stays d (AdminOnly h) \<longleftrightarrow> (\<forall>c. stays d (h c))"

lemma stays_run_entry: "entry_stays d e \<Longrightarrow> stays d (run_entry hs e c)"
  by (cases e) (simp_all add: Auth_def AdminAuth_def Let_def stays_intros)

lemma routes_stay: "\<forall>(verb, path, e) \<in> set (routes d hs). entry_stays d e"
  by (simp add: routes_def public_routes_def client_routes_def internal_routes_def admin_routes_def stays_intros)

lemma find_route_Some:
  "find_route matches rq rs = Some (r, params) \<Longrightarrow>
   r \<in> set rs \<and> rq_Method rq = fst r \<and> matches (fst (snd r)) (rq_Path rq) = Some params"
  by (induction matches rq rs rule: find_route.induct) (auto split: if_splits option.splits)

lemma stays_RequestID [stays_intros]: "stays d (RequestID hs rq)"
  unfolding RequestID_def by (intro stays_intros)

text \<open>No request leads out of the reachable states.\<close>

lemma stays_serve: "stays d (serve d hs rq)"
proof -
  have "stays d (dispatch d hs rq i)" for i
    unfolding dispatch_def using routes_stay [of d hs] find_route_Some [of "hd_match hs" rq "routes d hs"]
    by (auto split: option.split intro!: stays_return stays_run_entry)
  then show ?thesis unfolding serve_def by (intro stays_if stays_bind stays_RequestID stays_return)
qed

section \<open>What the guards refuse\<close>

text \<open>A route of a group carries the guard of the group.\<close>

lemma admin_routes_guarded:
  "(verb, path, e) \<in> set (routes d hs) \<Longrightarrow> is_prefix ''/admin/v1/'' path \<Longrightarrow> \<exists>h. e = AdminOnly h"
  by (auto simp: routes_def public_routes_def client_routes_def internal_routes_def admin_routes_def)

lemma client_routes_guarded:
  "(verb, path, e) \<in> set (routes d hs) \<Longrightarrow> is_prefix ''/api/v1/'' path \<Longrightarrow> \<exists>h. e = Authed h"
  by (auto simp: routes_def public_routes_def client_routes_def internal_routes_def admin_routes_def)

lemma AdminAuth_refuses:
  "\<not> admin_allowed token (cx_Request c) \<Longrightarrow>
   AdminAuth token next c = State_Monad.return (Respond_Fail c 401 40100 ''admin unauthorized'')"
  by (simp add: AdminAuth_def)

lemma admin_locked_without_token: "\<not> admin_allowed '''' rq"
  by (simp add: admin_allowed_def)

text \<open>The handler behind \<open>Auth\<close> only runs with an identity the service gave and a tenant that is not empty.\<close>

lemma Auth_cases:
  assumes "run_state (Auth hs next c) w = (resp, w')"
  obtains (refused) "resp = writeAppError c (Sentinel ErrUnauthorized)" "w_repo w' = w_repo w"
  | (passed) ident tenant w1 where
      "run_state (ext_op (hd_auth hs (bearer_token (cx_Request c)))) w = (Inr ident, w1)" "tenant \<noteq> ''''"
      "tenant = (if header c ''X-Tenant-Id'' = '''' then id_TenantID ident else header c ''X-Tenant-Id'')"
      "run_state (next (ident\<lparr>id_TenantID := tenant, id_TraceID := requestID c\<rparr>) c) w1 = (resp, w')"
proof -
  obtain res w1 where run: "run_state (ext_op (hd_auth hs (bearer_token (cx_Request c)))) w = (res, w1)"
    by (cases "run_state (ext_op (hd_auth hs (bearer_token (cx_Request c)))) w")
  have repo: "w_repo w1 = w_repo w"
    using run by (auto simp: ext_op_def split: prod.splits)
  show thesis
  proof (cases res)
    case (Inl e)
    then show thesis using assms run repo refused by (simp add: Auth_def)
  next
    case (Inr ident)
    then show thesis
      using assms run repo refused passed [of ident w1 "if header c ''X-Tenant-Id'' = '''' then id_TenantID ident else header c ''X-Tenant-Id''"]
      by (auto simp: Auth_def Let_def split: if_splits)
  qed
qed

text \<open>The run of a request: its id, and then the route on the same orders.\<close>

lemma serve_run:
  assumes "run_state (serve d hs rq) w = (resp, w')" "\<not> redirected d hs rq"
  obtains i w1 resp1 where "run_state (RequestID hs rq) w = (i, w1)" "w_repo w1 = w_repo w"
    "resp = resp1\<lparr>rp_Header := Some i\<rparr>" "run_state (dispatch d hs rq i) w1 = (resp1, w')"
proof -
  obtain i w1 where i: "run_state (RequestID hs rq) w = (i, w1)" by (cases "run_state (RequestID hs rq) w")
  then have "w_repo w1 = w_repo w"
    by (auto simp: RequestID_def ext_op_def split: if_splits prod.splits)
  with that i assms show thesis by (auto simp: serve_def split: prod.splits)
qed

lemma route_run:
  assumes "run_state (serve d hs rq) w = (resp, w')"
    and "find_route (hd_match hs) rq (routes d hs) = Some ((verb, path, e), params)"
  obtains i w1 resp1 where "run_state (RequestID hs rq) w = (i, w1)" "w_repo w1 = w_repo w"
    "resp = resp1\<lparr>rp_Header := Some i\<rparr>"
    "run_state (run_entry hs e \<lparr>cx_Request = rq, cx_Param = params, cx_RequestID = Some i\<rparr>) w1 = (resp1, w')"
proof -
  have "\<not> redirected d hs rq" by (simp add: redirected_def assms(2))
  from serve_run [OF assms(1) this] that show thesis by (auto simp: dispatch_def assms(2))
qed

end
