(* ===== verification/Hub_Client.thy ===== *)
theory Hub_Client
  imports Ports Offer_Mock Go_Strings
begin

text \<open>
  The remote services as the process talks to them over HTTP: the decoding of a hub's answer
  (\<open>src/internal/infra/httpx/envelope.go\<close>) and the clients of the identity, promotion and ledger
  services (\<open>authclient\<close>, \<open>offerclient\<close>, \<open>ledgerclient\<close> under \<open>src/internal/infra\<close>), which fill the interfaces
  of \<open>Ports\<close>. The exchange of a request for a response is the parameter \<open>send\<close> (it may change the
  external state and may fail), and \<open>Wire\<close> holds the results of \<open>json.Unmarshal\<close> into the types
  the code unmarshals into. The body of a request is the value that is given to \<open>json.Marshal\<close>.

  The lemmas say which answers count as success. An error code in an answer that
  carries no data is not one of the errors (\<open>coded_error_without_data_accepted\<close>).
\<close>

section \<open>Answers\<close>

record HttpRequest =
  hq_Method :: string
  hq_URL :: string
  hq_Headers :: "(string \<times> string) list"
  hq_Body :: "json option"

text \<open>\<open>hr_Body\<close> is what \<open>io.ReadAll\<close> makes of the body.\<close>

record HttpResponse =
  hr_StatusCode :: int
  hr_Body :: "bytes res"

record HubEnvelope =
  he_Code :: int
  he_Message :: string
  he_Data :: bytes

text \<open>
  \<open>wr_envelope\<close> gives whether unmarshalling succeeded and the envelope as it is afterwards;
  \<open>wr_error\<close> the code and message of the error object, if there is one.
\<close>

record Wire =
  wr_envelope :: "bytes \<Rightarrow> bool \<times> HubEnvelope"
  wr_error :: "bytes \<Rightarrow> (string \<times> string) option"
  wr_identity :: "bytes \<Rightarrow> (string \<times> string \<times> anymap) res"
  wr_quote :: "bytes \<Rightarrow> quoteWire res"
  wr_reservation :: "bytes \<Rightarrow> ReservationResult res"
  wr_redemption :: "bytes \<Rightarrow> RedemptionResult res"
  wr_available :: "bytes \<Rightarrow> int64 res"
  wr_strings :: "bytes \<Rightarrow> (string \<rightharpoonup> string) res"
  wr_any :: "bytes \<Rightarrow> unit res"

definition mapHubError :: "int \<Rightarrow> string \<Rightarrow> error" where
  "mapHubError code msg =
     (if code = 40100 \<or> code = 401 then Sentinel ErrUnauthorized
      else if code = 42201 \<or> code = 42212 then Sentinel ErrLedgerFreeze
      else if code = 42211 then Sentinel ErrOfferReserve
      else if code = 42210 then Sentinel ErrQuoteStale
      else Opaque (if msg = '''' then ''hub error '' @ show_int code else msg))"

definition truncate :: "string \<Rightarrow> nat \<Rightarrow> string" where
  "truncate s n = (if length s \<le> n then s else take n s)"

text \<open>The error of a response with a status of 300 or more, from the body and what was read from it.\<close>

definition status_error :: "Wire \<Rightarrow> int \<Rightarrow> bytes \<Rightarrow> HubEnvelope \<Rightarrow> error" where
  "status_error w status raw e =
     (let msg0 = (if he_Message e \<noteq> '''' then he_Message e else TrimSpace raw);
          msg = (case wr_error w raw of Some (c, m) \<Rightarrow> if m \<noteq> '''' then m else msg0 | None \<Rightarrow> msg0);
          code = (case wr_error w raw of Some (c, m) \<Rightarrow> map upper_char c | None \<Rightarrow> '''')
      in if status = 404 \<or> code = ''NOT_FOUND'' then Sentinel ErrOrderNotFound
         else if code = ''UNAUTHORIZED'' \<or> code = ''API_KEY_REQUIRED'' then Sentinel ErrUnauthorized
         else if code = ''QUOTE_STALE'' \<or> contains ''stale'' (map lower_char msg) then Sentinel ErrQuoteStale
         else Opaque (''http '' @ show_int status @ '': '' @ truncate msg 256))"

text \<open>\<open>dest\<close> unmarshals into the destination; a nil destination is \<open>no_dest\<close>.\<close>

definition no_dest :: "bytes \<Rightarrow> unit res" where "no_dest raw = Inr ()"

definition Decode :: "Wire \<Rightarrow> (bytes \<Rightarrow> 'a res) \<Rightarrow> HttpResponse \<Rightarrow> 'a res" where
  "Decode w dest resp =
     (case hr_Body resp of
        Inl e \<Rightarrow> Inl e
      | Inr raw \<Rightarrow>
          if hr_StatusCode resp = 401 then Inl (Sentinel ErrUnauthorized)
          else (case wr_envelope w raw of (read, e) \<Rightarrow>
            if read \<and> 0 < length (he_Data e) \<and> he_Data e \<noteq> ''null''
            then (if he_Code e \<noteq> 0 then Inl (mapHubError (he_Code e) (he_Message e)) else dest (he_Data e))
            else if hr_StatusCode resp = 422 \<or> he_Code e = 42201 \<or> he_Code e = 42212
            then Inl (Sentinel ErrLedgerFreeze)
            else if 300 \<le> hr_StatusCode resp then Inl (status_error w (hr_StatusCode resp) raw e)
            else dest raw))"

section \<open>The identity service\<close>

type_synonym 'x sender = "HttpRequest \<Rightarrow> ('x, HttpResponse res) state"

text \<open>\<open>req.Header.Set\<close> of an optional header.\<close>

definition opt_header :: "string \<Rightarrow> string \<Rightarrow> (string \<times> string) list" where
  "opt_header k v = (if v \<noteq> '''' then [(k, v)] else [])"

definition auth_Introspect ::
  "'x sender \<Rightarrow> Wire \<Rightarrow> string \<Rightarrow> string \<Rightarrow> string \<Rightarrow> ('x, Identity res) state" where
  "auth_Introspect send w base apiKey token =
     tryE (send \<lparr>hq_Method = ''POST'', hq_URL = trim_slashes base @ ''/api/v1/auth/introspect'',
       hq_Headers = [(''Authorization'', ''Bearer '' @ token), (''Content-Type'', ''application/json'')]
         @ opt_header ''X-Api-Key'' apiKey,
       hq_Body = Some (JObj [(''token'', JStr token)])\<rparr>) (\<lambda>resp.
     tryE (lift_res (Decode w (wr_identity w) resp)) (\<lambda>(userID, tenantID, attributes).
     if userID = '''' then fail (Sentinel ErrUnauthorized)
     else ok \<lparr>id_UserID = userID, id_TenantID = tenantID, id_Attributes = attributes, id_TraceID = ''''\<rparr>))"

text \<open>The mock takes the token for a user id, or \<open>mock.<user>.<tenant>\<close> apart.\<close>

definition mock_Introspect :: "string \<Rightarrow> string \<Rightarrow> Identity res" where
  "mock_Introspect defaultTenant token0 =
     (let token = TrimSpace (TrimPrefix token0 ''Bearer '');
          tenant0 = (if defaultTenant = '''' then ''tenant_001'' else defaultTenant);
          parts = split_at CHR ''.'' token;
          mocked = is_prefix ''mock.'' token;
          userID = (if mocked \<and> 2 \<le> length parts then parts ! 1 else token);
          tenant = (if mocked \<and> 3 \<le> length parts \<and> parts ! 2 \<noteq> '''' then parts ! 2 else tenant0)
      in if token = '''' then Inl (Sentinel ErrUnauthorized)
         else Inr \<lparr>id_UserID = userID, id_TenantID = tenant,
           id_Attributes = Some [(''is_new_user'', JBool False), (''member_level'', JStr ''gold'')],
           id_TraceID = ''''\<rparr>)"

section \<open>The promotion service\<close>

text \<open>One call; \<open>payload\<close> is dropped for GET.\<close>

definition offer_do ::
  "'x sender \<Rightarrow> Wire \<Rightarrow> string \<Rightarrow> string \<Rightarrow> string \<Rightarrow> string \<Rightarrow> string \<Rightarrow> string \<Rightarrow> json option \<Rightarrow>
    (bytes \<Rightarrow> 'a res) \<Rightarrow> ('x, 'a res) state" where
  "offer_do send w base apiKey verb tenantID idemKey path payload dest =
     (let body = (if verb \<noteq> ''GET'' then payload else None) in
      tryE (send \<lparr>hq_Method = verb, hq_URL = trim_slashes base @ path,
        hq_Headers = (if body \<noteq> None then [(''Content-Type'', ''application/json'')] else [])
          @ opt_header ''X-Tenant-Id'' tenantID @ opt_header ''X-API-Key'' apiKey
          @ opt_header ''Idempotency-Key'' idemKey,
        hq_Body = body\<rparr>) (\<lambda>resp. lift_res (Decode w dest resp)))"

definition any_json :: "anymap \<Rightarrow> json" where
  "any_json m = (case m of None \<Rightarrow> JNull | Some kvs \<Rightarrow> JObj kvs)"

definition quote_item :: "OrderLine \<Rightarrow> json" where
  "quote_item it = JObj ([(''line_id'', JStr (ln_LineID it)), (''object_type'', JStr (ln_ObjectType it)),
       (''object_id'', JStr (ln_ObjectID it)), (''quantity'', JInt (ln_Quantity it)),
       (''unit_price'', JInt (ln_UnitPrice it))]
     @ (case ln_Attributes it of
          None \<Rightarrow> []
        | Some attrs \<Rightarrow> if attrs = [] then []
            else [(''attributes'', JObj (map (\<lambda>(k, v). (k, JStr v)) attrs))]))"

definition quote_body :: "QuoteRequest \<Rightarrow> json" where
  "quote_body req = JObj [
     (''scene'', JStr (qr_Scene req)),
     (''subject'', JObj [(''type'', JStr ''user''), (''id'', JStr (qr_UserID req)),
        (''attributes'', any_json (qr_Attributes req))]),
     (''transaction'', JObj [(''id'', JStr (qr_OrderID req)), (''amount'', JInt (quote_original (qr_Items req) 0)),
        (''currency'', JStr (qr_Currency req)), (''channel'', JStr (qr_Channel req))]),
     (''items'', JArr (map quote_item (qr_Items req))),
     (''auto_best'', JBool (qr_AutoBest req)),
     (''selected_coupon_ids'', JArr (map JStr (qr_CouponIDs req))),
     (''context'', any_json (qr_Context req))]"

definition reverse_body :: "int64 \<Rightarrow> json" where
  "reverse_body amount = JObj (if 0 <s amount then [(''amount'', JInt amount)] else [])"

text \<open>\<open>order\<close> is the order in which the runtime visits the map of the allocations.\<close>

definition offer_New ::
  "'x sender \<Rightarrow> Wire \<Rightarrow> ((string \<times> int64) list \<Rightarrow> (string \<times> int64) list) \<Rightarrow> string \<Rightarrow> string \<Rightarrow> 'x OfferClient" where
  "offer_New send w order base apiKey = \<lparr>
     oc_Quote = (\<lambda>req. tryE (offer_do send w base apiKey ''POST'' (qr_TenantID req) ''''
       ''/api/discount/v1/quotes'' (Some (quote_body req)) (wr_quote w)) (\<lambda>q. ok (mapQuote order q))),
     oc_Reserve = (\<lambda>t q oid k. offer_do send w base apiKey ''POST'' t k ''/api/discount/v1/reservations''
       (Some (JObj [(''quote_id'', JStr q), (''business_order_id'', JStr oid)])) (wr_reservation w)),
     oc_Commit = (\<lambda>t i oid k. tryE (offer_do send w base apiKey ''POST'' t k
       (''/api/discount/v1/reservations/'' @ i @ ''/commit'') (Some (JObj [])) (wr_redemption w))
       (\<lambda>rd. ok (rd_RedemptionID rd))),
     oc_Release = (\<lambda>t i oid k. offer_do send w base apiKey ''POST'' t k
       (''/api/discount/v1/reservations/'' @ i @ ''/release'') (Some (JObj [])) no_dest),
     oc_Renew = (\<lambda>t i oid k. offer_do send w base apiKey ''POST'' t k
       (''/api/discount/v1/reservations/'' @ i @ ''/renew'') (Some (JObj [])) no_dest),
     oc_Reverse = (\<lambda>t i rf amount k. offer_do send w base apiKey ''POST'' t k
       (''/api/discount/v1/redemptions/'' @ i @ ''/reverse'') (Some (reverse_body amount)) no_dest),
     oc_GetReservation = (\<lambda>t i. offer_do send w base apiKey ''GET'' t ''''
       (''/api/discount/v1/reservations/'' @ i) None (wr_reservation w)),
     oc_GetRedemption = (\<lambda>t i. offer_do send w base apiKey ''GET'' t ''''
       (''/api/discount/v1/redemptions/'' @ i) None (wr_redemption w))\<rparr>"

section \<open>The ledger service\<close>

definition ledger_post ::
  "'x sender \<Rightarrow> Wire \<Rightarrow> string \<Rightarrow> string \<Rightarrow> string \<Rightarrow> json \<Rightarrow> (bytes \<Rightarrow> 'a res) \<Rightarrow> ('x, 'a res) state" where
  "ledger_post send w base apiKey path payload dest =
     tryE (send \<lparr>hq_Method = ''POST'', hq_URL = trim_slashes base @ path,
       hq_Headers = (''Content-Type'', ''application/json'') # opt_header ''X-Api-Key'' apiKey,
       hq_Body = Some payload\<rparr>) (\<lambda>resp. lift_res (Decode w dest resp))"

definition ledger_GetBalance ::
  "'x sender \<Rightarrow> Wire \<Rightarrow> string \<Rightarrow> string \<Rightarrow> string \<Rightarrow> string \<Rightarrow> string \<Rightarrow> ('x, int64 res) state" where
  "ledger_GetBalance send w base apiKey tenantID userID assetCode =
     tryE (send \<lparr>hq_Method = ''GET'', hq_URL = trim_slashes base @ ''/api/v1/ledger/balances?tenant_id='' @ tenantID
         @ ''&user_id='' @ userID @ ''&asset_code='' @ assetCode,
       hq_Headers = opt_header ''X-Api-Key'' apiKey, hq_Body = None\<rparr>)
       (\<lambda>resp. lift_res (Decode w (wr_available w) resp))"

definition ledger_Freeze ::
  "'x sender \<Rightarrow> Wire \<Rightarrow> string \<Rightarrow> string \<Rightarrow> FreezeRequest \<Rightarrow> ('x, string res) state" where
  "ledger_Freeze send w base apiKey req =
     tryE (ledger_post send w base apiKey ''/api/v1/ledger/freeze'' (JObj [
         (''tenant_id'', JStr (fr_TenantID req)), (''user_id'', JStr (fr_UserID req)),
         (''asset_code'', JStr (fr_AssetCode req)), (''amount'', JInt (fr_Amount req)),
         (''biz_no'', JStr (fr_BizNo req)), (''source_system'', JStr ''order'')]) (wr_strings w))
       (\<lambda>out. ok (case out ''freeze_id'' of None \<Rightarrow> '''' | Some i \<Rightarrow> i))"

definition hold_body :: "string \<Rightarrow> string \<Rightarrow> json" where
  "hold_body freezeID bizNo = JObj [(''freeze_id'', JStr freezeID), (''biz_no'', JStr bizNo)]"

definition credit_body :: "string \<Rightarrow> string \<Rightarrow> string \<Rightarrow> int64 \<Rightarrow> string \<Rightarrow> string \<Rightarrow> json" where
  "credit_body tenantID userID assetCode amount bizNo relatedBizNo = JObj [
     (''tenant_id'', JStr tenantID), (''user_id'', JStr userID), (''asset_code'', JStr assetCode),
     (''amount'', JInt amount), (''biz_no'', JStr bizNo), (''related_biz_no'', JStr relatedBizNo),
     (''source_system'', JStr ''order'')]"

definition ledger_New :: "'x sender \<Rightarrow> Wire \<Rightarrow> string \<Rightarrow> string \<Rightarrow> 'x LedgerClient" where
  "ledger_New send w base apiKey = \<lparr>
     lc_GetBalance = ledger_GetBalance send w base apiKey,
     lc_Freeze = ledger_Freeze send w base apiKey,
     lc_Capture = (\<lambda>i b. ledger_post send w base apiKey ''/api/v1/ledger/capture'' (hold_body i b) (wr_any w)),
     lc_Release = (\<lambda>i b. ledger_post send w base apiKey ''/api/v1/ledger/release'' (hold_body i b) (wr_any w)),
     lc_Credit = (\<lambda>t u a amt b rb. ledger_post send w base apiKey ''/api/v1/ledger/credit''
       (credit_body t u a amt b rb) (wr_any w))\<rparr>"

section \<open>Lemmas\<close>

text \<open>The statuses for which an answer is never a success, whatever it contains.\<close>

lemma Decode_unauthorized: "hr_StatusCode resp = 401 \<Longrightarrow> \<exists>e. Decode w dest resp = Inl e"
  by (auto simp: Decode_def split: sum.split)

lemma Decode_success:
  assumes "Decode w dest resp = Inr a"
  obtains raw where "hr_Body resp = Inr raw" "hr_StatusCode resp \<noteq> 401"
    "dest raw = Inr a \<and> hr_StatusCode resp < 300 \<or>
     dest (he_Data (snd (wr_envelope w raw))) = Inr a \<and> he_Code (snd (wr_envelope w raw)) = 0"
  using assms by (auto simp: Decode_def split: sum.splits prod.splits if_splits)

text \<open>An error code is only looked at when there are data, apart from two of the ledger's.\<close>

lemma coded_error_without_data_accepted:
  assumes "hr_Body resp = Inr raw" "hr_StatusCode resp = 200" "wr_envelope w raw = (True, e)"
    "he_Data e = ''''" "he_Code e = 42211"
  shows "Decode w no_dest resp = Inr ()"
  using assms by (simp add: Decode_def no_dest_def)

lemma unprocessable_without_data_is_freeze:
  assumes "hr_Body resp = Inr raw" "hr_StatusCode resp = 422" "wr_envelope w raw = (True, e)" "he_Data e = ''''"
  shows "Decode w dest resp = Inl (Sentinel ErrLedgerFreeze)"
  using assms by (simp add: Decode_def)

lemma mock_Introspect_user:
  assumes "CHR ''.'' \<notin> set u" "CHR ''.'' \<notin> set t" "t \<noteq> ''''" "TrimSpace (''mock.'' @ u @ ''.'' @ t) = ''mock.'' @ u @ ''.'' @ t"
  shows "\<exists>i. mock_Introspect d (''mock.'' @ u @ ''.'' @ t) = Inr i \<and> id_UserID i = u \<and> id_TenantID i = t"
proof -
  have "split_at CHR ''.'' (''mock.'' @ u @ ''.'' @ t) = [''mock'', u, t]"
    using split_at_append [of "CHR ''.''" u t] split_at_id [OF assms(2)] assms(1) by simp
  then show ?thesis
    using assms(3,4) by (simp add: mock_Introspect_def TrimPrefix_def Let_def)
qed

text \<open>A token that names no user makes the mock give an identity without one, which the services take for an operator.\<close>

lemma mock_Introspect_no_user: "\<exists>i. mock_Introspect d ''mock.'' = Inr i \<and> id_UserID i = ''''"
  by (simp add: mock_Introspect_def TrimPrefix_def TrimSpace_def space_char_def Let_def)

end
