(* ===== verification/Redis_Cache.thy ===== *)
theory Redis_Cache
  imports Mock_System
begin

text \<open>
  The quote cache and the lock over Redis (\<open>src/internal/infra/cache/preview.go\<close>). The client of Redis is
  a parameter: a record of the commands the code sends. \<open>NewPreviewStore\<close> and \<open>NewLocker\<close> choose between
  it and the maps in memory of \<open>Adapters\<close>, as the code does by looking for a nil client.

  \<open>map_redis\<close> is a server that keeps its keys in the maps of the mocks, with the documented meaning of SET,
  GET, SET NX and DEL. Over it both branches do the same (\<open>redis_locker_agrees\<close>, \<open>redis_get_agrees\<close>,
  \<open>redis_put_agrees\<close>), so what is shown of the maps in memory carries over.
\<close>

section \<open>The client\<close>

text \<open>A key that is not there is an error of GET, \<open>redis.Nil\<close>.\<close>

record 'x Redis =
  rd_Ping :: "('x, error option) state"
  rd_Set :: "string \<Rightarrow> bytes \<Rightarrow> duration \<Rightarrow> ('x, error option) state"
  rd_Get :: "string \<Rightarrow> ('x, bytes res) state"
  rd_SetNX :: "string \<Rightarrow> bytes \<Rightarrow> duration \<Rightarrow> ('x, bool res) state"
  rd_Del :: "string \<Rightarrow> ('x, error option) state"
  rd_Close :: "('x, error option) state"

section \<open>Cache and lock\<close>

definition Redis_Put ::
  "(PreviewSnapshot \<Rightarrow> bytes res) \<Rightarrow> 'x Redis \<Rightarrow> string \<Rightarrow> string \<Rightarrow> string \<Rightarrow> PreviewSnapshot \<Rightarrow> duration
     \<Rightarrow> ('x, unit res) state" where
  "Redis_Put marshal rdb tenantID userID quoteID snap ttl =
     (let ttl1 = (if ttl \<le> 0 then 5 * time_Minute else ttl) in
      tryE (lift_res (marshal snap)) (\<lambda>body. do {
        err \<leftarrow> rd_Set rdb (quoteKey tenantID quoteID) body ttl1;
        (case err of None \<Rightarrow> ok () | Some e \<Rightarrow> fail e) }))"

definition Redis_GetByQuote ::
  "(bytes \<Rightarrow> PreviewSnapshot res) \<Rightarrow> 'x Redis \<Rightarrow> string \<Rightarrow> string \<Rightarrow> ('x, PreviewSnapshot res) state" where
  "Redis_GetByQuote unmarshal rdb tenantID quoteID =
     tryE (rd_Get rdb (quoteKey tenantID quoteID)) (\<lambda>raw. lift_res (unmarshal raw))"

definition NewPreviewStore ::
  "(PreviewSnapshot \<Rightarrow> bytes res) \<Rightarrow> (bytes \<Rightarrow> PreviewSnapshot res) \<Rightarrow> 'x PreviewCache \<Rightarrow> 'x Redis option
     \<Rightarrow> 'x PreviewCache" where
  "NewPreviewStore marshal unmarshal mem rdb =
     (case rdb of
        None \<Rightarrow> mem
      | Some r \<Rightarrow> \<lparr>pc_Put = Redis_Put marshal r, pc_GetByQuote = Redis_GetByQuote unmarshal r\<rparr>)"

text \<open>The unlock function drops the error of DEL.\<close>

definition Redis_TryLock :: "'x Redis \<Rightarrow> string \<Rightarrow> duration \<Rightarrow> ('x, ('x, unit) state option res) state" where
  "Redis_TryLock rdb key ttl =
     tryE (rd_SetNX rdb (lock_key key) ''1'' ttl) (\<lambda>got.
       if \<not> got then ok None
       else ok (Some (ignore (rd_Del rdb (lock_key key)))))"

definition NewLocker :: "'x Locker \<Rightarrow> 'x Redis option \<Rightarrow> 'x Locker" where
  "NewLocker mem rdb =
     (case rdb of None \<Rightarrow> mem | Some r \<Rightarrow> \<lparr>lk_TryLock = Redis_TryLock r\<rparr>)"

section \<open>A server\<close>

definition redis_Nil :: error where "redis_Nil = Opaque ''redis: nil''"

definition map_redis :: "(nat \<Rightarrow> time) \<Rightarrow> Mocks Redis" where
  "map_redis clk = \<lparr>
     rd_Ping = State_Monad.return None,
     rd_Set = (\<lambda>k b ttl. do {
       now \<leftarrow> mock_now clk; on_cache (\<lambda>m. (None, memPreview_put now k b ttl m)) }),
     rd_Get = (\<lambda>k. do {
       now \<leftarrow> mock_now clk;
       raw \<leftarrow> on_cache (memPreview_get now k);
       (case raw of None \<Rightarrow> fail redis_Nil | Some b \<Rightarrow> ok b) }),
     rd_SetNX = (\<lambda>k b ttl. do {
       now1 \<leftarrow> mock_now clk; now2 \<leftarrow> mock_now clk;
       got \<leftarrow> on_lock (memLock_try now1 now2 k ttl);
       ok got }),
     rd_Del = (\<lambda>k. on_lock (\<lambda>m. (None, memLock_del k m))),
     rd_Close = State_Monad.return None\<rparr>"

lemma state_eqI: "(\<And>s. run_state m s = run_state n s) \<Longrightarrow> m = n"
  by (cases m; cases n) auto

lemma run_bind_state: "run_state (State_Monad.bind m f) s = (case run_state m s of (a, s') \<Rightarrow> run_state (f a) s')"
  by (cases m) (simp add: State_Monad.bind_def split: prod.split)

lemma redis_locker_agrees: "NewLocker mem (Some (map_redis clk)) = mock_locker clk"
proof -
  have del: "ignore (on_lock (\<lambda>m. (None, memLock_del k m))) = on_lock (\<lambda>m. ((), memLock_del k m))" for k
    by (rule state_eqI) (simp add: ignore_def run_bind_state on_lock_def)
  have "Redis_TryLock (map_redis clk) = lk_TryLock (mock_locker clk)"
    by (intro ext state_eqI)
      (simp add: Redis_TryLock_def map_redis_def mock_locker_def run_bind_state del split: prod.split)
  then show ?thesis by (simp add: NewLocker_def mock_locker_def)
qed

lemma redis_put_agrees:
  assumes "marshal snap = Inr body"
  shows "Redis_Put marshal (map_redis clk) t u q snap ttl = pc_Put (mock_cache clk marshal unmarshal) t u q snap ttl"
  by (rule state_eqI)
    (simp add: Redis_Put_def map_redis_def mock_cache_def PreviewStore_Put_def assms run_bind_state on_cache_def Let_def
      split: prod.split)

lemma redis_get_agrees:
  assumes "run_state (Redis_GetByQuote unmarshal (map_redis clk) t q) s = (res, s1)"
    "run_state (pc_GetByQuote (mock_cache clk marshal unmarshal) t q) s = (res', s2)"
  shows "s1 = s2 \<and> (res = res' \<or> res = Inl redis_Nil \<and> res' = Inl errMiss)"
  using assms
  by (auto simp: Redis_GetByQuote_def map_redis_def mock_cache_def PreviewStore_GetByQuote_def run_bind_state
      on_cache_def memPreview_get_def split: prod.splits option.splits sum.splits if_splits)

end
