(* ===== verification/Processes.thy ===== *)
theory Processes
  imports Http_Router Hub_Client Redis_Cache
begin

text \<open>
  The two processes: what \<open>Build\<close> (\<open>src/internal/boot/app.go\<close>) makes of a configuration, the loop of the
  worker (\<open>src/cmd/worker/main.go\<close>), and the states that the processes reach together, through requests
  to the interface and ticks of the worker in any order (\<open>deployed\<close>). Opening connections and
  building the clients of the libraries are parameters.
\<close>

section \<open>Build\<close>

datatype store = MemoryStore | PostgresStore

text \<open>
  Which store a process gets: \<open>openErr\<close> and \<open>migrateErr\<close> are the errors of \<open>persistence.Open\<close> and
  \<open>AutoMigrate\<close>. \<open>Startup\<close> has the steps that lead there.
\<close>

definition Build_store :: "Config \<Rightarrow> error option \<Rightarrow> error option \<Rightarrow> store res" where
  "Build_store cfg openErr migrateErr =
     (if cf_PostgresDSN cfg \<noteq> '''' \<and> cf_PostgresDSN cfg \<noteq> ''memory''
      then (case openErr of
          Some err \<Rightarrow> if cf_MockDeps cfg then Inr MemoryStore
                      else Inl (Opaque (''postgres: '' @ error_text err))
        | None \<Rightarrow>
            (case (if cf_AutoMigrate cfg then migrateErr else None) of
               Some err \<Rightarrow> Inl (Opaque (''migrate: '' @ error_text err))
             | None \<Rightarrow> Inr PostgresStore))
      else Inr MemoryStore)"

definition Build_auth :: "Config \<Rightarrow> 'x sender \<Rightarrow> Wire \<Rightarrow> string \<Rightarrow> ('x, Identity res) state" where
  "Build_auth cfg send w token =
     (if cf_MockDeps cfg then lift_res (mock_Introspect ''tenant_001'' token)
      else auth_Introspect send w (cf_AuthHubURL cfg) (cf_ServiceAPIKey cfg) token)"

text \<open>A Redis that does not answer the ping is closed and given up for the maps in memory.\<close>

record RedisOptions =
  ro_Addr :: string
  ro_Password :: string
  ro_PoolSize :: int
  ro_MinIdleConns :: int
  ro_ReadTimeout :: duration
  ro_WriteTimeout :: duration

definition redis_options :: "Config \<Rightarrow> RedisOptions" where
  "redis_options cfg = \<lparr>ro_Addr = cf_RedisAddr cfg, ro_Password = cf_RedisPassword cfg, ro_PoolSize = 64,
     ro_MinIdleConns = 8, ro_ReadTimeout = time_Second div 5, ro_WriteTimeout = time_Second div 5\<rparr>"

definition Build_redis :: "Config \<Rightarrow> (RedisOptions \<Rightarrow> 'x Redis) \<Rightarrow> ('x, 'x Redis option) state" where
  "Build_redis cfg newClient =
     (if cf_RedisAddr cfg \<noteq> ''''
      then (let rdb = newClient (redis_options cfg) in do {
        err \<leftarrow> rd_Ping rdb;
        (case err of
           None \<Rightarrow> State_Monad.return (Some rdb)
         | Some e \<Rightarrow> do { _ \<leftarrow> rd_Close rdb; State_Monad.return None }) })
      else State_Monad.return None)"

definition Build_cache ::
  "'x Redis option \<Rightarrow> (PreviewSnapshot \<Rightarrow> bytes res) \<Rightarrow> (bytes \<Rightarrow> PreviewSnapshot res) \<Rightarrow> 'x Deps \<Rightarrow> 'x Deps" where
  "Build_cache rdb marshal unmarshal mem =
     mem\<lparr>dp_cache := map_option (\<lambda>c. NewPreviewStore marshal unmarshal c rdb) (dp_cache mem),
         dp_lock := map_option (\<lambda>l. NewLocker l rdb) (dp_lock mem)\<rparr>"

text \<open>
  \<open>mocks\<close> are the dependencies with the mocks in the place of the remote services, of which only
  the promotion and the ledger service have clients; \<open>post\<close> sends an event to the webhook.
\<close>

definition Build_deps ::
  "Config \<Rightarrow> 'x Deps \<Rightarrow> 'x sender \<Rightarrow> Wire \<Rightarrow> ((string \<times> int64) list \<Rightarrow> (string \<times> int64) list) \<Rightarrow>
    (string \<Rightarrow> Event \<Rightarrow> ('x, int res) state) \<Rightarrow> 'x Deps" where
  "Build_deps cfg mocks send w order post =
     (if cf_MockDeps cfg then mocks
      else mocks\<lparr>dp_offer := offer_New send w order (cf_OfferHubURL cfg) (cf_ServiceAPIKey cfg),
                 dp_ledger := ledger_New send w (cf_LedgerHubURL cfg) (cf_ServiceAPIKey cfg)\<rparr>)
       \<lparr>dp_publisher := Some (NewPublisher post (cf_EventWebhookURL cfg) (cf_LogOutbox cfg))\<rparr>"

text \<open>\<open>ping\<close> asks the database, if there is one; \<open>env0\<close> holds the parameters of the interface.\<close>

definition Build_handlers ::
  "Config \<Rightarrow> 'x sender \<Rightarrow> Wire \<Rightarrow> ('x, error option) state option \<Rightarrow> 'x Handlers \<Rightarrow> 'x Handlers" where
  "Build_handlers cfg send w ping env0 = env0\<lparr>
     hd_RenewSvc := True, hd_CloseSvc := True, hd_Compensate := True, hd_ReconSvc := True,
     hd_SeedSvc := True, hd_PaySecret := cf_PaymentCallbackSK cfg,
     hd_AllowUnsignedPay := cf_MockDeps cfg,
     hd_ReadyFn := Some (case ping of None \<Rightarrow> State_Monad.return None | Some m \<Rightarrow> m),
     hd_AdminToken := cf_AdminToken cfg, hd_auth := Build_auth cfg send w\<rparr>"

section \<open>The worker\<close>

datatype ticker = TickTimeout | TickOutbox | TickComp | TickRenew | TickRecon

fun ticker_period :: "ticker \<Rightarrow> duration" where
  "ticker_period TickTimeout = 2 * time_Second"
| "ticker_period TickOutbox = time_Second div 2"
| "ticker_period TickComp = 2 * time_Second"
| "ticker_period TickRenew = 15 * time_Second"
| "ticker_period TickRecon = 30 * time_Second"

text \<open>One round of the loop. The results are only logged.\<close>

fun worker_round :: "'x Deps \<Rightarrow> bool \<Rightarrow> ticker \<Rightarrow> ('x World, unit) state" where
  "worker_round d recon TickTimeout = ignore (TimeoutTick d)"
| "worker_round d recon TickOutbox = ignore (OutboxTick d)"
| "worker_round d recon TickComp = ignore (CompensateTick d)"
| "worker_round d recon TickRenew = ignore (RenewTick d)"
| "worker_round d recon TickRecon =
     (if \<not> recon then State_Monad.return () else ignore (ReconRun d '''' True))"

text \<open>The rounds until the process is stopped, in the order in which the timers fire.\<close>

primrec worker_run :: "'x Deps \<Rightarrow> bool \<Rightarrow> ticker list \<Rightarrow> ('x World, unit) state" where
  "worker_run d recon [] = State_Monad.return ()"
| "worker_run d recon (t # ts) = do { _ \<leftarrow> worker_round d recon t; worker_run d recon ts }"

section \<open>The states of the processes\<close>

inductive deployed :: "'x Deps \<Rightarrow> 'x Handlers \<Rightarrow> bool \<Rightarrow> 'x World \<Rightarrow> bool" for d hs recon where
  boot: "deployed d hs recon \<lparr>w_repo = NewOrderRepo, w_ext = x\<rparr>"
| request: "deployed d hs recon w \<Longrightarrow> run_state (serve d hs rq) w = (resp, w') \<Longrightarrow> deployed d hs recon w'"
| round: "deployed d hs recon w \<Longrightarrow> run_state (worker_round d recon t) w = (u, w') \<Longrightarrow> deployed d hs recon w'"
| elsewhere: "deployed d hs recon w \<Longrightarrow> deployed d hs recon (w\<lparr>w_ext := x\<rparr>)"

inductive_cases deployedE: "deployed d hs recon w"

section \<open>Lemmas\<close>

lemma stays_ignore [stays_intros]: "stays d m \<Longrightarrow> stays d (ignore m)"
  by (simp add: stays_def snd_run_ignore)

lemma stays_ticks [stays_intros]:
  "stays d (TimeoutTick d)" "stays d (OutboxTick d)" "stays d (CompensateTick d)" "stays d (RenewTick d)"
  by (rule stays_call, rule exec.simps)+

lemma stays_worker_round [stays_intros]: "stays d (worker_round d recon t)"
  by (cases t) (simp_all add: stays_intros)

lemma stays_worker_run: "stays d (worker_run d recon ts)"
  by (induction ts) (simp_all add: stays_intros)

text \<open>What the processes reach is reachable by calls of the services.\<close>

lemma deployed_reachable: "deployed d hs recon w \<Longrightarrow> reachable d w"
  by (induction rule: deployed.induct)
    (auto intro: reachable.start reachable.outside staysD [OF stays_serve] staysD [OF stays_worker_round])

lemma deployed_worker_run:
  "deployed d hs recon w \<Longrightarrow> run_state (worker_run d recon ts) w = (u, w') \<Longrightarrow> deployed d hs recon w'"
proof (induction ts arbitrary: w)
  case (Cons t ts)
  obtain v w1 where "run_state (worker_round d recon t) w = (v, w1)" by (cases "run_state (worker_round d recon t) w")
  with Cons show ?case by (auto intro: deployed.round)
qed simp

text \<open>A database that cannot be opened stops the process, unless it runs with the mocks.\<close>

lemma Build_store_mocks:
  "cf_MockDeps cfg \<Longrightarrow> migrateErr = None \<Longrightarrow> \<exists>s. Build_store cfg openErr migrateErr = Inr s"
  by (auto simp: Build_store_def split: option.split)

lemma Build_redis_fallback:
  "(\<forall>opts s. fst (run_state (rd_Ping (newClient opts)) s) \<noteq> None) \<Longrightarrow>
   fst (run_state (Build_redis cfg newClient) s) = None"
  by (auto simp: Build_redis_def Let_def split: prod.split option.split) (metis fst_conv option.distinct(1))

lemma Build_cache_memory: "Build_cache None marshal unmarshal mem = mem"
  by (simp add: Build_cache_def NewPreviewStore_def NewLocker_def option.map_ident)

lemma Build_store_failure:
  "Build_store cfg openErr migrateErr = Inl e \<Longrightarrow>
   cf_PostgresDSN cfg \<notin> {'''', ''memory''} \<and> (openErr \<noteq> None \<and> \<not> cf_MockDeps cfg \<or> migrateErr \<noteq> None)"
  by (auto simp: Build_store_def split: if_splits option.splits)

text \<open>With nothing configured, anyone may report a payment and the administration token is a known one.\<close>

lemma default_config_open:
  assumes "cfg = conf_Load (\<lambda>_. '''')"
  shows "payment_guard (Build_handlers cfg send w ping env0) c payload = None"
    "hd_AdminToken (Build_handlers cfg send w ping env0) = ''dev-admin''"
  using conf_Load_default by (simp_all add: assms Build_handlers_def payment_guard_def)

end
