(* ===== verification/Client_Isolation.thy ===== *)
theory Client_Isolation
  imports Http_Router
begin

text \<open>
  What a client can do to the orders of others: nothing. The locale \<open>repo_scope\<close> states what a predicate on
  repositories has to satisfy so that a service that works on the order with key \<open>k\<close> keeps it: it
  looks at the stored orders only and survives whatever is put under \<open>k\<close>. The instance \<open>own\<close> says
  that all other orders are as they were. From it follow the lemmas on the services a client
  calls for one of its orders, and \<open>client_entry_others_stay\<close> for the routes of the interface.
  \<open>reading_shows_own\<close> says that the routes for reading show a client its own orders only.
\<close>

section \<open>The key a command works on\<close>

definition own_key :: "Order \<Rightarrow> string" where
  "own_key o' = order_key (ord_TenantID o') (ord_OrderID o')"

definition cmd_key :: "TransitionCmd \<Rightarrow> string" where
  "cmd_key cmd = order_key (tc_TenantID cmd) (tc_OrderID cmd)"

lemma cmd_key_services [simp]:
  "cmd_key (cancel_cmd o' tr now e) = own_key o'"
  "cmd_key (afterPaid_cmd o' st now e) = own_key o'"
  "cmd_key (onPaid_cmd o' paid tr now e) = own_key o'"
  "cmd_key (Complete_cmd o' now e) = own_key o'"
  "cmd_key (refunding_cmd o') = own_key o'"
  "cmd_key (refunded_cmd o' next amount ev) = own_key o'"
  "cmd_key (close_cmd o' tr now e) = own_key o'"
  "cmd_key (TransitionCmd_of (ord_TenantID o') (ord_OrderID o') from to v) = own_key o'"
  by (simp_all add: cmd_key_def own_key_def cancel_cmd_def afterPaid_cmd_def onPaid_cmd_def
      Complete_cmd_def refunding_cmd_def refunded_cmd_def close_cmd_def Let_def)

lemma own_key_fields [simp]:
  "own_key (o'\<lparr>ord_Promotion := p\<rparr>) = own_key o'" "own_key (o'\<lparr>ord_Payment := q\<rparr>) = own_key o'"
  "own_key (o'\<lparr>ord_Version := v, ord_Status := st\<rparr>) = own_key o'"
  "own_key (o'\<lparr>ord_RenewCount := n\<rparr>) = own_key o'"
  "own_key (apply_cmd tnow cmd (moved cmd o')) = own_key o'"
  by (simp_all add: own_key_def moved_def)

lemma cmd_keyI:
  "own_key o' = k \<Longrightarrow> cmd_key (cancel_cmd o' tr now e) = k"
  "own_key o' = k \<Longrightarrow> cmd_key (afterPaid_cmd o' st now e) = k"
  "own_key o' = k \<Longrightarrow> cmd_key (onPaid_cmd o' paid tr now e) = k"
  "own_key o' = k \<Longrightarrow> cmd_key (refunding_cmd o') = k"
  "own_key o' = k \<Longrightarrow> cmd_key (refunded_cmd o' next amount ev) = k"
  "own_key o' = k \<Longrightarrow> cmd_key (close_cmd o' tr now e) = k"
  "own_key o' = k \<Longrightarrow> cmd_key (TransitionCmd_of (ord_TenantID o') (ord_OrderID o') from to v) = k"
  by simp_all

section \<open>Services that work on one order\<close>

locale repo_scope =
  fixes k :: string and P :: "OrderRepo \<Rightarrow> bool"
  assumes P_wf: "P r \<Longrightarrow> repo_wf r"
    and P_orders: "P r \<Longrightarrow> orders r' = orders r \<Longrightarrow> P r'"
    and P_put: "P r \<Longrightarrow> own_key o' = k \<Longrightarrow> order_key t i = k \<Longrightarrow> P (put_order t i o' r)"
begin

lemma lookup_key: "P r \<Longrightarrow> lookup_order r t i = Some o' \<Longrightarrow> own_key o' = order_key t i"
  using lookup_stored [OF P_wf] by (simp add: own_key_def)

lemma step:
  assumes "P r" "cmd_key cmd = k"
  shows "P (snd (repo_Transition m tnow cmd r))"
    and "fst (repo_Transition m tnow cmd r) = Inr u \<Longrightarrow> own_key u = k"
proof -
  have "P (snd (repo_Transition m tnow cmd r)) \<and>
      (\<forall>u. fst (repo_Transition m tnow cmd r) = Inr u \<longrightarrow> own_key u = k)"
  proof (cases "\<exists>o'. accepts r cmd o'")
    case True
    then obtain o' where o': "accepts r cmd o'" by blast
    then have key: "own_key o' = k"
      using lookup_key [OF assms(1)] assms(2) by (auto simp: accepts_def cmd_key_def)
    with assms have "P (put_order (tc_TenantID cmd) (tc_OrderID cmd) (apply_cmd tnow cmd (moved cmd o')) r)"
      by (intro P_put) (simp_all add: cmd_key_def)
    then have "P (snd (repo_Transition m tnow cmd r))"
      by (rule P_orders) (rule Transition_accepts(2) [OF o'])
    with key Transition_accepts(1) [OF o', of m tnow] show ?thesis by simp
  next
    case False
    with Transition_rejects [OF this, of m tnow] assms show ?thesis by auto
  qed
  then show "P (snd (repo_Transition m tnow cmd r))"
    and "fst (repo_Transition m tnow cmd r) = Inr u \<Longrightarrow> own_key u = k" by blast+
qed

lemma keeps_others:
  assumes "P r"
  shows "P (snd (repo_InsertRefund rf r))" "P (snd (repo_InsertCompensation tnow tk r))"
  using assms by (auto intro: P_orders)

lemma keeps_updates:
  assumes "P r" "order_key t i = k"
  shows "P (snd (repo_UpdatePaymentIntent t i it ch r))" "P (snd (repo_UpdateRedemption t i rid r))"
    "P (snd (repo_BumpRenew t i n r))"
  using assms lookup_key [OF assms(1)]
  by (auto simp: repo_UpdatePaymentIntent_def repo_UpdateRedemption_def repo_BumpRenew_def
      intro!: P_put split: option.split)

lemmas scoped = step(1) keeps_others keeps_updates

lemma scoped_cancel_release: "P r \<Longrightarrow> wp (cancel_release d u) (\<lambda>_. P) r"
  unfolding cancel_release_def release_or_ticket_def by (intro wp_intros scoped)

lemma scoped_cancel: "P r \<Longrightarrow> own_key o' = k \<Longrightarrow> wp (cancel d o' tr) (\<lambda>_. P) r"
  unfolding cancel_def
  by (intro wp_intros scoped_cancel_release [THEN wp_mono] scoped cmd_keyI)

lemma scoped_commit_offer:
  "P r \<Longrightarrow> own_key o' = k \<Longrightarrow>
     wp (commit_offer d o') (\<lambda>res r'. P r' \<and> (\<forall>u. res = Inr u \<longrightarrow> own_key u = k)) r"
  unfolding commit_offer_def
  by (intro wp_intros conjI allI impI scoped) (auto simp: own_key_def)

lemma scoped_afterPaid: "P r \<Longrightarrow> own_key o' = k \<Longrightarrow> wp (afterPaid d o') (\<lambda>_. P) r"
  unfolding afterPaid_def Let_def
  apply (rule wp_tryE, rule scoped_commit_offer [THEN wp_mono], assumption, assumption)
  by (intro wp_intros conjI allI impI scoped cmd_keyI; blast)

lemma scoped_onPaid: "P r \<Longrightarrow> own_key o' = k \<Longrightarrow> wp (onPaid d o' paid tr) (\<lambda>_. P) r"
  unfolding onPaid_def
  by (intro wp_intros scoped scoped_afterPaid [THEN wp_mono] cmd_keyI)
    (assumption | erule step(2) [OF _ cmd_keyI(3)])+

lemma scoped_refund_settle:
  "P r \<Longrightarrow> own_key o' = k \<Longrightarrow> wp (refund_settle d ident o' next amount refund now) (\<lambda>_. P) r"
  unfolding refund_settle_def refund_channel_def refund_ledger_def refund_offer_def refund_book_def Let_def
  by (intro wp_intros conjI allI impI scoped cmd_keyI)

lemma scoped_renewOne: "P r \<Longrightarrow> own_key o' = k \<Longrightarrow> wp (renewOne d o') (\<lambda>_. P) r"
  unfolding renewOne_def Let_def
  by (intro wp_intros conjI allI impI scoped) (simp_all add: own_key_def)

end

section \<open>The orders of others\<close>

text \<open>The order a caller means, if it is one of its own.\<close>

definition owned_by :: "Identity \<Rightarrow> string \<Rightarrow> Order \<Rightarrow> bool" where
  "owned_by ident i o' \<longleftrightarrow> ord_OrderID o' = i \<and> ord_BuyerUserID o' = id_UserID ident \<and>
     (id_TenantID ident = '''' \<or> ord_TenantID o' = id_TenantID ident)"

definition confined :: "Order \<Rightarrow> OrderRepo \<Rightarrow> OrderRepo \<Rightarrow> bool" where
  "confined o' r0 r \<longleftrightarrow> repo_wf r \<and> (\<forall>x. own_key x \<noteq> own_key o' \<longrightarrow> stored r x = stored r0 x)"

interpretation own: repo_scope "own_key o'" "confined o' r0" for o' r0
proof
  fix r r' :: OrderRepo
  assume "confined o' r0 r" "orders r' = orders r"
  then show "confined o' r0 r'" by (simp add: confined_def orders_only [of r' r])
next
  fix r x t i
  assume "confined o' r0 r" "own_key x = own_key o'" "order_key t i = own_key o'"
  then show "confined o' r0 (put_order t i x r)"
    by (auto simp: confined_def own_key_def put_order_wf stored_put_order)
qed (simp add: confined_def)

text \<open>What a call may leave behind: the orders that are not the caller's are still there.\<close>

definition others_stay :: "Identity \<Rightarrow> string \<Rightarrow> OrderRepo \<Rightarrow> OrderRepo \<Rightarrow> bool" where
  "others_stay ident i r0 r \<longleftrightarrow> (\<forall>x. stored r0 x \<and> \<not> owned_by ident i x \<longrightarrow> stored r x)"

lemma others_stay_refl: "others_stay ident i r r"
  by (simp add: others_stay_def)

lemma confined_others_stay:
  assumes "stored r0 o'" "owned_by ident i o'" "confined o' r0 r"
  shows "others_stay ident i r0 r"
  unfolding others_stay_def
proof (intro allI impI)
  fix x assume x: "stored r0 x \<and> \<not> owned_by ident i x"
  then have "own_key x \<noteq> own_key o'"
    using assms(1,2) by (auto simp: stored_def lookup_order_def own_key_def)
  with x assms(3) show "stored r x" by (simp add: confined_def)
qed

lemma confined_start:
  assumes "repo_wf r0" "repo_FindByID seed (id_TenantID ident) i r0 = Inr o'"
    "ord_BuyerUserID o' = id_UserID ident"
  shows "confined o' r0 r0 \<and> stored r0 o' \<and> owned_by ident i o'"
  using FindByID_stored [OF assms(1,2)] assms(1,3) by (simp add: confined_def owned_by_def)

lemma found_by_owner:
  assumes "repo_wf r0"
    "\<And>o'. ord_BuyerUserID o' = id_UserID ident \<Longrightarrow> confined o' r0 r0 \<Longrightarrow> wp (body o') (\<lambda>_. confined o' r0) r0"
    "\<And>o'. ord_BuyerUserID o' \<noteq> id_UserID ident \<Longrightarrow> body o' = fail (Sentinel ErrOrderNotFound)"
  shows "wp (tryE (FindByID d (id_TenantID ident) i) body) (\<lambda>_. others_stay ident i r0) r0"
proof (intro wp_tryE wp_FindByID conjI allI impI)
  fix seed o'
  assume found: "repo_FindByID seed (id_TenantID ident) i r0 = Inr o'"
  show "wp (body o') (\<lambda>_. others_stay ident i r0) r0"
  proof (cases "ord_BuyerUserID o' = id_UserID ident")
    case True
    from confined_start [OF assms(1) found True]
    show ?thesis using assms(2) [OF True] by (auto intro: wp_mono confined_others_stay)
  next
    case False
    then show ?thesis using assms(3) by (simp add: wp_fail others_stay_refl)
  qed
qed (rule others_stay_refl)

text \<open>The refund, after the order was found to be the caller's.\<close>

lemma refund_confined:
  assumes "confined o' r0 r"
  shows "wp (tryE (lift_res res) (\<lambda>(lines, amount). do {
         now \<leftarrow> ext_op (dp_clock d);
         refundID \<leftarrow> ext_op (ig_RefundID (dp_ids d));
         let (l, c) = splitRefund o' amount;
         let refund = mk refundID amount l c lines now;
         let next = refund_next o' amount;
         tryE (Transition d (refunding_cmd o')) (\<lambda>_.
           refund_settle d ident
             (o'\<lparr>ord_Version := ord_Version o' + 1, ord_Status := StatusRefunding\<rparr>)
             next amount refund now) })) (\<lambda>_. confined o' r0) r"
  unfolding Let_def
  by (intro wp_intros conjI allI impI assms own.scoped own.scoped_refund_settle;
    simp only: own_key_fields cmd_key_services)

lemma own_RecreateIntent:
  assumes "repo_wf r"
  shows "wp (RecreateIntent d ident i) (\<lambda>_. others_stay ident i r) r"
  unfolding RecreateIntent_def
  by (rule found_by_owner [OF assms])
    ((intro wp_intros conjI allI impI own.scoped; simp add: own_key_def), simp)

lemma own_ConfirmLedger:
  assumes "repo_wf r" "id_UserID ident \<noteq> ''''"
  shows "wp (ConfirmLedger d ident i) (\<lambda>_. others_stay ident i r) r"
  unfolding ConfirmLedger_def
  by (rule found_by_owner [OF assms(1)])
    ((intro wp_intros conjI allI impI own.scoped_onPaid; simp), simp add: assms(2))

lemma own_RefundOrder:
  assumes "repo_wf r" "id_UserID ident \<noteq> ''''"
  shows "wp (RefundOrder d ident i cmd) (\<lambda>_. others_stay ident i r) r"
  unfolding RefundOrder_def
  by (rule found_by_owner [OF assms(1)])
    (rule wp_if, rule wp_fail, assumption, rule wp_if, rule wp_fail, assumption, rule refund_confined,
      assumption, simp add: assms(2))

lemma own_Cancel:
  assumes "repo_wf r" "id_UserID ident \<noteq> ''''"
  shows "wp (Cancel d ident i) (\<lambda>_. others_stay ident i r) r"
  unfolding Cancel_def
  by (rule found_by_owner [OF assms(1)]) (simp_all add: own.scoped_cancel assms(2))

lemma own_Close:
  assumes "repo_wf r" "id_UserID ident \<noteq> ''''"
  shows "wp (Close d ident i) (\<lambda>_. others_stay ident i r) r"
  unfolding Close_def
  by (rule found_by_owner [OF assms(1)])
    ((intro wp_intros conjI allI impI own.scoped;
      (assumption | simp only: own_key_fields cmd_key_services)), simp add: assms(2))

lemma own_Renew:
  assumes "repo_wf r" "id_UserID ident \<noteq> ''''"
  shows "wp (Renew d ident i) (\<lambda>_. others_stay ident i r) r"
  unfolding Renew_def
  by (rule found_by_owner [OF assms(1)])
    ((intro wp_intros conjI allI impI own.scoped_renewOne [THEN wp_mono]; simp), simp add: assms(2))

lemmas own_services = own_RecreateIntent own_ConfirmLedger own_RefundOrder own_Cancel own_Close own_Renew

text \<open>Reading shows a client its own orders only.\<close>

lemma Get_returns_own:
  assumes "repo_wf r"
  shows "wp (Get d ident i) (\<lambda>res r'. r' = r \<and> (\<forall>o'. res = Inr o' \<longrightarrow> stored r o' \<and> owned_by ident i o')) r"
  unfolding Get_def
  using FindByID_stored [OF assms]
  by (intro wp_tryE wp_FindByID conjI allI impI wp_if wp_fail wp_ok) (auto simp: owned_by_def)

section \<open>The client routes\<close>

lemma wp_reply: "wp m (\<lambda>_. Q) r \<Longrightarrow> wp (reply c view m) (\<lambda>_. Q) r"
  unfolding reply_def by (intro wp_bind) (erule wp_mono, rule wp_return)

lemma wp_List: "Q r \<Longrightarrow> wp (List d ident st sc cu n) (\<lambda>_. Q) r"
  unfolding List_def by (intro wp_intros)

lemma wp_Get: "Q r \<Longrightarrow> wp (Get d ident i) (\<lambda>_. Q) r"
  unfolding Get_def by (intro wp_intros conjI allI impI)

lemma client_entry_others_stay:
  assumes "(verb, path, Authed h) \<in> set (routes d hs)"
    "path \<noteq> ''/api/v1/orders/:order_id/complete''" "(verb, path) \<noteq> (''POST'', ''/api/v1/orders'')"
    "repo_wf r" "id_UserID ident \<noteq> ''''"
  shows "wp (h ident c) (\<lambda>_. others_stay ident (cx_Param c ''order_id'') r) r"
proof -
  let ?Q = "\<lambda>_. others_stay ident (cx_Param c ''order_id'') r"
  have "wp (Handlers_Preview d hs ident c) ?Q r" "wp (Handlers_List d ident c) ?Q r"
    "wp (Handlers_Get d ident c) ?Q r" "wp (Handlers_Cancel d ident c) ?Q r"
    "wp (Handlers_PayIntent d ident c) ?Q r" "wp (Handlers_ConfirmLedger d ident c) ?Q r"
    "wp (Handlers_Refund d hs ident c) ?Q r" "wp (Handlers_Close d hs ident c) ?Q r"
    "wp (Handlers_Renew d hs ident c) ?Q r"
    unfolding handler_defs
    by (intro wp_if wp_return wp_case_sum wp_reply wp_Preview wp_List wp_Get own_services others_stay_refl assms)+
  with assms(1-3) show ?thesis
    by (auto simp: routes_def public_routes_def client_routes_def internal_routes_def admin_routes_def)
qed

text \<open>The identity a handler works for is the one that the identity service has given.\<close>

lemma Auth_user:
  assumes "run_state (ext_op (hd_auth hs tok)) w = (Inr ident, w1)"
  obtains x where "run_state (hd_auth hs tok) (w_ext w) = (Inr ident, x)" "w_repo w1 = w_repo w"
  using assms by (auto simp: ext_op_def split: prod.splits)

section \<open>What a client is shown\<close>

lemma wp_List_own:
  assumes "repo_wf r"
  shows "wp (List d ident st sc cu n) (\<lambda>res r'. r' = r \<and> (\<forall>page. res = Inr page \<longrightarrow>
    (\<forall>o' \<in> set (fst page). stored r o' \<and> ord_BuyerUserID o' = id_UserID ident \<and>
       ord_TenantID o' = id_TenantID ident))) r"
proof -
  have own: "stored r o' \<and> ord_BuyerUserID o' = u \<and> ord_TenantID o' = t"
    if "repo_ListByBuyer seed t u status scene cursor limit r = (os, cur)" "o' \<in> set os"
    for o' seed t u status scene cursor limit os cur
    using that stored_iff [OF assms]
    by (auto simp: repo_ListByBuyer_def Let_def split: if_splits dest!: in_set_takeD)
  show ?thesis
    unfolding List_def by (intro wp_intros conjI allI impI) (auto dest: own)
qed

text \<open>The orders an answer shows.\<close>

definition orders_shown :: "Response \<Rightarrow> orderView set" where
  "orders_shown resp = (case rp_Body resp of
     Json e \<Rightarrow> (case en_Data e of OrderData v \<Rightarrow> {v} | OrdersData vs cursor \<Rightarrow> set vs | _ \<Rightarrow> {})
   | _ \<Rightarrow> {})"

lemma orders_shown_simps [simp]:
  "orders_shown (Respond_OK c (OrderData v)) = {v}" "orders_shown (Respond_OK c (OrdersData vs cur)) = set vs"
  "orders_shown (Respond_Fail c st code msg) = {}" "orders_shown (writeAppError c err) = {}"
  "orders_shown (Recover c) = {}" "orders_shown (resp\<lparr>rp_Header := i\<rparr>) = orders_shown resp"
  by (simp_all add: orders_shown_def Respond_OK_def Respond_Fail_def writeAppError_def Recover_def answer_def)

definition shows_own :: "Identity \<Rightarrow> OrderRepo \<Rightarrow> Response \<Rightarrow> bool" where
  "shows_own ident r resp \<longleftrightarrow> (\<forall>v \<in> orders_shown resp. \<exists>o'. v = viewOrder o' \<and> stored r o' \<and>
     ord_BuyerUserID o' = id_UserID ident \<and> (id_TenantID ident = '''' \<or> ord_TenantID o' = id_TenantID ident))"

lemma reading_shows_own:
  assumes "(''GET'', path, Authed h) \<in> set (routes d hs)" "repo_wf r"
  shows "wp (h ident c) (\<lambda>resp r'. r' = r \<and> shows_own ident r resp) r"
proof -
  have "wp (Handlers_Get d ident c) (\<lambda>resp r'. r' = r \<and> shows_own ident r resp) r"
    unfolding Handlers_Get_def reply_order_def reply_def
    by (intro wp_bind, rule wp_mono [OF Get_returns_own [OF assms(2)]], intro wp_return)
      (auto simp: shows_own_def owned_by_def split: sum.split)
  moreover have "wp (Handlers_List d ident c) (\<lambda>resp r'. r' = r \<and> shows_own ident r resp) r"
    unfolding Handlers_List_def reply_def Let_def
    by (intro wp_bind, rule wp_mono [OF wp_List_own [OF assms(2)]], intro wp_return)
      (auto simp: shows_own_def orders_data_def split: sum.split)
  ultimately show ?thesis
    using assms(1)
    by (auto simp: routes_def public_routes_def client_routes_def internal_routes_def admin_routes_def)
qed

end
