(* ===== verification/Http_Properties.thy ===== *)
theory Http_Properties
  imports Processes Sample_System Client_Isolation
begin

text \<open>
  The properties of the HTTP interface and of the processes, each with an instance on a sample
  request to the system of \<open>Sample_System\<close>.
\<close>

section \<open>The shape of an answer\<close>

text \<open>
  An envelope names the request it answers, has the code 0 exactly when the status is 200, and its
  code starts with the digits of the status otherwise; an error carries no data.
\<close>

definition envelope_ok :: "string \<Rightarrow> int \<Rightarrow> Envelope \<Rightarrow> bool" where
  "envelope_ok i status e \<longleftrightarrow> en_RequestID e = i \<and>
     (if status = 200 then en_Code e = 0
      else status \<in> {400, 401, 404, 409, 422, 500} \<and> en_Code e div 100 = status \<and> en_Data e = NoData)"

definition answer_ok :: "string \<Rightarrow> Response \<Rightarrow> bool" where
  "answer_ok i resp \<longleftrightarrow> (case rp_Body resp of
     Json e \<Rightarrow> envelope_ok i (rp_Status resp) e
   | Probe s err \<Rightarrow> rp_Status resp \<in> {200, 503}
   | Html page \<Rightarrow> rp_Status resp = 200
   | NoRoute \<Rightarrow> rp_Status resp = 404
   | Redirect \<Rightarrow> False)"

definition gives :: "('a \<Rightarrow> bool) \<Rightarrow> ('s, 'a) state \<Rightarrow> bool" where
  "gives P m \<longleftrightarrow> (\<forall>s. P (fst (run_state m s)))"

named_theorems gives_intros \<open>programs whose value has a property\<close>

lemma gives_return [gives_intros]: "P a \<Longrightarrow> gives P (State_Monad.return a)"
  by (simp add: gives_def)

lemma gives_bind [gives_intros]: "(\<And>a. gives P (f a)) \<Longrightarrow> gives P (State_Monad.bind m f)"
  by (simp add: gives_def split: prod.split)

lemma gives_if [gives_intros]: "gives P m \<Longrightarrow> gives P n \<Longrightarrow> gives P (if b then m else n)"
  by simp

lemma gives_sum [gives_intros]:
  "(\<And>e. gives P (f e)) \<Longrightarrow> (\<And>a. gives P (g a)) \<Longrightarrow> gives P (case r of Inl e \<Rightarrow> f e | Inr a \<Rightarrow> g a)"
  by (cases r) simp_all

lemma gives_option [gives_intros]:
  "gives P n \<Longrightarrow> (\<And>a. gives P (f a)) \<Longrightarrow> gives P (case r of None \<Rightarrow> n | Some a \<Rightarrow> f a)"
  by (cases r) simp_all

lemma gives_prod [gives_intros]: "(\<And>a b. gives P (f a b)) \<Longrightarrow> gives P (case x of (a, b) \<Rightarrow> f a b)"
  by (cases x) simp

lemma answer_ok_OK [gives_intros]: "answer_ok (requestID c) (Respond_OK c data)"
  by (simp add: answer_ok_def envelope_ok_def Respond_OK_def answer_def)

lemma answer_ok_Fail:
  "status \<in> {400, 401, 404, 409, 422, 500} \<Longrightarrow> code div 100 = status \<Longrightarrow>
   answer_ok (requestID c) (Respond_Fail c status code msg)"
  by (auto simp: answer_ok_def envelope_ok_def Respond_Fail_def answer_def)

lemma answer_ok_error [gives_intros]: "answer_ok (requestID c) (writeAppError c err)"
  unfolding writeAppError_def by (simp add: answer_ok_Fail)

lemma answer_ok_Recover [gives_intros]: "answer_ok (requestID c) (Recover c)"
  by (simp add: Recover_def answer_ok_Fail)

lemma answer_ok_plain [gives_intros]:
  "answer_ok i (answer 200 (Probe s err))" "answer_ok i (answer 503 (Probe s err))" "answer_ok i (answer 200 (Html page))"
  by (simp_all add: answer_ok_def answer_def)

lemma answer_ok_guard: "payment_guard hs c payload = Some resp \<Longrightarrow> answer_ok (requestID c) resp"
  by (auto simp: payment_guard_def answer_ok_Fail split: if_splits)

lemma gives_reply [gives_intros]: "gives (answer_ok (requestID c)) (reply c view m)"
  unfolding reply_def by (intro gives_bind gives_return) (simp add: gives_intros split: sum.split)

lemma gives_Callback [gives_intros]: "gives (answer_ok (requestID c)) (Handlers_PaymentCallback d hs c)"
  unfolding Handlers_PaymentCallback_def reply_order_def
  by (simp add: gives_intros answer_ok_guard split: sum.split option.split)

lemma gives_Ready [gives_intros]: "gives (answer_ok (requestID c)) (Handlers_Ready hs c)"
  unfolding Handlers_Ready_def
  by (intro gives_option gives_bind gives_return) (simp_all add: gives_intros split: option.split)

lemma routes_answer:
  "\<forall>(verb, path, e) \<in> set (routes d hs). \<forall>c. gives (answer_ok (requestID c)) (run_entry hs e c)"
  by (simp add: routes_def public_routes_def client_routes_def internal_routes_def admin_routes_def
      Auth_def AdminAuth_def answer_ok_Fail gives_intros handler_defs
      del: split_paired_All Handlers_PaymentCallback_def Handlers_Ready_def)

lemma requestID_chosen:
  "run_state (RequestID hs rq) w = (i, w1) \<Longrightarrow>
   requestID \<lparr>cx_Request = rq, cx_Param = params, cx_RequestID = Some i\<rparr> = i"
  by (auto simp: RequestID_def requestID_def split: if_splits)

text \<open>The answer with its header.\<close>

definition response_ok :: "Response \<Rightarrow> bool" where
  "response_ok resp \<longleftrightarrow> (\<exists>i. rp_Header resp = Some i \<and> answer_ok i resp)"

lemma answer_ok_header: "answer_ok i (resp\<lparr>rp_Header := h\<rparr>) = answer_ok i resp"
  by (simp add: answer_ok_def split: body.split)

section \<open>Properties\<close>

text \<open>
  C9: the invariants hold in the deployed system. Whatever requests arrive at the interface and
  whenever the timers of the worker fire, in any order and with any behaviour of the systems outside, every
  stored order keeps the money invariant and the bound on its renewals.
\<close>

theorem deployed_orders_balance:
  assumes "deployed d hs recon w"
  shows "repo_ok (w_repo w) \<and> renew_ok (w_repo w)"
  using money.reachable_keeps [OF deployed_reachable [OF assms] NewOrderRepo_ok(1)]
    renew.reachable_keeps [OF deployed_reachable [OF assms] NewOrderRepo_ok(2)] ..

text \<open>An interface with exact routes, one user and one order to read from a request.\<close>

definition sample_handlers :: "Mocks Handlers" where
  "sample_handlers = \<lparr>hd_RenewSvc = True, hd_CloseSvc = True, hd_Compensate = True, hd_ReconSvc = True,
     hd_SeedSvc = True, hd_PaySecret = ''s3'', hd_AllowUnsignedPay = False, hd_ReadyFn = None,
     hd_AdminToken = ''adm'', hd_hmac = (\<lambda>k b. ''a1''),
     hd_js = \<lparr>js_preview = (\<lambda>_. Inl (Opaque ''eof'')),
       js_checkout = (\<lambda>_. Inr \<lparr>cq_ClientOrderID = ''c1'', cq_Scene = ''mall_checkout'', cq_Channel = '''',
         cq_QuoteID = '''', cq_CouponIDs = [''k''],
         cq_Items = map view_line [sample_line ''a'' 2 50, sample_line ''b'' 1 100], cq_PayMethod = '''',
         cq_LedgerPay = Some \<lparr>dp_AssetCode = ''CNY'', dp_Amount = 30\<rparr>, cq_Ext = None\<rparr>),
       js_refund = (\<lambda>_. \<lparr>fq_Amount = 0, fq_Reason = '''', fq_Lines = []\<rparr>),
       js_callback = (\<lambda>_. Inl (Opaque ''eof''))\<rparr>,
     hd_html = '''', hd_uuid = State_Monad.return ''uuid'',
     hd_auth = (\<lambda>token. if token = ''u1'' then ok (sample_ident\<lparr>id_TraceID := ''''\<rparr>) else fail (Sentinel ErrUnauthorized)),
     hd_match = (\<lambda>pat path. if pat = path then Some (\<lambda>_. '''') else None),
     hd_slash = (\<lambda>verb path. verb = ''GET'' \<and> path = ''/healthz/'')\<rparr>"

definition sample_request :: "string \<Rightarrow> string \<Rightarrow> string \<Rightarrow> Request" where
  "sample_request verb path token = \<lparr>rq_Method = verb, rq_Path = path,
     rq_Header = (\<lambda>k. if k = ''Authorization'' then ''Bearer '' @ token
                      else if k = ''X-Request-Id'' then ''tr'' else ''''),
     rq_Query = (\<lambda>_. ''''), rq_Body = Inr ''body''\<rparr>"

lemmas sample_http = sample_handlers_def sample_request_def routes_def public_routes_def client_routes_def
  internal_routes_def admin_routes_def

abbreviation sample_context :: "Request \<Rightarrow> Context" where
  "sample_context rq \<equiv> \<lparr>cx_Request = rq, cx_Param = \<lambda>_. '''', cx_RequestID = Some ''tr''\<rparr>"

lemma sample_request_facts:
  "requestID (sample_context rq) = ''tr''"
  "RequestID hs (sample_request verb path token) = State_Monad.return ''tr''"
  "rq_Header (sample_request verb path token) ''X-Tenant-Id'' = ''''"
  "rq_Header (sample_request verb path token) ''Idempotency-Key'' = ''''"
  "rq_Body (sample_request verb path token) = Inr ''body''"
  "bearer_token (sample_request verb path ''u1'') = ''u1''" "bearer_token (sample_request verb path ''u2'') = ''u2''"
  by (simp_all add: requestID_def RequestID_def sample_request_def bearer_token_def TrimSpace_def TrimPrefix_def
      space_char_def)

lemma sample_route:
  "find_route (hd_match sample_handlers) (sample_request ''POST'' ''/api/v1/orders'' token) (routes sample_deps sample_handlers) =
     Some ((''POST'', ''/api/v1/orders'', Authed (Handlers_Create sample_deps sample_handlers)), \<lambda>_. '''')"
  by (simp add: sample_http)

lemma sample_create:
  "run_state (Handlers_Create sample_deps sample_handlers sample_ident
      (sample_context (sample_request verb path token))) sample_world =
    (Respond_OK (sample_context (sample_request verb path token)) (CheckoutData sample_result), sample_after)"
proof -
  have c: "run_state (Checkout sample_deps sample_ident sample_checkout) sample_world = (Inr sample_result, sample_after)"
    by (simp add: prod_eq_iff sample_run(1) sample_after_def)
  have cmd: "\<lparr>co_ClientOrderID = ''c1'', co_Scene = ''mall_checkout'', co_Channel = '''', co_QuoteID = '''',
      co_CouponIDs = [''k''], co_Items = [sample_line ''a'' 2 50, sample_line ''b'' 1 100], co_PayMethod = '''',
      co_LedgerPay = Some \<lparr>lp_AssetCode = ''CNY'', lp_Amount = 30\<rparr>, co_Ext = None, co_IdempotencyKey = '''',
      co_TraceID = ''tr''\<rparr> = sample_checkout"
    by (simp add: sample_checkout_def)
  have "toLine (view_line (sample_line a n p)) = sample_line a n p" for a n p
    by (simp add: toLine_view_line sample_line_def)
  with c show ?thesis
    by (simp add: Handlers_Create_def bind_checkout_def required_def reply_def toLines_def toLedger_def
        sample_request_facts header_def sample_handlers_def cmd)
qed

lemma sample_auth:
  "ext_op (hd_auth sample_handlers ''u1'') = ok (sample_ident\<lparr>id_TraceID := ''''\<rparr>)"
  "hd_auth sample_handlers ''u2'' = fail (Sentinel ErrUnauthorized)"
  by (simp_all add: sample_handlers_def ext_op_def ok_def State_Monad.return_def)

lemma sample_order_placed:
  "run_state (serve sample_deps sample_handlers (sample_request ''POST'' ''/api/v1/orders'' ''u1'')) sample_world =
     ((Respond_OK (sample_context (sample_request ''POST'' ''/api/v1/orders'' ''u1'')) (CheckoutData sample_result))
        \<lparr>rp_Header := Some ''tr''\<rparr>, sample_after)"
proof -
  have "sample_ident\<lparr>id_TraceID := ''tr''\<rparr> = sample_ident" "id_TenantID sample_ident = ''t1''"
    by (simp_all add: sample_ident_def)
  then show ?thesis
    by (simp add: serve_def redirected_def dispatch_def sample_route sample_request_facts Auth_def header_def sample_auth Let_def sample_create)
qed

lemma sample_deployed: "deployed sample_deps sample_handlers True sample_after"
  using deployed.request [OF deployed.boot [of sample_deps sample_handlers True "w_ext sample_world"], of _ _ sample_after]
    sample_order_placed by (simp add: sample_world_def)

theorem deployed_orders_balance_witness: "order_ok sample_order"
proof -
  have "stored (w_repo sample_after) sample_order"
    using sample_run(2) by (simp add: sample_after_def stored_def lookup_order_def order_key_def sample_order_def)
  then show ?thesis using deployed_orders_balance [OF sample_deployed] by (simp add: repo_ok_def)
qed

text \<open>
  C10: the guards hold. A request to a route of the administration without the configured token, or
  to a client route with a token that the identity service refuses, is answered with 401, and no order,
  ticket or event is changed. An empty administration token lets nobody in.
\<close>

theorem guards_hold:
  assumes "find_route (hd_match hs) rq (routes d hs) = Some ((verb, path, e), params)"
    and "is_prefix ''/admin/v1/'' path \<and> (hd_AdminToken hs = '''' \<or> \<not> admin_allowed (hd_AdminToken hs) rq) \<or>
      is_prefix ''/api/v1/'' path \<and> (\<forall>x. \<exists>err. fst (run_state (hd_auth hs (bearer_token rq)) x) = Inl err)"
    and "run_state (serve d hs rq) w = (resp, w')"
  shows "rp_Status resp = 401 \<and> w_repo w' = w_repo w"
proof -
  obtain i w1 resp1 where w1: "w_repo w1 = w_repo w" "rp_Status resp = rp_Status resp1"
    and run: "run_state (run_entry hs e \<lparr>cx_Request = rq, cx_Param = params, cx_RequestID = Some i\<rparr>) w1 = (resp1, w')"
    using assms(3,1) by (rule route_run) simp
  have r: "(verb, path, e) \<in> set (routes d hs)" using find_route_Some [OF assms(1)] by simp
  from assms(2) have "rp_Status resp1 = 401 \<and> w_repo w' = w_repo w1"
  proof (elim disjE conjE)
    assume "is_prefix ''/api/v1/'' path" and ref: "\<forall>x. \<exists>err. fst (run_state (hd_auth hs (bearer_token rq)) x) = Inl err"
    then obtain h where e: "e = Authed h" using client_routes_guarded [OF r] by blast
    obtain err x where "run_state (hd_auth hs (bearer_token rq)) (w_ext w1) = (Inl err, x)"
      using ref by (metis prod.collapse)
    then show ?thesis using run by (auto simp: e Auth_def ext_op_def writeAppError_def)
  qed (use run admin_routes_guarded [OF r] admin_locked_without_token in
      \<open>auto simp: AdminAuth_refuses dest: arg_cong [of _ _ rp_Status]\<close>)
  then show ?thesis using w1 by simp
qed

theorem guards_hold_witness:
  "rp_Status (fst (run_state (serve sample_deps sample_handlers (sample_request ''POST'' ''/api/v1/orders'' ''u2'')) sample_after)) = 401"
  using guards_hold [OF sample_route _ surjective_pairing, of "''u2''" sample_after]
  by (simp add: sample_request_facts sample_auth)

text \<open>
  C11: clients touch their own orders only. Whatever a client asks for under a token that the identity
  service has given to a user, through any route but the completion of an order, which does not look at the
  buyer, and the checkout, which adds an order: an order of another buyer, and any order but the
  one named in the path, is stored afterwards exactly as it was before.
\<close>

theorem clients_touch_own_orders:
  assumes "reachable d w"
    and "find_route (hd_match hs) rq (routes d hs) = Some ((verb, path, Authed h), params)"
    and "path \<noteq> ''/api/v1/orders/:order_id/complete''" "(verb, path) \<noteq> (''POST'', ''/api/v1/orders'')"
    and "\<forall>x ident. fst (run_state (hd_auth hs (bearer_token rq)) x) = Inr ident \<longrightarrow>
      id_UserID ident = user \<and> user \<noteq> ''''"
    and "run_state (serve d hs rq) w = (resp, w')"
    and "stored (w_repo w) o'" "ord_BuyerUserID o' \<noteq> user \<or> ord_OrderID o' \<noteq> params ''order_id''"
  shows "stored (w_repo w') o'"
proof -
  obtain i w1 resp1 where w1: "w_repo w1 = w_repo w" and run: "run_state (Auth hs h
      \<lparr>cx_Request = rq, cx_Param = params, cx_RequestID = Some i\<rparr>) w1 = (resp1, w')"
    using assms(6,2) by (rule route_run) simp
  have wf: "repo_wf (w_repo w)" by (rule wf.reachable_keeps [OF assms(1) NewOrderRepo_ok(3)])
  have r: "(verb, path, Authed h) \<in> set (routes d hs)" using find_route_Some [OF assms(2)] by simp
  from run show ?thesis
  proof (cases rule: Auth_cases)
    case refused
    with w1 assms(7) show ?thesis by simp
  next
    case (passed ident tenant w2)
    obtain x where x: "run_state (hd_auth hs (bearer_token rq)) (w_ext w1) = (Inr ident, x)"
      and w2: "w_repo w2 = w_repo w1" using passed(1) by (auto elim: Auth_user)
    have user: "id_UserID ident = user" "user \<noteq> ''''" using assms(5) x by (metis fst_conv)+
    let ?c = "\<lparr>cx_Request = rq, cx_Param = params, cx_RequestID = Some i\<rparr>"
    let ?id = "ident\<lparr>id_TenantID := tenant, id_TraceID := requestID ?c\<rparr>"
    have "others_stay ?id (params ''order_id'') (w_repo w2) (w_repo w')"
      using wpD [OF client_entry_others_stay [OF r assms(3,4), of "w_repo w2" ?id ?c] passed(4)] wf w1 w2 user
      by simp
    with assms(7,8) w1 w2 user show ?thesis by (auto simp: others_stay_def owned_by_def)
  qed
qed

text \<open>A deployment that knows every caller as another customer than the one who has placed the sample order.\<close>

definition stranger :: "Mocks Handlers" where
  "stranger = sample_handlers
     \<lparr>hd_auth := (\<lambda>token. ok (sample_ident\<lparr>id_UserID := ''u9''\<rparr>)),
      hd_match := (\<lambda>pat path. if pat = path then Some (\<lambda>_. ''ord_253067538726916096'') else None)\<rparr>"

theorem clients_touch_own_orders_witness:
  "stored (w_repo (snd (run_state (serve sample_deps stranger
     (sample_request ''POST'' ''/api/v1/orders/:order_id/cancel'' ''u9'')) sample_after))) sample_order"
proof (rule clients_touch_own_orders [where user = "''u9''", OF deployed_reachable [OF sample_deployed]])
  show "find_route (hd_match stranger) (sample_request ''POST'' ''/api/v1/orders/:order_id/cancel'' ''u9'')
      (routes sample_deps stranger) =
    Some ((''POST'', ''/api/v1/orders/:order_id/cancel'', Authed (Handlers_Cancel sample_deps)),
      \<lambda>_. ''ord_253067538726916096'')"
    by (simp add: sample_http stranger_def)
  show "stored (w_repo sample_after) sample_order"
    using sample_run(2) by (simp add: sample_after_def stored_def lookup_order_def order_key_def sample_order_def)
qed (auto simp: stranger_def sample_order_def intro: prod_eqI)

text \<open>
  C12: clients see their own orders only. A request to read, of one order or of the list, under a token that the
  identity service has given to a user changes nothing, and every order that the answer shows is stored
  and was bought by that user.
\<close>

theorem clients_see_own_orders:
  assumes "reachable d w"
    and "find_route (hd_match hs) rq (routes d hs) = Some ((''GET'', path, Authed h), params)"
    and "\<forall>x ident. fst (run_state (hd_auth hs (bearer_token rq)) x) = Inr ident \<longrightarrow> id_UserID ident = user"
    and "run_state (serve d hs rq) w = (resp, w')"
  shows "w_repo w' = w_repo w \<and> (\<forall>v \<in> orders_shown resp.
    \<exists>o'. v = viewOrder o' \<and> stored (w_repo w) o' \<and> ord_BuyerUserID o' = user)"
proof -
  obtain i w1 resp1 where w1: "w_repo w1 = w_repo w" "resp = resp1\<lparr>rp_Header := Some i\<rparr>"
    and run: "run_state (Auth hs h \<lparr>cx_Request = rq, cx_Param = params, cx_RequestID = Some i\<rparr>) w1 = (resp1, w')"
    using assms(4,2) by (rule route_run) simp
  have wf: "repo_wf (w_repo w)" by (rule wf.reachable_keeps [OF assms(1) NewOrderRepo_ok(3)])
  have r: "(''GET'', path, Authed h) \<in> set (routes d hs)" using find_route_Some [OF assms(2)] by simp
  from run show ?thesis
  proof (cases rule: Auth_cases)
    case (passed ident tenant w2)
    obtain x where x: "run_state (hd_auth hs (bearer_token rq)) (w_ext w1) = (Inr ident, x)"
      and w2: "w_repo w2 = w_repo w1" using passed(1) by (auto elim: Auth_user)
    let ?c = "\<lparr>cx_Request = rq, cx_Param = params, cx_RequestID = Some i\<rparr>"
    let ?id = "ident\<lparr>id_TenantID := tenant, id_TraceID := requestID ?c\<rparr>"
    have "w_repo w' = w_repo w2 \<and> shows_own ?id (w_repo w2) resp1"
      using wpD [OF reading_shows_own [OF r, of "w_repo w2" ?id ?c] passed(4)] wf w1 w2 by simp
    moreover have "id_UserID ident = user" using assms(3) x by (metis fst_conv)
    ultimately show ?thesis using w1 w2 by (auto simp: shows_own_def)
  next
    case refused
    then show ?thesis using w1 by simp
  qed
qed

theorem clients_see_own_orders_witness:
  "w_repo (snd (run_state (serve sample_deps sample_handlers (sample_request ''GET'' ''/api/v1/orders'' ''u1'')) sample_after)) =
    w_repo sample_after"
proof -
  have "find_route (hd_match sample_handlers) (sample_request ''GET'' ''/api/v1/orders'' ''u1'') (routes sample_deps sample_handlers) =
      Some ((''GET'', ''/api/v1/orders'', Authed (Handlers_List sample_deps)), \<lambda>_. '''')"
    by (simp add: sample_http)
  from clients_see_own_orders [OF deployed_reachable [OF sample_deployed] this _ surjective_pairing, of "''u1''"]
  show ?thesis by (simp add: sample_request_facts) (simp add: sample_handlers_def sample_ident_def)
qed

text \<open>
  C13: payments are reported by those who know the secret. A request to the callback route whose body is not
  signed with the configured secret, or any such request when neither a secret is configured nor
  unsigned callbacks are allowed, is answered with 401 and changes nothing.
\<close>

theorem callback_needs_signature:
  assumes "find_route (hd_match hs) rq (routes d hs) =
      Some ((verb, ''/internal/v1/orders/callbacks/payment'', e), params)"
    and "rq_Body rq = Inr payload"
    and "if hd_PaySecret hs = '''' then \<not> hd_AllowUnsignedPay hs
      else hd_hmac hs (hd_PaySecret hs) payload \<noteq> map lower_char (rq_Header rq ''X-Payment-Signature'')"
    and "run_state (serve d hs rq) w = (resp, w')"
  shows "rp_Status resp = 401 \<and> w_repo w' = w_repo w"
proof -
  obtain i w1 resp1 where w1: "w_repo w1 = w_repo w" "rp_Status resp = rp_Status resp1"
    and run: "run_state (run_entry hs e \<lparr>cx_Request = rq, cx_Param = params, cx_RequestID = Some i\<rparr>) w1 = (resp1, w')"
    using assms(4,1) by (rule route_run) simp
  have "e = Plain (Handlers_PaymentCallback d hs)"
    using find_route_Some [OF assms(1)]
    by (auto simp: routes_def public_routes_def client_routes_def internal_routes_def admin_routes_def)
  then have "rp_Status resp1 = 401 \<and> w' = w1"
    using run assms(2,3)
    by (auto simp: Handlers_PaymentCallback_def payment_guard_def verifyPaymentSig_def header_def split: if_splits)
  then show ?thesis using w1 by simp
qed

theorem callback_needs_signature_witness:
  "rp_Status (fst (run_state (serve sample_deps sample_handlers
     (sample_request ''POST'' ''/internal/v1/orders/callbacks/payment'' ''u1'')) sample_after)) = 401"
  by (rule callback_needs_signature [where payload = "''body''", OF _ _ _ surjective_pairing, THEN conjunct1])
    (simp_all add: sample_http)

text \<open>
  C14: every answer is well-formed. A request that gin redirects to the path with the other form of the last
  slash gets a redirect without a request id, and nothing changes. Every other answer carries the id of
  its request in the header; an envelope repeats the id, and has the code 0 and status 200 or a code
  that starts with its error status and no data.
\<close>

theorem answers_well_formed:
  "if redirected d hs rq
   then rp_Status (fst (run_state (serve d hs rq) w)) \<in> {301, 307} \<and>
     rp_Header (fst (run_state (serve d hs rq) w)) = None \<and> snd (run_state (serve d hs rq) w) = w
   else response_ok (fst (run_state (serve d hs rq) w))"
proof (cases "redirected d hs rq")
  case True
  then show ?thesis by (simp add: serve_def answer_def)
next
  case False
  obtain resp w' where run: "run_state (serve d hs rq) w = (resp, w')" by (cases "run_state (serve d hs rq) w")
  from run False obtain i w0 w1 resp1 where i: "run_state (RequestID hs rq) w0 = (i, w1)" "resp = resp1\<lparr>rp_Header := Some i\<rparr>"
    and r: "run_state (dispatch d hs rq i) w1 = (resp1, w')"
    by (rule serve_run)
  have "answer_ok i resp1"
  proof (cases "find_route (hd_match hs) rq (routes d hs)")
    case None
    then show ?thesis using r by (auto simp: dispatch_def answer_ok_def answer_def)
  next
    case (Some x)
    obtain verb path e params where x: "x = ((verb, path, e), params)" by (metis prod.collapse)
    let ?c = "\<lparr>cx_Request = rq, cx_Param = params, cx_RequestID = Some i\<rparr>"
    have "(verb, path, e) \<in> set (routes d hs)" using find_route_Some Some x by blast
    then have "gives (answer_ok (requestID ?c)) (run_entry hs e ?c)" using routes_answer [of d hs] by blast
    moreover have "run_state (run_entry hs e ?c) w1 = (resp1, w')" using r Some x by (simp add: dispatch_def)
    ultimately show ?thesis unfolding requestID_chosen [OF i(1)] gives_def by (metis fst_conv)
  qed
  with False show ?thesis by (simp add: run i(2) response_ok_def answer_ok_header)
qed

end
