(* ===== verification/Startup.thy ===== *)
theory Startup
  imports Processes
begin

text \<open>
  Starting and stopping the processes: opening the database (\<open>Open\<close> of \<open>src/internal/infra/persistence/order_repo.go\<close>)
  and its migration (\<open>models.go\<close>), the choice of the store and what is closed at the end
  (\<open>src/internal/boot/app.go\<close>), and the two \<open>main\<close> functions (\<open>src/cmd/worker/main.go\<close>, \<open>src/cmd/api/main.go\<close>). The
  connection that gorm opens and its pool are parameters. A signal ends a process between two rounds or
  requests, so a run is the list of what it served until then. The lemmas: the steps come to the store that
  \<open>Build_store\<close> decides on, a process that cannot be built stops before it serves anything, and
  one that runs stays within the deployed states.
\<close>

section \<open>The database connection\<close>

record 'x Pool =
  pl_SetMaxOpenConns :: "int \<Rightarrow> ('x, unit) state"
  pl_SetMaxIdleConns :: "int \<Rightarrow> ('x, unit) state"
  pl_SetConnMaxLifetime :: "duration \<Rightarrow> ('x, unit) state"
  pl_SetConnMaxIdleTime :: "duration \<Rightarrow> ('x, unit) state"
  pl_Ping :: "('x, error option) state"
  pl_Close :: "('x, error option) state"

text \<open>A model is migrated under the name of its table.\<close>

record 'x Gorm =
  gm_DB :: "('x, 'x Pool res) state"
  gm_AutoMigrate :: "string list \<Rightarrow> ('x, error option) state"

record GormConfig =
  gc_PrepareStmt :: bool
  gc_SkipDefaultTransaction :: bool

definition persistence_Open ::
  "(string \<Rightarrow> GormConfig \<Rightarrow> ('x, 'x Gorm res) state) \<Rightarrow> string \<Rightarrow> ('x, 'x Gorm res) state" where
  "persistence_Open gorm_Open dsn =
     (if dsn = '''' then fail (Opaque ''postgres dsn required'')
      else tryE (gorm_Open dsn \<lparr>gc_PrepareStmt = True, gc_SkipDefaultTransaction = True\<rparr>) (\<lambda>db.
           tryE (gm_DB db) (\<lambda>sqlDB. do {
             _ \<leftarrow> pl_SetMaxOpenConns sqlDB 64;
             _ \<leftarrow> pl_SetMaxIdleConns sqlDB 16;
             _ \<leftarrow> pl_SetConnMaxLifetime sqlDB (30 * time_Minute);
             _ \<leftarrow> pl_SetConnMaxIdleTime sqlDB (5 * time_Minute);
             ok db })))"

definition persistence_AutoMigrate :: "'x Gorm \<Rightarrow> ('x, error option) state" where
  "persistence_AutoMigrate db = gm_AutoMigrate db
     [''orders'', ''order_lines'', ''order_promotions'', ''order_ledger_legs'', ''order_events'',
      ''idempotency_records'', ''order_refunds'', ''saga_compensations'']"

text \<open>The database of the store, \<open>None\<close> for the store in memory.\<close>

definition Build_db ::
  "Config \<Rightarrow> (string \<Rightarrow> GormConfig \<Rightarrow> ('x, 'x Gorm res) state) \<Rightarrow> ('x, 'x Gorm option res) state" where
  "Build_db cfg gorm_Open =
     (if cf_PostgresDSN cfg \<noteq> '''' \<and> cf_PostgresDSN cfg \<noteq> ''memory'' then do {
        opened \<leftarrow> persistence_Open gorm_Open (cf_PostgresDSN cfg);
        (case opened of
           Inl err \<Rightarrow> if cf_MockDeps cfg then ok None
                      else fail (Opaque (''postgres: '' @ error_text err))
         | Inr db \<Rightarrow>
             if cf_AutoMigrate cfg then do {
               failed \<leftarrow> persistence_AutoMigrate db;
               (case failed of
                  Some err \<Rightarrow> fail (Opaque (''migrate: '' @ error_text err))
                | None \<Rightarrow> ok (Some db)) }
             else ok (Some db)) }
      else ok None)"

definition Build_ready :: "'x Gorm option \<Rightarrow> ('x, error option) state" where
  "Build_ready db =
     (case db of
        None \<Rightarrow> State_Monad.return None
      | Some g \<Rightarrow> do {
          res \<leftarrow> gm_DB g;
          (case res of Inl err \<Rightarrow> State_Monad.return (Some err) | Inr sqlDB \<Rightarrow> pl_Ping sqlDB) })"

definition Runtime_Close :: "'x Redis option \<Rightarrow> 'x Gorm option \<Rightarrow> ('x, unit) state" where
  "Runtime_Close rdb db = do {
     _ \<leftarrow> (case rdb of None \<Rightarrow> State_Monad.return () | Some c \<Rightarrow> ignore (rd_Close c));
     (case db of
        None \<Rightarrow> State_Monad.return ()
      | Some g \<Rightarrow> do {
          res \<leftarrow> gm_DB g;
          (case res of Inl err \<Rightarrow> State_Monad.return () | Inr sqlDB \<Rightarrow> ignore (pl_Close sqlDB)) }) }"

section \<open>The two processes\<close>

text \<open>
  What \<open>Build\<close> returns of a process: its services, its interface and how to close it. \<open>Outside\<close> has the
  libraries it uses, the mocks and the parameters of the interface. The repository of the services is the one in
  memory; where \<open>rt_store\<close> is \<open>PostgresStore\<close> it stands for the tables, which \<open>Pg_History\<close> relates to it.
\<close>

record 'x Outside =
  os_newClient :: "RedisOptions \<Rightarrow> 'x Redis"
  os_gorm_Open :: "string \<Rightarrow> GormConfig \<Rightarrow> ('x, 'x Gorm res) state"
  os_send :: "'x sender"
  os_wire :: Wire
  os_order :: "(string \<times> int64) list \<Rightarrow> (string \<times> int64) list"
  os_post :: "string \<Rightarrow> Event \<Rightarrow> ('x, int res) state"
  os_marshal :: "PreviewSnapshot \<Rightarrow> bytes res"
  os_unmarshal :: "bytes \<Rightarrow> PreviewSnapshot res"
  os_mocks :: "'x Deps"
  os_handlers :: "'x Handlers"

record 'x Runtime =
  rt_Config :: Config
  rt_store :: store
  rt_deps :: "'x Deps"
  rt_Engine :: "'x Handlers"
  rt_Recon :: bool
  rt_Close :: "('x, unit) state"

definition store_of :: "'x Gorm option \<Rightarrow> store" where
  "store_of db = (case db of None \<Rightarrow> MemoryStore | Some g \<Rightarrow> PostgresStore)"

definition Build :: "Config \<Rightarrow> 'x Outside \<Rightarrow> ('x, 'x Runtime res) state" where
  "Build cfg os = do {
     rdb \<leftarrow> Build_redis cfg (os_newClient os);
     tryE (Build_db cfg (os_gorm_Open os)) (\<lambda>db.
       ok \<lparr>rt_Config = cfg, rt_store = store_of db,
           rt_deps = Build_cache rdb (os_marshal os) (os_unmarshal os)
             (Build_deps cfg (os_mocks os) (os_send os) (os_wire os) (os_order os) (os_post os)),
           rt_Engine = Build_handlers cfg (os_send os) (os_wire os) (Some (Build_ready db)) (os_handlers os),
           rt_Recon = True, rt_Close = Runtime_Close rdb db\<rparr>) }"

datatype exit = Fatal error | Stopped

definition worker_main :: "environment \<Rightarrow> 'x Outside \<Rightarrow> ticker list \<Rightarrow> ('x World, exit) state" where
  "worker_main getenv os fired = do {
     built \<leftarrow> ext_op (Build (conf_Load getenv) os);
     (case built of
        Inl err \<Rightarrow> State_Monad.return (Fatal err)
      | Inr rt \<Rightarrow> do {
          _ \<leftarrow> worker_run (rt_deps rt) (rt_Recon rt) fired;
          _ \<leftarrow> ext_op (rt_Close rt);
          State_Monad.return Stopped }) }"

record HttpServer =
  hs_Addr :: string
  hs_ReadHeaderTimeout :: duration
  hs_ReadTimeout :: duration
  hs_WriteTimeout :: duration
  hs_IdleTimeout :: duration

definition api_server :: "Config \<Rightarrow> HttpServer" where
  "api_server cfg = \<lparr>hs_Addr = cf_HTTPAddr cfg, hs_ReadHeaderTimeout = 2 * time_Second,
     hs_ReadTimeout = 8 * time_Second, hs_WriteTimeout = 8 * time_Second, hs_IdleTimeout = 60 * time_Second\<rparr>"

text \<open>
  \<open>listen\<close> is the error with which \<open>ListenAndServe\<close> of the library returns other than at a shutdown;
  the requests are those that were served before. After \<open>log.Fatal\<close> nothing is closed.
\<close>

primrec serve_all :: "'x Deps \<Rightarrow> 'x Handlers \<Rightarrow> Request list \<Rightarrow> ('x World, unit) state" where
  "serve_all d hs [] = State_Monad.return ()"
| "serve_all d hs (rq # rqs) = do { _ \<leftarrow> serve d hs rq; serve_all d hs rqs }"

definition api_main ::
  "environment \<Rightarrow> 'x Outside \<Rightarrow> (HttpServer \<Rightarrow> ('x, error option) state) \<Rightarrow> Request list \<Rightarrow> ('x World, exit) state" where
  "api_main getenv os listen rqs = do {
     built \<leftarrow> ext_op (Build (conf_Load getenv) os);
     (case built of
        Inl err \<Rightarrow> State_Monad.return (Fatal err)
      | Inr rt \<Rightarrow> do {
          _ \<leftarrow> serve_all (rt_deps rt) (rt_Engine rt) rqs;
          failed \<leftarrow> ext_op (listen (api_server (rt_Config rt)));
          (case failed of
             Some err \<Rightarrow> State_Monad.return (Fatal err)
           | None \<Rightarrow> do { _ \<leftarrow> ext_op (rt_Close rt); State_Monad.return Stopped }) }) }"

section \<open>Lemmas\<close>

text \<open>The steps decide as \<open>Build_store\<close> does.\<close>

lemma Build_db_decides:
  assumes "run_state (persistence_Open gorm_Open (cf_PostgresDSN cfg)) x = (got, x1)"
    and "\<And>db. got = Inr db \<Longrightarrow> failed = fst (run_state (persistence_AutoMigrate db) x1)"
  shows "map_sum id store_of (fst (run_state (Build_db cfg gorm_Open) x)) =
    Build_store cfg (case got of Inl err \<Rightarrow> Some err | Inr db \<Rightarrow> None) failed"
proof (cases "cf_PostgresDSN cfg \<noteq> '''' \<and> cf_PostgresDSN cfg \<noteq> ''memory''")
  case True
  show ?thesis
  proof (cases got)
    case (Inl err)
    then show ?thesis using True assms(1) by (simp add: Build_db_def Build_store_def store_of_def)
  next
    case (Inr db)
    then show ?thesis using True assms
      by (auto simp: Build_db_def Build_store_def store_of_def split: prod.split option.split)
  qed
qed (auto simp: Build_db_def Build_store_def store_of_def)

text \<open>A process that cannot be built serves nothing.\<close>

lemma main_fatal:
  assumes "run_state (Build (conf_Load getenv) os) (w_ext w) = (Inl err, x)"
  shows "run_state (worker_main getenv os fired) w = (Fatal err, w\<lparr>w_ext := x\<rparr>)"
    and "run_state (api_main getenv os listen rqs) w = (Fatal err, w\<lparr>w_ext := x\<rparr>)"
  using assms by (simp_all add: worker_main_def api_main_def ext_op_def)

lemma deployed_serve_all:
  "deployed d hs recon w \<Longrightarrow> run_state (serve_all d hs rqs) w = (u, w') \<Longrightarrow> deployed d hs recon w'"
proof (induction rqs arbitrary: w)
  case (Cons rq rqs)
  obtain v w1 where "run_state (serve d hs rq) w = (v, w1)" by (cases "run_state (serve d hs rq) w")
  with Cons show ?case by (auto intro: deployed.request)
qed simp

lemma deployed_ext_op: "deployed d hs recon w \<Longrightarrow> run_state (ext_op m) w = (a, w') \<Longrightarrow> deployed d hs recon w'"
  by (auto simp: ext_op_def split: prod.splits intro: deployed.elsewhere)

text \<open>A process built on the services \<open>d\<close> and the interface \<open>hs\<close> stays within the deployed states.\<close>

definition builds :: "environment \<Rightarrow> 'x Outside \<Rightarrow> 'x Deps \<Rightarrow> 'x Handlers \<Rightarrow> bool" where
  "builds getenv os d hs \<longleftrightarrow> (\<forall>x rt x'. run_state (Build (conf_Load getenv) os) x = (Inr rt, x') \<longrightarrow>
     rt_deps rt = d \<and> rt_Engine rt = hs \<and> rt_Recon rt)"

lemma deployed_worker_main:
  assumes "builds getenv os d hs" "deployed d hs True w" "run_state (worker_main getenv os fired) w = (e, w')"
  shows "deployed d hs True w'"
proof -
  obtain built x where b: "run_state (Build (conf_Load getenv) os) (w_ext w) = (built, x)" by (cases "run_state (Build (conf_Load getenv) os) (w_ext w)")
  have w1: "deployed d hs True (w\<lparr>w_ext := x\<rparr>)" using assms(2) by (rule deployed.elsewhere)
  show ?thesis
  proof (cases built)
    case (Inl err)
    then show ?thesis using main_fatal(1) [of getenv os w err x fired] b assms(3) w1 by simp
  next
    case (Inr rt)
    then have rt: "rt_deps rt = d" "rt_Recon rt" using assms(1) b by (auto simp: builds_def)
    obtain u w2 where w2: "run_state (worker_run d True fired) (w\<lparr>w_ext := x\<rparr>) = (u, w2)"
      by (cases "run_state (worker_run d True fired) (w\<lparr>w_ext := x\<rparr>)")
    obtain v w3 where w3: "run_state (ext_op (rt_Close rt)) w2 = (v, w3)" by (cases "run_state (ext_op (rt_Close rt)) w2")
    have "w' = w3" using assms(3) b Inr rt w2 w3 by (simp add: worker_main_def ext_op_def [of "Build (conf_Load getenv) os"])
    then show ?thesis using deployed_ext_op [OF deployed_worker_run [OF w1 w2] w3] by simp
  qed
qed

lemma deployed_api_main:
  assumes "builds getenv os d hs" "deployed d hs True w" "run_state (api_main getenv os listen rqs) w = (e, w')"
  shows "deployed d hs True w'"
proof -
  obtain built x where b: "run_state (Build (conf_Load getenv) os) (w_ext w) = (built, x)" by (cases "run_state (Build (conf_Load getenv) os) (w_ext w)")
  have w1: "deployed d hs True (w\<lparr>w_ext := x\<rparr>)" using assms(2) by (rule deployed.elsewhere)
  show ?thesis
  proof (cases built)
    case (Inl err)
    then show ?thesis using main_fatal(2) [of getenv os w err x listen rqs] b assms(3) w1 by simp
  next
    case (Inr rt)
    then have rt: "rt_deps rt = d" "rt_Engine rt = hs" using assms(1) b by (auto simp: builds_def)
    let ?listen = "ext_op (listen (api_server (rt_Config rt)))"
    obtain u w2 where w2: "run_state (serve_all d hs rqs) (w\<lparr>w_ext := x\<rparr>) = (u, w2)"
      by (cases "run_state (serve_all d hs rqs) (w\<lparr>w_ext := x\<rparr>)")
    obtain failed w3 where w3: "run_state ?listen w2 = (failed, w3)" by (cases "run_state ?listen w2")
    obtain v w4 where w4: "run_state (ext_op (rt_Close rt)) w3 = (v, w4)" by (cases "run_state (ext_op (rt_Close rt)) w3")
    have "deployed d hs True w3" by (rule deployed_ext_op [OF deployed_serve_all [OF w1 w2] w3])
    moreover have "deployed d hs True w4" by (rule deployed_ext_op [OF calculation w4])
    moreover have "w' = w3 \<or> w' = w4"
      using assms(3) b Inr rt w2 w3 w4
      by (auto simp: api_main_def ext_op_def [of "Build (conf_Load getenv) os"] split: option.splits)
    ultimately show ?thesis by blast
  qed
qed

text \<open>Without Redis, and with the mocks or without a database, the program builds, on the services it was given.\<close>

lemma Build_default:
  assumes "cf_MockDeps cfg" "cf_RedisAddr cfg = ''''" "cf_PostgresDSN cfg = ''memory''"
  shows "\<exists>rt. run_state (Build cfg os) x = (Inr rt, x) \<and> rt_store rt = MemoryStore \<and>
    rt_deps rt = (os_mocks os)\<lparr>dp_publisher := dp_publisher (rt_deps rt)\<rparr>"
  using assms
  by (simp add: Build_def Build_redis_def Build_db_def Build_cache_memory Build_deps_def store_of_def)

end
