(* ===== verification/Spec2Isabelle.thy ===== *)
theory Spec2Isabelle
  imports Repositories Http_Properties Startup
begin

text \<open>
  Order Hub: a verification of the order service.

  The program (src/internal) is a service that prices an order, places it, collects its payment and
  takes it back. Its parts, and the theories that model them, in the order the code has them:

  \<^item> \<^bold>\<open>Domain\<close> (domain/*.go). \<open>Domain_Types\<close>: statuses, orders, lines, refunds, events and errors,
    one record or datatype per Go type. \<open>Amount_Engine\<close>: amount.go on 64-bit words, the checked
    arithmetic, BuildAmounts, Validate, SumOriginal and AllocateDiscount. \<open>State_Machine\<close>:
    statemachine.go. \<open>Scenes\<close>: scene.go, ResolvePayMethod and the request hashes of hash.go.
  \<^item> \<^bold>\<open>Ports\<close> (port/port.go). \<open>Ports\<close>: the records that cross the interfaces, and the interfaces
    themselves as records of functions on an arbitrary external state \<open>'x\<close>: the model of a service
    takes them as parameters, so its theorems hold for every behaviour of the outside.
  \<^item> \<^bold>\<open>Order repository\<close> (infra/memory/order_repo.go). \<open>Memory_Repo\<close>: the state of the repository
    as a record and every method as a function on it. \<open>Repo_Invariants\<close>: its well-formedness, the
    money invariant and what each method keeps of them. \<open>Order_Store\<close>: an abstract store of
    versioned orders, which Transition refines.
  \<^item> \<^bold>\<open>Postgres repository\<close> (infra/persistence/*.go). \<open>Persistence_Models\<close>: the rows and their
    conversions. \<open>Pg_Repo\<close>: every method over a database that is a parameter, one function per
    kind of statement. \<open>Pg_Laws\<close>: what a relational database promises (a locale, instantiated on tables of
    lists). \<open>Pg_Store\<close>: Transition implements the abstract store, and a checkout is inserted whole.
    \<open>Pg_Lists\<close>: pages and the claiming of tickets. \<open>Pg_Properties\<close>: the properties, among them that
    the two repositories agree. \<open>Pg_Simulation\<close> and \<open>Pg_History\<close>: the in-memory repository simulates it on all
    writes of orders, idempotency records and events. \<open>Repositories\<close>: both as values of the
    interface in port/port.go, and what follows from the contract of its Transition.
  \<^item> \<^bold>\<open>Application services\<close> (application/*.go). \<open>Service_World\<close>: the state the services thread,
    the repository beside the external state, in the state monad; calls that fail return
    \<open>Inl\<close> an error; \<open>wp\<close> is the weakest precondition over the repository, for every
    external state. One theory per service: \<open>Preview_Service\<close> (preview.go), \<open>Checkout_Service\<close>
    (checkout.go), \<open>Payment_Service\<close> and \<open>Refund_Service\<close> (payment_refund.go),
    \<open>Cancel_Service\<close> (query_cancel.go), \<open>Close_Renew\<close> (close.go, renew.go), \<open>Compensation\<close>
    (compensate.go, recon.go), \<open>Outbox_Worker\<close> (the outbox worker of payment_refund.go),
    \<open>Seed_Service\<close> (seed.go).
  \<^item> \<^bold>\<open>HTTP interface\<close> (iface/http/*.go). \<open>Http_Messages\<close>: requests, answers and the answer to each error.
    \<open>Http_Handlers\<close>: one definition per handler. \<open>Http_Router\<close>: the middleware, the table of routes and
    \<open>serve\<close>, with the redirect that gin answers before the middleware when only the trailing slash of a path is wrong
    (\<open>redirected\<close>). \<open>Client_Isolation\<close>: what a client can do to the orders of
    others, and which it is shown. \<open>Http_Properties\<close>: the
    properties.
  \<^item> \<^bold>\<open>Adapters\<close> (infra/*). \<open>Snowflake_Ids\<close>: the id generator on 64-bit words. \<open>Ledger_Mock\<close> and
    \<open>Offer_Mock\<close>: the in-memory ledger and promotion services, which the program is deployed with
    when no remote one is configured. \<open>Adapters\<close>: the payment mock, the fulfilment registry, the
    preview cache and the locks, the event publishers. \<open>Redis_Cache\<close>: the cache and the lock over a
    Redis client. \<open>Hub_Client\<close>: the HTTP clients of the identity,
    promotion and ledger services and the decoding of their answers, over an exchange that is a
    parameter. \<open>Config\<close>: conf/config.go. \<open>Go_Strings\<close>: what is used of the packages strings and strconv.
  \<^item> \<^bold>\<open>Composition\<close> (boot/app.go). \<open>Mock_System\<close>: the dependencies with every mock plugged in.
    \<open>System_Runs\<close>: the calls that a client, the administration or a worker can make, and the
    states reachable by them. \<open>Processes\<close>: what Build makes of a configuration, the loop of cmd/worker, and
    the states the processes reach. \<open>Startup\<close>: opening the database, the steps of Build, the two main
    functions. \<open>Sample_System\<close>: a complete checkout through the mocks, evaluated.

  Shared lemmas and the collections of rewrite rules are in \<open>Hub_Prelude\<close>.

  What the lemmas show. The amount engine computes exactly or reports an overflow, and discounts are
  allocated without loss. The services keep the invariants of the repository, whatever the outside
  does (\<open>reachable_orders_balance\<close>, \<open>orders_follow_lifecycle\<close>, \<open>reachable_renewals_bounded\<close>), and so do the
  processes, which can only call them (\<open>deployed_orders_balance\<close>); a client cannot touch the order of another
  and is not shown it (\<open>clients_touch_own_orders\<close>, \<open>clients_see_own_orders\<close>). Each
  operation is described on every outcome: a checkout is atomic and idempotent, a payment,
  a cancellation and a refund settle in one of the named states, the workers make progress. The
  mocks meet the contracts that are stated as locales.

  Bounds. Prices, quantities, amounts, versions and ids are 64-bit words with Go's wrap-around; times,
  durations and small counters are integers. Every loop of the program is a recursion over a finite
  list, apart from the wait loop of the id generator, which reads the clock again until it has moved:
  it is a partial function over the sequence of the clock's readings, and \<open>next_id_terminates\<close> shows
  that it returns as soon as a later reading comes.

  Not modelled: JSON encoding and decoding, SHA-256, HMAC, UUIDs, gin's matching of paths (which route a path belongs to, and whether it would belong to one with its
  trailing slash taken off or added), the
  exchange of HTTP messages, the execution of SQL and the clock, which are parameters of the model
  with the laws a theorem needs as its hypotheses, as are the commands of Redis; the services over the Postgres repository (they run on the
  in-memory one; \<open>committed_history_in_memory\<close> links the two, for tenants and users without a bar and
  transitions along the life cycle, which is what the services ask for: \<open>services_ask_for_steps\<close>); the connections the libraries open
  and net/http's server; logging. The goroutine scheduler is not modelled:
  a method of the repository runs under its mutex, so it is one step, and a service call is
  the sequence of its steps.
\<close>

section \<open>Properties of the running system\<close>

text \<open>
  C1: the money invariant. In every state the system can reach, through any sequence of previews,
  checkouts, payments, refunds, cancellations, closes, renewals and worker ticks and with any
  behaviour of the external systems, every stored order has consistent amounts and lines that add
  up, has been paid nothing or exactly its payable amount depending on its status, and has been
  refunded at most that, exactly that in REFUNDED, and nothing outside the refund statuses.
\<close>

theorem reachable_orders_balance:
  assumes "reachable d w"
  shows "repo_ok (w_repo w)"
  by (rule money.reachable_keeps [OF assms NewOrderRepo_ok(1)])

lemma sample_reachable: "reachable sample_deps sample_after"
proof -
  have "reachable sample_deps sample_world" unfolding sample_world_def by (rule reachable.start)
  moreover have "run_state (exec sample_deps (CCheckout sample_ident sample_checkout)) sample_world =
      ((), sample_after)"
    by (simp add: run_world sample_after_def split: prod.split)
  ultimately show ?thesis by (rule reachable.call)
qed

lemma sample_after_stored: "stored (w_repo sample_after) sample_order"
  using sample_run(2)
  by (simp add: sample_after_def stored_def lookup_order_def order_key_def sample_order_def)

theorem reachable_orders_balance_witness: "order_ok sample_order"
  using reachable_orders_balance [OF sample_reachable] sample_after_stored by (simp add: repo_ok_def)

text \<open>
  C2: orders only move forward. Whatever calls other than checkouts are made, every order that is
  stored before is stored after, in a status that the life cycle reaches from its former one. Its ids, tenant,
  scene, channel, buyer, lines, promotions, currency, prices, quote, reservation, ledger freeze and legs, pay method, expiry and
  creation time are the same. The reference to its payment, its renewal count and the amount paid change only while it
  waits for payment, and the count does not go down; a redemption is noted only on an order that holds a
  reservation, and is never lost. The version, the refunded amount (C1, C6) and the other times are left open here.
\<close>

theorem orders_follow_lifecycle:
  assumes "repo_wf r" "\<forall>c \<in> set cs. \<not> is_checkout c"
  shows "wp (exec_all d cs) (\<lambda>_ r'. repo_follows r r') r"
  using evolving.keeps_exec_all [OF repo_follows_refl [OF assms(1)] assms(2)] .

theorem orders_follow_lifecycle_witness:
  "wp (exec_all sample_deps [CTimeoutTick, CCancel sample_ident ''ord_253067538726916096'', COutboxTick])
     (\<lambda>_ r'. repo_follows (w_repo sample_after) r') (w_repo sample_after)"
proof -
  have "repo_wf (w_repo sample_after)"
    using sample_run(2) by (simp add: sample_after_def repo_wf_def order_key_def sample_order_def)
  then show ?thesis by (rule orders_follow_lifecycle) simp
qed

text \<open>
  C3: a checkout is all or nothing. An error leaves the repository exactly as it was. A success is
  either the stored answer to an earlier request under the same key, with nothing changed, or it
  leaves one new consistent order in PENDING_PAY under the caller's tenant, found by its client
  order id, the idempotency record that holds the answer, and one creation event.
\<close>

theorem checkout_is_atomic:
  "wp (Checkout d ident cmd) (\<lambda>res r'. case res of
      Inl e \<Rightarrow> r' = r
    | Inr out \<Rightarrow>
        (r' = r \<and> (\<exists>rec. repo_FindIdempotency (id_TenantID ident) (id_UserID ident)
            (co_IdempotencyKey (checkout_defaults cmd)) r = Some rec \<and>
          out = snd (dp_unmarshal_Result d (ir_Response rec)))) \<or>
        checkout_done d ident (checkout_defaults cmd) (checkout_hash d (checkout_defaults cmd)) r out r') r"
  by (rule wp_mono [OF wp_conj [OF Checkout_error_unchanged Checkout_outcome]])
    (auto split: sum.split)

text \<open>
  C4: a checkout is idempotent. When a checkout under a new key has succeeded, repeating the request
  in any later state that still has the idempotency records returns the same answer and has no
  effect at all, on the repository or on the systems outside.
\<close>

theorem checkout_is_idempotent:
  assumes "run_state (Checkout d ident cmd) w = (Inr out, w1)"
    and "repo_FindIdempotency (id_TenantID ident) (id_UserID ident)
      (co_IdempotencyKey (checkout_defaults cmd)) (w_repo w) = None"
    and "dp_unmarshal_Result d (dp_marshal_Result d out) = (None, out)"
    and "idem (w_repo w2) = idem (w_repo w1)"
  shows "run_state (Checkout d ident cmd) w2 = (Inr out, w2)"
  by (rule Checkout_replays [OF assms])

theorem checkout_is_idempotent_witness:
  "run_state (Checkout sample_deps sample_ident sample_checkout) sample_after = (Inr sample_result, sample_after)"
proof (rule checkout_is_idempotent)
  show "run_state (Checkout sample_deps sample_ident sample_checkout) sample_world =
      (Inr sample_result, sample_after)"
    by (simp add: prod_eq_iff sample_run(1) sample_after_def)
qed (simp_all add: sample_world_def NewOrderRepo_def repo_FindIdempotency_def sample_deps_fields)

text \<open>
  C5: a payment settles. Paying a stored order that waits for payment always ends with the order paid
  in full, two versions later: either it has moved on to the status of its scene, announced by a payment event and one for that
  step and with no new ticket, or it is in COMPENSATING, announced by the payment event, with one new open ticket for
  the retry. Apart from the status, the version, the paid amount and the times, only the redemption may have been filled in on it,
  where it holds a reservation; its payment reference and renewal count are the same. Every other order, the refunds and
  the idempotency records are as they were. The caller gets the order as it is stored.
\<close>

theorem payment_settles:
  assumes "repo_wf r" "stored r o'" "ord_Status o' = StatusPendingPay"
  shows "wp (onPaid d o' (amt_Payable (ord_Amounts o')) tr)
    (\<lambda>res r'. \<exists>s'. payment_done d o' r r' s' \<and> (ord_TenantID o' \<noteq> '''' \<longrightarrow> res = Inr s')) r"
  by (rule onPaid_outcome [OF assms])

lemma sample_repo_facts:
  "repo_wf sample_repo" "stored sample_repo sample_order" "ord_Status sample_order = StatusPendingPay"
  by (simp_all add: sample_repo_def repo_wf_def stored_def lookup_order_def order_key_def
      sample_order_def NewOrderRepo_def)

theorem payment_settles_witness:
  "wp (onPaid sample_deps sample_order 180 ''tr'')
    (\<lambda>res r'. \<exists>s'. payment_done sample_deps sample_order sample_repo r' s' \<and> res = Inr s') sample_repo"
  using payment_settles [OF sample_repo_facts, of sample_deps "''tr''"] by (simp add: sample_order_def)

text \<open>
  C6: a refund books exactly what it pays back. From a balanced repository, a successful refund adds
  one refund record and raises the refunded amount of the order by exactly its amount, at most to
  what was paid, and ends in REFUNDED exactly when everything has been paid back. A failed refund
  leaves the repository as it was, or the order in REFUNDING with its amounts untouched.
\<close>

theorem refund_books_exactly:
  assumes "repo_ok r"
  shows "wp (RefundOrder d ident i cmd) (\<lambda>res r'. case res of
      Inr refund \<Rightarrow> \<exists>o'. refund_booked r o' refund r'
    | Inl e \<Rightarrow> r' = r \<or> (\<exists>o' amount. refund_request r o' amount \<and> opened r o' r')) r"
  by (rule Refund_outcome [OF assms])

definition sample_paid_repo :: OrderRepo where
  "sample_paid_repo = NewOrderRepo\<lparr>orders := [(''t1|ord_253067538726916096'', sample_paid)]\<rparr>"

lemma sample_paid_repo_ok: "repo_ok sample_paid_repo"
  by (auto simp: repo_ok_def repo_wf_def stored_def lookup_order_def sample_paid_repo_def order_key_def
      sample_paid_def sample_order_def NewOrderRepo_def order_ok_def Validate_None_iff refunds_ok_def
      paid_branch_def lines_add_up_def sample_line_def split: if_splits)

theorem refund_books_exactly_witness:
  "wp (RefundOrder sample_deps sample_ident ''ord_253067538726916096''
       \<lparr>rc_Amount = 100, rc_Reason = '''', rc_Lines = []\<rparr>) (\<lambda>res r'. case res of
      Inr refund \<Rightarrow> \<exists>o'. refund_booked sample_paid_repo o' refund r'
    | Inl e \<Rightarrow> r' = sample_paid_repo \<or>
        (\<exists>o' amount. refund_request sample_paid_repo o' amount \<and> opened sample_paid_repo o' r'))
     sample_paid_repo"
  by (rule refund_books_exactly [OF sample_paid_repo_ok])

text \<open>
  C7: a cancellation settles. Cancelling a stored order that waits for payment always succeeds: the
  order is CANCELLED, one version later and announced by an event, and apart from the times nothing else of it has changed; every
  other order, the refunds and the idempotency records are as they were. The tickets that were added are exactly those of the
  releases that failed: \<open>releases\<close> lists the releases the order calls for (its reservation, its ledger freeze, its
  fulfilment), \<open>failures\<close> makes these calls from where the cancellation has got to outside, and for each call
  that fails, in order, one open ticket has been added that names it.
\<close>

theorem cancellation_settles:
  assumes "repo_wf (w_repo w)" "stored (w_repo w) o'" "ord_Status o' = StatusPendingPay"
    and "run_state (cancel d o' tr) w = (res, w')"
  shows "\<exists>u ts. res = Inr u \<and> cancelled_in (dp_marshal_Event d) o' (w_repo w) u (w_repo w') \<and>
    tickets (w_repo w') = tickets (w_repo w) @ ts \<and>
    list_all2 noted_as (failures d (releases d u) (cancel_prefix d (w_ext w))) ts"
  using wpD [OF cancel_outcome [OF assms(1-3)] assms(4)] cancel_tickets [OF assms] by blast

text \<open>The ledger is down when the order is cancelled, so its freeze is to be released later.\<close>

definition ledger_down :: "Mocks Deps" where
  "ledger_down = sample_deps\<lparr>dp_ledger := (dp_ledger sample_deps)\<lparr>lc_Release := (\<lambda>_ _. fail errMiss)\<rparr>\<rparr>"

lemma failing_release_noted:
  "(m, t) \<in> set ps \<Longrightarrow> (\<And>x. \<exists>e. fst (run_state m x) = Inl e) \<Longrightarrow> t \<in> set (failures d ps x)"
proof (induction ps arbitrary: x)
  case (Cons p ps)
  obtain res x1 where run: "run_state (fst p) x = (res, x1)" by (cases "run_state (fst p) x")
  then have "\<exists>e. res = Inl e" if "p = (m, t)" using Cons.prems(2) [of x] that by simp
  then show ?case using Cons by (cases res) (auto simp: run)
qed simp

theorem cancellation_settles_witness:
  "\<exists>t. t \<in> set (tickets (w_repo (snd (run_state (cancel ledger_down sample_order ''tr'') race_world)))) \<and>
     tk_Kind t = ''ledger_release'' \<and> tk_Ref t = ''fz_1'' \<and> ticket_open t"
proof -
  have start: "w_repo race_world = sample_repo" by (simp add: race_world_def)
  obtain u ts where u: "cancelled_in (dp_marshal_Event ledger_down) sample_order sample_repo u
      (w_repo (snd (run_state (cancel ledger_down sample_order ''tr'') race_world)))"
    and ts: "tickets (w_repo (snd (run_state (cancel ledger_down sample_order ''tr'') race_world))) = tickets sample_repo @ ts"
      "list_all2 noted_as (failures ledger_down (releases ledger_down u) (cancel_prefix ledger_down (w_ext race_world))) ts"
    using cancellation_settles [OF sample_repo_facts [folded start] surjective_pairing, of ledger_down "''tr''"]
    unfolding start by blast
  have "body_part u = body_part sample_order" using u by (simp add: cancelled_in_def cancelled_from_def)
  from arg_cong [OF this, of ord_Ledger] have "ord_Ledger u = ord_Ledger sample_order" by (simp add: body_part_def)
  then have "lr_FreezeID (ord_Ledger u) = ''fz_1''" by (simp add: sample_order_def)
  then have "(fail errMiss, CompensationTicket_of ''ledger_release'' (ord_TenantID u) ''fz_1'' (ord_OrderID u)) \<in>
      set (releases ledger_down u)"
    by (simp add: releases_def HasLedgerFreeze_def ledger_down_def)
  from failing_release_noted [OF this] have "CompensationTicket_of ''ledger_release'' (ord_TenantID u) ''fz_1'' (ord_OrderID u) \<in>
      set (failures ledger_down (releases ledger_down u) (cancel_prefix ledger_down (w_ext race_world)))"
    by (simp add: fail_def)
  then show ?thesis
    using ts by (auto simp: list_all2_conv_all_nth in_set_conv_nth noted_as_def CompensationTicket_of_def)
qed

text \<open>
  C8: the timeout worker makes progress. A tick reads the clock once. Of the stored orders that wait for payment and
  have expired by that time it cancels all, or 200 if there are more, each once; it reports how many, adds one event for each, keeps
  their amounts and references, and leaves every other order as it was.
\<close>

theorem timeout_tick_cancels_expired:
  assumes "repo_wf (w_repo w)" "run_state (dp_clock d) (w_ext w) = (now, x)"
    and "run_state (TimeoutTick d) w = (res, w')"
  shows "\<exists>os. res = Inr (int (length os)) \<and> all_cancelled os (w_repo w) (w_repo w') \<and> distinct (map key_of os) \<and>
    (\<forall>o' \<in> set os. stored (w_repo w) o' \<and> expired now o') \<and>
    length os = min 200 (length (filter (expired now) (map snd (orders (w_repo w)))))"
  by (rule TimeoutTick_outcome [OF assms])

text \<open>A tick long after the payment was due.\<close>

definition late :: "Mocks Deps" where
  "late = sample_deps\<lparr>dp_clock := State_Monad.return 63900009999000000000\<rparr>"

theorem timeout_tick_cancels_expired_witness:
  "fst (run_state (TimeoutTick late) race_world) = Inr 1 \<and>
   (\<exists>s. stored (w_repo (snd (run_state (TimeoutTick late) race_world))) s \<and> cancelled_from sample_order s)"
proof -
  have start: "w_repo race_world = sample_repo" by (simp add: race_world_def)
  have clock: "run_state (dp_clock late) (w_ext race_world) = (63900009999000000000, w_ext race_world)"
    by (simp add: late_def)
  have only: "map snd (orders sample_repo) = [sample_order]" by (simp add: sample_repo_def)
  have due: "expired 63900009999000000000 sample_order" by (simp add: expired_def sample_order_def)
  obtain os where os: "fst (run_state (TimeoutTick late) race_world) = Inr (int (length os))"
      "all_cancelled os sample_repo (w_repo (snd (run_state (TimeoutTick late) race_world)))"
      "\<forall>o' \<in> set os. stored sample_repo o'" "length os = 1"
    using timeout_tick_cancels_expired [OF sample_repo_facts(1) [folded start] clock surjective_pairing]
    unfolding start only by (auto simp: due)
  obtain o' where o': "os = [o']" using os(4) by (auto simp: length_Suc_conv)
  then have "o' = sample_order" using os(3) stored_iff [OF sample_repo_facts(1)] by (simp add: sample_repo_def)
  then show ?thesis using os(1,2) o' by (simp add: all_cancelled_def)
qed


text \<open>
  C24: the outbox drains. A tick that finds at most 200 events, all of which decode, with a publisher
  that accepts them, publishes each exactly once in the order they were written, reports their
  number and leaves the outbox empty.
\<close>

theorem outbox_tick_drains:
  assumes "dp_publisher d = Some (accepting log)" "length (events (w_repo w)) \<le> 200"
    "map (\<lambda>row. dp_unmarshal_Event d (ob_Payload row)) (events (w_repo w)) = map Inr evs"
    "run_state (OutboxTick d) w = (res, w')"
  shows "res = Inr (int (length evs)) \<and> events (w_repo w') = [] \<and> w_ext w' = fold log evs (w_ext w)"
  by (rule OutboxTick_copied [OF assms])

definition sample_outbox :: "nat \<Rightarrow> Mocks World" where
  "sample_outbox n = sample_world\<lparr>w_repo := NewOrderRepo\<lparr>events :=
     map (\<lambda>i. \<lparr>ob_EventID = show_nat i, ob_Payload = '''', ob_Attempts = 0\<rparr>) [0..<n]\<rparr>\<rparr>"

lemma LogPublisher_accepts: "LogPublisher = accepting (\<lambda>_ x. x)"
  by (simp add: LogPublisher_def accepting_def ok_def State_Monad.return_def)

lemma sample_publisher: "dp_publisher sample_deps = Some (accepting (\<lambda>_ x. x))"
  by (simp add: sample_deps_def mock_deps_def LogPublisher_accepts)

theorem outbox_tick_drains_witness:
  "events (w_repo (snd (run_state (OutboxTick sample_deps) (sample_outbox 150)))) = []"
  using outbox_tick_drains [OF sample_publisher _ _ surjective_pairing, of "sample_outbox 150"
      "replicate 150 sample_event"]
  by (simp add: sample_outbox_def sample_deps_fields map_replicate_const)

text \<open>
  C25: the outbox skips events when more than 200 are waiting. The slice the worker walks over shares
  its array with the list that marking an event as published compacts, so after the first event
  is published the second one is moved to the cell that was already read: it is still waiting when
  the tick ends, although 199 later cells were processed.
\<close>

theorem outbox_tick_skips_second_event:
  assumes "dp_publisher d = Some (accepting log)" "200 < length (events (w_repo w))"
    "distinct (map ob_EventID (events (w_repo w)))"
    "\<forall>x \<in> set (ev_stale (w_repo w)). ob_EventID x \<noteq> ob_EventID (events (w_repo w) ! 1)"
    "dp_unmarshal_Event d (ob_Payload (events (w_repo w) ! 0)) = Inr ev"
    "run_state (OutboxTick d) w = (res, w')"
  shows "events (w_repo w) ! 1 \<in> set (events (w_repo w'))"
  by (rule OutboxTick_shared [OF assms])

theorem outbox_tick_skips_second_event_witness:
  "\<lparr>ob_EventID = show_nat 1, ob_Payload = '''', ob_Attempts = 0\<rparr> \<in>
     set (events (w_repo (snd (run_state (OutboxTick sample_deps) (sample_outbox 201)))))"
  using outbox_tick_skips_second_event [OF sample_publisher _ _ _ _ surjective_pairing,
      of "sample_outbox 201" sample_event]
  by (simp add: sample_outbox_def sample_deps_fields NewOrderRepo_def distinct_map inj_on_def)

text \<open>
  C26: the reservation of an order is renewed at most three times: the renewal counter of every stored
  order lies between 0 and the limit, in every reachable state.
\<close>

theorem reachable_renewals_bounded:
  assumes "reachable d w" "stored (w_repo w) o'"
  shows "0 \<le> ord_RenewCount o' \<and> ord_RenewCount o' \<le> MaxReservationRenew"
  using renew.reachable_keeps [OF assms(1) NewOrderRepo_ok(2)] assms(2) by (simp add: renew_ok_def)

theorem reachable_renewals_bounded_witness: "ord_RenewCount sample_order \<le> MaxReservationRenew"
  using reachable_renewals_bounded [OF sample_reachable sample_after_stored] by simp

text \<open>
  A known key with a different request is refused with a conflict, and nothing happens.
\<close>

theorem checkout_key_conflict:
  assumes "co_ClientOrderID cmd \<noteq> ''''" "dp_scenes d (co_Scene cmd) = Some scene"
    "repo_FindIdempotency (id_TenantID ident) (id_UserID ident)
       (co_IdempotencyKey (checkout_defaults cmd)) (w_repo w) = Some rec"
    "ir_RequestHash rec \<noteq> checkout_hash d (checkout_defaults cmd)"
  shows "run_state (Checkout d ident cmd) w = (Inl (Sentinel ErrIdempotencyConflict), w)"
  by (rule Checkout_conflict [OF assms])

definition sample_known :: "Mocks World" where
  "sample_known = sample_world\<lparr>w_repo := NewOrderRepo\<lparr>idem := [''t1|u1|c1'' \<mapsto>
     \<lparr>ir_TenantID = ''t1'', ir_Actor = ''u1'', ir_Key = ''c1'', ir_RequestHash = ''other'',
      ir_Response = '''', ir_OrderID = '''', ir_CreatedAt = 0\<rparr>]\<rparr>\<rparr>"

theorem checkout_key_conflict_witness:
  "run_state (Checkout sample_deps sample_ident sample_checkout) sample_known =
     (Inl (Sentinel ErrIdempotencyConflict), sample_known)"
  by (rule checkout_key_conflict [where scene = "the (DefaultScenes ''mall_checkout'')"
        and rec = "the (idem (w_repo sample_known) ''t1|u1|c1'')"])
    (simp_all add: sample_known_def data_simps)

end
